(* ===== verification/Prelude.thy ===== *)
theory Prelude
  imports
    Main
    "HOL-Library.Multiset"
    "HOL-Library.List_Lexorder"
    "HOL-Library.Char_ord"
    "HOL-Library.Sublist"
    "HOL-Library.AList"
begin

text \<open>
  Shared vocabulary of the development: Go's \<open>error\<close> values, slices that distinguish
  \<open>nil\<close> from empty, 64-bit signed arithmetic, the loops with early return, and the
  parts of the packages \<open>strings\<close>, \<open>sort\<close> and \<open>encoding/hex\<close> the program calls.

  A Go \<open>string\<close> and a Go \<open>[]byte\<close> are both sequences of bytes, which is what HOL's
  \<^typ>\<open>string\<close> is (a \<^typ>\<open>char\<close> is one byte); Go compares strings bytewise, which is
  the lexicographic order on \<^typ>\<open>string\<close> of the library.
\<close>

named_theorems go_defs \<open>definitions of library functions, unfolded for evaluation\<close>
named_theorems limits \<open>values of the numeric limits\<close>
named_theorems accept \<open>what it means for a check or a validator to return no error\<close>

section \<open>Errors\<close>

text \<open>
  \<open>errors.New\<close> and \<open>fmt.Errorf\<close> are \<open>Errorf\<close> with the source's format string and the
  arguments it interpolates; \<open>Wrapf\<close> is \<open>fmt.Errorf\<close> whose last verb is \<open>%w\<close>; \<open>Joined\<close> is
  \<open>errors.Join\<close> of two errors.
  The type \<open>error\<close> has the value \<open>nil\<close>, here \<^const>\<open>None\<close>.
\<close>

datatype go_arg = AStr string | AInt int

datatype go_error =
    Errorf string "go_arg list"
  | Wrapf string "go_arg list" go_error
  | Joined go_error go_error

type_synonym error = "go_error option"

type_synonym 'a result = "go_error + 'a"

definition check :: "bool \<Rightarrow> string \<Rightarrow> go_arg list \<Rightarrow> error" where
  "check b msg args = (if b then Some (Errorf msg args) else None)"

definition wrap :: "string \<Rightarrow> go_arg list \<Rightarrow> error \<Rightarrow> error" where
  "wrap msg args e = map_option (Wrapf msg args) e"

text \<open>A sequence of \<open>if ... return err\<close> statements returns the first error.\<close>

fun first_error :: "error list \<Rightarrow> error" where
  "first_error [] = None"
| "first_error (e # es) = (case e of None \<Rightarrow> first_error es | Some x \<Rightarrow> Some x)"

definition andthen :: "error \<Rightarrow> 'a result \<Rightarrow> 'a result" where
  "andthen e r = (case e of None \<Rightarrow> r | Some x \<Rightarrow> Inl x)"

definition bindr :: "'a result \<Rightarrow> ('a \<Rightarrow> 'b result) \<Rightarrow> 'b result" where
  "bindr r f = (case r of Inl e \<Rightarrow> Inl e | Inr x \<Rightarrow> f x)"

definition error_of :: "'a result \<Rightarrow> error" where
  "error_of r = (case r of Inl e \<Rightarrow> Some e | Inr _ \<Rightarrow> None)"

text \<open>A \<open>for\<close> loop over a slice whose body updates a state or returns an error.\<close>

fun loop :: "('a \<Rightarrow> 's \<Rightarrow> 's result) \<Rightarrow> 'a list \<Rightarrow> 's \<Rightarrow> 's result" where
  "loop f [] s = Inr s"
| "loop f (x # xs) s = (case f x s of Inl e \<Rightarrow> Inl e | Inr t \<Rightarrow> loop f xs t)"

lemma check_simps [simp]:
  "check True msg args = Some (Errorf msg args)"
  "check False msg args = None"
  by (simp_all add: check_def)

lemma wrap_simps [simp]:
  "wrap msg args None = None"
  "wrap msg args (Some e) = Some (Wrapf msg args e)"
  by (simp_all add: wrap_def)

lemma first_error_Cons [simp]:
  "first_error (None # es) = first_error es"
  "first_error (Some x # es) = Some x"
  by simp_all

lemma check_None [simp, accept]: "check b msg args = None \<longleftrightarrow> \<not> b"
  by (simp add: check_def)

lemma wrap_None [simp, accept]: "wrap msg args e = None \<longleftrightarrow> e = None"
  by (simp add: wrap_def)

lemma first_error_None [simp, accept]: "first_error es = None \<longleftrightarrow> (\<forall>e \<in> set es. e = None)"
  by (induction es) (auto split: option.splits)

declare first_error.simps(2) [simp del]

lemma first_error_append:
  "first_error (es @ fs) = (case first_error es of None \<Rightarrow> first_error fs | Some x \<Rightarrow> Some x)"
  by (induction es) (simp_all add: first_error.simps(2) split: option.split del: first_error_None)

lemma andthen_simps [simp]:
  "andthen None r = r"
  "andthen (Some e) r = Inl e"
  by (simp_all add: andthen_def)

lemma bindr_simps [simp]:
  "bindr (Inr x) f = f x"
  "bindr (Inl e) f = Inl e"
  by (simp_all add: bindr_def)

lemma andthen_Inr [simp, accept]: "andthen e r = Inr x \<longleftrightarrow> e = None \<and> r = Inr x"
  by (auto simp: andthen_def split: option.splits)

lemma bindr_Inr [accept]: "bindr r f = Inr y \<longleftrightarrow> (\<exists>x. r = Inr x \<and> f x = Inr y)"
  by (auto simp: bindr_def split: sum.splits)

lemma error_of_None [simp, accept]: "error_of r = None \<longleftrightarrow> (\<exists>x. r = Inr x)"
  by (auto simp: error_of_def split: sum.splits)

lemma loop_append:
  "loop f (xs @ ys) s = (case loop f xs s of Inl e \<Rightarrow> Inl e | Inr t \<Rightarrow> loop f ys t)"
  by (induction xs arbitrary: s) (auto split: sum.splits)

lemma loop_ConsE:
  assumes "loop f (x # xs) s = Inr u"
  obtains t where "f x s = Inr t" and "loop f xs t = Inr u"
  using assms by (auto split: sum.splits)

text \<open>
  The invariant rule of such a loop. The invariant speaks of the processed prefix, so that
  it can say what the state holds of the elements seen so far.
\<close>

lemma loop_invariant:
  assumes "loop f xs s = Inr t"
    and "P [] s"
    and "\<And>ys y zs u v. xs = ys @ y # zs \<Longrightarrow> P ys u \<Longrightarrow> f y u = Inr v \<Longrightarrow> P (ys @ [y]) v"
  shows "P xs t"
proof -
  have "P (ys @ zs) t" if "loop f zs u = Inr t" "xs = ys @ zs" "P ys u" for ys zs u
    using that
  proof (induction zs arbitrary: ys u)
    case Nil
    then show ?case by simp
  next
    case (Cons z zs)
    from Cons.prems(1) obtain v where v: "f z u = Inr v" "loop f zs v = Inr t"
      by (rule loop_ConsE)
    have "P (ys @ [z]) v"
      using assms(3)[OF Cons.prems(2,3) v(1)] .
    with Cons.IH[OF v(2), of "ys @ [z]"] Cons.prems(2) show ?case by simp
  qed
  from this[of xs s "[]"] assms(1,2) show ?thesis by simp
qed

text \<open>The corresponding progress rule: an invariant under which no step fails.\<close>

lemma loop_succeeds:
  assumes "P [] s"
    and "\<And>ys y zs u. xs = ys @ y # zs \<Longrightarrow> P ys u \<Longrightarrow> \<exists>v. f y u = Inr v \<and> P (ys @ [y]) v"
  shows "\<exists>t. loop f xs s = Inr t \<and> P xs t"
proof -
  have "\<exists>t. loop f zs u = Inr t \<and> P xs t" if "xs = ys @ zs" "P ys u" for ys zs u
    using that
  proof (induction zs arbitrary: ys u)
    case Nil
    then show ?case by simp
  next
    case (Cons z zs)
    from assms(2)[OF Cons.prems] obtain v where "f z u = Inr v" "P (ys @ [z]) v" by blast
    with Cons.IH[of "ys @ [z]" v] Cons.prems(1) show ?case by simp
  qed
  from this[of "[]" xs s] assms(1) show ?thesis by simp
qed

text \<open>Every step of a loop that returned was taken from some state and succeeded.\<close>

lemma loop_each:
  assumes "loop f xs s = Inr t" and "x \<in> set xs"
  shows "\<exists>u v. f x u = Inr v"
proof -
  have "\<forall>x \<in> set xs. \<exists>u v. f x u = Inr v"
    by (rule loop_invariant[OF assms(1), where P = "\<lambda>ys _. \<forall>x \<in> set ys. \<exists>u v. f x u = Inr v"]) auto
  with assms(2) show ?thesis by blast
qed

section \<open>Slices\<close>

text \<open>A Go slice is \<open>nil\<close> (\<^const>\<open>None\<close>) or holds a possibly empty sequence of elements.\<close>

type_synonym 'a slice = "'a list option"

definition elems :: "'a slice \<Rightarrow> 'a list" where
  "elems s = (case s of None \<Rightarrow> [] | Some xs \<Rightarrow> xs)"

text \<open>\<open>append([]T(nil), xs...)\<close>: the result of appending nothing to \<open>nil\<close> is \<open>nil\<close>.\<close>

definition append_nil :: "'a list \<Rightarrow> 'a slice" where
  "append_nil xs = (if xs = [] then None else Some xs)"

lemma elems_simps [simp]: "elems None = []" "elems (Some xs) = xs"
  by (simp_all add: elems_def)

lemma elems_append_nil [simp]: "elems (append_nil xs) = xs"
  by (simp add: append_nil_def)

lemma append_nil_None [simp]: "append_nil xs = None \<longleftrightarrow> xs = []"
  by (simp add: append_nil_def)

section \<open>64-bit integers\<close>

text \<open>
  Go's \<open>int\<close> (on the supported 64-bit targets) and \<open>int64\<close> are integers with two's
  complement wrap-around, written out where the source adds or subtracts.
\<close>

definition wrap64 :: "int \<Rightarrow> int" where
  "wrap64 x = (x + 2 ^ 63) mod 2 ^ 64 - 2 ^ 63"

definition int64_range :: "int \<Rightarrow> bool" where
  "int64_range x \<longleftrightarrow> - (2 ^ 63) \<le> x \<and> x < 2 ^ 63"

definition add64 :: "int \<Rightarrow> int \<Rightarrow> int" where
  "add64 a b = wrap64 (a + b)"

definition sub64 :: "int \<Rightarrow> int \<Rightarrow> int" where
  "sub64 a b = wrap64 (a - b)"

definition mul64 :: "int \<Rightarrow> int \<Rightarrow> int" where
  "mul64 a b = wrap64 (a * b)"

text \<open>Go's integer division truncates towards zero.\<close>

definition quot64 :: "int \<Rightarrow> int \<Rightarrow> int" where
  "quot64 a b = wrap64 (sgn a * sgn b * (\<bar>a\<bar> div \<bar>b\<bar>))"

lemma wrap64_id [simp]: "int64_range x \<Longrightarrow> wrap64 x = x"
  by (simp add: wrap64_def int64_range_def)

lemma int64_range_wrap64 [simp]: "int64_range (wrap64 x)"
  using pos_mod_bound[of "2 ^ 64" "x + 2 ^ 63"] pos_mod_sign[of "2 ^ 64" "x + 2 ^ 63"]
  by (simp add: wrap64_def int64_range_def)

lemma sub64_exact: "0 \<le> b \<Longrightarrow> b \<le> a \<Longrightarrow> int64_range a \<Longrightarrow> sub64 a b = a - b"
  by (simp add: sub64_def int64_range_def)

lemma add64_exact: "int64_range (a + b) \<Longrightarrow> add64 a b = a + b"
  by (simp add: add64_def)

section \<open>Byte strings\<close>

definition hasPrefix :: "string \<Rightarrow> string \<Rightarrow> bool" where
  "hasPrefix s p \<longleftrightarrow> prefix p s"

definition hasSuffix :: "string \<Rightarrow> string \<Rightarrow> bool" where
  "hasSuffix s p \<longleftrightarrow> suffix p s"

definition trimPrefix :: "string \<Rightarrow> string \<Rightarrow> string" where
  "trimPrefix s p = (if prefix p s then drop (length p) s else s)"

definition trimSuffix :: "string \<Rightarrow> string \<Rightarrow> string" where
  "trimSuffix s p = (if suffix p s then take (length s - length p) s else s)"

fun contains :: "string \<Rightarrow> string \<Rightarrow> bool" where
  "contains [] p = (p = [])"
| "contains (c # cs) p = (prefix p (c # cs) \<or> contains cs p)"

lemma contains_iff: "contains s p \<longleftrightarrow> (\<exists>a b. s = a @ p @ b)"
proof (induction s)
  case Nil
  then show ?case by auto
next
  case (Cons c cs)
  show ?case
  proof
    assume "contains (c # cs) p"
    then consider "prefix p (c # cs)" | "contains cs p" by auto
    then show "\<exists>a b. c # cs = a @ p @ b"
    proof cases
      case 1
      then show ?thesis by (metis append_Nil prefixE)
    next
      case 2
      then show ?thesis using Cons.IH by (metis append_Cons)
    qed
  next
    assume "\<exists>a b. c # cs = a @ p @ b"
    then obtain a b where ab: "c # cs = a @ p @ b" by blast
    note IH = Cons.IH
    show "contains (c # cs) p"
    proof (cases a)
      case Nil
      with ab have "prefix p (c # cs)" by (metis append_Nil prefixI)
      then show ?thesis by simp
    next
      case (Cons x xs)
      with ab have "cs = xs @ p @ b" by simp
      with IH show ?thesis by auto
    qed
  qed
qed

lemma contains_char: "contains s [c] \<longleftrightarrow> c \<in> set s"
  by (induction s) auto

text \<open>\<open>strings.Split(s, sep)\<close> and \<open>strings.Join\<close> for a one-byte separator.\<close>

fun split_on :: "char \<Rightarrow> string \<Rightarrow> string list" where
  "split_on d [] = [[]]"
| "split_on d (c # cs) =
     (if c = d then [] # split_on d cs
      else (case split_on d cs of [] \<Rightarrow> [[c]] | w # ws \<Rightarrow> (c # w) # ws))"

fun join_with :: "string \<Rightarrow> string list \<Rightarrow> string" where
  "join_with d [] = []"
| "join_with d [w] = w"
| "join_with d (w # ws) = w @ d @ join_with d ws"

lemma split_on_not_Nil [simp]: "split_on d s \<noteq> []"
  by (cases s) (auto split: list.splits)

lemma split_on_free: "w \<in> set (split_on d s) \<Longrightarrow> d \<notin> set w"
  by (induction s arbitrary: w) (auto split: if_splits list.splits)

lemma join_with_Cons: "ws \<noteq> [] \<Longrightarrow> join_with d (w # ws) = w @ d @ join_with d ws"
  by (cases ws) auto

lemma join_with_split_on [simp]: "join_with [d] (split_on d s) = s"
proof (induction s)
  case Nil
  then show ?case by simp
next
  case (Cons c cs)
  obtain w ws where w: "split_on d cs = w # ws" by (cases "split_on d cs") auto
  with Cons.IH show ?case by (cases ws) (auto simp: join_with_Cons)
qed

lemma split_on_append_sep: "d \<notin> set w \<Longrightarrow> split_on d (w @ d # s) = w # split_on d s"
  by (induction w) auto

lemma split_on_none [simp]: "d \<notin> set w \<Longrightarrow> split_on d w = [w]"
  by (induction w) auto

lemma split_on_join_with:
  "ws \<noteq> [] \<Longrightarrow> (\<And>w. w \<in> set ws \<Longrightarrow> d \<notin> set w) \<Longrightarrow> split_on d (join_with [d] ws) = ws"
proof (induction ws)
  case Nil
  then show ?case by simp
next
  case (Cons w ws)
  then show ?case
    by (cases "ws = []") (auto simp: join_with_Cons split_on_append_sep)
qed

text \<open>
  \<open>strings.ToLower\<close>, as the source uses it: the result is only ever compared with,
  or searched for, ASCII text. Exactly two code points outside ASCII have an ASCII lower
  case: U+0130 (bytes C4 B0, lower case i) and U+212A (bytes E2 84 AA, lower case k). Every
  other byte sequence outside ASCII stays outside ASCII, and is left as it is here.
\<close>

definition lower_byte :: "char \<Rightarrow> char" where
  "lower_byte c =
     (if 65 \<le> (of_char c :: nat) \<and> (of_char c :: nat) \<le> 90 then char_of (of_char c + 32 :: nat) else c)"

fun toLower :: "string \<Rightarrow> string" where
  "toLower [] = []"
| "toLower (a # b # c # cs) =
     (if a = CHR 0xE2 \<and> b = CHR 0x84 \<and> c = CHR 0xAA then CHR ''k'' # toLower cs
      else if a = CHR 0xC4 \<and> b = CHR 0xB0 then CHR ''i'' # toLower (c # cs)
      else lower_byte a # toLower (b # c # cs))"
| "toLower [a, b] =
     (if a = CHR 0xC4 \<and> b = CHR 0xB0 then [CHR ''i''] else [lower_byte a, lower_byte b])"
| "toLower [a] = [lower_byte a]"

section \<open>Association lists as Go maps with iteration\<close>

definition has_key :: "('k \<times> 'v) list \<Rightarrow> 'k \<Rightarrow> bool" where
  "has_key m k \<longleftrightarrow> map_of m k \<noteq> None"

lemma has_key_iff: "has_key m k \<longleftrightarrow> k \<in> fst ` set m"
  by (auto simp: has_key_def map_of_eq_None_iff)

lemma has_key_update [simp]: "has_key (AList.update k v m) x \<longleftrightarrow> x = k \<or> has_key m x"
  by (auto simp: has_key_def update_conv')

lemma map_of_update [simp]: "map_of (AList.update k v m) = (map_of m)(k \<mapsto> v)"
  by (rule update_conv')

section \<open>Membership tests\<close>

definition oneOf :: "string \<Rightarrow> string list \<Rightarrow> bool" where
  "oneOf value allowed = List.member allowed value"

lemma oneOf_iff [simp]: "oneOf value allowed \<longleftrightarrow> value \<in> set allowed"
  by (simp add: oneOf_def)

end
