(* ===== verification/Ordering.thy ===== *)
theory Ordering
  imports Prelude
begin

text \<open>
  \<open>sort.Slice\<close> and the comparator contract. \<open>sort.Slice(xs, less)\<close> promises a permutation
  of \<open>xs\<close> in which no element is less than one before it, and nothing about the
  order of elements neither of which is less. The model sorts by insertion; the locale
  \<open>total_less\<close> shows that for an order that separates distinct elements every result
  the contract allows is the one computed here, so the choice of algorithm cannot be
  observed, and that the result does not depend on the order of the input.
\<close>

fun insert_by :: "('a \<Rightarrow> 'a \<Rightarrow> bool) \<Rightarrow> 'a \<Rightarrow> 'a list \<Rightarrow> 'a list" where
  "insert_by lt x [] = [x]"
| "insert_by lt x (y # ys) = (if lt y x then y # insert_by lt x ys else x # y # ys)"

definition sort_slice :: "('a \<Rightarrow> 'a \<Rightarrow> bool) \<Rightarrow> 'a list \<Rightarrow> 'a list" where
  "sort_slice lt xs = foldr (insert_by lt) xs []"

text \<open>What \<open>sort.Slice\<close> promises of its result.\<close>

definition sorted_slice :: "('a \<Rightarrow> 'a \<Rightarrow> bool) \<Rightarrow> 'a list \<Rightarrow> bool" where
  "sorted_slice lt xs \<longleftrightarrow> sorted_wrt (\<lambda>x y. \<not> lt y x) xs"

lemma mset_insert_by [simp]: "mset (insert_by lt x ys) = add_mset x (mset ys)"
  by (induction ys) auto

lemma set_insert_by [simp]: "set (insert_by lt x ys) = insert x (set ys)"
  by (induction ys) auto

lemma sort_slice_simps [simp]:
  "sort_slice lt [] = []"
  "sort_slice lt (x # xs) = insert_by lt x (sort_slice lt xs)"
  by (simp_all add: sort_slice_def)

lemma mset_sort_slice [simp]: "mset (sort_slice lt xs) = mset xs"
  by (induction xs) auto

lemma set_sort_slice [simp]: "set (sort_slice lt xs) = set xs"
  by (metis mset_sort_slice set_mset_mset)

lemma length_sort_slice [simp]: "length (sort_slice lt xs) = length xs"
  by (metis mset_sort_slice size_mset)

lemma sort_slice_Nil_iff [simp]: "sort_slice lt xs = [] \<longleftrightarrow> xs = []"
  by (metis mset_sort_slice mset_zero_iff)

text \<open>Sorting by a key is the library's stable \<^const>\<open>sort_key\<close>.\<close>

lemma insert_by_key: "insert_by (\<lambda>x y. f x < f y) x ys = insort_key f x ys"
  by (induction ys) auto

lemma sort_slice_key: "sort_slice (\<lambda>x y. f x < f y) xs = sort_key f xs"
  by (induction xs) (simp_all add: insert_by_key)

text \<open>Two permutations sorted by a key that separates their elements are equal.\<close>

lemma sort_key_unique:
  assumes "mset ys = mset xs" and "sorted (map f ys)" and "inj_on f (set xs)"
  shows "ys = sort_key f xs"
proof (rule map_inj_on)
  have "mset (map f ys) = mset (map f (sort_key f xs))"
    using assms(1) by simp
  then show "map f ys = map f (sort_key f xs)"
    using assms(2) properties_for_sort[of "map f ys" "map f (sort_key f xs)"]
    by (simp add: sorted_sort_id)
  have "set ys = set xs" using assms(1) by (rule mset_eq_setD)
  then show "inj_on f (set ys \<union> set (sort_key f xs))" using assms(3) by simp
qed

lemma sort_key_perm:
  assumes "mset ys = mset xs" and "inj_on f (set xs)"
  shows "sort_key f ys = sort_key f xs"
  by (rule sort_key_unique) (simp_all add: assms)

lemma sort_key_idem [simp]: "sort_key f (sort_key f xs) = sort_key f xs"
  by (rule sort_key_id_if_sorted) simp

section \<open>Orders that separate distinct elements\<close>

locale total_less =
  fixes lt :: "'a \<Rightarrow> 'a \<Rightarrow> bool"
  assumes irrefl: "\<not> lt x x"
    and trans: "lt x y \<Longrightarrow> lt y z \<Longrightarrow> lt x z"
    and total: "\<not> lt x y \<Longrightarrow> \<not> lt y x \<Longrightarrow> x = y"
begin

lemma asym: "lt x y \<Longrightarrow> \<not> lt y x"
  using irrefl trans by blast

lemma not_less_trans: "\<not> lt y x \<Longrightarrow> \<not> lt z y \<Longrightarrow> \<not> lt z x"
  using total trans by blast

lemma sorted_insert_by:
  "sorted_slice lt ys \<Longrightarrow> sorted_slice lt (insert_by lt x ys)"
proof (induction ys)
  case Nil
  then show ?case by (simp add: sorted_slice_def)
next
  case (Cons y ys)
  show ?case
  proof (cases "lt y x")
    case True
    with Cons show ?thesis by (auto simp: sorted_slice_def dest: asym)
  next
    case False
    with Cons.prems not_less_trans[of y x] show ?thesis by (auto simp: sorted_slice_def)
  qed
qed

lemma sorted_sort_slice: "sorted_slice lt (sort_slice lt xs)"
proof (induction xs)
  case Nil
  show ?case by (simp add: sorted_slice_def)
next
  case (Cons x xs)
  then show ?case by (simp add: sorted_insert_by)
qed

lemma sorted_slice_unique:
  "sorted_slice lt xs \<Longrightarrow> sorted_slice lt ys \<Longrightarrow> mset xs = mset ys \<Longrightarrow> xs = ys"
proof (induction xs arbitrary: ys)
  case Nil
  then show ?case by simp
next
  case (Cons x xs)
  then obtain y zs where ys: "ys = y # zs" by (cases ys) auto
  have "x \<in> set ys" "y \<in> set (x # xs)"
    using Cons.prems(3) ys by (metis list.set_intros(1) mset_eq_setD)+
  then have "x = y"
    using Cons.prems(1,2) ys total by (auto simp: sorted_slice_def)
  with Cons ys show ?case by (auto simp: sorted_slice_def)
qed

lemma sort_slice_unique:
  "mset ys = mset xs \<Longrightarrow> sorted_slice lt ys \<Longrightarrow> ys = sort_slice lt xs"
  by (rule sorted_slice_unique) (simp_all add: sorted_sort_slice)

lemma sort_slice_perm: "mset ys = mset xs \<Longrightarrow> sort_slice lt ys = sort_slice lt xs"
  by (rule sort_slice_unique) (simp_all add: sorted_sort_slice)

lemma sort_slice_idem: "sort_slice lt (sort_slice lt xs) = sort_slice lt xs"
  by (rule sort_slice_perm) simp

end

section \<open>Three-way comparators\<close>

text \<open>
  The contract of a comparison function that returns -1, 0 or 1, as the canonical encoder
  uses it (a comparator is passed to \<open>sort.Slice\<close> as \<open>compare(a, b) < 0\<close>).
\<close>

locale comparator =
  fixes cmp :: "'a \<Rightarrow> 'a \<Rightarrow> int"
  assumes cmp_eq: "cmp x y = 0 \<longleftrightarrow> x = y"
    and cmp_swap: "cmp y x = - cmp x y"
    and cmp_trans: "cmp x y < 0 \<Longrightarrow> cmp y z < 0 \<Longrightarrow> cmp x z < 0"

sublocale comparator \<subseteq> total_less "\<lambda>x y. cmp x y < 0"
proof
  show "\<not> cmp x x < 0" for x using cmp_eq[of x x] by simp
  show "cmp x y < 0 \<Longrightarrow> cmp y z < 0 \<Longrightarrow> cmp x z < 0" for x y z by (rule cmp_trans)
  show "\<not> cmp x y < 0 \<Longrightarrow> \<not> cmp y x < 0 \<Longrightarrow> x = y" for x y
    using cmp_swap[of y x] cmp_eq[of x y] by simp
qed

text \<open>
  Comparing field by field: when the first comparison is 0 the second decides. The
  records' comparators are chains of this step.
\<close>

definition then_by :: "int \<Rightarrow> int \<Rightarrow> int" where
  "then_by a b = (if a \<noteq> 0 then a else b)"

lemma comparator_then_by:
  assumes c: "comparator c" and d: "comparator d"
  shows "comparator (\<lambda>x y. then_by (c (fst x) (fst y)) (d (snd x) (snd y)))"
proof (unfold_locales, goal_cases)
  case (1 x y)
  show ?case
    by (auto simp: then_by_def comparator.cmp_eq[OF c] comparator.cmp_eq[OF d] prod_eq_iff)
next
  case (2 y x)
  show ?case
    using comparator.cmp_swap[OF c, of "fst y" "fst x"] comparator.cmp_swap[OF d, of "snd y" "snd x"]
    by (simp add: then_by_def)
next
  case (3 x y z)
  show ?case
  proof (cases "c (fst x) (fst y) = 0")
    case True
    then have "fst x = fst y" by (simp add: comparator.cmp_eq[OF c])
    with True 3 comparator.cmp_trans[OF d, of "snd x" "snd y" "snd z"] show ?thesis
      by (auto simp: then_by_def split: if_splits)
  next
    case xy: False
    with 3(1) have lt: "c (fst x) (fst y) < 0" by (simp add: then_by_def)
    show ?thesis
    proof (cases "c (fst y) (fst z) = 0")
      case True
      then have "fst y = fst z" by (simp add: comparator.cmp_eq[OF c])
      with lt show ?thesis by (simp add: then_by_def)
    next
      case False
      with 3(2) have "c (fst y) (fst z) < 0" by (simp add: then_by_def)
      with lt have "c (fst x) (fst z) < 0" by (rule comparator.cmp_trans[OF c])
      then show ?thesis by (simp add: then_by_def)
    qed
  qed
qed

text \<open>A comparator on an injective view of the elements is a comparator.\<close>

lemma comparator_on:
  assumes "comparator c" and "inj f"
  shows "comparator (\<lambda>x y. c (f x) (f y))"
proof (unfold_locales, goal_cases)
  case (1 x y)
  show ?case using assms(2) by (simp add: comparator.cmp_eq[OF assms(1)] inj_eq)
next
  case (2 y x)
  show ?case by (rule comparator.cmp_swap[OF assms(1)])
next
  case (3 x y z)
  then show ?case by (rule comparator.cmp_trans[OF assms(1)])
qed

section \<open>Self-delimiting encodings\<close>

text \<open>
  An encoding whose end is determined by its own bytes: whatever follows, equal streams
  have equal heads and equal rests. Framed fields, and sequences of framed fields of a
  known number, are then injective.
\<close>

locale self_delimiting =
  fixes enc :: "'a \<Rightarrow> string" and dom_enc :: "'a \<Rightarrow> bool"
  assumes delimited: "dom_enc x \<Longrightarrow> dom_enc y \<Longrightarrow> enc x @ r = enc y @ s \<Longrightarrow> x = y \<and> r = s"
begin

lemma enc_inj: "dom_enc x \<Longrightarrow> dom_enc y \<Longrightarrow> enc x = enc y \<Longrightarrow> x = y"
  using delimited[of x y "[]" "[]"] by simp

lemma concat_delimited:
  "length xs = length ys \<Longrightarrow> list_all dom_enc xs \<Longrightarrow> list_all dom_enc ys \<Longrightarrow>
   concat (map enc xs) @ r = concat (map enc ys) @ s \<Longrightarrow> xs = ys \<and> r = s"
proof (induction xs ys rule: list_induct2)
  case Nil
  then show ?case by simp
next
  case (Cons x xs y ys)
  then show ?case using delimited[of x y "concat (map enc xs) @ r" "concat (map enc ys) @ s"]
    by simp
qed

end

lemma self_delimiting_pair:
  assumes "self_delimiting e p" and "self_delimiting f q"
  shows "self_delimiting (\<lambda>(a, b). e a @ f b) (\<lambda>(a, b). p a \<and> q b)"
proof (unfold_locales, goal_cases)
  case (1 x y r s)
  obtain a b a' b' where xy: "x = (a, b)" "y = (a', b')" by (cases x; cases y) auto
  with 1 have "a = a' \<and> f b @ r = f b' @ s"
    using self_delimiting.delimited[OF assms(1), of a a' "f b @ r" "f b' @ s"] by simp
  with 1 xy show ?case
    using self_delimiting.delimited[OF assms(2), of b b' r s] by simp
qed

lemma self_delimiting_on:
  assumes "self_delimiting e p" and "inj f"
  shows "self_delimiting (e \<circ> f) (p \<circ> f)"
proof (unfold_locales, goal_cases)
  case (1 x y r s)
  then have "f x = f y \<and> r = s"
    using self_delimiting.delimited[OF assms(1), of "f x" "f y" r s] by simp
  with assms(2) show ?case by (simp add: inj_eq)
qed

end
