(* ===== verification/GoText.thy ===== *)
theory GoText
  imports Ordering
begin

text \<open>
  The text codecs of the Go standard library that the report package relies on:
  \<open>encoding/hex\<close>, \<open>unicode/utf8\<close>, the string escaping of \<open>encoding/json\<close> (with HTML
  escaping on) and decimal numerals of \<open>strconv\<close>. Each is defined on bytes, so that the
  report's bounds are statements about encoded bytes.
\<close>

abbreviation byte :: "char \<Rightarrow> nat" where
  "byte c \<equiv> of_char c"

definition in_rng :: "nat \<Rightarrow> nat \<Rightarrow> char \<Rightarrow> bool" where
  "in_rng lo hi c \<longleftrightarrow> lo \<le> byte c \<and> byte c \<le> hi"

lemma byte_less_256: "byte c < 256"
  by (rule nat_of_char_less_256)

lemma byte_inj: "byte c = byte d \<longleftrightarrow> c = d"
  by simp

section \<open>encoding/hex\<close>

definition hexDigit :: "nat \<Rightarrow> char" where
  "hexDigit n = (if n < 10 then char_of (48 + n) else char_of (87 + n))"

definition fromHexChar :: "char \<Rightarrow> nat option" where
  "fromHexChar c =
     (if in_rng 48 57 c then Some (byte c - 48)
      else if in_rng 97 102 c then Some (byte c - 87)
      else if in_rng 65 70 c then Some (byte c - 55)
      else None)"

fun hexEncode :: "string \<Rightarrow> string" where
  "hexEncode [] = []"
| "hexEncode (c # cs) = hexDigit (byte c div 16) # hexDigit (byte c mod 16) # hexEncode cs"

fun hexDecode :: "string \<Rightarrow> string option" where
  "hexDecode [] = Some []"
| "hexDecode [c] = None"
| "hexDecode (a # b # cs) =
     (case (fromHexChar a, fromHexChar b, hexDecode cs) of
        (Some x, Some y, Some r) \<Rightarrow> Some (char_of (16 * x + y) # r)
      | _ \<Rightarrow> None)"

text \<open>
  The test the validators repeat: \<open>hex.DecodeString\<close> succeeds with 32 bytes and the text
  is its own lower case.
\<close>

definition sha256_text :: "string \<Rightarrow> bool" where
  "sha256_text s \<longleftrightarrow>
     (case hexDecode s of None \<Rightarrow> False | Some d \<Rightarrow> length d = 32 \<and> toLower s = s)"

definition lower_hex :: "char \<Rightarrow> bool" where
  "lower_hex c \<longleftrightarrow> in_rng 48 57 c \<or> in_rng 97 102 c"

lemma length_hexEncode [simp]: "length (hexEncode s) = 2 * length s"
  by (induction s) auto

lemma byte_hexDigit: "n < 16 \<Longrightarrow> byte (hexDigit n) = (if n < 10 then 48 + n else 87 + n)"
  by (simp add: hexDigit_def)

lemma lower_hex_hexDigit [simp]: "n < 16 \<Longrightarrow> lower_hex (hexDigit n)"
  by (auto simp: lower_hex_def in_rng_def byte_hexDigit)

lemma fromHexChar_hexDigit [simp]: "n < 16 \<Longrightarrow> fromHexChar (hexDigit n) = Some n"
  by (auto simp: fromHexChar_def in_rng_def byte_hexDigit)

lemma byte_div_16 [simp]: "byte c div 16 < 16"
  using byte_less_256[of c] by (simp add: less_mult_imp_div_less)

lemma hexDecode_hexEncode: "hexDecode (hexEncode s) = Some s"
proof (induction s)
  case Nil
  then show ?case by simp
next
  case (Cons c cs)
  have "16 * (byte c div 16) + byte c mod 16 = byte c" by simp
  then show ?case using Cons.IH by simp
qed

lemma lower_hex_hexEncode: "c \<in> set (hexEncode s) \<Longrightarrow> lower_hex c"
  by (induction s) auto

lemma hexEncode_inj: "hexEncode s = hexEncode t \<Longrightarrow> s = t"
  by (metis hexDecode_hexEncode option.inject)

lemma hexDecode_Some:
  "hexDecode s = Some d \<Longrightarrow> length s = 2 * length d \<and> (\<forall>c \<in> set s. fromHexChar c \<noteq> None)"
  by (induction s arbitrary: d rule: hexDecode.induct) (auto split: option.splits)

lemma hexDecode_total:
  "length s = 2 * n \<Longrightarrow> \<forall>c \<in> set s. fromHexChar c \<noteq> None \<Longrightarrow> \<exists>d. hexDecode s = Some d \<and> length d = n"
proof (induction s arbitrary: n rule: hexDecode.induct)
  case 1
  then show ?case by simp
next
  case (2 c)
  then have "Suc 0 = 2 * n" by simp
  then have False by presburger
  then show ?case ..
next
  case (3 a b cs)
  from 3 obtain x y where "fromHexChar a = Some x" "fromHexChar b = Some y" by auto
  with 3 show ?case by (cases n) auto
qed

lemma toLower_ascii: "(\<And>c. c \<in> set s \<Longrightarrow> byte c < 128) \<Longrightarrow> toLower s = map lower_byte s"
  by (induction s rule: toLower.induct) force+

lemma lower_byte_id: "lower_byte c = c \<longleftrightarrow> \<not> in_rng 65 90 c"
proof
  assume "lower_byte c = c"
  show "\<not> in_rng 65 90 c"
  proof
    assume r: "in_rng 65 90 c"
    with \<open>lower_byte c = c\<close> have "char_of (byte c + 32) = c"
      by (simp add: lower_byte_def in_rng_def)
    then have "byte (char_of (byte c + 32)) = byte c" by simp
    with r show False by (simp add: in_rng_def)
  qed
qed (auto simp: lower_byte_def in_rng_def)

lemma sha256_text_iff: "sha256_text s \<longleftrightarrow> length s = 64 \<and> list_all lower_hex s"
proof
  assume "sha256_text s"
  then obtain d where d: "hexDecode s = Some d" "length d = 32" "toLower s = s"
    by (auto simp: sha256_text_def split: option.splits)
  from hexDecode_Some[OF d(1)] d(2) have len: "length s = 64"
    and hex: "\<And>c. c \<in> set s \<Longrightarrow> fromHexChar c \<noteq> None" by auto
  have ascii: "byte c < 128" if "c \<in> set s" for c
    using hex[OF that] by (auto simp: fromHexChar_def in_rng_def split: if_splits)
  with d(3) have "map lower_byte s = s" by (simp add: toLower_ascii)
  then have low: "lower_byte c = c" if "c \<in> set s" for c
    using that by (metis map_eq_conv map_ident)
  have "lower_hex c" if "c \<in> set s" for c
    using hex[OF that] low[OF that]
    by (auto simp: fromHexChar_def lower_hex_def lower_byte_id in_rng_def split: if_splits)
  with len show "length s = 64 \<and> list_all lower_hex s" by (simp add: list_all_iff)
next
  assume s: "length s = 64 \<and> list_all lower_hex s"
  then have "\<forall>c \<in> set s. fromHexChar c \<noteq> None"
    by (auto simp: list_all_iff fromHexChar_def lower_hex_def)
  with s hexDecode_total[of s 32] obtain d where d: "hexDecode s = Some d" "length d = 32" by auto
  have ascii: "byte c < 128" if "c \<in> set s" for c
    using s that by (auto simp: list_all_iff lower_hex_def in_rng_def)
  have "map lower_byte s = s"
    by (rule map_idI) (use s in \<open>auto simp: list_all_iff lower_hex_def lower_byte_id in_rng_def\<close>)
  with d ascii show "sha256_text s" by (simp add: sha256_text_def toLower_ascii)
qed

lemma sha256_text_hexEncode: "length d = 32 \<Longrightarrow> sha256_text (hexEncode d)"
  by (auto simp: sha256_text_iff list_all_iff dest: lower_hex_hexEncode)

section \<open>unicode/utf8\<close>

abbreviation cont :: "char \<Rightarrow> bool" where
  "cont \<equiv> in_rng 0x80 0xBF"

text \<open>\<open>utf8.ValidString\<close>: no overlong form, no surrogate, nothing above U+10FFFF.\<close>

fun utf8_valid :: "string \<Rightarrow> bool" where
  "utf8_valid [] = True"
| "utf8_valid [a] = in_rng 0 0x7F a"
| "utf8_valid [a, b] =
     (if in_rng 0 0x7F a then utf8_valid [b] else in_rng 0xC2 0xDF a \<and> cont b)"
| "utf8_valid [a, b, c] =
     (if in_rng 0 0x7F a then utf8_valid [b, c]
      else if in_rng 0xC2 0xDF a then cont b \<and> utf8_valid [c]
      else cont c \<and> (in_rng 0xE0 0xE0 a \<and> in_rng 0xA0 0xBF b
        \<or> (in_rng 0xE1 0xEC a \<or> in_rng 0xEE 0xEF a) \<and> cont b
        \<or> in_rng 0xED 0xED a \<and> in_rng 0x80 0x9F b))"
| "utf8_valid (a # b # c # d # cs) =
     (if in_rng 0 0x7F a then utf8_valid (b # c # d # cs)
      else if in_rng 0xC2 0xDF a then cont b \<and> utf8_valid (c # d # cs)
      else if in_rng 0xE0 0xEF a then
        cont c \<and> (in_rng 0xE0 0xE0 a \<and> in_rng 0xA0 0xBF b
        \<or> (in_rng 0xE1 0xEC a \<or> in_rng 0xEE 0xEF a) \<and> cont b
        \<or> in_rng 0xED 0xED a \<and> in_rng 0x80 0x9F b) \<and> utf8_valid (d # cs)
      else cont c \<and> cont d \<and> (in_rng 0xF0 0xF0 a \<and> in_rng 0x90 0xBF b
        \<or> in_rng 0xF1 0xF3 a \<and> cont b
        \<or> in_rng 0xF4 0xF4 a \<and> in_rng 0x80 0x8F b) \<and> utf8_valid cs)"

lemma utf8_valid_ascii: "(\<And>c. c \<in> set s \<Longrightarrow> byte c < 128) \<Longrightarrow> utf8_valid s"
proof (induction s rule: utf8_valid.induct)
qed (auto simp: in_rng_def less_Suc_eq_le[symmetric])

lemma utf8_valid_ascii_list: "list_all (\<lambda>c. byte c < 128) s \<Longrightarrow> utf8_valid s"
  by (rule utf8_valid_ascii) (simp add: list_all_iff)

section \<open>JSON string encoding\<close>

text \<open>\<open>json.Marshal\<close> of a valid UTF-8 string, HTML characters escaped.\<close>

definition u00 :: "char \<Rightarrow> string" where
  "u00 c = CHR 0x5C # ''u00'' @ [hexDigit (byte c div 16), hexDigit (byte c mod 16)]"

definition escape_byte :: "char \<Rightarrow> string" where
  "escape_byte c =
     (if c = CHR 0x22 \<or> c = CHR 0x5C then [CHR 0x5C, c]
      else if byte c = 8 then CHR 0x5C # ''b''
      else if byte c = 12 then CHR 0x5C # ''f''
      else if byte c = 10 then CHR 0x5C # ''n''
      else if byte c = 13 then CHR 0x5C # ''r''
      else if byte c = 9 then CHR 0x5C # ''t''
      else if byte c < 32 \<or> c = CHR ''<'' \<or> c = CHR ''>'' \<or> c = CHR ''&'' then u00 c
      else [c])"

fun json_escape :: "string \<Rightarrow> string" where
  "json_escape [] = []"
| "json_escape [a] = escape_byte a"
| "json_escape [a, b] = escape_byte a @ escape_byte b"
| "json_escape (a # b # c # cs) =
     (if a = CHR 0xE2 \<and> b = CHR 0x80 \<and> c = CHR 0xA8 then CHR 0x5C # ''u2028'' @ json_escape cs
      else if a = CHR 0xE2 \<and> b = CHR 0x80 \<and> c = CHR 0xA9 then CHR 0x5C # ''u2029'' @ json_escape cs
      else escape_byte a @ json_escape (b # c # cs))"

definition json_string :: "string \<Rightarrow> string" where
  "json_string s = CHR 0x22 # json_escape s @ [CHR 0x22]"

lemma length_escape_byte: "1 \<le> length (escape_byte c) \<and> length (escape_byte c) \<le> 6"
  by (simp add: escape_byte_def u00_def)

lemma length_json_escape: "length s \<le> length (json_escape s) \<and> length (json_escape s) \<le> 6 * length s"
proof (induction s rule: json_escape.induct)
  case (2 a)
  show ?case using length_escape_byte[of a] by simp
next
  case (3 a b)
  show ?case using length_escape_byte[of a] length_escape_byte[of b] by simp
next
  case (4 a b c cs)
  then show ?case using length_escape_byte[of a] by auto
qed simp

lemma length_json_string:
  "length s + 2 \<le> length (json_string s) \<and> length (json_string s) \<le> 6 * length s + 2"
  using length_json_escape[of s] by (simp add: json_string_def)

section \<open>Decimal numerals\<close>

definition digit :: "nat \<Rightarrow> char" where
  "digit n = char_of (48 + n)"

fun decimal :: "nat \<Rightarrow> string" where
  "decimal n = (if n < 10 then [digit n] else decimal (n div 10) @ [digit (n mod 10)])"

declare decimal.simps [simp del]

fun dec_value :: "nat \<Rightarrow> string \<Rightarrow> nat" where
  "dec_value acc [] = acc"
| "dec_value acc (c # cs) = dec_value (10 * acc + (byte c - 48)) cs"

definition is_digit :: "char \<Rightarrow> bool" where
  "is_digit c \<longleftrightarrow> in_rng 48 57 c"

lemma byte_digit [simp]: "n < 10 \<Longrightarrow> byte (digit n) = 48 + n"
  by (simp add: digit_def)

lemma dec_value_append: "dec_value acc (s @ t) = dec_value (dec_value acc s) t"
  by (induction s arbitrary: acc) auto

lemma dec_value_decimal [simp]: "dec_value 0 (decimal n) = n"
proof (induction n rule: decimal.induct)
  case (1 n)
  show ?case
  proof (cases "n < 10")
    case True
    then show ?thesis by (simp add: decimal.simps[of n])
  next
    case False
    with 1 show ?thesis by (simp add: decimal.simps[of n] dec_value_append)
  qed
qed

lemma decimal_inj [simp]: "decimal m = decimal n \<longleftrightarrow> m = n"
  by (metis dec_value_decimal)

lemma decimal_digits: "c \<in> set (decimal n) \<Longrightarrow> is_digit c"
proof (induction n rule: decimal.induct)
  case (1 n)
  then show ?case
    by (cases "n < 10") (auto simp: decimal.simps[of n] is_digit_def in_rng_def)
qed

lemma decimal_not_Nil [simp]: "decimal n \<noteq> []"
  by (subst decimal.simps) simp

text \<open>A numeral followed by a byte that is no digit ends where that byte stands.\<close>

lemma decimal_delimited:
  assumes "\<not> is_digit d" and "decimal m @ d # r = decimal n @ d # s"
  shows "m = n \<and> r = s"
proof -
  have tw: "takeWhile is_digit (decimal k @ d # t) = decimal k" for k t
    using assms(1) by (simp add: takeWhile_append decimal_digits)
  have "takeWhile is_digit (decimal m @ d # r) = takeWhile is_digit (decimal n @ d # s)"
    using assms(2) by simp
  then have "decimal m = decimal n" by (simp only: tw)
  with assms(2) show ?thesis by simp
qed

section \<open>Evaluation on bits\<close>

text \<open>Code equations that read the bits of a byte, for the evaluation of the codecs on concrete text.\<close>

definition nibble :: "bool \<Rightarrow> bool \<Rightarrow> bool \<Rightarrow> bool \<Rightarrow> char" where
  "nibble b0 b1 b2 b3 = Char (if b3 \<and> (b1 \<or> b2) then \<not> b0 else b0) (if b3 \<and> (b1 \<or> b2) then b0 = b1 else b1)
     (if b3 \<and> (b1 \<or> b2) then b2 \<and> (b0 \<or> b1) else b2) (b3 \<and> \<not> (b1 \<or> b2))
     (\<not> (b3 \<and> (b1 \<or> b2))) True (b3 \<and> (b1 \<or> b2)) False"

lemma hexDigit_nibble: "hexDigit (of_bool b0 + 2 * of_bool b1 + 4 * of_bool b2 + 8 * of_bool b3) = nibble b0 b1 b2 b3"
  by (cases b0; cases b1; cases b2; cases b3; simp add: hexDigit_def nibble_def char_of_def bit_numeral_rec bit_0)

lemma hexEncode_bits [code]:
  "hexEncode [] = []"
  "hexEncode (Char b0 b1 b2 b3 b4 b5 b6 b7 # cs) = nibble b4 b5 b6 b7 # nibble b0 b1 b2 b3 # hexEncode cs"
proof -
  let ?lo = "of_bool b0 + 2 * of_bool b1 + 4 * of_bool b2 + 8 * of_bool b3 :: nat"
  let ?hi = "of_bool b4 + 2 * of_bool b5 + 4 * of_bool b6 + 8 * of_bool b7 :: nat"
  have "byte (Char b0 b1 b2 b3 b4 b5 b6 b7) = ?lo + 16 * ?hi" by (simp add: of_char_def)
  moreover have "?lo < 16" by (cases b0; cases b1; cases b2; cases b3; simp)
  ultimately have "byte (Char b0 b1 b2 b3 b4 b5 b6 b7) div 16 = ?hi" "byte (Char b0 b1 b2 b3 b4 b5 b6 b7) mod 16 = ?lo" by simp_all
  then show "hexEncode (Char b0 b1 b2 b3 b4 b5 b6 b7 # cs) = nibble b4 b5 b6 b7 # nibble b0 b1 b2 b3 # hexEncode cs"
    by (simp only: hexEncode.simps hexDigit_nibble)
qed simp

lemma lower_hex_bits [code]:
  "lower_hex (Char b0 b1 b2 b3 b4 b5 b6 b7) \<longleftrightarrow> \<not> b7 \<and> b5 \<and> (\<not> b6 \<and> b4 \<and> (\<not> b3 \<or> \<not> b2 \<and> \<not> b1)
     \<or> b6 \<and> \<not> b4 \<and> \<not> b3 \<and> (b0 \<or> b1 \<or> b2) \<and> \<not> (b0 \<and> b1 \<and> b2))"
  by (cases b0; cases b1; cases b2; cases b3; cases b4; cases b5; cases b6; cases b7; simp add: lower_hex_def in_rng_def of_char_def)

declare sha256_text_iff [code]

definition utf8_slow :: "string \<Rightarrow> bool" where "utf8_slow = utf8_valid"
lemmas utf8_slow_code [code] = utf8_valid.simps[folded utf8_slow_def]

lemma utf8_valid_bits [code]: "utf8_valid s \<longleftrightarrow> list_all (\<lambda>c. \<not> digit7 c) s \<or> utf8_slow s"
proof -
  have "byte c < 128" if "\<not> digit7 c" for c
    using that by (cases c; simp add: of_char_def)
  then show ?thesis using utf8_valid_ascii_list[of s] by (auto simp: utf8_slow_def list_all_iff)
qed

definition plain_json :: "char \<Rightarrow> bool" where
  "plain_json c \<longleftrightarrow> \<not> digit7 c \<and> (digit6 c \<or> digit5 c) \<and> c \<noteq> CHR 0x22 \<and> c \<noteq> CHR 0x5C \<and> c \<noteq> CHR ''<'' \<and> c \<noteq> CHR ''>'' \<and> c \<noteq> CHR ''&''"

lemma plain_json_escape: "plain_json c \<Longrightarrow> escape_byte c = [c]"
proof -
  assume p: "plain_json c"
  then have "byte c \<ge> 32" by (cases c; simp add: plain_json_def of_char_def) (auto split: if_splits)
  with p show ?thesis by (auto simp: escape_byte_def plain_json_def)
qed

definition json_slow :: "string \<Rightarrow> string" where "json_slow = json_escape"
lemmas json_slow_code [code] = json_escape.simps[folded json_slow_def]

lemma json_plain: "list_all plain_json s \<Longrightarrow> json_escape s = s"
  by (induction s rule: json_escape.induct) (auto simp: plain_json_escape, auto simp: plain_json_def)

lemma json_escape_bits [code]: "json_escape s = (if list_all plain_json s then s else json_slow s)"
  by (simp add: json_plain json_slow_def)

end
