(* ===== verification/GoPath.thy ===== *)
theory GoPath
  imports GoText
begin

text \<open>
  The slash-separated paths of the package \<open>path\<close> (and of \<open>path/filepath\<close> on the only
  supported system, Linux): \<open>Clean\<close>, \<open>Base\<close> and \<open>Ext\<close>; and the target-relative
  paths of the report contract, which \<open>validateRelativePath\<close> (validate.go) accepts.
\<close>

definition slash :: char where
  "slash = CHR ''/''"

text \<open>
  \<open>path.Clean\<close> works through the components from left to right and keeps the result as a
  stack: empty components and \<open>.\<close> are dropped, \<open>..\<close> removes the component before it,
  is dropped at the root of a rooted path and is kept at the start of a relative one.
\<close>

fun clean_components :: "bool \<Rightarrow> string list \<Rightarrow> string list \<Rightarrow> string list" where
  "clean_components rooted stack [] = rev stack"
| "clean_components rooted stack (c # cs) =
     (if c = [] \<or> c = ''.'' then clean_components rooted stack cs
      else if c = ''..'' then
        (case stack of
           [] \<Rightarrow> if rooted then clean_components rooted [] cs
                 else clean_components rooted [''..''] cs
         | upper # rest \<Rightarrow> if upper = ''..'' then clean_components rooted (''..'' # stack) cs
                         else clean_components rooted rest cs)
      else clean_components rooted (c # stack) cs)"

definition path_clean :: "string \<Rightarrow> string" where
  "path_clean s =
     (let rooted = prefix [slash] s;
          out = join_with [slash] (clean_components rooted [] (split_on slash s))
      in if rooted then slash # out else if out = [] then ''.'' else out)"

definition path_base :: "string \<Rightarrow> string" where
  "path_base s =
     (if s = [] then ''.''
      else let trimmed = dropWhile (\<lambda>c. c = slash) (rev s);
               base = rev (takeWhile (\<lambda>c. c \<noteq> slash) trimmed)
           in if base = [] then [slash] else base)"

definition path_ext :: "string \<Rightarrow> string" where
  "path_ext s =
     (let tail = takeWhile (\<lambda>c. c \<noteq> slash) (rev s)
      in if CHR ''.'' \<in> set tail
         then rev (takeWhile (\<lambda>c. c \<noteq> CHR ''.'') tail @ [CHR ''.'']) else [])"

definition validateRelativePath :: "string \<Rightarrow> error" where
  "validateRelativePath value =
     (let clean = path_clean value in first_error [
        check (contains value [CHR 0x5C] \<or> contains value [CHR 0x00])
          ''noncanonical target-relative path %q'' [AStr value],
        check (clean \<noteq> value \<or> clean = ''.'' \<or> clean = ''..'' \<or> hasPrefix clean ''../''
            \<or> hasPrefix clean ''/'')
          ''unsafe target-relative path %q'' [AStr value]])"

text \<open>A component that names an entry of a directory, not the directory or its parent.\<close>

definition plain_component :: "string \<Rightarrow> bool" where
  "plain_component c \<longleftrightarrow> c \<noteq> [] \<and> c \<noteq> ''.'' \<and> c \<noteq> ''..''"

definition safe_relative_path :: "string \<Rightarrow> bool" where
  "safe_relative_path p \<longleftrightarrow>
     list_all plain_component (split_on slash p) \<and> CHR 0x5C \<notin> set p \<and> CHR 0x00 \<notin> set p"

lemma clean_components_plain:
  "list_all plain_component cs \<Longrightarrow> clean_components rooted stack cs = rev stack @ cs"
  by (induction cs arbitrary: stack) (auto simp: plain_component_def)

text \<open>
  What \<open>Clean\<close> leaves: plain components behind a run of \<open>..\<close>, and no \<open>..\<close> at all
  in a rooted path.
\<close>

definition clean_stack :: "bool \<Rightarrow> string list \<Rightarrow> bool" where
  "clean_stack rooted st \<longleftrightarrow>
     (\<exists>ps n. st = ps @ replicate n ''..'' \<and> list_all plain_component ps \<and> (rooted \<longrightarrow> n = 0))"

lemma clean_stack_push: "clean_stack rooted st \<Longrightarrow> plain_component c \<Longrightarrow> clean_stack rooted (c # st)"
  unfolding clean_stack_def by (metis append_Cons list.pred_inject(2))

lemma clean_stack_pop:
  assumes "clean_stack rooted (upper # rest)" and "upper \<noteq> ''..''"
  shows "clean_stack rooted rest"
proof -
  from assms(1) obtain ps n where ps: "upper # rest = ps @ replicate n ''..''"
    "list_all plain_component ps" "rooted \<longrightarrow> n = 0" unfolding clean_stack_def by blast
  show ?thesis
  proof (cases ps)
    case Nil
    with ps(1) assms(2) show ?thesis by (cases n) auto
  next
    case (Cons p qs)
    with ps show ?thesis unfolding clean_stack_def by auto
  qed
qed

lemma clean_stack_dotdot:
  assumes "clean_stack rooted st" and "st = [] \<or> hd st = ''..''" and "\<not> rooted"
  shows "clean_stack rooted (''..'' # st)"
proof -
  from assms(1) obtain ps n where ps: "st = ps @ replicate n ''..''" "list_all plain_component ps"
    unfolding clean_stack_def by blast
  with assms(2) have "ps = []" by (cases ps) (auto simp: plain_component_def)
  with ps assms(3) have "''..'' # st = [] @ replicate (Suc n) ''..''" by simp
  with assms(3) show ?thesis unfolding clean_stack_def by (metis list.pred_inject(1))
qed

lemma clean_stack_upper: "clean_stack rooted (''..'' # rest) \<Longrightarrow> \<not> rooted"
  unfolding clean_stack_def
  by (metis append.right_neutral list.pred_inject(2) plain_component_def replicate_0)

lemma clean_components_stack:
  "clean_stack rooted stack \<Longrightarrow> clean_stack rooted (rev (clean_components rooted stack cs))"
proof (induction cs arbitrary: stack)
  case Nil
  then show ?case by simp
next
  case (Cons c cs)
  show ?case
  proof (cases "c = ''..''")
    case False
    with Cons show ?thesis
      by (auto simp: plain_component_def intro!: Cons.IH clean_stack_push)
  next
    case True
    show ?thesis
    proof (cases stack)
      case Nil
      show ?thesis
      proof (cases rooted)
        case True
        with Nil \<open>c = ''..''\<close> Cons show ?thesis by simp
      next
        case False
        with Nil \<open>c = ''..''\<close> Cons.prems Cons.IH[of "[''..'']"] show ?thesis
          by (simp add: clean_stack_dotdot)
      qed
    next
      case (Cons upper rest)
      with True Cons.prems show ?thesis
        by (auto intro!: Cons.IH clean_stack_dotdot
            intro: clean_stack_pop[of rooted upper rest] dest: clean_stack_upper)
    qed
  qed
qed

lemma clean_components_set: "set (clean_components rooted st cs) \<subseteq> set st \<union> set cs \<union> {''..''}"
proof (induction cs arbitrary: st)
  case Nil
  then show ?case by auto
next
  case (Cons c cs)
  show ?case
    using Cons.IH[of st] Cons.IH[of "c # st"] Cons.IH[of "''..'' # st"] Cons.IH[of "tl st"]
      Cons.IH[of "[''..'']"] Cons.IH[of "[]"]
    by (cases st) auto
qed

lemma clean_components_slash_free:
  "w \<in> set (clean_components rooted [] (split_on slash s)) \<Longrightarrow> slash \<notin> set w"
  using clean_components_set[of rooted "[]" "split_on slash s"]
  by (auto dest: split_on_free simp: slash_def)

lemma split_on_slash_Cons [simp]: "split_on slash (slash # s) = [] # split_on slash s"
  by simp

lemma split_on_dotdot: "split_on slash (''../'' @ s) = ''..'' # split_on slash s"
  using split_on_append_sep[of slash "''..''" s] by (simp add: slash_def)

lemma safe_not_rooted: "safe_relative_path p \<Longrightarrow> \<not> prefix [slash] p"
  by (auto simp: safe_relative_path_def plain_component_def prefix_def)

lemma path_clean_safe:
  assumes "safe_relative_path p"
  shows "path_clean p = p"
proof -
  have "list_all plain_component (split_on slash p)"
    using assms by (simp add: safe_relative_path_def)
  moreover from this have "p \<noteq> []" by (auto simp: plain_component_def)
  ultimately show ?thesis
    using safe_not_rooted[OF assms]
    by (simp add: path_clean_def clean_components_plain)
qed

lemma clean_relative_plain:
  assumes clean: "path_clean p = p" and "\<not> prefix [slash] p" and "p \<noteq> ''.''" and "p \<noteq> ''..''"
    and up: "\<not> prefix ''../'' p"
  shows "list_all plain_component (split_on slash p)"
proof -
  let ?C = "clean_components False [] (split_on slash p)"
  have join: "join_with [slash] ?C = p"
    using clean assms(2,3) by (auto simp: path_clean_def Let_def split: if_splits)
  have "p \<noteq> []" using clean by (auto simp: path_clean_def)
  with join have "?C \<noteq> []" by auto
  then have C: "split_on slash p = ?C"
    using split_on_join_with[of ?C slash] join clean_components_slash_free by metis
  have "clean_stack False (rev ?C)"
    by (rule clean_components_stack) (simp add: clean_stack_def)
  then obtain ps n where ps: "rev ?C = ps @ replicate n ''..''" "list_all plain_component ps"
    unfolding clean_stack_def by blast
  have "n = 0"
  proof (rule ccontr)
    assume "n \<noteq> 0"
    then obtain ws where "rev ?C = ps @ replicate (n - 1) ''..'' @ [''..'']" 
      using ps(1) by (cases n) (simp_all add: replicate_append_same)
    then have "?C = ''..'' # rev (ps @ replicate (n - 1) ''..'')"
      by (simp add: rev_swap)
    then obtain ws where ws: "?C = ''..'' # ws" by blast
    show False
    proof (cases "ws = []")
      case True
      with ws join assms(4) show ?thesis by simp
    next
      case False
      with ws join have "p = ''..'' @ [slash] @ join_with [slash] ws"
        by (metis join_with_Cons)
      with up show ?thesis by (simp add: slash_def prefix_def)
    qed
  qed
  with ps have "list_all plain_component (rev ?C)" by simp
  with C show ?thesis by (simp add: list_all_iff)
qed

lemma validateRelativePath_None: "validateRelativePath p = None \<longleftrightarrow> safe_relative_path p"
proof
  assume "validateRelativePath p = None"
  then have "path_clean p = p" "p \<noteq> ''.''" "p \<noteq> ''..''" "\<not> prefix ''../'' p" "\<not> prefix [slash] p"
    and chars: "CHR 0x5C \<notin> set p" "CHR 0x00 \<notin> set p"
    by (auto simp: validateRelativePath_def Let_def hasPrefix_def contains_char slash_def)
  then show "safe_relative_path p"
    by (simp add: safe_relative_path_def clean_relative_plain)
next
  assume p: "safe_relative_path p"
  then have plain: "list_all plain_component (split_on slash p)"
    by (simp add: safe_relative_path_def)
  have "p \<noteq> ''.''" "p \<noteq> ''..''" "\<not> prefix ''../'' p"
    using plain split_on_dotdot
    by (auto simp: plain_component_def slash_def prefix_def simp del: append_Cons)
  with p safe_not_rooted[OF p] path_clean_safe[OF p] show "validateRelativePath p = None"
    by (simp add: validateRelativePath_def Let_def hasPrefix_def contains_char safe_relative_path_def
        slash_def)
qed

text \<open>
  C40. The path check accepts exactly the safe target-relative paths: a non-empty sequence of
  slash-separated components none of which is empty, \<open>.\<close> or \<open>..\<close>, with no backslash
  and no NUL. No accepted label is rooted, climbs out of the target or has a second spelling.
\<close>

theorem validateRelativePath_iff: "validateRelativePath p = None \<longleftrightarrow> safe_relative_path p"
  by (rule validateRelativePath_None)

end
