(* ===== verification/Report.thy ===== *)
theory Report
  imports GoPath
begin

text \<open>
  The report's data model (internal/report/report.go): its limits, its enumerations and its
  structs. An enumeration is a Go string type, so a decoded report can hold any text there
  and the validators test it; the model keeps these fields as strings and names the
  constants. A struct is a record whose fields carry a prefix for the struct, in the
  source's order; a slice is a \<open>slice\<close>, so that \<open>null\<close> and \<open>[]\<close> stay apart; a pointer
  to a struct is an option; a \<open>map[string]string\<close> is an association list with one entry
  per key; \<open>time.Time\<close> is the number of nanoseconds since Go's zero time.
\<close>

section \<open>Constants\<close>

abbreviation SchemaVersion :: string where "SchemaVersion \<equiv> ''2.0.0''"

abbreviation TargetEvidenceInputID :: string where "TargetEvidenceInputID \<equiv> ''input-target''"

abbreviation TargetEvidenceInputFormat :: string where
  "TargetEvidenceInputFormat \<equiv> ''plug-prejudice-inventory''"

abbreviation TargetEvidenceInputVersion :: string where
  "TargetEvidenceInputVersion \<equiv> SchemaVersion"

abbreviation OmarchyAuditInputFormat :: string where
  "OmarchyAuditInputFormat \<equiv> ''omarchy-plugin-audit''"

abbreviation OmarchyAuditInputVersion :: string where
  "OmarchyAuditInputVersion \<equiv> ''pr8439-732b104''"

abbreviation DeterministicAnalyzer :: string where
  "DeterministicAnalyzer \<equiv> ''plug-prejudice/deterministic''"

abbreviation OmarchyAuditAnalyzer :: string where
  "OmarchyAuditAnalyzer \<equiv> ''omarchy/plugin-audit''"

abbreviation ExternalEvidenceBindingCategory :: string where
  "ExternalEvidenceBindingCategory \<equiv> ''external-evidence-binding''"

abbreviation ExternalSnapshotBindingRule :: string where
  "ExternalSnapshotBindingRule \<equiv> ''external-snapshot-equivalence/v1''"

abbreviation ExternalBindingAssessmentRule :: string where
  "ExternalBindingAssessmentRule \<equiv> ''external-binding-assessment/v1''"

abbreviation OmarchyAuditObservationRule :: string where
  "OmarchyAuditObservationRule \<equiv> ''omarchy-audit-observation/v1''"

abbreviation CoverageDifferenceCategory :: string where
  "CoverageDifferenceCategory \<equiv> ''omarchy-audit-coverage-disagreement''"

abbreviation CoverageComparisonRule :: string where
  "CoverageComparisonRule \<equiv> ''omarchy-audit-coverage-comparison/v1''"

abbreviation ComparisonBudgetRule :: string where
  "ComparisonBudgetRule \<equiv> ''omarchy-audit-comparison-budget/v1''"

definition MaxInventoryEntries :: nat where [limits]: "MaxInventoryEntries = 10000"
definition MaxOperationEntries :: nat where [limits]: "MaxOperationEntries = 20000"
definition MaxResourceEntries :: nat where [limits]: "MaxResourceEntries = 20000"
definition MaxFindingEntries :: nat where [limits]: "MaxFindingEntries = 20000"
definition MaxUnknownEntries :: nat where [limits]: "MaxUnknownEntries = 20000"
definition MaxLimitationEntries :: nat where [limits]: "MaxLimitationEntries = 20000"
definition MaxErrorEntries :: nat where [limits]: "MaxErrorEntries = 10000"
definition MaxOperationArguments :: nat where [limits]: "MaxOperationArguments = 1024"
definition MaxManifestKinds :: nat where [limits]: "MaxManifestKinds = 128"
definition MaxManifestEntryPoints :: nat where [limits]: "MaxManifestEntryPoints = 128"
definition MaxImportedLibraries :: nat where [limits]: "MaxImportedLibraries = 1024"
definition MaxImportedSymbols :: nat where [limits]: "MaxImportedSymbols = 1024"
definition MaxExtractedStrings :: nat where [limits]: "MaxExtractedStrings = 256"
definition MaxEmbeddedURLs :: nat where [limits]: "MaxEmbeddedURLs = 128"
definition MaxFileCapabilities :: nat where [limits]: "MaxFileCapabilities = 64"
definition MaxArchiveEntries :: nat where [limits]: "MaxArchiveEntries = 4096"
definition MaxFindingEvidence :: nat where [limits]: "MaxFindingEvidence = 8"
definition MaxFindingRelated :: nat where [limits]: "MaxFindingRelated = 16"
definition MaxUnknownEvidence :: nat where [limits]: "MaxUnknownEvidence = 8"
definition MaxUnknownAffected :: nat where [limits]: "MaxUnknownAffected = 16"
definition MaxUnknownOrigins :: nat where [limits]: "MaxUnknownOrigins = 8"
definition MaxUnknownSuppressed :: nat where [limits]: "MaxUnknownSuppressed = 16"
definition MaxComparisonRelations :: nat where [limits]: "MaxComparisonRelations = 20000"
definition MaxEvidenceInputs :: nat where [limits]: "MaxEvidenceInputs = 16"

definition MaxEvidenceRelations :: nat where [limits]:
  "MaxEvidenceRelations = MaxResourceEntries + MaxFindingEntries * MaxFindingRelated
     + MaxUnknownEntries * MaxUnknownAffected + MaxComparisonRelations"

definition MaxProducedEvidenceRelations :: nat where [limits]: "MaxProducedEvidenceRelations = 20000"
definition MaxHostileStringBytes :: nat where [limits]: "MaxHostileStringBytes = 4 * 2 ^ 10"
definition MaxEncodedReportBytes :: nat where [limits]: "MaxEncodedReportBytes = 16 * 2 ^ 20"
definition MaxJSONDepth :: nat where [limits]: "MaxJSONDepth = 64"

abbreviation ClaimFact :: string where "ClaimFact \<equiv> ''fact''"
abbreviation ClaimInference :: string where "ClaimInference \<equiv> ''inference''"

abbreviation SeverityCritical :: string where "SeverityCritical \<equiv> ''critical''"
abbreviation SeverityHigh :: string where "SeverityHigh \<equiv> ''high''"
abbreviation SeverityMedium :: string where "SeverityMedium \<equiv> ''medium''"
abbreviation SeverityLow :: string where "SeverityLow \<equiv> ''low''"
abbreviation SeverityInformational :: string where "SeverityInformational \<equiv> ''informational''"

abbreviation ConfidenceHigh :: string where "ConfidenceHigh \<equiv> ''high''"
abbreviation ConfidenceMedium :: string where "ConfidenceMedium \<equiv> ''medium''"
abbreviation ConfidenceLow :: string where "ConfidenceLow \<equiv> ''low''"

abbreviation ScopeRuntime :: string where "ScopeRuntime \<equiv> ''runtime''"
abbreviation ScopeTooling :: string where "ScopeTooling \<equiv> ''repository-tooling''"
abbreviation ScopeUnknown :: string where "ScopeUnknown \<equiv> ''unknown''"

abbreviation StatusComplete :: string where "StatusComplete \<equiv> ''complete''"
abbreviation StatusIncomplete :: string where "StatusIncomplete \<equiv> ''incomplete''"
abbreviation StatusError :: string where "StatusError \<equiv> ''error''"

abbreviation AnalysisNotApplicable :: string where "AnalysisNotApplicable \<equiv> ''not-applicable''"
abbreviation AnalysisAnalyzed :: string where "AnalysisAnalyzed \<equiv> ''analyzed''"
abbreviation AnalysisPartial :: string where "AnalysisPartial \<equiv> ''partial''"
abbreviation AnalysisUnanalyzed :: string where "AnalysisUnanalyzed \<equiv> ''unanalyzed''"

abbreviation UnknownDynamicValue :: string where "UnknownDynamicValue \<equiv> ''dynamic-value''"
abbreviation UnknownUnsupportedSyntax :: string where "UnknownUnsupportedSyntax \<equiv> ''unsupported-syntax''"
abbreviation UnknownParserFailure :: string where "UnknownParserFailure \<equiv> ''parser-failure''"
abbreviation UnknownBudgetExhaustion :: string where "UnknownBudgetExhaustion \<equiv> ''budget-exhaustion''"
abbreviation UnknownUnreachableSource :: string where "UnknownUnreachableSource \<equiv> ''unreachable-source''"
abbreviation UnknownNativeBehavior :: string where "UnknownNativeBehavior \<equiv> ''native-behavior''"
abbreviation UnknownUnresolvedFlow :: string where "UnknownUnresolvedFlow \<equiv> ''unresolved-data-flow''"
abbreviation UnknownExternalBinding :: string where "UnknownExternalBinding \<equiv> ''external-input-unbound''"

abbreviation OriginAssignment :: string where "OriginAssignment \<equiv> ''assignment''"
abbreviation OriginParameterExpansion :: string where "OriginParameterExpansion \<equiv> ''parameter-expansion''"
abbreviation OriginPropertyAssignment :: string where "OriginPropertyAssignment \<equiv> ''property-assignment''"
abbreviation OriginUseSite :: string where "OriginUseSite \<equiv> ''use-site''"

abbreviation EvidenceSourceTargetSource :: string where
  "EvidenceSourceTargetSource \<equiv> ''target-source''"

abbreviation EvidenceSourceInventoryMetadata :: string where
  "EvidenceSourceInventoryMetadata \<equiv> ''inventory-metadata''"

abbreviation EvidenceSourceOmarchyAudit :: string where
  "EvidenceSourceOmarchyAudit \<equiv> ''omarchy-audit''"

abbreviation NodeOperation :: string where "NodeOperation \<equiv> ''operation''"
abbreviation NodeResource :: string where "NodeResource \<equiv> ''resource''"
abbreviation NodeFinding :: string where "NodeFinding \<equiv> ''finding''"
abbreviation NodeUnknown :: string where "NodeUnknown \<equiv> ''unknown''"

abbreviation RelationshipDerivedFrom :: string where "RelationshipDerivedFrom \<equiv> ''derived-from''"
abbreviation RelationshipEstablishedBy :: string where "RelationshipEstablishedBy \<equiv> ''established-by''"
abbreviation RelationshipInferredFrom :: string where "RelationshipInferredFrom \<equiv> ''inferred-from''"
abbreviation RelationshipUnknownBecause :: string where "RelationshipUnknownBecause \<equiv> ''unknown-because''"
abbreviation RelationshipCorroborates :: string where "RelationshipCorroborates \<equiv> ''corroborates''"
abbreviation RelationshipDisagreesWith :: string where "RelationshipDisagreesWith \<equiv> ''disagrees-with''"
abbreviation RelationshipDuplicates :: string where "RelationshipDuplicates \<equiv> ''duplicates''"

abbreviation EvidenceInputTarget :: string where "EvidenceInputTarget \<equiv> ''target-inventory''"
abbreviation EvidenceInputOmarchyAudit :: string where "EvidenceInputOmarchyAudit \<equiv> ''omarchy-audit''"

abbreviation CoverageDenominator :: string where
  "CoverageDenominator \<equiv>
     ''retained supported executable, configuration, archive, and binary artifact files''"

section \<open>Structs\<close>

type_synonym time = int

record ReviewReason =
  rr_Reference :: string
  rr_Title :: string
  rr_Scope :: string

record ImpactSummary =
  im_Level :: string
  im_Reasons :: "ReviewReason slice"

record ConfidenceSummary =
  co_Level :: string
  co_High :: int
  co_Medium :: int
  co_Low :: int
  co_Reasons :: "ReviewReason slice"

record CoverageSummary =
  cv_Level :: string
  cv_Denominator :: string
  cv_AnalyzedUnits :: int
  cv_PartialUnits :: int
  cv_UnanalyzedUnits :: int
  cv_ExcludedUnits :: int
  cv_TotalUnits :: int
  cv_RetainedUnits :: int
  cv_Percentage :: "int option"

record UnknownSummary =
  us_Level :: string
  us_Unknowns :: int
  us_Limitations :: int
  us_Errors :: int
  us_Reasons :: "ReviewReason slice"

record ClaimCounts =
  cc_Facts :: int
  cc_Inferences :: int
  cc_UnknownBehaviors :: int

record ReviewSummary =
  rs_SecurityImpact :: ImpactSummary
  rs_EvidenceConfidence :: ConfidenceSummary
  rs_AnalysisCoverage :: CoverageSummary
  rs_UnknownBehavior :: UnknownSummary
  rs_Counts :: ClaimCounts
  rs_MainReasons :: "ReviewReason slice"

record ResourceLimits =
  rl_MemoryMaxBytes :: int
  rl_MemorySwapBytes :: int
  rl_TasksMax :: int
  rl_CPUQuotaPercent :: int
  rl_WallTimeSeconds :: int

record ScanMetadata =
  sm_ScannerVersion :: string
  sm_PolicyVersion :: string
  sm_StartedAt :: time
  sm_CompletedAt :: time
  sm_Sandboxed :: bool
  sm_ResourceLimits :: "ResourceLimits option"

record Manifest =
  mf_ID :: string
  mf_Name :: string
  mf_Version :: string
  mf_Description :: string
  mf_Kinds :: "string slice"
  mf_EntryPoints :: "(string \<times> string) list option"

record Target =
  tg_DisplayName :: string
  tg_RootDigest :: string
  tg_FileCount :: int
  tg_ReadBytes :: int
  tg_BinaryBytes :: int
  tg_Manifest :: "Manifest option"

record Binary =
  bn_Format :: string
  bn_Class :: string
  bn_ByteOrder :: string
  bn_Machine :: string
  bn_Type :: string
  bn_Interpreter :: string
  bn_Libraries :: "string slice"
  bn_ImportedSymbols :: "string slice"
  bn_ExtractedStrings :: "string slice"
  bn_EmbeddedURLs :: "string slice"
  bn_FileCapabilities :: "string slice"
  bn_CapabilityEffective :: bool
  bn_SetUID :: bool
  bn_SetGID :: bool
  bn_HasSymbols :: bool

record ArchiveEntry =
  ae_Path :: string
  ae_Kind :: string
  ae_Mode :: string
  ae_LinkTarget :: string
  ae_Size :: int
  ae_CompressedSize :: int
  ae_UnsafePath :: bool
  ae_Encrypted :: bool

record Archive =
  ar_Format :: string
  ar_Entries :: "ArchiveEntry slice"
  ar_InventoryComplete :: bool
  ar_RetainedUncompressedBytes :: int

record File =
  fl_Path :: string
  fl_Kind :: string
  fl_Mode :: string
  fl_Size :: int
  fl_SHA256 :: string
  fl_ContentType :: string
  fl_LinkTarget :: string
  fl_Inspected :: bool
  fl_SkipReason :: string
  fl_Analysis :: string
  fl_AnalysisReason :: string
  fl_Binary :: "Binary option"
  fl_Archive :: "Archive option"

record Evidence =
  ev_InputID :: string
  ev_Path :: string
  ev_LineStart :: int
  ev_LineEnd :: int
  ev_Operation :: string
  ev_Excerpt :: string

record Provenance =
  pv_RuleID :: string
  pv_Analyzer :: string
  pv_AnalyzerVersion :: string
  pv_EvidenceSource :: string

record Operation =
  op_ID :: string
  op_Reference :: string
  op_Category :: string
  op_Scope :: string
  op_Command :: string
  op_Arguments :: "string slice"
  op_Dynamic :: bool
  op_Confidence :: string
  op_Evidence :: Evidence
  op_Provenance :: Provenance

record Resource =
  rc_ID :: string
  rc_Reference :: string
  rc_Kind :: string
  rc_Access :: string
  rc_Value :: string
  rc_Sensitive :: bool
  rc_Dynamic :: bool
  rc_Scope :: string
  rc_Confidence :: string
  rc_Evidence :: Evidence
  rc_RelatedOperationID :: string
  rc_Provenance :: Provenance

record Finding =
  fd_ID :: string
  fd_Reference :: string
  fd_Claim :: string
  fd_Severity :: string
  fd_Confidence :: string
  fd_Category :: string
  fd_Scope :: string
  fd_Title :: string
  fd_Explanation :: string
  fd_Evidence :: "Evidence slice"
  fd_Related :: "string slice"
  fd_Provenance :: Provenance

record ValueOrigin =
  vo_Kind :: string
  vo_Name :: string
  vo_Evidence :: Evidence

record Unknown =
  uk_ID :: string
  uk_Reference :: string
  uk_Category :: string
  uk_Reason :: string
  uk_Scope :: string
  uk_Confidence :: string
  uk_Title :: string
  uk_Description :: string
  uk_Evidence :: "Evidence slice"
  uk_Origins :: "ValueOrigin slice"
  uk_AffectedOperations :: "string slice"
  uk_SuppressedRules :: "string slice"
  uk_Provenance :: Provenance

record ComparisonBasis =
  cb_Kind :: string
  cb_Subject :: string

record Relationship =
  re_ID :: string
  re_Type :: string
  re_FromKind :: string
  re_From :: string
  re_ToKind :: string
  re_To :: string
  re_Comparison :: "ComparisonBasis option"

record EvidenceInput =
  ei_ID :: string
  ei_Type :: string
  ei_Label :: string
  ei_DocumentSHA256 :: string
  ei_SubjectRootDigest :: string
  ei_Format :: string
  ei_Version :: string

record Limitation =
  li_Code :: string
  li_Description :: string
  li_Path :: string
  li_Scope :: string

record ScanError =
  se_Code :: string
  se_Message :: string
  se_Path :: string

record Report =
  rp_SchemaVersion :: string
  rp_Status :: string
  rp_Scan :: ScanMetadata
  rp_Target :: Target
  rp_EvidenceInputs :: "EvidenceInput slice"
  rp_Review :: "ReviewSummary option"
  rp_Inventory :: "File slice"
  rp_Operations :: "Operation slice"
  rp_Resources :: "Resource slice"
  rp_Findings :: "Finding slice"
  rp_Unknowns :: "Unknown slice"
  rp_Relationships :: "Relationship slice"
  rp_Limitations :: "Limitation slice"
  rp_Errors :: "ScanError slice"

text \<open>\<open>crypto/sha256.Sum256\<close> and its stand-ins: from bytes to a digest of 32 bytes.\<close>

type_synonym digestFunction = "string \<Rightarrow> string"

end
