(* ===== verification/Samples.thy ===== *)
theory Samples
  imports Report
begin

text \<open>
  Concrete files, nodes and reports, and a small digest function, on which the development's
  theorems are instantiated. None of this models code.
\<close>

definition example_file :: "string \<Rightarrow> string \<Rightarrow> File" where
  "example_file path disposition =
     \<lparr>fl_Path = path, fl_Kind = ''regular'', fl_Mode = ''-rw-r--r--'', fl_Size = 3, fl_SHA256 = [],
      fl_ContentType = [], fl_LinkTarget = [], fl_Inspected = False, fl_SkipReason = [],
      fl_Analysis = disposition, fl_AnalysisReason = ''reason'', fl_Binary = None, fl_Archive = None\<rparr>"

definition sample_provenance :: Provenance where
  "sample_provenance = \<lparr>pv_RuleID = ''rule'', pv_Analyzer = DeterministicAnalyzer,
     pv_AnalyzerVersion = ''1'', pv_EvidenceSource = EvidenceSourceTargetSource\<rparr>"

definition sample_evidence :: Evidence where
  "sample_evidence = \<lparr>ev_InputID = TargetEvidenceInputID, ev_Path = ''a.sh'', ev_LineStart = 1, ev_LineEnd = 1,
     ev_Operation = ''run'', ev_Excerpt = ''curl''\<rparr>"

definition sample_operation :: "string \<Rightarrow> string \<Rightarrow> Operation" where
  "sample_operation ident command = \<lparr>op_ID = ident, op_Reference = [], op_Category = ''process'',
     op_Scope = ScopeRuntime, op_Command = command, op_Arguments = Some [], op_Dynamic = False,
     op_Confidence = ConfidenceHigh, op_Evidence = sample_evidence, op_Provenance = sample_provenance\<rparr>"

definition sample_resource :: "string \<Rightarrow> string \<Rightarrow> Resource" where
  "sample_resource ident operation = \<lparr>rc_ID = ident, rc_Reference = [], rc_Kind = ''file'',
     rc_Access = ''write'', rc_Value = ''/etc/hosts'', rc_Sensitive = True, rc_Dynamic = False,
     rc_Scope = ScopeRuntime, rc_Confidence = ConfidenceMedium, rc_Evidence = sample_evidence,
     rc_RelatedOperationID = operation, rc_Provenance = sample_provenance\<rparr>"

definition sample_finding :: "string \<Rightarrow> string \<Rightarrow> string \<Rightarrow> Finding" where
  "sample_finding ident severity confidence = \<lparr>fd_ID = ident, fd_Reference = [], fd_Claim = ClaimFact,
     fd_Severity = severity, fd_Confidence = confidence, fd_Category = ''network'', fd_Scope = ScopeRuntime,
     fd_Title = ''title'', fd_Explanation = ''explanation'', fd_Evidence = Some [sample_evidence],
     fd_Related = Some [], fd_Provenance = sample_provenance\<rparr>"

definition sample_report ::
  "File list \<Rightarrow> Operation list \<Rightarrow> Resource list \<Rightarrow> Finding list \<Rightarrow> Unknown list \<Rightarrow> Report" where
  "sample_report files operations resources findings unknowns =
     \<lparr>rp_SchemaVersion = SchemaVersion, rp_Status = StatusComplete,
      rp_Scan = \<lparr>sm_ScannerVersion = ''1'', sm_PolicyVersion = ''1'', sm_StartedAt = 1, sm_CompletedAt = 2,
        sm_Sandboxed = False, sm_ResourceLimits = None\<rparr>,
      rp_Target = \<lparr>tg_DisplayName = ''plugin'', tg_RootDigest = [], tg_FileCount = int (length files),
        tg_ReadBytes = 0, tg_BinaryBytes = 0, tg_Manifest = None\<rparr>,
      rp_EvidenceInputs = Some [], rp_Review = None, rp_Inventory = Some files,
      rp_Operations = Some operations, rp_Resources = Some resources, rp_Findings = Some findings,
      rp_Unknowns = Some unknowns, rp_Relationships = Some [], rp_Limitations = Some [], rp_Errors = Some []\<rparr>"

text \<open>Thirty-two bytes of the input, last byte first.\<close>

definition sample_digest :: digestFunction where
  "sample_digest s = take 32 (rev s @ replicate 32 CHR 0x00)"

lemmas sample_defs = example_file_def sample_provenance_def sample_evidence_def sample_operation_def
  sample_resource_def sample_finding_def sample_report_def

end
