(* ===== verification/Digests.thy ===== *)
theory Digests
  imports Samples
begin

text \<open>
  The byte encodings whose equality or digest identifies something: the target inventory
  (internal/report/inventory_digest.go), the subject of a resource comparison
  (internal/report/semantic_subject.go) and the external document
  (internal/report/external_input.go). The digest function is a parameter, as in the source's
  own \<open>...WithDigest\<close> functions; streaming writes to a hash is the digest of the bytes
  written.
\<close>

section \<open>Framing\<close>

definition writeDigestUint64 :: "nat \<Rightarrow> string" where
  "writeDigestUint64 n = map (\<lambda>i. char_of (n div 256 ^ i)) [7, 6, 5, 4, 3, 2, 1, 0]"

definition writeDigestString :: "string \<Rightarrow> string" where
  "writeDigestString value = writeDigestUint64 (length value) @ value"

abbreviation u64 :: "nat \<Rightarrow> bool" where
  "u64 n \<equiv> n < 2 ^ 64"

definition be_value :: "string \<Rightarrow> nat" where
  "be_value s = foldl (\<lambda>acc c. 256 * acc + byte c) 0 s"

lemma length_writeDigestUint64 [simp]: "length (writeDigestUint64 n) = 8"
  by (simp add: writeDigestUint64_def)

lemma be_value_writeDigestUint64:
  assumes "u64 n"
  shows "be_value (writeDigestUint64 n) = n"
proof -
  have step: "256 * (n div 256 ^ Suc i) + n div 256 ^ i mod 256 = n div 256 ^ i" for i
    by (simp add: div_mult2_eq mult.commute[of 256])
  have top: "n div 256 ^ 7 mod 256 = n div 256 ^ 7"
    using assms by (simp add: less_mult_imp_div_less)
  show ?thesis
    using step[of 0] step[of 1] step[of 2] step[of 3] step[of 4] step[of 5] step[of 6] top
    by (simp add: be_value_def writeDigestUint64_def)
qed

interpretation u64_frame: self_delimiting writeDigestUint64 u64
proof (unfold_locales, goal_cases)
  case (1 x y r s)
  then have same: "writeDigestUint64 x = writeDigestUint64 y" "r = s"
    by simp_all
  have "x = y"
    using arg_cong[OF same(1), of be_value] 1(1,2) by (simp only: be_value_writeDigestUint64)
  with same show ?case by simp
qed

interpretation string_frame: self_delimiting writeDigestString "\<lambda>s. u64 (length s)"
proof (unfold_locales, goal_cases)
  case (1 x y r s)
  have "writeDigestUint64 (length x) @ x @ r = writeDigestUint64 (length y) @ y @ s"
    using 1(3) unfolding writeDigestString_def append_assoc .
  from u64_frame.delimited[OF 1(1,2) this] show ?case
    using append_eq_append_conv[of x y r s] by blast
qed

section \<open>The inventory root digest\<close>

abbreviation inventoryDigestDomain :: string where
  "inventoryDigestDomain \<equiv> ''plug-prejudice/target-inventory-root/v1''"

definition digest_fields :: "File \<Rightarrow> string list" where
  "digest_fields file =
     [fl_Path file, fl_Kind file, fl_Mode file, fl_SHA256 file, fl_LinkTarget file, fl_SkipReason file]"

definition digest_file_error :: "File \<Rightarrow> error" where
  "digest_file_error file = first_error (
     check (fl_Size file < 0) ''inventory digest cannot encode a negative file size'' []
     # concat (map (\<lambda>value. [
         check (\<not> utf8_valid value) ''inventory digest cannot encode invalid UTF-8'' [],
         check (contains value [CHR 0x00]) ''inventory digest fields cannot contain NUL'' []])
       (digest_fields file)))"

definition digest_record :: "File \<Rightarrow> string" where
  "digest_record file =
     writeDigestString (fl_Path file) @ writeDigestString (fl_Kind file) @
     writeDigestString (fl_Mode file) @ writeDigestUint64 (nat (fl_Size file)) @
     writeDigestString (fl_SHA256 file) @ writeDigestString (fl_LinkTarget file) @
     writeDigestString (fl_SkipReason file)"

definition inventory_stream :: "File list \<Rightarrow> string" where
  "inventory_stream ordered =
     writeDigestString inventoryDigestDomain @ writeDigestUint64 (length ordered) @
     concat (map digest_record ordered)"

definition InventoryRootDigest :: "digestFunction \<Rightarrow> File list \<Rightarrow> string result" where
  "InventoryRootDigest digest files =
     (let ordered = sort_slice (\<lambda>a b. fl_Path a < fl_Path b) files
      in andthen (first_error (map digest_file_error ordered))
           (Inr (hexEncode (digest (inventory_stream ordered)))))"

text \<open>What of a file the digest binds: the filesystem observation, not the later analysis.\<close>

type_synonym observation = "string \<times> string \<times> string \<times> nat \<times> string \<times> string \<times> string"

definition observed :: "File \<Rightarrow> observation" where
  "observed f = (fl_Path f, fl_Kind f, fl_Mode f, nat (fl_Size f), fl_SHA256 f, fl_LinkTarget f,
     fl_SkipReason f)"

text \<open>Sizes a Go value can have: 64-bit lengths and file sizes.\<close>

definition representable :: "File \<Rightarrow> bool" where
  "representable f \<longleftrightarrow> int64_range (fl_Size f) \<and> (\<forall>s \<in> set (digest_fields f). u64 (length s))"

definition observation_bytes :: "observation \<Rightarrow> string" where
  "observation_bytes = (\<lambda>(p, k, m, n, h, l, s).
     writeDigestString p @ writeDigestString k @ writeDigestString m @ writeDigestUint64 n @
     writeDigestString h @ writeDigestString l @ writeDigestString s)"

definition observation_ok :: "observation \<Rightarrow> bool" where
  "observation_ok = (\<lambda>(p, k, m, n, h, l, s).
     u64 (length p) \<and> u64 (length k) \<and> u64 (length m) \<and> u64 n \<and> u64 (length h)
     \<and> u64 (length l) \<and> u64 (length s))"

lemma digest_record_observed: "digest_record f = observation_bytes (observed f)"
  by (simp add: digest_record_def observation_bytes_def observed_def)

lemma observation_ok_observed: "representable f \<Longrightarrow> observation_ok (observed f)"
  by (simp add: representable_def observation_ok_def observed_def digest_fields_def int64_range_def)
     linarith

interpretation record_frame: self_delimiting observation_bytes observation_ok
proof -
  note str = string_frame.self_delimiting_axioms and num = u64_frame.self_delimiting_axioms
  note fields = self_delimiting_pair[OF str self_delimiting_pair[OF str self_delimiting_pair[OF str
    self_delimiting_pair[OF num self_delimiting_pair[OF str self_delimiting_pair[OF str str]]]]]]
  show "self_delimiting observation_bytes observation_ok"
    using fields by (simp add: observation_bytes_def observation_ok_def case_prod_unfold)
qed

lemma inventory_stream_delimited:
  assumes "inventory_stream xs = inventory_stream ys"
    and "u64 (length xs)" and "u64 (length ys)"
    and "list_all representable xs" and "list_all representable ys"
  shows "map observed xs = map observed ys"
proof -
  have "writeDigestUint64 (length xs) @ concat (map digest_record xs) =
      writeDigestUint64 (length ys) @ concat (map digest_record ys)"
    using assms(1) unfolding inventory_stream_def same_append_eq .
  note split = u64_frame.delimited[OF assms(2,3) this]
  from split have len: "length xs = length ys" ..
  from split have recs: "concat (map observation_bytes (map observed xs)) @ [] =
      concat (map observation_bytes (map observed ys)) @ []"
    by (simp only: digest_record_observed[abs_def] map_map comp_def append_Nil2)
  have "list_all observation_ok (map observed xs)" "list_all observation_ok (map observed ys)"
    using assms(4,5) by (auto simp: list_all_iff observation_ok_observed)
  with record_frame.concat_delimited[OF _ _ _ recs] len show ?thesis by simp
qed

lemma InventoryRootDigest_Inr:
  "InventoryRootDigest digest files = Inr d \<longleftrightarrow>
     list_all (\<lambda>f. digest_file_error f = None) files
     \<and> d = hexEncode (digest (inventory_stream (sort_key fl_Path files)))"
  by (auto simp: InventoryRootDigest_def sort_slice_key list_all_iff Let_def)

text \<open>
  C27. The root digest binds every retained filesystem observation: two inventories with the
  same root digest hold the same observations (path, kind, mode, size, content digest, link
  target and skip reason of every file), unless the digest function maps the two inventories'
  own, different, byte streams to the same digest. No field boundary can be moved by hostile
  text.
\<close>

theorem InventoryRootDigest_binds:
  assumes "InventoryRootDigest digest xs = Inr d" and "InventoryRootDigest digest ys = Inr d"
    and "list_all representable xs" and "list_all representable ys"
    and "u64 (length xs)" and "u64 (length ys)"
  shows "image_mset observed (mset xs) = image_mset observed (mset ys)
    \<or> inventory_stream (sort_key fl_Path xs) \<noteq> inventory_stream (sort_key fl_Path ys)
      \<and> digest (inventory_stream (sort_key fl_Path xs)) = digest (inventory_stream (sort_key fl_Path ys))"
proof (cases "inventory_stream (sort_key fl_Path xs) = inventory_stream (sort_key fl_Path ys)")
  case True
  then have "map observed (sort_key fl_Path xs) = map observed (sort_key fl_Path ys)"
    by (rule inventory_stream_delimited) (use assms in \<open>auto simp: list_all_iff\<close>)
  then have "mset (map observed (sort_key fl_Path xs)) = mset (map observed (sort_key fl_Path ys))"
    by (rule arg_cong)
  then show ?thesis by simp
next
  case False
  moreover have "digest (inventory_stream (sort_key fl_Path xs)) =
      digest (inventory_stream (sort_key fl_Path ys))"
    using assms(1,2) by (auto simp: InventoryRootDigest_Inr dest: hexEncode_inj)
  ultimately show ?thesis by blast
qed

theorem InventoryRootDigest_binds_witness:
  "image_mset observed (mset [example_file ''a'' AnalysisAnalyzed]) =
     image_mset observed (mset [example_file ''a'' AnalysisPartial])
   \<or> inventory_stream (sort_key fl_Path [example_file ''a'' AnalysisAnalyzed]) \<noteq>
       inventory_stream (sort_key fl_Path [example_file ''a'' AnalysisPartial])
     \<and> sample_digest (inventory_stream (sort_key fl_Path [example_file ''a'' AnalysisAnalyzed])) =
       sample_digest (inventory_stream (sort_key fl_Path [example_file ''a'' AnalysisPartial]))"
proof (rule InventoryRootDigest_binds)
  let ?d = "hexEncode (sample_digest (inventory_stream [example_file ''a'' AnalysisAnalyzed]))"
  have ok: "digest_file_error (example_file ''a'' x) = None" for x
    by (simp add: digest_file_error_def digest_fields_def example_file_def utf8_valid_ascii_list del: utf8_valid.simps)
  show "InventoryRootDigest sample_digest [example_file ''a'' AnalysisAnalyzed] = Inr ?d"
    "InventoryRootDigest sample_digest [example_file ''a'' AnalysisPartial] = Inr ?d"
    by (simp_all add: InventoryRootDigest_Inr ok)
       (simp add: inventory_stream_def digest_record_def example_file_def)
qed (simp_all add: example_file_def representable_def int64_range_def digest_fields_def)

text \<open>
  The digest depends only on the observations: inventories of the same observations with
  one record per path have the same digest, whatever their order, their analysis dispositions
  and their extracted metadata.
\<close>

theorem InventoryRootDigest_observations_only:
  assumes "image_mset observed (mset xs) = image_mset observed (mset ys)"
    and "distinct (map fl_Path xs)"
    and "InventoryRootDigest digest xs = Inr d"
    and "list_all (\<lambda>f. 0 \<le> fl_Size f) ys"
  shows "InventoryRootDigest digest ys = Inr d"
proof -
  let ?xs = "sort_key fl_Path xs" and ?ys = "sort_key fl_Path ys"
  have path: "fl_Path f = fst (observed f)" for f by (simp add: observed_def)
  have m: "mset (map observed ?xs) = mset (map observed ?ys)" using assms(1) by simp
  have "mset (map fl_Path xs) = mset (map fl_Path ys)"
    using arg_cong[OF assms(1), of "image_mset fst"] by (simp add: image_mset.compositionality comp_def flip: path)
  then have dist: "distinct (map fl_Path ys)" using assms(2) by (metis mset_eq_imp_distinct_iff)
  have "map observed ?ys = sort_key fst (map observed ?xs)"
  proof (rule sort_key_unique)
    show "mset (map observed ?ys) = mset (map observed ?xs)" using m by simp
    show "sorted (map fst (map observed ?ys))" by (simp add: comp_def flip: path)
    have "inj_on fl_Path (set xs)" using assms(2) by (simp add: distinct_map)
    then show "inj_on fst (set (map observed ?xs))" by (auto simp: inj_on_def path)
  qed
  moreover have "sort_key fst (map observed ?xs) = map observed ?xs"
    by (rule sort_key_id_if_sorted) (simp add: comp_def flip: path)
  ultimately have same: "map observed ?ys = map observed ?xs" by simp
  have "length ?ys = length ?xs" using arg_cong[OF same, of length] by simp
  then have stream: "inventory_stream ?ys = inventory_stream ?xs"
    using arg_cong[OF same, of "\<lambda>os. concat (map observation_bytes os)"]
    by (simp add: inventory_stream_def digest_record_observed[abs_def] comp_def)
  have fields: "digest_fields f = digest_fields g" if "observed f = observed g" for f g
    using that by (simp add: observed_def digest_fields_def)
  have "digest_file_error f = None" if f: "f \<in> set ys" for f
  proof -
    have "observed f \<in> set (map observed ?ys)" using f by simp
    then obtain g where g: "g \<in> set xs" "observed f = observed g" unfolding same by auto
    from assms(3) g(1) have "digest_file_error g = None" by (auto simp: InventoryRootDigest_Inr list_all_iff)
    with fields[OF g(2)] f assms(4) show ?thesis by (auto simp: digest_file_error_def list_all_iff)
  qed
  with assms(3) stream show ?thesis by (simp add: InventoryRootDigest_Inr list_all_iff)
qed

theorem InventoryRootDigest_observations_only_witness:
  "InventoryRootDigest sample_digest [example_file ''b'' AnalysisPartial, example_file ''a'' AnalysisAnalyzed] =
   Inr (hexEncode (sample_digest (inventory_stream
     [example_file ''a'' AnalysisAnalyzed, example_file ''b'' AnalysisAnalyzed])))"
proof (rule InventoryRootDigest_observations_only)
  show "InventoryRootDigest sample_digest [example_file ''a'' AnalysisAnalyzed, example_file ''b'' AnalysisAnalyzed] =
      Inr (hexEncode (sample_digest (inventory_stream
        [example_file ''a'' AnalysisAnalyzed, example_file ''b'' AnalysisAnalyzed])))"
    by (simp add: InventoryRootDigest_Inr digest_file_error_def digest_fields_def example_file_def
        utf8_valid_ascii_list del: utf8_valid.simps)
qed (simp_all add: example_file_def observed_def)

section \<open>Comparison subjects\<close>

abbreviation resourceComparisonSubjectVersion :: string where
  "resourceComparisonSubjectVersion \<equiv> ''resource-subject/v1''"

definition subject_field :: "string \<Rightarrow> string" where
  "subject_field field = '':'' @ decimal (length field) @ '':'' @ field"

definition resourceComparisonSubject :: "string \<Rightarrow> string \<Rightarrow> string \<Rightarrow> string" where
  "resourceComparisonSubject kind access value =
     resourceComparisonSubjectVersion @ concat (map subject_field [kind, access, value])"

interpretation subject_frame: self_delimiting subject_field "\<lambda>_. True"
proof (unfold_locales, goal_cases)
  case (1 x y r s)
  have colon: "\<not> is_digit CHR '':''" by (simp add: is_digit_def in_rng_def)
  from 1 have "decimal (length x) @ CHR '':'' # x @ r = decimal (length y) @ CHR '':'' # y @ s"
    by (simp add: subject_field_def)
  from decimal_delimited[OF colon this] show ?case
    using append_eq_append_conv[of x y r s] by blast
qed

text \<open>
  A resource's comparison subject determines its kind, access and value, including when
  they contain separators, digits, NUL or any other byte: the encoding is injective.
\<close>

theorem resourceComparisonSubject_inj:
  "resourceComparisonSubject k a v = resourceComparisonSubject k' a' v' \<longleftrightarrow> k = k' \<and> a = a' \<and> v = v'"
  using subject_frame.concat_delimited[of "[k, a, v]" "[k', a', v']" "[]" "[]"]
  by (auto simp: resourceComparisonSubject_def)

section \<open>External documents\<close>

definition NewOmarchyAuditEvidenceInput ::
  "digestFunction \<Rightarrow> string \<Rightarrow> string \<Rightarrow> string \<Rightarrow> EvidenceInput" where
  "NewOmarchyAuditEvidenceInput digest ident label document =
     \<lparr>ei_ID = ident, ei_Type = EvidenceInputOmarchyAudit, ei_Label = label,
      ei_DocumentSHA256 = hexEncode (digest document), ei_SubjectRootDigest = [],
      ei_Format = OmarchyAuditInputFormat, ei_Version = OmarchyAuditInputVersion\<rparr>"

end
