(* ===== verification/Review.thy ===== *)
theory Review
  imports Digests
begin

text \<open>
  The review summary (internal/report/review.go): analysis coverage counted from the
  inventory's dispositions, the security impact, evidence confidence and unknown behaviour
  derived from the report's nodes, and the validator that recomputes all of it.
\<close>

section \<open>Analysis coverage\<close>

definition coverage_level :: "int \<Rightarrow> int \<Rightarrow> int \<Rightarrow> string" where
  "coverage_level analyzed totalUnits percentage =
     (if analyzed = totalUnits then ''complete''
      else if percentage \<ge> 80 then ''substantial''
      else if percentage > 0 then ''partial''
      else ''limited'')"

definition NewCoverageSummary :: "int \<Rightarrow> int \<Rightarrow> int \<Rightarrow> int list \<Rightarrow> CoverageSummary" where
  "NewCoverageSummary analyzed partial unanalyzed excluded =
     (let excludedUnits = (case excluded of [e] \<Rightarrow> e | _ \<Rightarrow> 0);
          totalUnits = add64 (add64 analyzed partial) unanalyzed;
          value = \<lparr>cv_Level = [], cv_Denominator = CoverageDenominator, cv_AnalyzedUnits = analyzed,
            cv_PartialUnits = partial, cv_UnanalyzedUnits = unanalyzed,
            cv_ExcludedUnits = excludedUnits, cv_TotalUnits = totalUnits,
            cv_RetainedUnits = add64 totalUnits excludedUnits, cv_Percentage = None\<rparr>
      in if totalUnits = 0 then value\<lparr>cv_Level := ''not-applicable''\<rparr>
         else let percentage = quot64 (mul64 analyzed 100) totalUnits
              in value\<lparr>cv_Percentage := Some percentage,
                       cv_Level := coverage_level analyzed totalUnits percentage\<rparr>)"

definition validateCoverageSummary :: "CoverageSummary \<Rightarrow> error" where
  "validateCoverageSummary v = (let limit = int MaxInventoryEntries in first_error [
     check (cv_Denominator v \<noteq> CoverageDenominator \<or> cv_AnalyzedUnits v < 0 \<or> cv_PartialUnits v < 0
         \<or> cv_UnanalyzedUnits v < 0 \<or> cv_ExcludedUnits v < 0 \<or> cv_TotalUnits v < 0
         \<or> cv_RetainedUnits v < 0
         \<or> add64 (add64 (cv_AnalyzedUnits v) (cv_PartialUnits v)) (cv_UnanalyzedUnits v) \<noteq> cv_TotalUnits v
         \<or> add64 (cv_TotalUnits v) (cv_ExcludedUnits v) \<noteq> cv_RetainedUnits v)
       ''analysis coverage has an invalid denominator or unit counts'' [],
     check (cv_AnalyzedUnits v > limit \<or> cv_PartialUnits v > limit \<or> cv_UnanalyzedUnits v > limit
         \<or> cv_ExcludedUnits v > limit \<or> cv_TotalUnits v > limit \<or> cv_RetainedUnits v > limit)
       ''analysis coverage unit counts exceed inventory limits'' [],
     (if cv_TotalUnits v = 0 then
        first_error [
          check (cv_Percentage v \<noteq> None)
            ''analysis coverage percentage requires a nonzero denominator'' [],
          check (cv_Level v \<noteq> ''not-applicable'')
            ''analysis coverage level does not match unit counts'' []]
      else
        (let percentage = quot64 (mul64 (cv_AnalyzedUnits v) 100) (cv_TotalUnits v)
         in first_error [
          check (cv_Percentage v \<noteq> Some percentage)
            ''analysis coverage percentage does not match its explicit denominator'' [],
          check (cv_Level v \<noteq> coverage_level (cv_AnalyzedUnits v) (cv_TotalUnits v) percentage)
            ''analysis coverage level does not match unit counts'' []]))])"

fun count_disposition :: "File \<Rightarrow> int \<times> int \<times> int \<times> int \<Rightarrow> int \<times> int \<times> int \<times> int" where
  "count_disposition file (analyzed, partial, unanalyzed, excluded) =
     (if fl_Analysis file = AnalysisAnalyzed then (analyzed + 1, partial, unanalyzed, excluded)
      else if fl_Analysis file = AnalysisPartial then (analyzed, partial + 1, unanalyzed, excluded)
      else if fl_Analysis file = AnalysisUnanalyzed then (analyzed, partial, unanalyzed + 1, excluded)
      else if fl_Analysis file = AnalysisNotApplicable then (analyzed, partial, unanalyzed, excluded + 1)
      else (analyzed, partial, unanalyzed, excluded))"

definition coverageFromInventory :: "File list \<Rightarrow> CoverageSummary" where
  "coverageFromInventory files =
     (case fold count_disposition files (0, 0, 0, 0) of
        (analyzed, partial, unanalyzed, excluded) \<Rightarrow>
          NewCoverageSummary analyzed partial unanalyzed [excluded])"

section \<open>Impact, confidence and unknown behaviour\<close>

definition maxReviewReasons :: nat where [limits]: "maxReviewReasons = 8"

definition severityRank :: "string \<Rightarrow> int" where
  "severityRank value =
     (if value = SeverityCritical then 4
      else if value = SeverityHigh then 3
      else if value = SeverityMedium then 2
      else if value = SeverityLow then 1
      else if value = SeverityInformational then 0
      else -1)"

definition addConfidence :: "string \<Rightarrow> ConfidenceSummary \<Rightarrow> ConfidenceSummary" where
  "addConfidence value summary =
     (if value = ConfidenceHigh then summary\<lparr>co_High := co_High summary + 1\<rparr>
      else if value = ConfidenceMedium then summary\<lparr>co_Medium := co_Medium summary + 1\<rparr>
      else if value = ConfidenceLow then summary\<lparr>co_Low := co_Low summary + 1\<rparr>
      else summary)"

fun confidence_loop :: "string \<Rightarrow> string \<Rightarrow> Finding list \<Rightarrow> string" where
  "confidence_loop severity level [] = level"
| "confidence_loop severity level (f # fs) =
     (if fd_Severity f \<noteq> severity then confidence_loop severity level fs
      else if fd_Confidence f = ConfidenceLow then ''low''
      else if fd_Confidence f = ConfidenceMedium then confidence_loop severity ''medium'' fs
      else confidence_loop severity level fs)"

definition confidenceForImpactReasons :: "Finding list \<Rightarrow> string \<Rightarrow> string" where
  "confidenceForImpactReasons findings severity = confidence_loop severity ''high'' findings"

definition severe_unknown :: "Unknown \<Rightarrow> bool" where
  "severe_unknown u \<longleftrightarrow> uk_Reason u = UnknownBudgetExhaustion \<or> uk_Reason u = UnknownParserFailure
     \<or> (uk_Scope u = ScopeRuntime \<and> elems (uk_AffectedOperations u) \<noteq> [])"

definition severe_limitation :: "Limitation \<Rightarrow> bool" where
  "severe_limitation l \<longleftrightarrow> contains (li_Code l) ''budget'' \<or> hasPrefix (li_Code l) ''max-''
     \<or> li_Code l = ''result-production-limit''"

fun limitation_level :: "string \<Rightarrow> Limitation list \<Rightarrow> string" where
  "limitation_level level [] = level"
| "limitation_level level (l # ls) =
     (if severe_limitation l then ''high''
      else if li_Scope l = ScopeRuntime then
        limitation_level (if level \<noteq> ''high'' then ''moderate'' else level) ls
      else limitation_level (if level = ''none'' then ''low'' else level) ls)"

fun unknown_level_loop :: "string \<Rightarrow> Unknown list \<Rightarrow> Limitation list \<Rightarrow> string" where
  "unknown_level_loop level [] ls = limitation_level level ls"
| "unknown_level_loop level (u # us) ls =
     (if severe_unknown u then ''high''
      else if uk_Scope u = ScopeRuntime then unknown_level_loop ''moderate'' us ls
      else unknown_level_loop (if level = ''none'' then ''low'' else level) us ls)"

definition unknownLevel :: "Report \<Rightarrow> string" where
  "unknownLevel r =
     (if elems (rp_Errors r) \<noteq> [] then ''high''
      else unknown_level_loop ''none'' (elems (rp_Unknowns r)) (elems (rp_Limitations r)))"

definition containsReason :: "ReviewReason list \<Rightarrow> string \<Rightarrow> bool" where
  "containsReason values reference =
     list_ex (\<lambda>value. reference \<noteq> [] \<and> rr_Reference value = reference) values"

definition same_reason :: "ReviewReason \<Rightarrow> ReviewReason \<Rightarrow> bool" where
  "same_reason reason existing \<longleftrightarrow>
     rr_Reference reason \<noteq> [] \<and> rr_Reference existing = rr_Reference reason
     \<or> rr_Reference reason = [] \<and> rr_Reference existing = [] \<and> rr_Title existing = rr_Title reason"

definition appendReviewReason :: "ReviewReason \<Rightarrow> ReviewReason list \<Rightarrow> ReviewReason list" where
  "appendReviewReason reason values =
     (if length values \<ge> maxReviewReasons then values
      else if list_ex (same_reason reason) values then values
      else values @ [reason])"

definition finding_reason :: "Finding \<Rightarrow> ReviewReason" where
  "finding_reason f = \<lparr>rr_Reference = fd_Reference f, rr_Title = fd_Title f, rr_Scope = fd_Scope f\<rparr>"

definition unknown_reason :: "Unknown \<Rightarrow> ReviewReason" where
  "unknown_reason u = \<lparr>rr_Reference = uk_Reference u, rr_Title = uk_Title u, rr_Scope = uk_Scope u\<rparr>"

definition limitation_reason :: "Limitation \<Rightarrow> ReviewReason" where
  "limitation_reason l =
     \<lparr>rr_Reference = [], rr_Title = ''Analysis limitation: '' @ li_Code l, rr_Scope = li_Scope l\<rparr>"

definition error_reason :: "ScanError \<Rightarrow> ReviewReason" where
  "error_reason e = \<lparr>rr_Reference = [], rr_Title = ''Scan error: '' @ se_Code e, rr_Scope = []\<rparr>"

text \<open>The loop over the findings keeps the highest rank so far, its severity and its reasons.\<close>

fun impact_step :: "Finding \<Rightarrow> int \<times> string \<times> ReviewReason list \<Rightarrow> int \<times> string \<times> ReviewReason list" where
  "impact_step f (impactRank, level, reasons) =
     (let rank = severityRank (fd_Severity f);
          (impactRank', level', reasons') =
            (if rank > impactRank then (rank, fd_Severity f, []) else (impactRank, level, reasons))
      in if rank = impactRank' \<and> length reasons' < maxReviewReasons
         then (impactRank', level', reasons' @ [finding_reason f])
         else (impactRank', level', reasons'))"

definition impact_of :: "Finding list \<Rightarrow> int \<times> string \<times> ReviewReason list" where
  "impact_of findings = fold impact_step findings (-1, SeverityInformational, [])"

definition unknown_reasons :: "Report \<Rightarrow> ReviewReason list" where
  "unknown_reasons r = fold appendReviewReason
     (map error_reason (elems (rp_Errors r))
      @ map unknown_reason (filter severe_unknown (elems (rp_Unknowns r)))
      @ map unknown_reason (elems (rp_Unknowns r))
      @ map limitation_reason (filter (\<lambda>l. li_Scope l = ScopeRuntime) (elems (rp_Limitations r)))
      @ map limitation_reason (elems (rp_Limitations r))) []"

fun add_main_reasons :: "ReviewReason list \<Rightarrow> ReviewReason list \<Rightarrow> ReviewReason list" where
  "add_main_reasons main [] = main"
| "add_main_reasons main (reason # reasons) =
     (if length main \<ge> maxReviewReasons then main
      else if containsReason main (rr_Reference reason) then add_main_reasons main reasons
      else add_main_reasons (main @ [reason]) reasons)"

definition finding_counts :: "Finding \<Rightarrow> ClaimCounts \<Rightarrow> ClaimCounts" where
  "finding_counts f c =
     (if fd_Claim f = ClaimFact then c\<lparr>cc_Facts := cc_Facts c + 1\<rparr>
      else if fd_Claim f = ClaimInference then c\<lparr>cc_Inferences := cc_Inferences c + 1\<rparr>
      else c)"

definition deriveReviewSummary :: "Report \<Rightarrow> CoverageSummary \<Rightarrow> ReviewSummary" where
  "deriveReviewSummary r coverage =
     (let ops = elems (rp_Operations r); ress = elems (rp_Resources r);
          fnds = elems (rp_Findings r); unks = elems (rp_Unknowns r);
          conf = fold addConfidence (map op_Confidence ops @ map rc_Confidence ress
                   @ map fd_Confidence fnds @ map uk_Confidence unks)
                 \<lparr>co_Level = ''not-applicable'', co_High = 0, co_Medium = 0, co_Low = 0, co_Reasons = Some []\<rparr>;
          counts = fold finding_counts fnds
                 \<lparr>cc_Facts = int (length ops) + int (length ress), cc_Inferences = 0,
                  cc_UnknownBehaviors = 0\<rparr>;
          (_, level, reasons) = impact_of fnds;
          unknowns = unknown_reasons r
      in \<lparr>rs_SecurityImpact = \<lparr>im_Level = level, im_Reasons = Some reasons\<rparr>,
          rs_EvidenceConfidence =
            (if reasons \<noteq> [] then
               conf\<lparr>co_Level := confidenceForImpactReasons fnds level, co_Reasons := append_nil reasons\<rparr>
             else conf),
          rs_AnalysisCoverage = coverage,
          rs_UnknownBehavior = \<lparr>us_Level = unknownLevel r, us_Unknowns = int (length unks),
            us_Limitations = int (length (elems (rp_Limitations r))),
            us_Errors = int (length (elems (rp_Errors r))), us_Reasons = Some unknowns\<rparr>,
          rs_Counts = counts\<lparr>cc_UnknownBehaviors := int (length unks)\<rparr>,
          rs_MainReasons = Some (add_main_reasons reasons unknowns)\<rparr>)"

section \<open>Building and validating\<close>

definition BuildReviewSummary :: "CoverageSummary \<Rightarrow> Report \<Rightarrow> Report result" where
  "BuildReviewSummary coverage r =
     andthen (first_error [
       validateCoverageSummary coverage,
       check (coverage \<noteq> coverageFromInventory (elems (rp_Inventory r)))
         ''analysis coverage does not match inventory dispositions'' []])
     (Inr (r\<lparr>rp_Review := Some (deriveReviewSummary r coverage)\<rparr>))"

definition validateReviewSummary :: "Report \<Rightarrow> error" where
  "validateReviewSummary r =
     (case rp_Review r of
        None \<Rightarrow> Some (Errorf ''review summary is required'' [])
      | Some review \<Rightarrow> first_error [
          validateCoverageSummary (rs_AnalysisCoverage review),
          check (rs_AnalysisCoverage review \<noteq> coverageFromInventory (elems (rp_Inventory r)))
            ''analysis coverage does not match inventory dispositions'' [],
          check (review \<noteq> deriveReviewSummary r (rs_AnalysisCoverage review))
            ''review summary does not match retained report evidence'' []])"

section \<open>Coverage: what the validator accepts\<close>

definition counts_bounded :: "int \<Rightarrow> int \<Rightarrow> int \<Rightarrow> int \<Rightarrow> bool" where
  "counts_bounded a p u e \<longleftrightarrow>
     0 \<le> a \<and> 0 \<le> p \<and> 0 \<le> u \<and> 0 \<le> e \<and> a + p + u + e \<le> int MaxInventoryEntries"

lemma add64_small:
  "0 \<le> a \<Longrightarrow> a \<le> 30000 \<Longrightarrow> 0 \<le> b \<Longrightarrow> b \<le> 30000 \<Longrightarrow> add64 a b = a + b"
  by (rule add64_exact) (simp add: int64_range_def)

lemma percentage_small:
  assumes "0 \<le> a" "a \<le> t" "0 < t" "t \<le> 30000"
  shows "quot64 (mul64 a 100) t = a * 100 div t"
proof -
  have m: "mul64 a 100 = a * 100"
    using assms by (simp add: mul64_def int64_range_def)
  have "a * 100 div t \<le> a * 100" using assms zdiv_mono2[of "a * 100" 1 t] by simp
  moreover have "0 \<le> a * 100 div t" using assms by (simp add: pos_imp_zdiv_nonneg_iff)
  ultimately have "int64_range (a * 100 div t)" using assms by (simp add: int64_range_def)
  moreover have "sgn (a * 100) * sgn t * (\<bar>a * 100\<bar> div \<bar>t\<bar>) = a * 100 div t"
    using assms by (cases "a = 0") (simp_all add: sgn_if)
  ultimately show ?thesis by (simp add: quot64_def m)
qed

lemma NewCoverageSummary_bounded:
  assumes "counts_bounded a p u e"
  shows "NewCoverageSummary a p u [e] =
    \<lparr>cv_Level = (if a + p + u = 0 then ''not-applicable''
                 else coverage_level a (a + p + u) (a * 100 div (a + p + u))),
     cv_Denominator = CoverageDenominator, cv_AnalyzedUnits = a, cv_PartialUnits = p,
     cv_UnanalyzedUnits = u, cv_ExcludedUnits = e, cv_TotalUnits = a + p + u,
     cv_RetainedUnits = a + p + u + e,
     cv_Percentage = (if a + p + u = 0 then None else Some (a * 100 div (a + p + u)))\<rparr>"
proof -
  have b: "0 \<le> a" "0 \<le> p" "0 \<le> u" "0 \<le> e" "a + p + u + e \<le> 10000"
    using assms by (simp_all add: counts_bounded_def limits)
  have "add64 (add64 a p) u = a + p + u" "add64 (a + p + u) e = a + p + u + e"
    using b by (simp_all add: add64_small)
  then show ?thesis
    using b by (simp add: NewCoverageSummary_def Let_def percentage_small add64_small)
qed

text \<open>
  A coverage summary is accepted exactly when it is the summary \<open>NewCoverageSummary\<close>
  builds from some non-negative unit counts whose sum is within the inventory limit. The
  64-bit sums in the check cannot be made to wrap: the equation holds of the integers, and the
  level and the percentage are those of the counts.
\<close>

theorem validateCoverageSummary_iff:
  "validateCoverageSummary v = None \<longleftrightarrow>
     (\<exists>a p u e. counts_bounded a p u e \<and> v = NewCoverageSummary a p u [e])"
proof
  assume ok: "validateCoverageSummary v = None"
  let ?a = "cv_AnalyzedUnits v" and ?p = "cv_PartialUnits v" and ?u = "cv_UnanalyzedUnits v"
    and ?e = "cv_ExcludedUnits v"
  have b: "0 \<le> ?a" "?a \<le> 10000" "0 \<le> ?p" "?p \<le> 10000" "0 \<le> ?u" "?u \<le> 10000" "0 \<le> ?e" "?e \<le> 10000"
      "0 \<le> cv_TotalUnits v" "cv_TotalUnits v \<le> 10000" "cv_RetainedUnits v \<le> 10000"
    and sums: "add64 (add64 ?a ?p) ?u = cv_TotalUnits v" "add64 (cv_TotalUnits v) ?e = cv_RetainedUnits v"
    and den: "cv_Denominator v = CoverageDenominator"
    using ok by (auto simp: validateCoverageSummary_def Let_def limits)
  have t: "?a + ?p + ?u = cv_TotalUnits v" "?a + ?p + ?u + ?e = cv_RetainedUnits v"
    using sums b by (simp_all add: add64_small)
  have cb: "counts_bounded ?a ?p ?u ?e" using b t by (simp add: counts_bounded_def limits)
  have "v = NewCoverageSummary ?a ?p ?u [?e]"
    using ok b t den
    by (auto simp: NewCoverageSummary_bounded[OF cb] validateCoverageSummary_def Let_def
        percentage_small intro!: CoverageSummary.equality split: if_splits)
  with cb show "\<exists>a p u e. counts_bounded a p u e \<and> v = NewCoverageSummary a p u [e]" by blast
next
  assume "\<exists>a p u e. counts_bounded a p u e \<and> v = NewCoverageSummary a p u [e]"
  then obtain a p u e where cb: "counts_bounded a p u e" and v: "v = NewCoverageSummary a p u [e]"
    by blast
  have b: "0 \<le> a" "0 \<le> p" "0 \<le> u" "0 \<le> e" "a + p + u + e \<le> 10000"
    using cb by (simp_all add: counts_bounded_def limits)
  then have s: "add64 (add64 a p) u = a + p + u" "add64 (a + p + u) e = a + p + u + e"
    by (simp_all add: add64_small)
  show "validateCoverageSummary v = None"
    using b unfolding v NewCoverageSummary_bounded[OF cb]
    by (simp add: validateCoverageSummary_def Let_def limits s percentage_small)
qed

section \<open>Coverage: what it counts\<close>

definition disposition_count :: "string \<Rightarrow> File list \<Rightarrow> int" where
  "disposition_count d files = int (length (filter (\<lambda>f. fl_Analysis f = d) files))"

lemma fold_count_disposition:
  "fold count_disposition files (a, p, u, e) =
     (a + disposition_count AnalysisAnalyzed files, p + disposition_count AnalysisPartial files,
      u + disposition_count AnalysisUnanalyzed files, e + disposition_count AnalysisNotApplicable files)"
  by (induction files arbitrary: a p u e) (simp_all add: disposition_count_def)

definition valid_disposition :: "File \<Rightarrow> bool" where
  "valid_disposition f \<longleftrightarrow> fl_Analysis f \<in>
     {AnalysisNotApplicable, AnalysisAnalyzed, AnalysisPartial, AnalysisUnanalyzed}"

lemma disposition_count_sum:
  "list_all valid_disposition files \<Longrightarrow>
   disposition_count AnalysisAnalyzed files + disposition_count AnalysisPartial files
     + disposition_count AnalysisUnanalyzed files + disposition_count AnalysisNotApplicable files
   = int (length files)"
  by (induction files) (auto simp: disposition_count_def valid_disposition_def)

lemma disposition_count_le: "0 \<le> disposition_count d files \<and> disposition_count d files \<le> int (length files)"
  by (simp add: disposition_count_def)

lemma disposition_count_all:
  "disposition_count d files = int (length files) \<longleftrightarrow> (\<forall>f \<in> set files. fl_Analysis f = d)"
proof -
  have "disposition_count d files = int (length files) \<longleftrightarrow> filter (\<lambda>f. fl_Analysis f = d) files = files"
    unfolding disposition_count_def by (metis filter_id_conv length_filter_less linorder_neq_iff of_nat_eq_iff)
  then show ?thesis by (simp add: filter_id_conv)
qed

lemma coverageFromInventory_counts:
  "coverageFromInventory files = NewCoverageSummary
     (disposition_count AnalysisAnalyzed files) (disposition_count AnalysisPartial files)
     (disposition_count AnalysisUnanalyzed files) [disposition_count AnalysisNotApplicable files]"
  by (simp add: coverageFromInventory_def fold_count_disposition)

lemma disposition_counts_bounded:
  assumes "list_all valid_disposition files" and "length files \<le> MaxInventoryEntries"
  shows "counts_bounded (disposition_count AnalysisAnalyzed files) (disposition_count AnalysisPartial files)
    (disposition_count AnalysisUnanalyzed files) (disposition_count AnalysisNotApplicable files)"
  using disposition_count_sum[OF assms(1)] assms(2) disposition_count_le
  by (simp add: counts_bounded_def)

lemma coverage_complete_analyzed:
  assumes "list_all valid_disposition files" and "length files \<le> MaxInventoryEntries"
  shows "cv_Level (coverageFromInventory files) \<in> {''complete'', ''not-applicable''}
      \<and> cv_ExcludedUnits (coverageFromInventory files) = 0
    \<longleftrightarrow> (\<forall>f \<in> set files. fl_Analysis f = AnalysisAnalyzed)"
proof -
  let ?a = "disposition_count AnalysisAnalyzed files" and ?p = "disposition_count AnalysisPartial files"
    and ?u = "disposition_count AnalysisUnanalyzed files"
    and ?e = "disposition_count AnalysisNotApplicable files"
  note cb = disposition_counts_bounded[OF assms]
  have pos: "0 \<le> ?a" "0 \<le> ?p" "0 \<le> ?u" "0 \<le> ?e" using disposition_count_le by auto
  have "cv_Level (coverageFromInventory files) \<in> {''complete'', ''not-applicable''}
      \<and> cv_ExcludedUnits (coverageFromInventory files) = 0 \<longleftrightarrow> ?p = 0 \<and> ?u = 0 \<and> ?e = 0"
    using pos by (auto simp: coverageFromInventory_counts NewCoverageSummary_bounded[OF cb] coverage_level_def)
  also have "\<dots> \<longleftrightarrow> ?a = int (length files)"
    using disposition_count_sum[OF assms(1)] pos by linarith
  also have "\<dots> \<longleftrightarrow> (\<forall>f \<in> set files. fl_Analysis f = AnalysisAnalyzed)"
    by (rule disposition_count_all)
  finally show ?thesis .
qed

text \<open>
  Coverage of an inventory with valid dispositions is complete, or has nothing to cover,
  with no unit excluded, exactly when every retained file was analyzed. A file that is partial,
  unanalyzed or excluded cannot hide behind a rounded percentage.
\<close>

theorem coverage_complete_iff:
  assumes "list_all valid_disposition files" and "length files \<le> MaxInventoryEntries"
  shows "cv_Level (coverageFromInventory files) \<in> {''complete'', ''not-applicable''}
      \<and> cv_ExcludedUnits (coverageFromInventory files) = 0
    \<longleftrightarrow> (\<forall>f \<in> set files. fl_Analysis f = AnalysisAnalyzed)"
  using assms by (rule coverage_complete_analyzed)

theorem coverage_complete_iff_witness:
  "\<not> (cv_Level (coverageFromInventory [example_file ''a.sh'' AnalysisAnalyzed, example_file ''b.py'' AnalysisPartial])
       \<in> {''complete'', ''not-applicable''}
     \<and> cv_ExcludedUnits (coverageFromInventory
         [example_file ''a.sh'' AnalysisAnalyzed, example_file ''b.py'' AnalysisPartial]) = 0)"
  using coverage_complete_iff[of "[example_file ''a.sh'' AnalysisAnalyzed, example_file ''b.py'' AnalysisPartial]"]
  by (simp add: example_file_def valid_disposition_def limits)

section \<open>The summary is a function of the evidence\<close>

lemma deriveReviewSummary_review [simp]:
  "deriveReviewSummary (r\<lparr>rp_Review := x\<rparr>) coverage = deriveReviewSummary r coverage"
  by (cases r) (simp only: deriveReviewSummary_def unknownLevel_def unknown_reasons_def Report.simps)

lemma deriveReviewSummary_coverage [simp]: "rs_AnalysisCoverage (deriveReviewSummary r c) = c"
  by (simp add: deriveReviewSummary_def Let_def split: prod.splits)

text \<open>
  The validator accepts a report's review summary exactly when rebuilding the summary from
  the report's own inventory and nodes changes nothing: a producer has no discretion over any
  field of it.
\<close>

theorem validateReviewSummary_iff_rebuild:
  "validateReviewSummary r = None \<longleftrightarrow>
     BuildReviewSummary (coverageFromInventory (elems (rp_Inventory r))) r = Inr r"
proof
  assume ok: "validateReviewSummary r = None"
  then obtain review where r: "rp_Review r = Some review"
    by (cases "rp_Review r") (simp_all add: validateReviewSummary_def)
  have c: "rs_AnalysisCoverage review = coverageFromInventory (elems (rp_Inventory r))"
    and v: "validateCoverageSummary (rs_AnalysisCoverage review) = None"
    and d: "review = deriveReviewSummary r (rs_AnalysisCoverage review)"
    using ok[unfolded validateReviewSummary_def r option.case, simplified] by blast+
  have "r\<lparr>rp_Review := Some (deriveReviewSummary r (rs_AnalysisCoverage review))\<rparr> = r"
    unfolding d[symmetric] r[symmetric] by simp
  with c v show "BuildReviewSummary (coverageFromInventory (elems (rp_Inventory r))) r = Inr r"
    by (simp add: BuildReviewSummary_def)
next
  assume b: "BuildReviewSummary (coverageFromInventory (elems (rp_Inventory r))) r = Inr r"
  let ?c = "coverageFromInventory (elems (rp_Inventory r))"
  from b have v: "validateCoverageSummary ?c = None"
    and eq: "r\<lparr>rp_Review := Some (deriveReviewSummary r ?c)\<rparr> = r"
    by (auto simp: BuildReviewSummary_def)
  from eq have "rp_Review r = Some (deriveReviewSummary r ?c)"
    by (metis Report.select_convs(6) Report.surjective Report.update_convs(6))
  with v show "validateReviewSummary r = None" by (simp add: validateReviewSummary_def)
qed

lemma BuildReviewSummary_valid:
  "BuildReviewSummary coverage r = Inr r' \<Longrightarrow> validateReviewSummary r' = None"
  by (auto simp: BuildReviewSummary_def validateReviewSummary_def)

section \<open>Security impact\<close>

lemma severityRank_ge: "-1 \<le> severityRank s"
  by (simp add: severityRank_def)

lemma severityRank_inj: "severityRank s = severityRank t \<Longrightarrow> severityRank s \<noteq> -1 \<Longrightarrow> s = t"
  by (simp add: severityRank_def split: if_splits)

definition impact_inv :: "Finding list \<Rightarrow> int \<times> string \<times> ReviewReason list \<Rightarrow> bool" where
  "impact_inv fs = (\<lambda>(R, L, rs).
     -1 \<le> R \<and> (\<forall>f \<in> set fs. severityRank (fd_Severity f) \<le> R)
     \<and> (R = -1 \<longrightarrow> L = SeverityInformational)
     \<and> (R \<noteq> -1 \<longrightarrow> severityRank L = R \<and> (\<exists>f \<in> set fs. fd_Severity f = L))
     \<and> rs = take maxReviewReasons (map finding_reason (filter (\<lambda>f. severityRank (fd_Severity f) = R) fs)))"

lemma impact_inv_step:
  assumes "impact_inv fs (R, L, rs)"
  shows "impact_inv (fs @ [f]) (impact_step f (R, L, rs))"
proof (cases "severityRank (fd_Severity f) > R")
  case True
  with assms have none: "filter (\<lambda>g. severityRank (fd_Severity g) = severityRank (fd_Severity f)) fs = []"
    by (force simp: impact_inv_def filter_empty_conv)
  from True assms none severityRank_ge[of "fd_Severity f"] show ?thesis
    by (auto simp: impact_inv_def Let_def maxReviewReasons_def)
next
  case False
  with assms show ?thesis
    by (auto simp: impact_inv_def Let_def)
qed

lemma impact_inv_fold: "impact_inv fs (impact_of fs)"
proof (induction fs rule: rev_induct)
  case Nil
  show ?case by (simp add: impact_of_def impact_inv_def)
next
  case (snoc f fs)
  obtain R L rs where s: "impact_of fs = (R, L, rs)" by (cases "impact_of fs")
  with snoc impact_inv_step[of fs R L rs f] show ?case by (simp add: impact_of_def)
qed

lemma impact_reasons_filter:
  assumes "impact_inv fs (R, L, rs)" and "list_all (\<lambda>f. 0 \<le> severityRank (fd_Severity f)) fs"
  shows "rs = take 8 (map finding_reason (filter (\<lambda>f. fd_Severity f = L) fs))"
    and "fs \<noteq> [] \<Longrightarrow> R \<noteq> -1"
proof -
  show R: "R \<noteq> -1" if "fs \<noteq> []"
    using that assms by (force simp: impact_inv_def list_all_iff neq_Nil_conv)
  have "severityRank (fd_Severity f) = R \<longleftrightarrow> fd_Severity f = L" if f: "f \<in> set fs" for f
  proof -
    from f have ne: "fs \<noteq> []" by auto
    then have "severityRank L = R" using assms(1) R by (simp add: impact_inv_def)
    then show ?thesis using severityRank_inj[of "fd_Severity f" L] R[OF ne] by auto
  qed
  then have "filter (\<lambda>f. severityRank (fd_Severity f) = R) fs = filter (\<lambda>f. fd_Severity f = L) fs"
    by (intro filter_cong) auto
  then show "rs = take 8 (map finding_reason (filter (\<lambda>f. fd_Severity f = L) fs))"
    using assms(1) by (simp add: impact_inv_def maxReviewReasons_def)
qed

lemma derived_impact:
  "impact_of (elems (rp_Findings r)) = (R, L, rs) \<Longrightarrow>
   rs_SecurityImpact (deriveReviewSummary r c) = \<lparr>im_Level = L, im_Reasons = Some rs\<rparr>"
  by (simp only: deriveReviewSummary_def Let_def prod.case ReviewSummary.simps)

text \<open>
  C39. The security impact of a summary is the severity of the gravest finding (informational
  when there is none), no finding outranks it, and the reasons given for it are the first eight
  findings of that severity in report order.
\<close>

theorem security_impact_is_gravest:
  assumes "fs = elems (rp_Findings r)" and "list_all (\<lambda>f. 0 \<le> severityRank (fd_Severity f)) fs"
    and "impact = rs_SecurityImpact (deriveReviewSummary r c)"
  shows "im_Level impact \<in> (if fs = [] then {SeverityInformational} else fd_Severity ` set fs)
    \<and> list_all (\<lambda>f. severityRank (fd_Severity f) \<le> severityRank (im_Level impact)) fs
    \<and> im_Reasons impact =
        Some (take 8 (map finding_reason (filter (\<lambda>f. fd_Severity f = im_Level impact) fs)))"
proof -
  obtain R L rs where i: "impact_of fs = (R, L, rs)" by (cases "impact_of fs")
  then have inv: "impact_inv fs (R, L, rs)" using impact_inv_fold[of fs] by simp
  note reasons = impact_reasons_filter[OF inv assms(2)]
  have "impact = \<lparr>im_Level = L, im_Reasons = Some rs\<rparr>"
    using derived_impact[of r R L rs c] i assms(1,3) by simp
  then show ?thesis
    using inv reasons by (cases "fs = []") (auto simp: impact_inv_def list_all_iff)
qed

theorem security_impact_is_gravest_witness:
  "im_Level (rs_SecurityImpact (deriveReviewSummary (sample_report [] [] []
      [sample_finding ''f1'' SeverityLow ConfidenceHigh, sample_finding ''f2'' SeverityHigh ConfidenceLow] [])
      (coverageFromInventory []))) \<in> {SeverityLow, SeverityHigh}"
  using security_impact_is_gravest[OF refl _ refl, of "sample_report [] [] []
      [sample_finding ''f1'' SeverityLow ConfidenceHigh, sample_finding ''f2'' SeverityHigh ConfidenceLow] []"
      "coverageFromInventory []"]
  by (simp add: sample_report_def sample_finding_def severityRank_def)

section \<open>Evidence confidence\<close>

lemma confidence_loop_spec:
  "level \<noteq> ''low'' \<Longrightarrow> confidence_loop severity level fs =
     (let cs = map fd_Confidence (filter (\<lambda>f. fd_Severity f = severity) fs)
      in if ConfidenceLow \<in> set cs then ''low'' else if ConfidenceMedium \<in> set cs then ''medium'' else level)"
  by (induction severity level fs rule: confidence_loop.induct) (auto simp: Let_def)

definition confidence_count :: "string \<Rightarrow> string list \<Rightarrow> int" where
  "confidence_count c cs = int (count_list cs c)"

lemma fold_addConfidence:
  "fold addConfidence cs s = s\<lparr>co_High := co_High s + confidence_count ConfidenceHigh cs,
     co_Medium := co_Medium s + confidence_count ConfidenceMedium cs,
     co_Low := co_Low s + confidence_count ConfidenceLow cs\<rparr>"
proof (induction cs arbitrary: s)
  case Nil
  then show ?case by (simp add: confidence_count_def)
next
  case (Cons c cs)
  show ?case unfolding fold.simps comp_apply Cons.IH by (simp add: addConfidence_def confidence_count_def)
qed

definition node_confidences :: "Report \<Rightarrow> string list" where
  "node_confidences r = map op_Confidence (elems (rp_Operations r)) @ map rc_Confidence (elems (rp_Resources r))
     @ map fd_Confidence (elems (rp_Findings r)) @ map uk_Confidence (elems (rp_Unknowns r))"

lemma derived_confidence:
  "impact_of (elems (rp_Findings r)) = (R, L, rs) \<Longrightarrow>
   rs_EvidenceConfidence (deriveReviewSummary r c) =
     \<lparr>co_Level = (if rs \<noteq> [] then confidenceForImpactReasons (elems (rp_Findings r)) L else ''not-applicable''),
      co_High = confidence_count ConfidenceHigh (node_confidences r),
      co_Medium = confidence_count ConfidenceMedium (node_confidences r),
      co_Low = confidence_count ConfidenceLow (node_confidences r), co_Reasons = Some rs\<rparr>"
  by (simp add: deriveReviewSummary_def Let_def fold_addConfidence append_nil_def
      flip: node_confidences_def del: fold_append)

text \<open>
  The evidence confidence counts every node once at its own confidence, and its level is
  the weakest confidence among the findings that carry the impact: one low-confidence finding
  of the gravest severity makes it low.
\<close>

theorem evidence_confidence_is_weakest:
  assumes "conf = rs_EvidenceConfidence (deriveReviewSummary r c)"
    and "cs = map fd_Confidence (filter (\<lambda>f. fd_Severity f = im_Level (rs_SecurityImpact (deriveReviewSummary r c)))
           (elems (rp_Findings r)))"
    and "list_all (\<lambda>f. 0 \<le> severityRank (fd_Severity f)) (elems (rp_Findings r))"
    and "list_all (\<lambda>x. x \<in> {ConfidenceHigh, ConfidenceMedium, ConfidenceLow}) (node_confidences r)"
  shows "co_High conf + co_Medium conf + co_Low conf = int (length (node_confidences r))
    \<and> co_Level conf = (if cs = [] then ''not-applicable''
         else if ConfidenceLow \<in> set cs then ''low''
         else if ConfidenceMedium \<in> set cs then ''medium'' else ''high'')"
proof -
  let ?fs = "elems (rp_Findings r)"
  obtain R L rs where i: "impact_of ?fs = (R, L, rs)" by (cases "impact_of ?fs")
  have inv: "impact_inv ?fs (R, L, rs)" using impact_inv_fold[of ?fs] i by simp
  have cs: "cs = map fd_Confidence (filter (\<lambda>f. fd_Severity f = L) ?fs)"
    using assms(2) by (simp add: derived_impact[OF i])
  have "rs = [] \<longleftrightarrow> cs = []"
    unfolding cs impact_reasons_filter(1)[OF inv assms(3)] by simp
  moreover have "confidence_count ConfidenceHigh xs + confidence_count ConfidenceMedium xs
      + confidence_count ConfidenceLow xs = int (length xs)"
    if "list_all (\<lambda>x. x \<in> {ConfidenceHigh, ConfidenceMedium, ConfidenceLow}) xs" for xs
    using that by (induction xs) (auto simp: confidence_count_def)
  ultimately show ?thesis
    using assms(4) unfolding assms(1) derived_confidence[OF i] confidenceForImpactReasons_def
    by (simp add: confidence_loop_spec Let_def flip: cs)
qed

theorem evidence_confidence_is_weakest_witness:
  "co_High (rs_EvidenceConfidence (deriveReviewSummary (sample_report [] [] []
      [sample_finding ''f1'' SeverityLow ConfidenceHigh] []) (coverageFromInventory [])))
   + co_Medium (rs_EvidenceConfidence (deriveReviewSummary (sample_report [] [] []
      [sample_finding ''f1'' SeverityLow ConfidenceHigh] []) (coverageFromInventory [])))
   + co_Low (rs_EvidenceConfidence (deriveReviewSummary (sample_report [] [] []
      [sample_finding ''f1'' SeverityLow ConfidenceHigh] []) (coverageFromInventory []))) = 1"
  using evidence_confidence_is_weakest[OF refl refl, of "sample_report [] [] []
      [sample_finding ''f1'' SeverityLow ConfidenceHigh] []" "coverageFromInventory []"]
  by (simp add: sample_report_def sample_finding_def severityRank_def node_confidences_def)

section \<open>Unknown behaviour\<close>

lemma limitation_level_spec:
  "level \<noteq> ''high'' \<Longrightarrow> limitation_level level ls =
     (if list_ex severe_limitation ls then ''high''
      else if level = ''moderate'' \<or> list_ex (\<lambda>l. li_Scope l = ScopeRuntime) ls
        then (if ls = [] then level else ''moderate'')
      else if ls \<noteq> [] \<and> level = ''none'' then ''low'' else level)"
  by (induction level ls rule: limitation_level.induct) (auto split: if_splits)

lemma unknown_level_loop_spec:
  "level \<in> {''none'', ''low'', ''moderate''} \<Longrightarrow> unknown_level_loop level us ls =
     (if list_ex severe_unknown us \<or> list_ex severe_limitation ls then ''high''
      else if level = ''moderate'' \<or> list_ex (\<lambda>u. uk_Scope u = ScopeRuntime) us
        \<or> list_ex (\<lambda>l. li_Scope l = ScopeRuntime) ls then ''moderate''
      else if level = ''low'' \<or> us \<noteq> [] \<or> ls \<noteq> [] then ''low'' else ''none'')"
  by (induction level us ls rule: unknown_level_loop.induct) (auto simp: limitation_level_spec)

text \<open>
  The unknown-behaviour level, which the code computes in loops with early returns, is
  high exactly when there is a scan error, a budget exhaustion, a parser failure, an unknown
  that affects runtime operations or a budget limitation; otherwise moderate exactly when
  something at runtime is unknown or limited; otherwise low exactly when anything at all is;
  and \<open>none\<close> only when the report has no error, no unknown and no limitation.
\<close>

theorem unknownLevel_spec:
  "unknownLevel r =
     (if 0 < length (elems (rp_Errors r)) \<or> list_ex severe_unknown (elems (rp_Unknowns r))
         \<or> list_ex severe_limitation (elems (rp_Limitations r)) then ''high''
      else if list_ex (\<lambda>u. uk_Scope u = ScopeRuntime) (elems (rp_Unknowns r))
         \<or> list_ex (\<lambda>l. li_Scope l = ScopeRuntime) (elems (rp_Limitations r)) then ''moderate''
      else if 0 < length (elems (rp_Unknowns r)) + length (elems (rp_Limitations r)) then ''low''
      else ''none'')"
  by (simp add: unknownLevel_def unknown_level_loop_spec)

section \<open>Review reasons\<close>

definition reasons_distinct :: "ReviewReason list \<Rightarrow> bool" where
  "reasons_distinct = sorted_wrt (\<lambda>earlier later. \<not> same_reason later earlier)"

lemma appendReviewReason_inv:
  "length values \<le> maxReviewReasons \<Longrightarrow> reasons_distinct values \<Longrightarrow>
   length (appendReviewReason x values) \<le> maxReviewReasons \<and> reasons_distinct (appendReviewReason x values)"
  by (auto simp: appendReviewReason_def reasons_distinct_def sorted_wrt_append list_ex_iff)

lemma fold_appendReviewReason_inv:
  "length values \<le> maxReviewReasons \<Longrightarrow> reasons_distinct values \<Longrightarrow>
   length (fold appendReviewReason xs values) \<le> maxReviewReasons
     \<and> reasons_distinct (fold appendReviewReason xs values)"
  by (induction xs arbitrary: "values") (simp_all add: appendReviewReason_inv)

lemma appendReviewReason_prefix: "prefix values (appendReviewReason x values)"
  by (simp add: appendReviewReason_def)

lemma fold_appendReviewReason_prefix: "prefix values (fold appendReviewReason xs values)"
proof (induction xs arbitrary: "values")
  case (Cons x xs)
  then show ?case using appendReviewReason_prefix prefix_order.trans by fastforce
qed simp

lemma fold_appendReviewReason_head:
  "\<exists>ys. fold appendReviewReason (x # xs) [] = x # ys"
  using fold_appendReviewReason_prefix[of "[x]" xs]
  by (auto simp: appendReviewReason_def maxReviewReasons_def prefix_def)

lemma add_main_reasons_inv:
  "length main \<le> maxReviewReasons \<Longrightarrow>
   prefix main (add_main_reasons main xs) \<and> length (add_main_reasons main xs) \<le> maxReviewReasons
   \<and> set (add_main_reasons main xs) \<subseteq> set main \<union> set xs"
  by (induction main xs rule: add_main_reasons.induct) (auto simp: prefix_def)

lemma derived_reasons:
  "impact_of (elems (rp_Findings r)) = (R, L, rs) \<Longrightarrow>
   rs_UnknownBehavior (deriveReviewSummary r c) =
     \<lparr>us_Level = unknownLevel r, us_Unknowns = int (length (elems (rp_Unknowns r))),
      us_Limitations = int (length (elems (rp_Limitations r))),
      us_Errors = int (length (elems (rp_Errors r))), us_Reasons = Some (unknown_reasons r)\<rparr>
   \<and> rs_MainReasons (deriveReviewSummary r c) = Some (add_main_reasons rs (unknown_reasons r))"
  by (simp only: deriveReviewSummary_def Let_def prod.case ReviewSummary.simps simp_thms)

lemma impact_reasons_length: "impact_of fs = (R, L, rs) \<Longrightarrow> length rs \<le> maxReviewReasons"
  using impact_inv_fold[of fs] by (simp add: impact_inv_def)

lemma fold_appendReviewReason_Nil: "fold appendReviewReason xs [] = [] \<longleftrightarrow> xs = []"
proof (cases xs)
  case (Cons y ys)
  with fold_appendReviewReason_head[of y ys] show ?thesis by (metis list.distinct(1))
qed simp

lemma unknown_reasons_Nil:
  "unknown_reasons r = [] \<longleftrightarrow>
     elems (rp_Errors r) = [] \<and> elems (rp_Unknowns r) = [] \<and> elems (rp_Limitations r) = []"
  unfolding unknown_reasons_def fold_appendReviewReason_Nil by auto

text \<open>
  Every reason list of a summary has at most eight entries; the reasons for unknown
  behaviour repeat no reference (and no title where there is no reference), are empty exactly
  when the level is \<open>none\<close>, and the main reasons start with all the impact reasons and add
  only unknown-behaviour reasons.
\<close>

theorem review_reasons_bounded:
  assumes "s = deriveReviewSummary r c"
    and "impact = elems (im_Reasons (rs_SecurityImpact s))"
    and "unknowns = elems (us_Reasons (rs_UnknownBehavior s))" and "main = elems (rs_MainReasons s)"
  shows "length impact \<le> 8 \<and> length unknowns \<le> 8 \<and> length main \<le> 8
    \<and> reasons_distinct unknowns \<and> (unknowns = [] \<longleftrightarrow> us_Level (rs_UnknownBehavior s) = ''none'')
    \<and> prefix impact main \<and> set main \<subseteq> set impact \<union> set unknowns"
proof -
  obtain R L rs where i: "impact_of (elems (rp_Findings r)) = (R, L, rs)" by (cases "impact_of (elems (rp_Findings r))")
  have eqs: "impact = rs" "unknowns = unknown_reasons r" "main = add_main_reasons rs (unknown_reasons r)"
    "us_Level (rs_UnknownBehavior s) = unknownLevel r"
    unfolding assms using derived_impact[OF i] derived_reasons[OF i] by simp_all
  have un: "length unknowns \<le> 8 \<and> reasons_distinct unknowns"
    unfolding eqs unknown_reasons_def
    using fold_appendReviewReason_inv[of "[]"] by (simp add: limits reasons_distinct_def del: fold_append)
  have level: "unknownLevel r = ''none'' \<longleftrightarrow> unknown_reasons r = []"
    by (auto simp: unknown_reasons_Nil unknownLevel_def unknown_level_loop_spec)
  show ?thesis
    using un level impact_reasons_length[OF i] add_main_reasons_inv[of rs "unknown_reasons r"]
    unfolding eqs by (simp add: limits)
qed

theorem review_reasons_bounded_witness:
  "length (elems (rs_MainReasons (deriveReviewSummary (sample_report [] [] []
      [sample_finding ''f1'' SeverityLow ConfidenceHigh] []) (coverageFromInventory [])))) \<le> 8"
  using review_reasons_bounded[OF refl refl refl refl, of "sample_report [] [] []
      [sample_finding ''f1'' SeverityLow ConfidenceHigh] []" "coverageFromInventory []"] by blast

end
