(* ===== verification/EvidenceGraph.thy ===== *)
theory EvidenceGraph
  imports Review
begin

text \<open>
  The evidence graph (internal/report/evidence_graph.go, with the lookups of validate.go that it
  shares): public references and relationship identities derived from a digest, the binding of
  evidence to its input, the construction of the base graph, and the addition of comparisons.

  A Go \<open>map\<close> that is only looked up is a HOL map; reading a missing key gives the zero value
  (\<open>at_key\<close>). The construction returns the report it built or the error; a report left half
  annotated by a failed construction is not modelled, since the callers discard it.
\<close>

section \<open>References and relationship identities\<close>

definition at_key :: "(string \<rightharpoonup> string) \<Rightarrow> string \<Rightarrow> string" where
  "at_key m k = (case m k of None \<Rightarrow> [] | Some v \<Rightarrow> v)"

lemma at_key_simps [simp]:
  "m k = Some v \<Longrightarrow> at_key m k = v"
  "m k = None \<Longrightarrow> at_key m k = []"
  by (simp_all add: at_key_def)

abbreviation NUL :: string where "NUL \<equiv> [CHR 0x00]"

definition upper_hex_byte :: "char \<Rightarrow> char" where
  "upper_hex_byte c = (if in_rng 97 102 c then char_of (byte c - 32) else c)"

definition upperHex :: "string \<Rightarrow> string" where
  "upperHex value = map upper_hex_byte (hexEncode value)"

definition publicReferenceWithDigest :: "string \<Rightarrow> string \<Rightarrow> digestFunction \<Rightarrow> string" where
  "publicReferenceWithDigest kind internalID digest =
     (let sum = digest (kind @ NUL @ internalID) in ''PP-'' @ upperHex (take 16 sum))"

definition relationshipIDWithDigest ::
  "string \<Rightarrow> string \<Rightarrow> string \<Rightarrow> string \<Rightarrow> string \<Rightarrow> digestFunction \<Rightarrow> string" where
  "relationshipIDWithDigest kind fromKind from toKind to digest =
     (let sum = digest (kind @ NUL @ fromKind @ NUL @ from @ NUL @ toKind @ NUL @ to)
      in ''PE-'' @ upperHex (take 16 sum))"

section \<open>Binding evidence to its input\<close>

fun first_external :: "string \<Rightarrow> EvidenceInput list \<Rightarrow> string" where
  "first_external external [] = external"
| "first_external external (input # inputs) =
     first_external (if ei_Type input = EvidenceInputOmarchyAudit \<and> (external = [] \<or> ei_ID input < external)
       then ei_ID input else external) inputs"

definition bind_evidence :: "string \<Rightarrow> Provenance \<Rightarrow> Evidence \<Rightarrow> Evidence" where
  "bind_evidence external provenance value =
     (if ev_InputID value \<noteq> [] then value
      else if pv_EvidenceSource provenance = EvidenceSourceOmarchyAudit
        then value\<lparr>ev_InputID := external\<rparr>
      else value\<lparr>ev_InputID := TargetEvidenceInputID\<rparr>)"

definition bind_operation :: "string \<Rightarrow> Operation \<Rightarrow> Operation" where
  "bind_operation external item =
     item\<lparr>op_Evidence := bind_evidence external (op_Provenance item) (op_Evidence item)\<rparr>"

definition bind_resource :: "string \<Rightarrow> Resource \<Rightarrow> Resource" where
  "bind_resource external item =
     item\<lparr>rc_Evidence := bind_evidence external (rc_Provenance item) (rc_Evidence item)\<rparr>"

definition bind_finding :: "string \<Rightarrow> Finding \<Rightarrow> Finding" where
  "bind_finding external item =
     item\<lparr>fd_Evidence := map_option (map (bind_evidence external (fd_Provenance item))) (fd_Evidence item)\<rparr>"

definition bind_unknown :: "string \<Rightarrow> Unknown \<Rightarrow> Unknown" where
  "bind_unknown external item =
     item\<lparr>uk_Evidence := map_option (map (bind_evidence external (uk_Provenance item))) (uk_Evidence item),
          uk_Origins := map_option (map (\<lambda>origin. origin\<lparr>vo_Evidence :=
            bind_evidence external (uk_Provenance item) (vo_Evidence origin)\<rparr>)) (uk_Origins item)\<rparr>"

definition bindEvidenceInputs :: "Report \<Rightarrow> Report" where
  "bindEvidenceInputs r =
     (let external = first_external [] (elems (rp_EvidenceInputs r))
      in r\<lparr>rp_Operations := map_option (map (bind_operation external)) (rp_Operations r),
           rp_Resources := map_option (map (bind_resource external)) (rp_Resources r),
           rp_Findings := map_option (map (bind_finding external)) (rp_Findings r),
           rp_Unknowns := map_option (map (bind_unknown external)) (rp_Unknowns r)\<rparr>)"

section \<open>Building the base graph\<close>

text \<open>\<open>assign\<close> with its map from public references to the identities they stand for.\<close>

definition assign_reference ::
  "digestFunction \<Rightarrow> string \<Rightarrow> string \<Rightarrow> (string \<rightharpoonup> string) \<Rightarrow> (string \<times> (string \<rightharpoonup> string)) result" where
  "assign_reference digest kind ident publicIdentities =
     (let reference = publicReferenceWithDigest kind ident digest;
          identity = kind @ NUL @ ident
      in case publicIdentities reference of
           Some previous \<Rightarrow>
             if previous \<noteq> identity
             then Inl (Errorf ''public reference collision between %q and %q'' [AStr previous, AStr identity])
             else Inr (reference, publicIdentities(reference \<mapsto> identity))
         | None \<Rightarrow> Inr (reference, publicIdentities(reference \<mapsto> identity)))"

definition assign_all ::
  "digestFunction \<Rightarrow> string \<Rightarrow> ('n \<Rightarrow> string) \<Rightarrow> (string \<Rightarrow> 'n \<Rightarrow> 'n) \<Rightarrow> 'n list \<Rightarrow> (string \<rightharpoonup> string)
     \<Rightarrow> ('n list \<times> (string \<rightharpoonup> string)) result" where
  "assign_all digest kind get_ID set_Reference nodes publicIdentities =
     loop (\<lambda>node (assigned, identities).
       bindr (assign_reference digest kind (get_ID node) identities)
         (\<lambda>(reference, identities'). Inr (assigned @ [set_Reference reference node], identities')))
       nodes ([], publicIdentities)"

definition operation_references :: "Operation list \<Rightarrow> (string \<rightharpoonup> string)" where
  "operation_references operations =
     fold (\<lambda>operation m. m(op_ID operation \<mapsto> op_Reference operation)) operations Map.empty"

type_synonym edgeTuple = "string \<times> string \<times> string \<times> string \<times> string"

definition support_type :: "Finding \<Rightarrow> string" where
  "support_type finding =
     (if fd_Claim finding = ClaimInference then RelationshipInferredFrom else RelationshipEstablishedBy)"

text \<open>The calls of \<open>appendRelationship\<close>, in the order the three loops make them.\<close>

definition base_edges ::
  "(string \<rightharpoonup> string) \<Rightarrow> Resource list \<Rightarrow> Finding list \<Rightarrow> Unknown list \<Rightarrow> edgeTuple list" where
  "base_edges operationReferences resources findings unknowns =
     map (\<lambda>resource. (RelationshipDerivedFrom, NodeResource, rc_Reference resource, NodeOperation,
            at_key operationReferences (rc_RelatedOperationID resource))) resources
     @ concat (map (\<lambda>finding. map (\<lambda>related. (support_type finding, NodeFinding, fd_Reference finding,
            NodeOperation, at_key operationReferences related)) (elems (fd_Related finding))) findings)
     @ concat (map (\<lambda>unknown. map (\<lambda>affected. (RelationshipUnknownBecause, NodeUnknown, uk_Reference unknown,
            NodeOperation, at_key operationReferences affected)) (elems (uk_AffectedOperations unknown))) unknowns)"

fun edge_id :: "digestFunction \<Rightarrow> edgeTuple \<Rightarrow> string" where
  "edge_id digest (kind, fromKind, from, toKind, to) =
     relationshipIDWithDigest kind fromKind from toKind to digest"

fun edge_identity :: "edgeTuple \<Rightarrow> string" where
  "edge_identity (kind, fromKind, from, toKind, to) =
     kind @ NUL @ fromKind @ NUL @ from @ NUL @ toKind @ NUL @ to"

fun edge_relationship :: "digestFunction \<Rightarrow> edgeTuple \<Rightarrow> Relationship" where
  "edge_relationship digest (kind, fromKind, from, toKind, to) =
     \<lparr>re_ID = relationshipIDWithDigest kind fromKind from toKind to digest, re_Type = kind,
      re_FromKind = fromKind, re_From = from, re_ToKind = toKind, re_To = to, re_Comparison = None\<rparr>"

fun appendRelationship ::
  "digestFunction \<Rightarrow> edgeTuple \<Rightarrow> Relationship list \<times> (string \<rightharpoonup> string)
     \<Rightarrow> (Relationship list \<times> (string \<rightharpoonup> string)) result" where
  "appendRelationship digest edge (relationships, relationshipIdentities) =
     (if length relationships \<ge> MaxProducedEvidenceRelations
      then Inl (Errorf ''evidence relationship production limit exceeded'' [])
      else let identity = edge_identity edge; ident = edge_id digest edge
           in if relationshipIdentities ident \<noteq> None \<and> relationshipIdentities ident \<noteq> Some identity
              then Inl (Errorf ''relationship ID collision'' [])
              else Inr (relationships @ [edge_relationship digest edge],
                        relationshipIdentities(ident \<mapsto> identity)))"

definition by_relationship_id :: "Relationship \<Rightarrow> Relationship \<Rightarrow> bool" where
  "by_relationship_id a b \<longleftrightarrow> re_ID a < re_ID b"

definition buildEvidenceGraphWithDigest :: "digestFunction \<Rightarrow> Report \<Rightarrow> Report result" where
  "buildEvidenceGraphWithDigest digest report =
     (let r = bindEvidenceInputs report in
      bindr (assign_all digest NodeOperation op_ID (\<lambda>s n. n\<lparr>op_Reference := s\<rparr>)
               (elems (rp_Operations r)) Map.empty) (\<lambda>(operations, ids1).
      bindr (assign_all digest NodeResource rc_ID (\<lambda>s n. n\<lparr>rc_Reference := s\<rparr>)
               (elems (rp_Resources r)) ids1) (\<lambda>(resources, ids2).
      bindr (assign_all digest NodeFinding fd_ID (\<lambda>s n. n\<lparr>fd_Reference := s\<rparr>)
               (elems (rp_Findings r)) ids2) (\<lambda>(findings, ids3).
      bindr (assign_all digest NodeUnknown uk_ID (\<lambda>s n. n\<lparr>uk_Reference := s\<rparr>)
               (elems (rp_Unknowns r)) ids3) (\<lambda>(unknowns, ids4).
      bindr (loop (appendRelationship digest)
               (base_edges (operation_references operations) resources findings unknowns)
               ([], Map.empty)) (\<lambda>(relationships, _).
      Inr (r\<lparr>rp_Operations := map_option (\<lambda>_. operations) (rp_Operations r),
             rp_Resources := map_option (\<lambda>_. resources) (rp_Resources r),
             rp_Findings := map_option (\<lambda>_. findings) (rp_Findings r),
             rp_Unknowns := map_option (\<lambda>_. unknowns) (rp_Unknowns r),
             rp_Relationships := Some (sort_slice by_relationship_id relationships)\<rparr>)))))))"

section \<open>Lookups by internal ID and by public reference\<close>

text \<open>A loop that overwrites its result on every match returns the last match.\<close>

definition last_match :: "('a \<Rightarrow> bool) \<Rightarrow> 'a list \<Rightarrow> 'a option" where
  "last_match P xs = find P (rev xs)"

definition node_reference :: "Report \<Rightarrow> string \<Rightarrow> string \<Rightarrow> string option" where
  "node_reference r kind ident =
     (if kind = NodeOperation then map_option op_Reference (find (\<lambda>item. op_ID item = ident) (elems (rp_Operations r)))
      else if kind = NodeResource then map_option rc_Reference (find (\<lambda>item. rc_ID item = ident) (elems (rp_Resources r)))
      else if kind = NodeFinding then map_option fd_Reference (find (\<lambda>item. fd_ID item = ident) (elems (rp_Findings r)))
      else if kind = NodeUnknown then map_option uk_Reference (find (\<lambda>item. uk_ID item = ident) (elems (rp_Unknowns r)))
      else None)"

definition operation_subject :: "Operation \<Rightarrow> string" where
  "operation_subject item = ''command'' @ NUL @ path_base (op_Command item)"

definition resource_subject :: "Resource \<Rightarrow> string" where
  "resource_subject item = resourceComparisonSubject (rc_Kind item) (rc_Access item) (rc_Value item)"

definition semanticSubject :: "Report \<Rightarrow> string \<Rightarrow> string \<Rightarrow> string option" where
  "semanticSubject r kind ident =
     (if kind = NodeOperation then
        map_option operation_subject (find (\<lambda>item. op_ID item = ident) (elems (rp_Operations r)))
      else if kind = NodeResource then
        map_option resource_subject (find (\<lambda>item. rc_ID item = ident) (elems (rp_Resources r)))
      else None)"

definition semanticSubjectByReference :: "Report \<Rightarrow> string \<Rightarrow> string \<Rightarrow> string option" where
  "semanticSubjectByReference r kind reference =
     (if kind = NodeOperation then
        map_option operation_subject (find (\<lambda>item. op_Reference item = reference) (elems (rp_Operations r)))
      else if kind = NodeResource then
        map_option resource_subject (find (\<lambda>item. rc_Reference item = reference) (elems (rp_Resources r)))
      else None)"

definition same_operation :: "Operation \<Rightarrow> Operation \<Rightarrow> bool" where
  "same_operation a b \<longleftrightarrow> op_Category a = op_Category b \<and> op_Scope a = op_Scope b
     \<and> op_Command a = op_Command b \<and> elems (op_Arguments a) = elems (op_Arguments b)
     \<and> op_Dynamic a = op_Dynamic b \<and> op_Confidence a = op_Confidence b"

definition same_resource :: "Resource \<Rightarrow> Resource \<Rightarrow> bool" where
  "same_resource a b \<longleftrightarrow> rc_Kind a = rc_Kind b \<and> rc_Access a = rc_Access b \<and> rc_Value a = rc_Value b
     \<and> rc_Sensitive a = rc_Sensitive b \<and> rc_Dynamic a = rc_Dynamic b \<and> rc_Scope a = rc_Scope b
     \<and> rc_Confidence a = rc_Confidence b"

definition both :: "('a \<Rightarrow> 'a \<Rightarrow> bool) \<Rightarrow> 'a option \<Rightarrow> 'a option \<Rightarrow> bool" where
  "both P x y = (case x of None \<Rightarrow> False | Some a \<Rightarrow> (case y of None \<Rightarrow> False | Some b \<Rightarrow> P a b))"

definition duplicateEquivalent :: "Report \<Rightarrow> string \<Rightarrow> string \<Rightarrow> string \<Rightarrow> bool" where
  "duplicateEquivalent r kind firstID secondID =
     (if kind = NodeOperation then
        both same_operation (last_match (\<lambda>item. op_ID item = firstID) (elems (rp_Operations r)))
          (last_match (\<lambda>item. op_ID item = secondID) (elems (rp_Operations r)))
      else if kind = NodeResource then
        both same_resource (last_match (\<lambda>item. rc_ID item = firstID) (elems (rp_Resources r)))
          (last_match (\<lambda>item. rc_ID item = secondID) (elems (rp_Resources r)))
      else False)"

definition or_empty :: "string option \<Rightarrow> string" where
  "or_empty s = (case s of None \<Rightarrow> [] | Some x \<Rightarrow> x)"

definition duplicateEquivalentByReference :: "Report \<Rightarrow> string \<Rightarrow> string \<Rightarrow> string \<Rightarrow> bool" where
  "duplicateEquivalentByReference r kind firstReference secondReference =
     (let ident = (\<lambda>reference.
            if kind = NodeOperation then
              or_empty (map_option op_ID (last_match (\<lambda>item. op_Reference item = reference) (elems (rp_Operations r))))
            else if kind = NodeResource then
              or_empty (map_option rc_ID (last_match (\<lambda>item. rc_Reference item = reference) (elems (rp_Resources r))))
            else []);
          firstID = ident firstReference; secondID = ident secondReference
      in firstID \<noteq> [] \<and> secondID \<noteq> [] \<and> duplicateEquivalent r kind firstID secondID)"

definition source_observation :: "Report \<Rightarrow> string \<Rightarrow> string \<Rightarrow> (Evidence \<times> Provenance) option" where
  "source_observation r sourceKind sourceReference =
     (if sourceKind = NodeOperation then
        map_option (\<lambda>item. (op_Evidence item, op_Provenance item))
          (last_match (\<lambda>item. op_Reference item = sourceReference) (elems (rp_Operations r)))
      else if sourceKind = NodeResource then
        map_option (\<lambda>item. (rc_Evidence item, rc_Provenance item))
          (last_match (\<lambda>item. rc_Reference item = sourceReference) (elems (rp_Resources r)))
      else None)"

definition is_external :: "Provenance \<Rightarrow> bool" where
  "is_external p \<longleftrightarrow> pv_EvidenceSource p = EvidenceSourceOmarchyAudit"

definition hasOppositeMatch ::
  "Report \<Rightarrow> string \<Rightarrow> string \<Rightarrow> Provenance \<Rightarrow> string \<Rightarrow> string \<Rightarrow> Provenance \<Rightarrow> bool" where
  "hasOppositeMatch r sourceKind sourceReference sourceProvenance sourceSubject reference provenance \<longleftrightarrow>
     \<not> (reference = sourceReference \<or> is_external provenance = is_external sourceProvenance)
     \<and> semanticSubjectByReference r sourceKind reference = Some sourceSubject"

definition coverage_finding :: "string \<Rightarrow> Evidence \<Rightarrow> Provenance \<Rightarrow> Finding \<Rightarrow> bool" where
  "coverage_finding scannerVersion sourceEvidence sourceProvenance item \<longleftrightarrow>
     fd_Claim item = ClaimFact \<and> fd_Severity item = SeverityInformational
     \<and> fd_Confidence item = ConfidenceHigh \<and> fd_Scope item = ScopeUnknown
     \<and> fd_Category item = CoverageDifferenceCategory \<and> elems (fd_Evidence item) = [sourceEvidence]
     \<and> elems (fd_Related item) = [] \<and> pv_RuleID (fd_Provenance item) = CoverageComparisonRule
     \<and> pv_Analyzer (fd_Provenance item) = DeterministicAnalyzer
     \<and> pv_AnalyzerVersion (fd_Provenance item) = scannerVersion
     \<and> pv_EvidenceSource (fd_Provenance item) = pv_EvidenceSource sourceProvenance"

definition coverageDifferenceShape :: "Report \<Rightarrow> string \<Rightarrow> string \<Rightarrow> string \<Rightarrow> bool" where
  "coverageDifferenceShape r sourceKind sourceReference findingReference =
     (case source_observation r sourceKind sourceReference of
        None \<Rightarrow> False
      | Some (sourceEvidence, sourceProvenance) \<Rightarrow>
          if \<not> (is_external sourceProvenance
                \<or> list_ex (\<lambda>input. ei_Type input = EvidenceInputOmarchyAudit) (elems (rp_EvidenceInputs r)))
          then False
          else (case semanticSubjectByReference r sourceKind sourceReference of
                  None \<Rightarrow> False
                | Some sourceSubject \<Rightarrow>
                    if (if sourceKind = NodeOperation then
                          list_ex (\<lambda>item. hasOppositeMatch r sourceKind sourceReference sourceProvenance
                            sourceSubject (op_Reference item) (op_Provenance item)) (elems (rp_Operations r))
                        else sourceKind = NodeResource \<and>
                          list_ex (\<lambda>item. hasOppositeMatch r sourceKind sourceReference sourceProvenance
                            sourceSubject (rc_Reference item) (rc_Provenance item)) (elems (rp_Resources r)))
                    then False
                    else (case find (\<lambda>item. fd_Reference item = findingReference) (elems (rp_Findings r)) of
                            None \<Rightarrow> False
                          | Some item \<Rightarrow> coverage_finding (sm_ScannerVersion (rp_Scan r)) sourceEvidence
                              sourceProvenance item)))"

definition isCoverageDifferenceFinding :: "Report \<Rightarrow> string \<Rightarrow> string \<Rightarrow> string \<Rightarrow> bool" where
  "isCoverageDifferenceFinding r sourceKind sourceID findingID =
     (let sourceReference =
            (if sourceKind = NodeOperation then
               or_empty (map_option op_Reference (last_match (\<lambda>item. op_ID item = sourceID) (elems (rp_Operations r))))
             else if sourceKind = NodeResource then
               or_empty (map_option rc_Reference (last_match (\<lambda>item. rc_ID item = sourceID) (elems (rp_Resources r))))
             else []);
          findingReference =
            or_empty (map_option fd_Reference (last_match (\<lambda>item. fd_ID item = findingID) (elems (rp_Findings r))))
      in sourceReference \<noteq> [] \<and> findingReference \<noteq> []
         \<and> coverageDifferenceShape r sourceKind sourceReference findingReference)"

section \<open>Adding comparisons\<close>

record Comparison =
  cm_Type :: string
  cm_FromKind :: string
  cm_FromID :: string
  cm_ToKind :: string
  cm_ToID :: string
  cm_Basis :: ComparisonBasis

definition sameRelationship :: "Relationship \<Rightarrow> Relationship \<Rightarrow> bool" where
  "sameRelationship first second \<longleftrightarrow>
     re_Type first = re_Type second \<and> re_FromKind first = re_FromKind second \<and> re_From first = re_From second
     \<and> re_ToKind first = re_ToKind second \<and> re_To first = re_To second
     \<and> re_Comparison first = re_Comparison second"

definition comparison_basis :: "Report \<Rightarrow> Comparison \<Rightarrow> ComparisonBasis result" where
  "comparison_basis r value =
     (let fromSubject = semanticSubject r (cm_FromKind value) (cm_FromID value);
          toSubject = semanticSubject r (cm_ToKind value) (cm_ToID value);
          shared = \<lparr>cb_Kind = cm_FromKind value, cb_Subject = or_empty fromSubject\<rparr>
      in if cm_Type value = RelationshipCorroborates then
           andthen (check (fromSubject = None \<or> toSubject = None \<or> fromSubject \<noteq> toSubject
               \<or> cm_FromKind value \<noteq> cm_ToKind value
               \<or> (cm_FromKind value \<noteq> NodeOperation \<and> cm_FromKind value \<noteq> NodeResource))
             ''corroboration requires compatible observations with the same semantic subject'' [])
           (Inr shared)
         else if cm_Type value = RelationshipDuplicates then
           andthen (check (fromSubject = None \<or> toSubject = None \<or> fromSubject \<noteq> toSubject
               \<or> cm_FromKind value \<noteq> cm_ToKind value
               \<or> \<not> duplicateEquivalent r (cm_FromKind value) (cm_FromID value) (cm_ToID value))
             ''duplication requires equivalent observations of the same kind'' [])
           (Inr shared)
         else
           andthen (check (cb_Kind (cm_Basis value) \<noteq> ''coverage'' \<or> cb_Subject (cm_Basis value) = []
               \<or> fromSubject \<noteq> Some (cb_Subject (cm_Basis value)) \<or> cm_ToKind value \<noteq> NodeFinding
               \<or> \<not> isCoverageDifferenceFinding r (cm_FromKind value) (cm_FromID value) (cm_ToID value))
             ''disagreement requires an observation and a typed coverage-difference basis'' [])
           (Inr (cm_Basis value)))"

definition comparison_relationship ::
  "digestFunction \<Rightarrow> Comparison \<Rightarrow> ComparisonBasis \<Rightarrow> string \<Rightarrow> string \<Rightarrow> Relationship" where
  "comparison_relationship digest value basis from to =
     (let (from, to, fromKind, toKind) =
            (if cm_Type value \<noteq> RelationshipDisagreesWith \<and> to < from
             then (to, from, cm_ToKind value, cm_FromKind value)
             else (from, to, cm_FromKind value, cm_ToKind value))
      in \<lparr>re_ID = relationshipIDWithDigest (cm_Type value) fromKind from toKind to digest,
          re_Type = cm_Type value, re_FromKind = fromKind, re_From = from, re_ToKind = toKind,
          re_To = to, re_Comparison = Some basis\<rparr>)"

definition insert_relationship :: "Relationship \<Rightarrow> Report \<Rightarrow> Report result" where
  "insert_relationship relationship r =
     (let existing = elems (rp_Relationships r)
      in case find (\<lambda>e. re_ID e = re_ID relationship) existing of
           Some e \<Rightarrow> if sameRelationship e relationship then Inr r
             else Inl (Errorf ''comparison relationship ID collision'' [])
         | None \<Rightarrow>
             if length existing \<ge> MaxProducedEvidenceRelations
             then Inl (Errorf ''evidence relationship production limit exceeded'' [])
             else Inr (r\<lparr>rp_Relationships :=
               Some (sort_slice by_relationship_id (existing @ [relationship]))\<rparr>))"

definition addComparisonWithDigest :: "digestFunction \<Rightarrow> Comparison \<Rightarrow> Report \<Rightarrow> Report result" where
  "addComparisonWithDigest digest value r =
     andthen (check (\<not> oneOf (cm_Type value)
         [RelationshipCorroborates, RelationshipDisagreesWith, RelationshipDuplicates])
       ''comparison relationship type is invalid'' [])
     (let from = or_empty (node_reference r (cm_FromKind value) (cm_FromID value));
          to = or_empty (node_reference r (cm_ToKind value) (cm_ToID value))
      in andthen (first_error [
           check (from = []) ''comparison source %s %q is missing''
             [AStr (cm_FromKind value), AStr (cm_FromID value)],
           check (to = []) ''comparison target %s %q is missing''
             [AStr (cm_ToKind value), AStr (cm_ToID value)]])
         (bindr (comparison_basis r value) (\<lambda>basis.
            insert_relationship (comparison_relationship digest value basis from to) r)))"

section \<open>Collision-checked registries\<close>

text \<open>
  Both loops of the construction keep a map from a shortened digest (the key) to what it stands
  for (the identity) and fail when a key would stand for two identities.
\<close>

definition registry :: "('x \<Rightarrow> string) \<Rightarrow> ('x \<Rightarrow> string) \<Rightarrow> 'x list \<Rightarrow> (string \<rightharpoonup> string) \<Rightarrow> bool" where
  "registry key ident xs m \<longleftrightarrow>
     (\<forall>x \<in> set xs. m (key x) = Some (ident x)) \<and> (\<forall>k. m k \<noteq> None \<longrightarrow> k \<in> key ` set xs)"

definition collision_free :: "('x \<Rightarrow> string) \<Rightarrow> ('x \<Rightarrow> string) \<Rightarrow> 'x list \<Rightarrow> bool" where
  "collision_free key ident xs \<longleftrightarrow>
     (\<forall>x \<in> set xs. \<forall>y \<in> set xs. key x = key y \<longrightarrow> ident x = ident y)"

lemma registry_Nil [simp]: "registry key ident [] Map.empty"
  by (simp add: registry_def)

lemma registry_step:
  assumes "registry key ident xs m" and "m (key x) = None \<or> m (key x) = Some (ident x)"
  shows "registry key ident (xs @ [x]) (m(key x \<mapsto> ident x))"
  using assms by (auto simp: registry_def)

lemma registry_collision_free: "registry key ident xs m \<Longrightarrow> collision_free key ident xs"
  unfolding registry_def collision_free_def by (metis option.inject)

lemma registry_progress:
  assumes "registry key ident xs m" and "collision_free key ident (xs @ x # ys)"
  shows "m (key x) = None \<or> m (key x) = Some (ident x)"
proof (cases "m (key x)")
  case (Some v)
  then obtain y where y: "y \<in> set xs" "key x = key y" using assms(1) by (auto simp: registry_def)
  with assms have "m (key x) = Some (ident y)" "ident y = ident x"
    by (auto simp: registry_def collision_free_def)
  then show ?thesis by simp
qed simp

type_synonym node_id = "string \<times> string"

definition node_key :: "digestFunction \<Rightarrow> node_id \<Rightarrow> string" where
  "node_key digest = (\<lambda>(kind, ident). publicReferenceWithDigest kind ident digest)"

definition node_identity :: "node_id \<Rightarrow> string" where
  "node_identity = (\<lambda>(kind, ident). kind @ NUL @ ident)"

abbreviation node_registry :: "digestFunction \<Rightarrow> node_id list \<Rightarrow> (string \<rightharpoonup> string) \<Rightarrow> bool" where
  "node_registry digest \<equiv> registry (node_key digest) node_identity"

abbreviation edge_registry :: "digestFunction \<Rightarrow> edgeTuple list \<Rightarrow> (string \<rightharpoonup> string) \<Rightarrow> bool" where
  "edge_registry digest \<equiv> registry (edge_id digest) edge_identity"

lemma assign_reference_Inr:
  "assign_reference digest kind ident m = Inr (reference, m') \<longleftrightarrow>
     reference = node_key digest (kind, ident) \<and> m' = m(reference \<mapsto> node_identity (kind, ident))
     \<and> (m reference = None \<or> m reference = Some (node_identity (kind, ident)))"
  by (auto simp: assign_reference_def node_key_def node_identity_def Let_def split: option.splits)

lemma assign_all_Inr:
  assumes reg: "node_registry digest xs m"
  shows "assign_all digest kind get setr nodes m = Inr (out, m') \<Longrightarrow>
      out = map (\<lambda>n. setr (node_key digest (kind, get n)) n) nodes
      \<and> node_registry digest (xs @ map (\<lambda>n. (kind, get n)) nodes) m'"
    and "collision_free (node_key digest) node_identity (xs @ map (\<lambda>n. (kind, get n)) nodes @ ys) \<Longrightarrow>
      \<exists>out m'. assign_all digest kind get setr nodes m = Inr (out, m')"
proof -
  let ?P = "\<lambda>ns (out, m'). out = map (\<lambda>n. setr (node_key digest (kind, get n)) n) ns
      \<and> node_registry digest (xs @ map (\<lambda>n. (kind, get n)) ns) m'"
  let ?f = "\<lambda>node (assigned, identities).
       bindr (assign_reference digest kind (get node) identities)
         (\<lambda>(reference, identities'). Inr (assigned @ [setr reference node], identities'))"
  have step: "?P (ns @ [n]) v" if "?P ns u" "?f n u = Inr v" for ns n u v
  proof -
    from that(2) obtain reference m'' where a: "assign_reference digest kind (get n) (snd u) = Inr (reference, m'')"
      and v: "v = (fst u @ [setr reference n], m'')" by (auto simp: accept split: prod.splits)
    from a have "node_registry digest ((xs @ map (\<lambda>n. (kind, get n)) ns) @ [(kind, get n)]) m''"
      using that(1) registry_step[of "node_key digest" node_identity "xs @ map (\<lambda>n. (kind, get n)) ns"
          "snd u" "(kind, get n)"]
      by (auto simp: assign_reference_Inr split: prod.splits)
    with that(1) a v show ?thesis by (auto simp: assign_reference_Inr split: prod.splits)
  qed
  show "out = map (\<lambda>n. setr (node_key digest (kind, get n)) n) nodes
      \<and> node_registry digest (xs @ map (\<lambda>n. (kind, get n)) nodes) m'"
    if "assign_all digest kind get setr nodes m = Inr (out, m')"
    using loop_invariant[OF that[unfolded assign_all_def], of ?P] step reg by simp
  show "\<exists>out m'. assign_all digest kind get setr nodes m = Inr (out, m')"
    if free: "collision_free (node_key digest) node_identity (xs @ map (\<lambda>n. (kind, get n)) nodes @ ys)"
  proof -
    have "\<exists>t. loop ?f nodes ([], m) = Inr t \<and> ?P nodes t"
    proof (rule loop_succeeds)
      show "?P [] ([], m)" using reg by simp
      fix ns n zs u assume n: "nodes = ns @ n # zs" and P: "?P ns u"
      have "\<exists>v. ?f n u = Inr v"
        using registry_progress[of "node_key digest" node_identity "xs @ map (\<lambda>n. (kind, get n)) ns" "snd u"
            "(kind, get n)" "map (\<lambda>n. (kind, get n)) zs @ ys"] free P n
        by (auto simp: bindr_def assign_reference_def node_key_def node_identity_def Let_def
            split: prod.splits option.splits)
      with step[OF P] show "\<exists>v. ?f n u = Inr v \<and> ?P (ns @ [n]) v" by blast
    qed
    then show ?thesis by (auto simp: assign_all_def)
  qed
qed

section \<open>What the construction builds\<close>

lemma loop_appendRelationship_Inr:
  "loop (appendRelationship digest) edges ([], Map.empty) = Inr (out, m) \<Longrightarrow>
     out = map (edge_relationship digest) edges \<and> edge_registry digest edges m
     \<and> length edges \<le> MaxProducedEvidenceRelations"
proof -
  let ?P = "\<lambda>es (out, m). out = map (edge_relationship digest) es \<and> edge_registry digest es m
     \<and> length es \<le> MaxProducedEvidenceRelations"
  assume l: "loop (appendRelationship digest) edges ([], Map.empty) = Inr (out, m)"
  have "?P (es @ [e]) v" if "?P es u" "appendRelationship digest e u = Inr v" for es e u v
    using that registry_step[of "edge_id digest" edge_identity es "snd u" e]
    by (cases u) (auto simp: Let_def split: if_splits)
  then show ?thesis using loop_invariant[OF l, of ?P] by simp
qed

lemma loop_appendRelationship_succeeds:
  assumes "collision_free (edge_id digest) edge_identity edges"
    and "length edges \<le> MaxProducedEvidenceRelations"
  shows "\<exists>out m. loop (appendRelationship digest) edges ([], Map.empty) = Inr (out, m)"
proof -
  let ?P = "\<lambda>es (out, m). out = map (edge_relationship digest) es \<and> edge_registry digest es m"
  have "\<exists>t. loop (appendRelationship digest) edges ([], Map.empty) = Inr t \<and> ?P edges t"
  proof (rule loop_succeeds)
    fix es e fs u assume e: "edges = es @ e # fs" and P: "?P es u"
    then have "snd u (edge_id digest e) = None \<or> snd u (edge_id digest e) = Some (edge_identity e)"
      using registry_progress[of "edge_id digest" edge_identity es "snd u" e fs] assms(1) by auto
    with registry_step[of "edge_id digest" edge_identity es "snd u" e] P assms(2) e
    show "\<exists>v. appendRelationship digest e u = Inr v \<and> ?P (es @ [e]) v"
      by (cases u) (auto simp: Let_def)
  qed simp
  then show ?thesis by auto
qed

definition graph_nodes :: "Report \<Rightarrow> node_id list" where
  "graph_nodes r =
     map (\<lambda>n. (NodeOperation, op_ID n)) (elems (rp_Operations r))
     @ map (\<lambda>n. (NodeResource, rc_ID n)) (elems (rp_Resources r))
     @ map (\<lambda>n. (NodeFinding, fd_ID n)) (elems (rp_Findings r))
     @ map (\<lambda>n. (NodeUnknown, uk_ID n)) (elems (rp_Unknowns r))"

definition annotate :: "digestFunction \<Rightarrow> Report \<Rightarrow> Report" where
  "annotate digest r = (let b = bindEvidenceInputs r in
     b\<lparr>rp_Operations := map_option (map (\<lambda>n. n\<lparr>op_Reference := node_key digest (NodeOperation, op_ID n)\<rparr>))
         (rp_Operations b),
       rp_Resources := map_option (map (\<lambda>n. n\<lparr>rc_Reference := node_key digest (NodeResource, rc_ID n)\<rparr>))
         (rp_Resources b),
       rp_Findings := map_option (map (\<lambda>n. n\<lparr>fd_Reference := node_key digest (NodeFinding, fd_ID n)\<rparr>))
         (rp_Findings b),
       rp_Unknowns := map_option (map (\<lambda>n. n\<lparr>uk_Reference := node_key digest (NodeUnknown, uk_ID n)\<rparr>))
         (rp_Unknowns b)\<rparr>)"

definition graph_edges :: "Report \<Rightarrow> edgeTuple list" where
  "graph_edges r = base_edges (operation_references (elems (rp_Operations r))) (elems (rp_Resources r))
     (elems (rp_Findings r)) (elems (rp_Unknowns r))"

definition reference_collision_free :: "digestFunction \<Rightarrow> Report \<Rightarrow> bool" where
  "reference_collision_free digest r = collision_free (node_key digest) node_identity (graph_nodes r)"

definition edge_collision_free :: "digestFunction \<Rightarrow> Report \<Rightarrow> bool" where
  "edge_collision_free digest r = collision_free (edge_id digest) edge_identity (graph_edges r)"

lemma elems_map_option [simp]: "elems (map_option (map f) xs) = map f (elems xs)"
  by (cases xs) simp_all

lemma map_option_elems [simp]: "map_option (\<lambda>_. map f (elems xs)) xs = map_option (map f) xs"
  by (cases xs) simp_all

lemma bind_fields [simp]:
  "op_ID (bind_operation x n) = op_ID n" "op_Reference (bind_operation x n) = op_Reference n"
  "rc_ID (bind_resource x m) = rc_ID m" "rc_Reference (bind_resource x m) = rc_Reference m"
  "fd_ID (bind_finding x f) = fd_ID f" "fd_Reference (bind_finding x f) = fd_Reference f"
  "uk_ID (bind_unknown x u) = uk_ID u" "uk_Reference (bind_unknown x u) = uk_Reference u"
  by (simp_all add: bind_operation_def bind_resource_def bind_finding_def bind_unknown_def)

lemma graph_nodes_bind [simp]: "graph_nodes (bindEvidenceInputs r) = graph_nodes r"
  by (simp add: graph_nodes_def bindEvidenceInputs_def Let_def)

lemma graph_nodes_annotate [simp]: "graph_nodes (annotate digest r) = graph_nodes r"
  unfolding graph_nodes_bind[of r, symmetric]
  by (simp add: graph_nodes_def annotate_def Let_def)

lemma node_registry_free:
  "node_registry digest (graph_nodes r) m \<Longrightarrow> reference_collision_free digest r"
  unfolding reference_collision_free_def by (rule registry_collision_free)

definition graph_report :: "digestFunction \<Rightarrow> Report \<Rightarrow> Report" where
  "graph_report digest r = (annotate digest r)\<lparr>rp_Relationships :=
     Some (sort_slice by_relationship_id (map (edge_relationship digest) (graph_edges (annotate digest r))))\<rparr>"

lemma build_graph_forward:
  assumes "buildEvidenceGraphWithDigest digest r = Inr r'"
  shows "reference_collision_free digest r \<and> edge_collision_free digest (annotate digest r)
    \<and> length (graph_edges (annotate digest r)) \<le> MaxProducedEvidenceRelations \<and> r' = graph_report digest r"
proof -
  let ?b = "bindEvidenceInputs r"
  from assms obtain os m1 rs m2 fs m3 us m4 es m5 where
    o: "assign_all digest NodeOperation op_ID (\<lambda>s n. n\<lparr>op_Reference := s\<rparr>) (elems (rp_Operations ?b)) Map.empty
          = Inr (os, m1)"
    and rs: "assign_all digest NodeResource rc_ID (\<lambda>s n. n\<lparr>rc_Reference := s\<rparr>) (elems (rp_Resources ?b)) m1
          = Inr (rs, m2)"
    and fs: "assign_all digest NodeFinding fd_ID (\<lambda>s n. n\<lparr>fd_Reference := s\<rparr>) (elems (rp_Findings ?b)) m2
          = Inr (fs, m3)"
    and us: "assign_all digest NodeUnknown uk_ID (\<lambda>s n. n\<lparr>uk_Reference := s\<rparr>) (elems (rp_Unknowns ?b)) m3
          = Inr (us, m4)"
    and es: "loop (appendRelationship digest) (base_edges (operation_references os) rs fs us) ([], Map.empty)
          = Inr (es, m5)"
    and r': "r' = ?b\<lparr>rp_Operations := map_option (\<lambda>_. os) (rp_Operations ?b),
             rp_Resources := map_option (\<lambda>_. rs) (rp_Resources ?b),
             rp_Findings := map_option (\<lambda>_. fs) (rp_Findings ?b),
             rp_Unknowns := map_option (\<lambda>_. us) (rp_Unknowns ?b),
             rp_Relationships := Some (sort_slice by_relationship_id es)\<rparr>"
    by (auto simp: buildEvidenceGraphWithDigest_def Let_def bindr_Inr)
  note o' = assign_all_Inr(1)[OF registry_Nil o]
  note rs' = assign_all_Inr(1)[OF conjunct2[OF o'] rs]
  note fs' = assign_all_Inr(1)[OF conjunct2[OF rs'] fs]
  note us' = assign_all_Inr(1)[OF conjunct2[OF fs'] us]
  note es' = loop_appendRelationship_Inr[OF es]
  have "node_registry digest (graph_nodes ?b) m4" using us' by (simp add: graph_nodes_def)
  then have free: "reference_collision_free digest r" using node_registry_free by fastforce
  have edges: "graph_edges (annotate digest r) = base_edges (operation_references os) rs fs us"
    using o' rs' fs' us' by (simp add: graph_edges_def annotate_def Let_def)
  have "r' = graph_report digest r"
    unfolding r' graph_report_def edges using o' rs' fs' us' es' by (simp add: annotate_def Let_def)
  with free edges es' registry_collision_free show ?thesis by (auto simp: edge_collision_free_def)
qed

lemma graph_fields:
  assumes "buildEvidenceGraphWithDigest digest r = Inr built"
  shows "rp_Scan built = rp_Scan r" "rp_Target built = rp_Target r" "rp_Inventory built = rp_Inventory r" "rp_Status built = rp_Status r"
    "rp_EvidenceInputs built = rp_EvidenceInputs r"
  using build_graph_forward[OF assms] by (auto simp: graph_report_def annotate_def bindEvidenceInputs_def Let_def)

lemma build_graph_succeeds:
  assumes "reference_collision_free digest r" and "edge_collision_free digest (annotate digest r)"
    and "length (graph_edges (annotate digest r)) \<le> MaxProducedEvidenceRelations"
  shows "\<exists>r'. buildEvidenceGraphWithDigest digest r = Inr r'"
proof -
  let ?b = "bindEvidenceInputs r"
  have free: "collision_free (node_key digest) node_identity (graph_nodes ?b)"
    using assms(1) by (simp add: reference_collision_free_def)
  note free = free[unfolded graph_nodes_def]
  obtain os m1 where
    o: "assign_all digest NodeOperation op_ID (\<lambda>s n. n\<lparr>op_Reference := s\<rparr>) (elems (rp_Operations ?b)) Map.empty
          = Inr (os, m1)"
    using assign_all_Inr(2)[OF registry_Nil, of digest NodeOperation op_ID] free by fastforce
  note o' = assign_all_Inr(1)[OF registry_Nil o]
  obtain rs m2 where rs: "assign_all digest NodeResource rc_ID (\<lambda>s n. n\<lparr>rc_Reference := s\<rparr>)
      (elems (rp_Resources ?b)) m1 = Inr (rs, m2)"
    using assign_all_Inr(2)[OF conjunct2[OF o'], of NodeResource rc_ID] free by fastforce
  note rs' = assign_all_Inr(1)[OF conjunct2[OF o'] rs]
  obtain fs m3 where fs: "assign_all digest NodeFinding fd_ID (\<lambda>s n. n\<lparr>fd_Reference := s\<rparr>)
      (elems (rp_Findings ?b)) m2 = Inr (fs, m3)"
    using assign_all_Inr(2)[OF conjunct2[OF rs'], of NodeFinding fd_ID] free by fastforce
  note fs' = assign_all_Inr(1)[OF conjunct2[OF rs'] fs]
  obtain us m4 where us: "assign_all digest NodeUnknown uk_ID (\<lambda>s n. n\<lparr>uk_Reference := s\<rparr>)
      (elems (rp_Unknowns ?b)) m3 = Inr (us, m4)"
    using assign_all_Inr(2)[OF conjunct2[OF fs'], of NodeUnknown uk_ID _ "[]"] free by fastforce
  note us' = assign_all_Inr(1)[OF conjunct2[OF fs'] us]
  have edges: "graph_edges (annotate digest r) = base_edges (operation_references os) rs fs us"
    using o' rs' fs' us' by (simp add: graph_edges_def annotate_def Let_def)
  obtain es m5 where "loop (appendRelationship digest) (base_edges (operation_references os) rs fs us)
      ([], Map.empty) = Inr (es, m5)"
    using loop_appendRelationship_succeeds assms(2,3) unfolding edge_collision_free_def edges by blast
  with o rs fs us show ?thesis by (simp add: buildEvidenceGraphWithDigest_def Let_def)
qed

text \<open>
  The graph construction returns exactly when no two nodes share a public reference, no
  two base edges share an identifier and the edges are within the production limit, and what it
  returns is the report with every node's reference recomputed from its kind and internal ID,
  its evidence bound to an input, and one edge per declared link, sorted by identifier.
\<close>

theorem buildEvidenceGraph_iff:
  "buildEvidenceGraphWithDigest digest r = Inr r' \<longleftrightarrow>
     reference_collision_free digest r \<and> edge_collision_free digest (annotate digest r)
     \<and> length (graph_edges (annotate digest r)) \<le> MaxProducedEvidenceRelations
     \<and> r' = graph_report digest r"
  using build_graph_forward[of digest r] build_graph_succeeds[of digest r] by (metis sum.inject(2))

lemma bind_evidence_idem [simp]:
  "bind_evidence x p (bind_evidence x p e) = bind_evidence x p e"
  by (simp add: bind_evidence_def)

lemma bind_operation_idem [simp]: "bind_operation x (bind_operation x n) = bind_operation x n"
  by (simp add: bind_operation_def)

lemma bind_resource_idem [simp]: "bind_resource x (bind_resource x n) = bind_resource x n"
  by (simp add: bind_resource_def)

lemma bind_finding_idem [simp]: "bind_finding x (bind_finding x n) = bind_finding x n"
  by (simp add: bind_finding_def option.map_comp comp_def)

lemma bind_unknown_idem [simp]: "bind_unknown x (bind_unknown x n) = bind_unknown x n"
  by (simp add: bind_unknown_def option.map_comp comp_def)

lemma bind_reference [simp]:
  "bind_operation x (n\<lparr>op_Reference := s\<rparr>) = (bind_operation x n)\<lparr>op_Reference := s\<rparr>"
  "bind_resource x (m\<lparr>rc_Reference := s\<rparr>) = (bind_resource x m)\<lparr>rc_Reference := s\<rparr>"
  "bind_finding x (f\<lparr>fd_Reference := s\<rparr>) = (bind_finding x f)\<lparr>fd_Reference := s\<rparr>"
  "bind_unknown x (u\<lparr>uk_Reference := s\<rparr>) = (bind_unknown x u)\<lparr>uk_Reference := s\<rparr>"
  by (simp_all add: bind_operation_def bind_resource_def bind_finding_def bind_unknown_def)

lemma annotate_idem: "annotate digest ((annotate digest r)\<lparr>rp_Relationships := x\<rparr>) =
    (annotate digest r)\<lparr>rp_Relationships := x\<rparr>"
  by (simp add: annotate_def bindEvidenceInputs_def Let_def option.map_comp comp_def)

lemma graph_edges_relationships [simp]: "graph_edges (r\<lparr>rp_Relationships := x\<rparr>) = graph_edges r"
  by (simp add: graph_edges_def)

lemma graph_nodes_relationships [simp]: "graph_nodes (r\<lparr>rp_Relationships := x\<rparr>) = graph_nodes r"
  by (simp add: graph_nodes_def)

lemma graph_report_idem: "graph_report digest (graph_report digest r) = graph_report digest r"
  unfolding graph_report_def annotate_idem by simp

text \<open>
  Building the graph again changes nothing: a report whose graph was built is a fixed
  point of the construction, with its references, its input bindings and its edges.
\<close>

theorem buildEvidenceGraph_idempotent:
  assumes "buildEvidenceGraphWithDigest digest r = Inr r'"
  shows "buildEvidenceGraphWithDigest digest r' = Inr r'"
proof -
  note built = build_graph_forward[OF assms]
  have r': "annotate digest r' = r'" "graph_nodes r' = graph_nodes r"
    "graph_edges r' = graph_edges (annotate digest r)"
    using built by (simp_all add: graph_report_def annotate_idem)
  then have "\<exists>r''. buildEvidenceGraphWithDigest digest r' = Inr r''"
    using built by (intro build_graph_succeeds)
      (auto simp: reference_collision_free_def edge_collision_free_def)
  then show ?thesis
    using build_graph_forward[of digest r'] built by (auto simp: graph_report_idem)
qed

section \<open>Public references\<close>

lemma byte_upper_hex_byte:
  "byte (upper_hex_byte c) = (if 97 \<le> byte c \<and> byte c \<le> 102 then byte c - 32 else byte c)"
  by (auto simp: upper_hex_byte_def in_rng_def)

lemma upper_hex_byte_bits [code]:
  "upper_hex_byte (Char b0 b1 b2 b3 b4 b5 b6 b7) =
     Char b0 b1 b2 b3 b4 (b5 \<and> (b7 \<or> \<not> b6 \<or> b4 \<or> b3 \<or> \<not> (b0 \<or> b1 \<or> b2) \<or> b0 \<and> b1 \<and> b2)) b6 b7"
  by (cases b0; cases b1; cases b2; cases b3; cases b4; cases b5; cases b6; cases b7;
    simp add: upper_hex_byte_def in_rng_def of_char_def char_of_def bit_numeral_rec bit_0)

lemma upper_hex_byte_inj:
  assumes "lower_hex c" "lower_hex d" "upper_hex_byte c = upper_hex_byte d"
  shows "c = d"
proof -
  have "byte (upper_hex_byte c) = byte (upper_hex_byte d)" using assms(3) by simp
  then have "byte c = byte d"
    using assms(1,2) unfolding byte_upper_hex_byte lower_hex_def in_rng_def
    by (cases "97 \<le> byte c \<and> byte c \<le> 102"; cases "97 \<le> byte d \<and> byte d \<le> 102")
       (simp_all del: of_char_eq_iff, linarith+)
  then show ?thesis by (simp add: byte_inj)
qed

lemma upperHex_inj: "upperHex s = upperHex t \<Longrightarrow> s = t"
proof -
  assume eq: "upperHex s = upperHex t"
  have "hexEncode s = hexEncode t"
  proof (rule map_inj_on)
    show "map upper_hex_byte (hexEncode s) = map upper_hex_byte (hexEncode t)"
      using eq by (simp add: upperHex_def)
    show "inj_on upper_hex_byte (set (hexEncode s) \<union> set (hexEncode t))"
      by (auto simp: inj_on_def intro: upper_hex_byte_inj dest: lower_hex_hexEncode)
  qed
  then show ?thesis by (rule hexEncode_inj)
qed

lemma node_key_not_Nil [simp]: "node_key digest n \<noteq> []"
  by (simp add: node_key_def publicReferenceWithDigest_def Let_def split: prod.splits)

definition node_kinds :: "string set" where
  "node_kinds = {NodeOperation, NodeResource, NodeFinding, NodeUnknown}"

lemma node_identity_inj:
  "k \<in> node_kinds \<Longrightarrow> k' \<in> node_kinds \<Longrightarrow> node_identity (k, i) = node_identity (k', i') \<Longrightarrow> k = k' \<and> i = i'"
  by (auto simp: node_identity_def node_kinds_def)

lemma graph_nodes_kinds: "(k, i) \<in> set (graph_nodes r) \<Longrightarrow> k \<in> node_kinds"
  by (auto simp: graph_nodes_def node_kinds_def)

lemma reference_injective:
  assumes "reference_collision_free digest r" and "a \<in> set (graph_nodes r)" and "b \<in> set (graph_nodes r)"
    and "node_key digest a = node_key digest b"
  shows "a = b"
proof -
  have "node_identity a = node_identity b"
    using assms unfolding reference_collision_free_def collision_free_def by blast
  then show ?thesis
    using assms(2,3) graph_nodes_kinds node_identity_inj by (metis prod.exhaust)
qed

section \<open>A built graph\<close>

definition sample_graph_report :: Report where
  "sample_graph_report = sample_report [] [sample_operation ''o1'' ''curl''] [sample_resource ''r1'' ''o1''] [] []"

lemma sample_graph_edges:
  "graph_edges (annotate sample_digest sample_graph_report) =
     [(RelationshipDerivedFrom, NodeResource, node_key sample_digest (NodeResource, ''r1''), NodeOperation,
       node_key sample_digest (NodeOperation, ''o1''))]"
  by (simp add: graph_edges_def base_edges_def annotate_def bindEvidenceInputs_def Let_def sample_graph_report_def
      sample_report_def sample_operation_def sample_resource_def operation_references_def bind_resource_def
      bind_operation_def)

lemma sample_graph_built:
  "buildEvidenceGraphWithDigest sample_digest sample_graph_report = Inr (graph_report sample_digest sample_graph_report)"
proof -
  have "graph_nodes sample_graph_report = [(NodeOperation, ''o1''), (NodeResource, ''r1'')]"
    by (simp add: graph_nodes_def sample_graph_report_def sample_report_def sample_operation_def sample_resource_def)
  moreover have "node_key sample_digest (NodeOperation, ''o1'') \<noteq> node_key sample_digest (NodeResource, ''r1'')"
    by (auto simp: node_key_def publicReferenceWithDigest_def Let_def sample_digest_def dest: upperHex_inj)
  ultimately have "reference_collision_free sample_digest sample_graph_report"
    by (auto simp: reference_collision_free_def collision_free_def)
  moreover have "edge_collision_free sample_digest (annotate sample_digest sample_graph_report)"
    by (simp add: edge_collision_free_def collision_free_def sample_graph_edges)
  ultimately show ?thesis
    using build_graph_succeeds[of sample_digest sample_graph_report] build_graph_forward[of sample_digest sample_graph_report]
    by (auto simp: sample_graph_edges limits)
qed

theorem buildEvidenceGraph_idempotent_witness:
  "buildEvidenceGraphWithDigest sample_digest (graph_report sample_digest sample_graph_report) =
     Inr (graph_report sample_digest sample_graph_report)"
  by (rule buildEvidenceGraph_idempotent[OF sample_graph_built])

end
