(* ===== verification/GraphValidation.thy ===== *)
theory GraphValidation
  imports EvidenceGraph
begin

text \<open>
  The validator of the evidence graph (internal/report/validate.go, \<open>addReference\<close>,
  \<open>validateRelationshipsWithDigest\<close> and \<open>validateComparisonRelationship\<close>). The maps the
  code iterates over (\<open>required\<close>, \<open>coverageIncoming\<close>) are association lists with one entry
  per key; Go visits them in an unspecified order, which decides only which of several errors
  is reported.
\<close>

section \<open>References of the nodes\<close>

type_synonym reference_maps = "(string \<rightharpoonup> string) \<times> (string \<rightharpoonup> Provenance)"

fun addReference :: "string \<Rightarrow> string \<Rightarrow> Provenance \<Rightarrow> reference_maps \<Rightarrow> reference_maps result" where
  "addReference reference kind value (kinds, provenance) =
     (if reference = [] then Inl (Errorf ''public evidence reference is required'' [])
      else case kinds reference of
        Some previous \<Rightarrow> Inl (Errorf ''duplicate public evidence reference %q for %s and %s''
          [AStr reference, AStr previous, AStr kind])
      | None \<Rightarrow> Inr (kinds(reference \<mapsto> kind), provenance(reference \<mapsto> value)))"

definition zero_provenance :: Provenance where
  "zero_provenance = \<lparr>pv_RuleID = [], pv_Analyzer = [], pv_AnalyzerVersion = [], pv_EvidenceSource = []\<rparr>"

definition provenance_at :: "(string \<rightharpoonup> Provenance) \<Rightarrow> string \<Rightarrow> Provenance" where
  "provenance_at m k = (case m k of None \<Rightarrow> zero_provenance | Some p \<Rightarrow> p)"

section \<open>Comparisons\<close>

definition same_analyzer :: "Provenance \<Rightarrow> Provenance \<Rightarrow> bool" where
  "same_analyzer a b \<longleftrightarrow> pv_Analyzer a = pv_Analyzer b \<and> pv_AnalyzerVersion a = pv_AnalyzerVersion b"

definition validateComparisonRelationship ::
  "Report \<Rightarrow> Relationship \<Rightarrow> (string \<rightharpoonup> Provenance) \<Rightarrow> error" where
  "validateComparisonRelationship r relationship provenance =
     (case re_Comparison relationship of
        None \<Rightarrow> Some (Errorf ''typed comparison basis is required'' [])
      | Some basis \<Rightarrow>
        if cb_Kind basis = [] \<or> cb_Subject basis = []
        then Some (Errorf ''typed comparison basis is required'' [])
        else
          let fromSubject = semanticSubjectByReference r (re_FromKind relationship) (re_From relationship);
              toSubject = semanticSubjectByReference r (re_ToKind relationship) (re_To relationship);
              fromProvenance = provenance_at provenance (re_From relationship);
              toProvenance = provenance_at provenance (re_To relationship);
              mismatch = (re_To relationship < re_From relationship
                \<or> re_FromKind relationship \<noteq> re_ToKind relationship
                \<or> fromSubject = None \<or> toSubject = None \<or> fromSubject \<noteq> toSubject
                \<or> cb_Kind basis \<noteq> re_FromKind relationship \<or> Some (cb_Subject basis) \<noteq> fromSubject)
          in if re_Type relationship = RelationshipCorroborates then first_error [
               check (mismatch \<or> (re_FromKind relationship \<noteq> NodeOperation \<and> re_FromKind relationship \<noteq> NodeResource))
                 ''corroboration endpoints do not share one compatible semantic subject'' [],
               check (is_external fromProvenance = is_external toProvenance \<or> same_analyzer fromProvenance toProvenance)
                 ''corroboration requires one local and one independently produced external observation'' []]
             else if re_Type relationship = RelationshipDuplicates then first_error [
               check (mismatch \<or> \<not> duplicateEquivalentByReference r (re_FromKind relationship)
                   (re_From relationship) (re_To relationship))
                 ''duplicate endpoints are not semantically equivalent observations of one kind'' [],
               check (pv_EvidenceSource fromProvenance \<noteq> pv_EvidenceSource toProvenance
                   \<or> \<not> same_analyzer fromProvenance toProvenance)
                 ''duplicates must share one evidence-source and analyzer boundary'' []]
             else if re_Type relationship = RelationshipDisagreesWith then
               check ((re_FromKind relationship \<noteq> NodeOperation \<and> re_FromKind relationship \<noteq> NodeResource)
                   \<or> re_ToKind relationship \<noteq> NodeFinding \<or> cb_Kind basis \<noteq> ''coverage''
                   \<or> fromSubject \<noteq> Some (cb_Subject basis)
                   \<or> \<not> coverageDifferenceShape r (re_FromKind relationship) (re_From relationship) (re_To relationship))
                 ''disagreement is not an observation-to-coverage-difference comparison'' []
             else Some (Errorf ''invalid comparison type'' []))"

section \<open>The relationship loop\<close>

record graph_state =
  gs_required :: "(edgeTuple \<times> bool) list"
  gs_incoming :: "(string \<times> int) list"
  gs_seen :: "string \<rightharpoonup> edgeTuple"
  gs_pairs :: "string \<rightharpoonup> string"
  gs_count :: int

definition reserved_coverage :: "Finding \<Rightarrow> bool" where
  "reserved_coverage finding \<longleftrightarrow>
     pv_RuleID (fd_Provenance finding) = CoverageComparisonRule \<or> fd_Category finding = CoverageDifferenceCategory"

definition require_edge :: "edgeTuple \<Rightarrow> (edgeTuple \<times> bool) list \<Rightarrow> (edgeTuple \<times> bool) list" where
  "require_edge edge required = AList.update edge False required"

definition require_resource ::
  "(string \<rightharpoonup> string) \<Rightarrow> Resource \<Rightarrow> (edgeTuple \<times> bool) list \<Rightarrow> (edgeTuple \<times> bool) list" where
  "require_resource operationReferences resource =
     require_edge (RelationshipDerivedFrom, NodeResource, rc_Reference resource, NodeOperation,
       at_key operationReferences (rc_RelatedOperationID resource))"

definition require_finding ::
  "(string \<rightharpoonup> string) \<Rightarrow> Finding \<Rightarrow> (edgeTuple \<times> bool) list \<Rightarrow> (edgeTuple \<times> bool) list" where
  "require_finding operationReferences finding =
     (let kind = (if fd_Claim finding = ClaimInference then RelationshipInferredFrom
                  else RelationshipEstablishedBy)
      in fold (\<lambda>related. require_edge (kind, NodeFinding, fd_Reference finding, NodeOperation,
           at_key operationReferences related)) (elems (fd_Related finding)))"

definition require_unknown ::
  "(string \<rightharpoonup> string) \<Rightarrow> Unknown \<Rightarrow> (edgeTuple \<times> bool) list \<Rightarrow> (edgeTuple \<times> bool) list" where
  "require_unknown operationReferences unknown =
     fold (\<lambda>affected. require_edge (RelationshipUnknownBecause, NodeUnknown, uk_Reference unknown,
       NodeOperation, at_key operationReferences affected)) (elems (uk_AffectedOperations unknown))"

definition required_edges :: "Report \<Rightarrow> (edgeTuple \<times> bool) list" where
  "required_edges r =
     (let operationReferences = operation_references (elems (rp_Operations r))
      in fold (require_unknown operationReferences) (elems (rp_Unknowns r))
           (fold (require_finding operationReferences) (elems (rp_Findings r))
             (fold (require_resource operationReferences) (elems (rp_Resources r)) [])))"

definition coverage_incoming :: "Report \<Rightarrow> (string \<times> int) list" where
  "coverage_incoming r =
     fold (\<lambda>finding. AList.update (fd_Reference finding) 0) (filter reserved_coverage (elems (rp_Findings r))) []"

definition tuple_of :: "Relationship \<Rightarrow> edgeTuple" where
  "tuple_of e = (re_Type e, re_FromKind e, re_From e, re_ToKind e, re_To e)"

text \<open>The checks every relationship passes before the switch on its type.\<close>

definition relationship_identity ::
  "digestFunction \<Rightarrow> (string \<rightharpoonup> string) \<Rightarrow> (string \<rightharpoonup> edgeTuple) \<Rightarrow> Relationship \<Rightarrow> error" where
  "relationship_identity digest kinds seen e = first_error [
     check (re_ID e = [] \<or> re_From e = [] \<or> re_To e = [] \<or> re_From e = re_To e)
       ''relationship identity and distinct endpoints are required'' [],
     (case seen (re_ID e) of
        Some previous \<Rightarrow>
          if previous \<noteq> tuple_of e
          then Some (Errorf ''relationship ID %q collides across distinct typed tuples'' [AStr (re_ID e)])
          else Some (Errorf ''duplicate relationship ID %q'' [AStr (re_ID e)])
      | None \<Rightarrow> None),
     check (at_key kinds (re_From e) \<noteq> re_FromKind e \<or> at_key kinds (re_To e) \<noteq> re_ToKind e)
       ''relationship %q has missing or incorrectly typed endpoints'' [AStr (re_ID e)],
     check (re_ID e \<noteq> relationshipIDWithDigest (re_Type e) (re_FromKind e) (re_From e) (re_ToKind e) (re_To e) digest)
       ''relationship %q does not match its typed endpoints'' [AStr (re_ID e)]]"

definition base_relationship :: "(edgeTuple \<times> bool) list \<Rightarrow> Relationship \<Rightarrow> error" where
  "base_relationship required e =
     (if re_Type e = RelationshipDerivedFrom then first_error [
        check (re_FromKind e \<noteq> NodeResource \<or> re_ToKind e \<noteq> NodeOperation)
          ''relationship %q has invalid derived-from endpoint types'' [AStr (re_ID e)],
        check (\<not> has_key required (tuple_of e))
          ''relationship %q is not the resource's declared origin'' [AStr (re_ID e)]]
      else if re_Type e = RelationshipEstablishedBy \<or> re_Type e = RelationshipInferredFrom then first_error [
        check (re_FromKind e \<noteq> NodeFinding \<or> re_ToKind e \<noteq> NodeOperation)
          ''relationship %q has invalid finding-support endpoint types'' [AStr (re_ID e)],
        check (\<not> has_key required (tuple_of e))
          ''relationship %q does not match the finding's claim or declared support'' [AStr (re_ID e)]]
      else first_error [
        check ((re_FromKind e \<noteq> NodeFinding \<and> re_FromKind e \<noteq> NodeUnknown) \<or> re_ToKind e \<noteq> NodeOperation)
          ''relationship %q has invalid unknown-support endpoint types'' [AStr (re_ID e)],
        check (\<not> has_key required (tuple_of e))
          ''relationship %q does not match the unknown's declared affected operation'' [AStr (re_ID e)]])"

definition count_disagreement :: "Relationship \<Rightarrow> graph_state \<Rightarrow> graph_state result" where
  "count_disagreement e s =
     (if re_Type e \<noteq> RelationshipDisagreesWith then Inr s
      else case map_of (gs_incoming s) (re_To e) of
        None \<Rightarrow> Inl (Errorf ''relationship %q targets a finding without the reserved coverage rule and category''
          [AStr (re_ID e)])
      | Some n \<Rightarrow>
          if n + 1 > 1
          then Inl (Errorf ''coverage-difference finding %q has more than one incoming disagreement''
            [AStr (re_To e)])
          else Inr (s\<lparr>gs_incoming := AList.update (re_To e) (n + 1) (gs_incoming s)\<rparr>))"

definition comparison_pair :: "Relationship \<Rightarrow> string" where
  "comparison_pair e = re_From e @ NUL @ re_To e"

definition comparison_step ::
  "Report \<Rightarrow> (string \<rightharpoonup> Provenance) \<Rightarrow> Relationship \<Rightarrow> graph_state \<Rightarrow> graph_state result" where
  "comparison_step r provenance e s0 =
     (let s = s0\<lparr>gs_count := gs_count s0 + 1\<rparr> in
      andthen (first_error [
        check (gs_count s > int MaxComparisonRelations)
          ''comparison relationship count exceeds accepting limit'' [],
        wrap ''relationship %q: %w'' [AStr (re_ID e)] (validateComparisonRelationship r e provenance)])
      (bindr (count_disagreement e s) (\<lambda>s'.
        case gs_pairs s' (comparison_pair e) of
          Some previous \<Rightarrow> Inl (Errorf ''relationship %q conflicts with existing %s comparison''
            [AStr (re_ID e), AStr previous])
        | None \<Rightarrow> Inr (s'\<lparr>gs_pairs := (gs_pairs s')(comparison_pair e \<mapsto> re_Type e)\<rparr>))))"

definition base_types :: "string list" where
  "base_types = [RelationshipDerivedFrom, RelationshipEstablishedBy, RelationshipInferredFrom,
     RelationshipUnknownBecause]"

definition comparison_types :: "string list" where
  "comparison_types = [RelationshipCorroborates, RelationshipDisagreesWith, RelationshipDuplicates]"

definition mark_present :: "Relationship \<Rightarrow> graph_state \<Rightarrow> graph_state" where
  "mark_present e s =
     (if has_key (gs_required s) (tuple_of e)
      then s\<lparr>gs_required := AList.update (tuple_of e) True (gs_required s)\<rparr> else s)"

definition relationship_step ::
  "digestFunction \<Rightarrow> Report \<Rightarrow> (string \<rightharpoonup> string) \<Rightarrow> (string \<rightharpoonup> Provenance) \<Rightarrow> Relationship \<Rightarrow> graph_state
     \<Rightarrow> graph_state result" where
  "relationship_step digest r kinds provenance e s0 =
     andthen (relationship_identity digest kinds (gs_seen s0) e)
     (let s = s0\<lparr>gs_seen := (gs_seen s0)(re_ID e \<mapsto> tuple_of e)\<rparr> in
      if oneOf (re_Type e) base_types then
        andthen (base_relationship (gs_required s) e) (Inr (mark_present e s))
      else if oneOf (re_Type e) comparison_types then
        bindr (comparison_step r provenance e s) (\<lambda>s'. Inr (mark_present e s'))
      else Inl (Errorf ''relationship %q has invalid type %q'' [AStr (re_ID e), AStr (re_Type e)]))"

definition initial_graph_state :: "Report \<Rightarrow> graph_state" where
  "initial_graph_state r =
     \<lparr>gs_required = required_edges r, gs_incoming = coverage_incoming r, gs_seen = Map.empty,
      gs_pairs = Map.empty, gs_count = 0\<rparr>"

definition validateRelationshipsWithDigest ::
  "digestFunction \<Rightarrow> Report \<Rightarrow> (string \<rightharpoonup> string) \<Rightarrow> (string \<rightharpoonup> Provenance) \<Rightarrow> error" where
  "validateRelationshipsWithDigest digest r kinds provenance = error_of (
     bindr (loop (relationship_step digest r kinds provenance) (elems (rp_Relationships r))
       (initial_graph_state r)) (\<lambda>s.
     andthen (first_error [
       first_error (map (\<lambda>((kind, fromKind, from, toKind, to), present).
         check (\<not> present) ''required evidence relationship %v is missing''
           (map AStr [kind, fromKind, from, toKind, to])) (gs_required s)),
       first_error (map (\<lambda>(reference, count).
         check (count \<noteq> 1)
           ''coverage-difference finding %q requires exactly one validated incoming disagreement''
           [AStr reference]) (gs_incoming s))])
     (Inr ())))"

section \<open>The edges the validator requires are the edges the producer builds\<close>

lemma fold_concat_map: "fold f (concat (map g xs)) m = fold (\<lambda>x. fold f (g x)) xs m"
  by (induction xs arbitrary: m) simp_all

lemma required_edges_fold: "required_edges r = fold require_edge (graph_edges r) []"
  by (simp add: required_edges_def graph_edges_def base_edges_def Let_def fold_concat_map fold_map comp_def
      require_resource_def[abs_def] require_finding_def[abs_def] require_unknown_def[abs_def]
      support_type_def)

lemma fold_require_edge:
  "map_of (fold require_edge es m) t = (if t \<in> set es then Some False else map_of m t)"
  "distinct (map fst m) \<Longrightarrow> distinct (map fst (fold require_edge es m))"
  by (induction es arbitrary: m) (simp_all add: require_edge_def distinct_update del: split_paired_All)

lemma required_edges_keys:
  "map_of (required_edges r) t = (if t \<in> set (graph_edges r) then Some False else None)"
  "distinct (map fst (required_edges r))"
  by (simp_all add: required_edges_fold fold_require_edge)

definition reserved_references :: "Report \<Rightarrow> string set" where
  "reserved_references r = fd_Reference ` set (filter reserved_coverage (elems (rp_Findings r)))"

lemma fold_zero_keys:
  fixes fs :: "Finding list" and m :: "(string \<times> int) list"
  shows "map_of (fold (\<lambda>f. AList.update (fd_Reference f) 0) fs m) x =
      (if x \<in> fd_Reference ` set fs then Some 0 else map_of m x)"
    and "distinct (map fst m) \<Longrightarrow> distinct (map fst (fold (\<lambda>f. AList.update (fd_Reference f) 0) fs m))"
  by (induction fs arbitrary: m) (auto simp: distinct_update)

lemma coverage_incoming_keys:
  "map_of (coverage_incoming r) x = (if x \<in> reserved_references r then Some 0 else None)"
  "distinct (map fst (coverage_incoming r))"
  by (simp_all add: coverage_incoming_def reserved_references_def fold_zero_keys)

lemma support_type_cases: "support_type x \<in> {RelationshipEstablishedBy, RelationshipInferredFrom}"
  by (simp add: support_type_def)

lemma graph_edges_shape:
  assumes "(k, fk, f, tk, t) \<in> set (graph_edges r)"
  shows "tk = NodeOperation \<and>
     (k = RelationshipDerivedFrom \<and> fk = NodeResource
      \<or> k \<in> {RelationshipEstablishedBy, RelationshipInferredFrom} \<and> fk = NodeFinding
      \<or> k = RelationshipUnknownBecause \<and> fk = NodeUnknown)"
  using assms unfolding graph_edges_def base_edges_def set_append set_concat set_map
  by (elim UnE UN_E imageE; (simp only: set_map)?; (elim imageE)?) (use support_type_cases in simp_all)

section \<open>What the relationship loop accepts\<close>

declare split_paired_All [simp del] split_paired_Ex [simp del]

definition is_base :: "Relationship \<Rightarrow> bool" where
  "is_base e \<longleftrightarrow> re_Type e \<in> set base_types"

definition is_comparison :: "Relationship \<Rightarrow> bool" where
  "is_comparison e \<longleftrightarrow> re_Type e \<in> set comparison_types"

definition disagrees :: "string \<Rightarrow> Relationship \<Rightarrow> bool" where
  "disagrees x e \<longleftrightarrow> re_Type e = RelationshipDisagreesWith \<and> re_To e = x"

text \<open>A relationship with nonempty, distinct, declared endpoints and the identifier of its tuple.\<close>

definition edge_ok :: "digestFunction \<Rightarrow> (string \<rightharpoonup> string) \<Rightarrow> Relationship \<Rightarrow> bool" where
  "edge_ok digest kinds e \<longleftrightarrow> re_From e \<noteq> [] \<and> re_To e \<noteq> [] \<and> re_From e \<noteq> re_To e
     \<and> at_key kinds (re_From e) = re_FromKind e \<and> at_key kinds (re_To e) = re_ToKind e
     \<and> re_ID e = edge_id digest (tuple_of e)"

definition typed_edge :: "Report \<Rightarrow> (string \<rightharpoonup> Provenance) \<Rightarrow> Relationship \<Rightarrow> bool" where
  "typed_edge r provenance e \<longleftrightarrow>
     (is_base e \<and> tuple_of e \<in> set (graph_edges r)
      \<or> is_comparison e \<and> validateComparisonRelationship r e provenance = None
        \<and> (re_Type e = RelationshipDisagreesWith \<longrightarrow> re_To e \<in> reserved_references r))"

definition accepted ::
  "digestFunction \<Rightarrow> Report \<Rightarrow> (string \<rightharpoonup> string) \<Rightarrow> (string \<rightharpoonup> Provenance) \<Rightarrow> Relationship list \<Rightarrow> bool" where
  "accepted digest r kinds provenance es \<longleftrightarrow>
     distinct (map re_ID es) \<and> (\<forall>e \<in> set es. edge_ok digest kinds e \<and> typed_edge r provenance e)
     \<and> length (filter is_comparison es) \<le> MaxComparisonRelations
     \<and> distinct (map comparison_pair (filter is_comparison es))
     \<and> (\<forall>x. length (filter (disagrees x) es) \<le> 1)"

definition graph_inv :: "Report \<Rightarrow> Relationship list \<Rightarrow> graph_state \<Rightarrow> bool" where
  "graph_inv r es s \<longleftrightarrow>
     (\<forall>t. map_of (gs_required s) t = (if t \<in> set (graph_edges r) then Some (t \<in> tuple_of ` set es) else None))
     \<and> (\<forall>x. map_of (gs_incoming s) x =
          (if x \<in> reserved_references r then Some (int (length (filter (disagrees x) es))) else None))
     \<and> distinct (map fst (gs_required s)) \<and> distinct (map fst (gs_incoming s))
     \<and> dom (gs_seen s) = re_ID ` set es
     \<and> dom (gs_pairs s) = comparison_pair ` set (filter is_comparison es)
     \<and> gs_count s = int (length (filter is_comparison es))"

lemma edge_id_not_Nil [simp]: "edge_id digest t \<noteq> []"
  by (cases t) (simp add: relationshipIDWithDigest_def Let_def)

lemma edge_id_tuple_of:
  "edge_id digest (tuple_of e) =
     relationshipIDWithDigest (re_Type e) (re_FromKind e) (re_From e) (re_ToKind e) (re_To e) digest"
  by (simp add: tuple_of_def)

lemma base_not_comparison: "is_base e \<Longrightarrow> \<not> is_comparison e"
  by (auto simp: is_base_def is_comparison_def base_types_def comparison_types_def)

lemma disagrees_comparison: "disagrees x e \<Longrightarrow> is_comparison e"
  by (auto simp: disagrees_def is_comparison_def comparison_types_def)

lemma relationship_identity_None:
  "relationship_identity digest kinds seen e = None \<longleftrightarrow> seen (re_ID e) = None \<and> edge_ok digest kinds e"
proof -
  have "re_ID e \<noteq> []" if "re_ID e = edge_id digest (tuple_of e)" using that by simp
  then show ?thesis
    by (auto simp: relationship_identity_def edge_ok_def edge_id_tuple_of split: option.splits)
qed

lemma base_relationship_None:
  assumes "is_base e"
    and "\<forall>t. map_of required t = (if t \<in> set (graph_edges r) then Some (b t) else None)"
  shows "base_relationship required e = None \<longleftrightarrow> tuple_of e \<in> set (graph_edges r)"
proof -
  have key: "has_key required t \<longleftrightarrow> t \<in> set (graph_edges r)" for t
    using assms(2) by (simp add: has_key_def)
  have shape: "re_ToKind e = NodeOperation \<and>
     (re_Type e = RelationshipDerivedFrom \<and> re_FromKind e = NodeResource
      \<or> re_Type e \<in> {RelationshipEstablishedBy, RelationshipInferredFrom} \<and> re_FromKind e = NodeFinding
      \<or> re_Type e = RelationshipUnknownBecause \<and> re_FromKind e = NodeUnknown)"
    if "tuple_of e \<in> set (graph_edges r)"
    using graph_edges_shape[OF that[unfolded tuple_of_def]] .
  show ?thesis unfolding base_relationship_def key using shape by auto
qed

lemma mark_present_fields [simp]:
  "gs_incoming (mark_present e s) = gs_incoming s" "gs_seen (mark_present e s) = gs_seen s"
  "gs_pairs (mark_present e s) = gs_pairs s" "gs_count (mark_present e s) = gs_count s"
  by (simp_all add: mark_present_def)

lemma mark_present_required:
  assumes "\<forall>t. map_of (gs_required s) t = (if t \<in> E then Some (t \<in> T) else None)"
    and "distinct (map fst (gs_required s))"
  shows "\<forall>t. map_of (gs_required (mark_present e s)) t = (if t \<in> E then Some (t \<in> insert (tuple_of e) T) else None)"
    and "distinct (map fst (gs_required (mark_present e s)))"
  using assms by (auto simp: mark_present_def has_key_def distinct_update)

lemma count_disagreement_Inr:
  "count_disagreement e s = Inr s' \<longleftrightarrow>
     (if re_Type e = RelationshipDisagreesWith
      then \<exists>n. map_of (gs_incoming s) (re_To e) = Some n \<and> n \<le> 0
             \<and> s' = s\<lparr>gs_incoming := AList.update (re_To e) (n + 1) (gs_incoming s)\<rparr>
      else s' = s)"
  by (auto simp: count_disagreement_def split: option.splits)

lemma comparison_step_Inr:
  "comparison_step r provenance e s = Inr s' \<longleftrightarrow>
     gs_count s < int MaxComparisonRelations \<and> validateComparisonRelationship r e provenance = None
     \<and> (\<exists>t. count_disagreement e (s\<lparr>gs_count := gs_count s + 1\<rparr>) = Inr t
          \<and> gs_pairs t (comparison_pair e) = None
          \<and> s' = t\<lparr>gs_pairs := (gs_pairs t)(comparison_pair e \<mapsto> re_Type e)\<rparr>)"
  by (auto simp: comparison_step_def Let_def bindr_Inr split: option.splits)

lemma relationship_step_Inr:
  "relationship_step digest r kinds provenance e s = Inr s' \<longleftrightarrow>
     gs_seen s (re_ID e) = None \<and> edge_ok digest kinds e
     \<and> (let t = s\<lparr>gs_seen := (gs_seen s)(re_ID e \<mapsto> tuple_of e)\<rparr>
        in is_base e \<and> base_relationship (gs_required s) e = None \<and> s' = mark_present e t
           \<or> is_comparison e \<and> (\<exists>u. comparison_step r provenance e t = Inr u \<and> s' = mark_present e u))"
  using base_not_comparison[of e]
  by (auto simp: relationship_step_def relationship_identity_None Let_def bindr_Inr is_base_def is_comparison_def)

lemma filter_disagrees_snoc:
  "length (filter (disagrees x) (es @ [e])) = length (filter (disagrees x) es) + (if disagrees x e then 1 else 0)"
  by simp

lemma step_base_forward:
  assumes "graph_inv r es s" and "is_base e"
  shows "graph_inv r (es @ [e]) (mark_present e (s\<lparr>gs_seen := (gs_seen s)(re_ID e \<mapsto> tuple_of e)\<rparr>))"
  using assms base_not_comparison[of e] disagrees_comparison[of _ e]
    mark_present_required[of "s\<lparr>gs_seen := (gs_seen s)(re_ID e \<mapsto> tuple_of e)\<rparr>" "set (graph_edges r)" "tuple_of ` set es" e]
  unfolding graph_inv_def by auto

lemma count_disagreement_inv:
  assumes "count_disagreement e s = Inr t"
    and "\<forall>x. map_of (gs_incoming s) x =
          (if x \<in> R then Some (int (length (filter (disagrees x) es))) else None)"
    and "distinct (map fst (gs_incoming s))"
  shows "\<forall>x. map_of (gs_incoming t) x =
          (if x \<in> R then Some (int (length (filter (disagrees x) (es @ [e])))) else None)"
    and "distinct (map fst (gs_incoming t))"
    and "gs_required t = gs_required s" "gs_seen t = gs_seen s" "gs_pairs t = gs_pairs s" "gs_count t = gs_count s"
proof -
  show "\<forall>x. map_of (gs_incoming t) x =
          (if x \<in> R then Some (int (length (filter (disagrees x) (es @ [e])))) else None)"
    using assms(1,2) by (auto simp: count_disagreement_Inr disagrees_def split: if_splits)
qed (use assms(1,3) in \<open>auto simp: count_disagreement_Inr distinct_update split: if_splits\<close>)

lemma step_comparison_forward:
  assumes inv: "graph_inv r es s" and e: "is_comparison e"
    and step: "comparison_step r provenance e (s\<lparr>gs_seen := (gs_seen s)(re_ID e \<mapsto> tuple_of e)\<rparr>) = Inr u"
  shows "graph_inv r (es @ [e]) (mark_present e u)"
proof -
  obtain t where c: "count_disagreement e (s\<lparr>gs_seen := (gs_seen s)(re_ID e \<mapsto> tuple_of e), gs_count := gs_count s + 1\<rparr>) = Inr t"
    and u: "u = t\<lparr>gs_pairs := (gs_pairs t)(comparison_pair e \<mapsto> re_Type e)\<rparr>"
    using step by (auto simp: comparison_step_Inr)
  have i: "\<forall>x. map_of (gs_incoming s) x =
        (if x \<in> reserved_references r then Some (int (length (filter (disagrees x) es))) else None)"
      "distinct (map fst (gs_incoming s))"
    using inv by (simp_all add: graph_inv_def)
  note t = count_disagreement_inv[OF c, simplified, OF i]
  have req: "\<forall>t. map_of (gs_required u) t = (if t \<in> set (graph_edges r) then Some (t \<in> tuple_of ` set es) else None)"
    "distinct (map fst (gs_required u))"
    using inv t(3) by (simp_all add: u graph_inv_def)
  show ?thesis
    using mark_present_required[OF req, of e] inv e t unfolding graph_inv_def u by auto
qed

lemma at_most_one:
  fixes f :: "'a \<Rightarrow> nat"
  shows "(\<forall>x. f x + (if x = a then 1 else 0) \<le> 1) \<longleftrightarrow> (\<forall>x. f x \<le> 1) \<and> f a = 0"
proof
  assume all: "\<forall>x. f x + (if x = a then 1 else 0) \<le> 1"
  have "f x \<le> 1" for x using spec[OF all, of x] by simp
  moreover have "f a = 0" using spec[OF all, of a] by simp
  ultimately show "(\<forall>x. f x \<le> 1) \<and> f a = 0" by blast
qed simp

lemma accepted_snoc:
  "accepted digest r kinds provenance (es @ [e]) \<longleftrightarrow>
     accepted digest r kinds provenance es \<and> re_ID e \<notin> re_ID ` set es
     \<and> edge_ok digest kinds e \<and> typed_edge r provenance e
     \<and> (is_comparison e \<longrightarrow> length (filter is_comparison es) < MaxComparisonRelations
          \<and> comparison_pair e \<notin> comparison_pair ` set (filter is_comparison es)
          \<and> (re_Type e = RelationshipDisagreesWith \<longrightarrow> filter (disagrees (re_To e)) es = []))"
proof -
  have one: "(\<forall>x. length (filter (disagrees x) (es @ [e])) \<le> 1) \<longleftrightarrow>
      (\<forall>x. length (filter (disagrees x) es) \<le> 1)
      \<and> (re_Type e = RelationshipDisagreesWith \<longrightarrow> filter (disagrees (re_To e)) es = [])"
  proof (cases "re_Type e = RelationshipDisagreesWith")
    case True
    have snoc: "length (filter (disagrees x) (es @ [e])) =
        length (filter (disagrees x) es) + (if x = re_To e then 1 else 0)" for x
      using True by (simp add: disagrees_def)
    show ?thesis unfolding snoc at_most_one using True by simp
  next
    case False
    then show ?thesis by (simp add: disagrees_def)
  qed
  have dis: "re_Type e = RelationshipDisagreesWith \<Longrightarrow> is_comparison e"
    by (simp add: is_comparison_def comparison_types_def)
  have ids: "distinct (map re_ID (es @ [e])) \<longleftrightarrow> distinct (map re_ID es) \<and> re_ID e \<notin> re_ID ` set es"
    by (simp add: conj_commute)
  have pairs: "distinct (map comparison_pair (filter is_comparison (es @ [e]))) \<longleftrightarrow>
       distinct (map comparison_pair (filter is_comparison es))
       \<and> (is_comparison e \<longrightarrow> comparison_pair e \<notin> comparison_pair ` set (filter is_comparison es))"
    by (cases "is_comparison e") (simp_all add: conj_commute)
  have count: "length (filter is_comparison (es @ [e])) \<le> MaxComparisonRelations \<longleftrightarrow>
       length (filter is_comparison es) \<le> MaxComparisonRelations
       \<and> (is_comparison e \<longrightarrow> length (filter is_comparison es) < MaxComparisonRelations)"
    by (cases "is_comparison e") (simp_all, linarith)
  have ball: "(\<forall>d \<in> set (es @ [e]). P d) \<longleftrightarrow> (\<forall>d \<in> set es. P d) \<and> P e" for P
    by (simp add: conj_commute)
  show ?thesis unfolding accepted_def one ids pairs count ball using dis by blast
qed

lemma step_iff:
  assumes inv: "graph_inv r es s"
  shows "(\<exists>s'. relationship_step digest r kinds provenance e s = Inr s') \<and> accepted digest r kinds provenance es
    \<longleftrightarrow> accepted digest r kinds provenance (es @ [e])"
proof -
  have seen: "gs_seen s (re_ID e) = None \<longleftrightarrow> re_ID e \<notin> re_ID ` set es"
    using inv unfolding graph_inv_def by (metis domIff)
  have base: "is_base e \<Longrightarrow> base_relationship (gs_required s) e = None \<longleftrightarrow> tuple_of e \<in> set (graph_edges r)"
    using base_relationship_None[of e "gs_required s" r "\<lambda>t. t \<in> tuple_of ` set es"] inv by (simp add: graph_inv_def)
  have count: "gs_count s = int (length (filter is_comparison es))"
    and pairs: "gs_pairs s x = None \<longleftrightarrow> x \<notin> comparison_pair ` set (filter is_comparison es)"
    and incoming: "map_of (gs_incoming s) x =
          (if x \<in> reserved_references r then Some (int (length (filter (disagrees x) es))) else None)" for x
    using inv domIff[of x "gs_pairs s"] unfolding graph_inv_def by simp_all
  let ?t = "s\<lparr>gs_seen := (gs_seen s)(re_ID e \<mapsto> tuple_of e)\<rparr>"
  have comparison: "(\<exists>u. comparison_step r provenance e ?t = Inr u) \<longleftrightarrow>
      length (filter is_comparison es) < MaxComparisonRelations
      \<and> validateComparisonRelationship r e provenance = None
      \<and> comparison_pair e \<notin> comparison_pair ` set (filter is_comparison es)
      \<and> (re_Type e = RelationshipDisagreesWith \<longrightarrow>
           re_To e \<in> reserved_references r \<and> filter (disagrees (re_To e)) es = [])"
    unfolding comparison_step_Inr count_disagreement_Inr pairs[symmetric]
    by (cases "re_Type e = RelationshipDisagreesWith") (auto simp: count incoming)
  show ?thesis
    unfolding accepted_snoc relationship_step_Inr seen typed_edge_def Let_def
    using base base_not_comparison[of e] comparison by (auto simp: Let_def)
qed

lemma step_forward:
  "graph_inv r es s \<Longrightarrow> relationship_step digest r kinds provenance e s = Inr s' \<Longrightarrow> graph_inv r (es @ [e]) s'"
  by (auto simp: relationship_step_Inr Let_def intro: step_base_forward step_comparison_forward)

lemma accepted_prefix: "accepted digest r kinds provenance (es @ fs) \<Longrightarrow> accepted digest r kinds provenance es"
  by (induction fs rule: rev_induct) (auto simp: accepted_snoc simp flip: append_assoc)

lemma initial_graph_inv: "graph_inv r [] (initial_graph_state r)"
  by (simp add: graph_inv_def initial_graph_state_def required_edges_keys coverage_incoming_keys)

lemma relationship_loop_iff:
  "(\<exists>s. loop (relationship_step digest r kinds provenance) es (initial_graph_state r) = Inr s)
     \<longleftrightarrow> accepted digest r kinds provenance es"
  (is "(\<exists>s. ?loop = Inr s) \<longleftrightarrow> ?acc es")
proof
  assume "\<exists>s. ?loop = Inr s"
  then obtain s where l: "?loop = Inr s" ..
  have "?acc es \<and> graph_inv r es s"
    by (rule loop_invariant[OF l, where P = "\<lambda>ys u. ?acc ys \<and> graph_inv r ys u"])
       (auto simp: initial_graph_inv accepted_def[of _ _ _ _ "[]"] step_forward simp flip: step_iff)
  then show "?acc es" ..
next
  assume acc: "?acc es"
  have "\<exists>t. ?loop = Inr t \<and> graph_inv r es t"
  proof (rule loop_succeeds)
    fix ys y zs u assume es: "es = ys @ y # zs" and inv: "graph_inv r ys u"
    have "?acc (ys @ [y])" using acc accepted_prefix[of digest r kinds provenance "ys @ [y]" zs] es by simp
    with step_iff[OF inv] step_forward[OF inv]
    show "\<exists>v. relationship_step digest r kinds provenance y u = Inr v \<and> graph_inv r (ys @ [y]) v" by blast
  qed (rule initial_graph_inv)
  then show "\<exists>s. ?loop = Inr s" by blast
qed

lemma relationship_loop_inv:
  assumes "loop (relationship_step digest r kinds provenance) es (initial_graph_state r) = Inr s"
  shows "graph_inv r es s"
  by (rule loop_invariant[OF assms]) (auto simp: initial_graph_inv intro: step_forward)

text \<open>The graph a report must carry: what the loop accepts, and nothing missing.\<close>

definition valid_graph ::
  "digestFunction \<Rightarrow> Report \<Rightarrow> (string \<rightharpoonup> string) \<Rightarrow> (string \<rightharpoonup> Provenance) \<Rightarrow> bool" where
  "valid_graph digest r kinds provenance \<longleftrightarrow>
     accepted digest r kinds provenance (elems (rp_Relationships r))
     \<and> set (graph_edges r) = tuple_of ` {e \<in> set (elems (rp_Relationships r)). is_base e}
     \<and> (\<forall>x \<in> reserved_references r. length (filter (disagrees x) (elems (rp_Relationships r))) = 1)"

lemma accepted_base_edges:
  assumes "accepted digest r kinds provenance es"
  shows "set (graph_edges r) \<subseteq> tuple_of ` set es \<longleftrightarrow> set (graph_edges r) = tuple_of ` {e \<in> set es. is_base e}"
proof -
  have typed: "is_base e \<and> tuple_of e \<in> set (graph_edges r) \<or> is_comparison e" if "e \<in> set es" for e
    using assms that by (auto simp: accepted_def typed_edge_def)
  have base: "is_base e" if "tuple_of e \<in> set (graph_edges r)" for e
    using graph_edges_shape[OF that[unfolded tuple_of_def]]
    by (auto simp: is_base_def base_types_def)
  show ?thesis using typed base base_not_comparison by blast
qed

lemma validateRelationships_None:
  "validateRelationshipsWithDigest digest r kinds provenance = None \<longleftrightarrow>
     (\<exists>s. loop (relationship_step digest r kinds provenance) (elems (rp_Relationships r)) (initial_graph_state r)
          = Inr s \<and> (\<forall>(t, present) \<in> set (gs_required s). present)
        \<and> (\<forall>(x, count) \<in> set (gs_incoming s). count = 1))"
  by (fastforce simp: validateRelationshipsWithDigest_def bindr_Inr)

lemma ball_pairs: "(\<forall>(a, b) \<in> S. P a b) \<longleftrightarrow> (\<forall>a b. (a, b) \<in> S \<longrightarrow> P a b)"
  by auto

lemma graph_inv_complete:
  assumes "graph_inv r es s"
  shows "(\<forall>(t, present) \<in> set (gs_required s). present) \<longleftrightarrow> set (graph_edges r) \<subseteq> tuple_of ` set es"
    and "(\<forall>(x, count) \<in> set (gs_incoming s). count = 1) \<longleftrightarrow>
      (\<forall>x \<in> reserved_references r. length (filter (disagrees x) es) = 1)"
proof -
  have d: "distinct (map fst (gs_required s))" "distinct (map fst (gs_incoming s))"
    and m: "map_of (gs_required s) t = (if t \<in> set (graph_edges r) then Some (t \<in> tuple_of ` set es) else None)"
      "map_of (gs_incoming s) x = (if x \<in> reserved_references r
         then Some (int (length (filter (disagrees x) es))) else None)" for t x
    using assms by (simp_all add: graph_inv_def)
  have req: "(t, b) \<in> set (gs_required s) \<longleftrightarrow> t \<in> set (graph_edges r) \<and> b = (t \<in> tuple_of ` set es)" for t b
    unfolding map_of_eq_Some_iff[OF d(1), symmetric] m by auto
  have inc: "(x, n) \<in> set (gs_incoming s) \<longleftrightarrow>
      x \<in> reserved_references r \<and> n = int (length (filter (disagrees x) es))" for x n
    unfolding map_of_eq_Some_iff[OF d(2), symmetric] m by auto
  show "(\<forall>(t, present) \<in> set (gs_required s). present) \<longleftrightarrow> set (graph_edges r) \<subseteq> tuple_of ` set es"
    unfolding ball_pairs req by blast
  show "(\<forall>(x, count) \<in> set (gs_incoming s). count = 1) \<longleftrightarrow>
      (\<forall>x \<in> reserved_references r. length (filter (disagrees x) es) = 1)"
    unfolding ball_pairs inc by (simp add: Ball_def)
qed

lemma validateRelationships_valid_graph:
  "validateRelationshipsWithDigest digest r kinds provenance = None \<longleftrightarrow> valid_graph digest r kinds provenance"
proof -
  let ?es = "elems (rp_Relationships r)" and ?acc = "accepted digest r kinds provenance"
  let ?complete = "\<lambda>s. (\<forall>(t, present) \<in> set (gs_required s). present) \<and> (\<forall>(x, count) \<in> set (gs_incoming s). count = 1)"
  let ?loop = "loop (relationship_step digest r kinds provenance) ?es (initial_graph_state r)"
  let ?spec = "set (graph_edges r) \<subseteq> tuple_of ` set ?es \<and> (\<forall>x \<in> reserved_references r. length (filter (disagrees x) ?es) = 1)"
  have "?complete s \<longleftrightarrow> ?spec" if "?loop = Inr s" for s
    using graph_inv_complete[OF relationship_loop_inv[OF that]] by simp
  then have "(\<exists>s. ?loop = Inr s \<and> ?complete s) \<longleftrightarrow> (\<exists>s. ?loop = Inr s) \<and> ?spec" by blast
  also have "\<dots> \<longleftrightarrow> ?acc ?es \<and> ?spec" unfolding relationship_loop_iff ..
  also have "\<dots> \<longleftrightarrow> valid_graph digest r kinds provenance"
    unfolding valid_graph_def using accepted_base_edges[of digest r kinds provenance ?es] by blast
  finally show ?thesis unfolding validateRelationships_None .
qed

text \<open>
  C10. The relationship validator, a loop with early returns over maps of required edges, seen
  identifiers and comparison pairs, accepts exactly the reports whose relationships have
  distinct identifiers recomputed from their typed endpoints, whose endpoints are declared
  nodes of the stated kinds, whose base edges are precisely the links the nodes declare, whose
  comparisons are each valid, at most one per ordered pair of nodes and within the limit, and
  in which every coverage-difference finding has exactly one incoming disagreement.
\<close>

theorem validateRelationships_iff:
  "validateRelationshipsWithDigest digest r kinds provenance = None \<longleftrightarrow> valid_graph digest r kinds provenance"
  by (rule validateRelationships_valid_graph)

section \<open>The producer's graph is accepted\<close>

definition nul_free :: "string \<Rightarrow> bool" where
  "nul_free s \<longleftrightarrow> CHR 0x00 \<notin> set s"

lemma upper_hex_byte_not_nul: "lower_hex c \<Longrightarrow> upper_hex_byte c \<noteq> CHR 0x00"
proof
  assume c: "lower_hex c" and "upper_hex_byte c = CHR 0x00"
  then have "byte (upper_hex_byte c) = 0" by simp
  with c show False unfolding byte_upper_hex_byte lower_hex_def in_rng_def by (simp split: if_splits)
qed

lemma nul_free_upperHex: "nul_free (upperHex s)"
  using upper_hex_byte_not_nul lower_hex_hexEncode by (force simp: nul_free_def upperHex_def)

lemma nul_free_node_key: "nul_free (node_key digest n)"
  using nul_free_upperHex
  by (simp add: node_key_def publicReferenceWithDigest_def Let_def nul_free_def split: prod.splits)

lemma edge_identity_split:
  assumes "nul_free k" "nul_free fk" "nul_free f" "nul_free tk" "nul_free t"
  shows "split_on CHR 0x00 (edge_identity (k, fk, f, tk, t)) = [k, fk, f, tk, t]"
  using assms by (simp add: nul_free_def split_on_append_sep)

lemma edge_identity_inj:
  assumes "nul_free k" "nul_free fk" "nul_free f" "nul_free tk" "nul_free t"
    and "nul_free k'" "nul_free fk'" "nul_free f'" "nul_free tk'" "nul_free t'"
    and "edge_identity (k, fk, f, tk, t) = edge_identity (k', fk', f', tk', t')"
  shows "(k, fk, f, tk, t) = (k', fk', f', tk', t')"
proof -
  have "[k, fk, f, tk, t] = [k', fk', f', tk', t']"
    unfolding edge_identity_split[OF assms(1-5), symmetric] edge_identity_split[OF assms(6-10), symmetric] assms(11) ..
  then show ?thesis by simp
qed

text \<open>Reports whose nodes are identified and linked the way the analyzers produce them.\<close>

definition linked_report :: "Report \<Rightarrow> bool" where
  "linked_report r \<longleftrightarrow>
     distinct (graph_nodes r)
     \<and> (\<forall>x \<in> set (elems (rp_Resources r)). rc_RelatedOperationID x \<in> op_ID ` set (elems (rp_Operations r)))
     \<and> (\<forall>f \<in> set (elems (rp_Findings r)). set (elems (fd_Related f)) \<subseteq> op_ID ` set (elems (rp_Operations r))
          \<and> distinct (elems (fd_Related f)) \<and> \<not> reserved_coverage f)
     \<and> (\<forall>u \<in> set (elems (rp_Unknowns r)). set (elems (uk_AffectedOperations u)) \<subseteq> op_ID ` set (elems (rp_Operations r))
          \<and> distinct (elems (uk_AffectedOperations u)))"

lemma operation_references_at:
  assumes "\<And>x. x \<in> set ops \<Longrightarrow> op_Reference x = g (op_ID x)" and "i \<in> op_ID ` set ops"
  shows "at_key (operation_references ops) i = g i"
proof -
  have "fold (\<lambda>x m. m(op_ID x \<mapsto> op_Reference x)) ops m i = (if i \<in> op_ID ` set ops then Some (g i) else m i)" for m
    using assms(1) by (induction ops arbitrary: m) auto
  with assms(2) show ?thesis by (simp add: operation_references_def)
qed

text \<open>The edges of an annotated report, in terms of its node identities.\<close>

definition resource_edge :: "digestFunction \<Rightarrow> Resource \<Rightarrow> edgeTuple" where
  "resource_edge digest x = (RelationshipDerivedFrom, NodeResource, node_key digest (NodeResource, rc_ID x),
     NodeOperation, node_key digest (NodeOperation, rc_RelatedOperationID x))"

definition finding_edge :: "digestFunction \<Rightarrow> Finding \<Rightarrow> string \<Rightarrow> edgeTuple" where
  "finding_edge digest f i = (support_type f, NodeFinding, node_key digest (NodeFinding, fd_ID f),
     NodeOperation, node_key digest (NodeOperation, i))"

definition unknown_edge :: "digestFunction \<Rightarrow> Unknown \<Rightarrow> string \<Rightarrow> edgeTuple" where
  "unknown_edge digest u i = (RelationshipUnknownBecause, NodeUnknown, node_key digest (NodeUnknown, uk_ID u),
     NodeOperation, node_key digest (NodeOperation, i))"

definition annotated :: "digestFunction \<Rightarrow> Report \<Rightarrow> bool" where
  "annotated digest r \<longleftrightarrow>
     (\<forall>x \<in> set (elems (rp_Operations r)). op_Reference x = node_key digest (NodeOperation, op_ID x))
     \<and> (\<forall>x \<in> set (elems (rp_Resources r)). rc_Reference x = node_key digest (NodeResource, rc_ID x))
     \<and> (\<forall>x \<in> set (elems (rp_Findings r)). fd_Reference x = node_key digest (NodeFinding, fd_ID x))
     \<and> (\<forall>x \<in> set (elems (rp_Unknowns r)). uk_Reference x = node_key digest (NodeUnknown, uk_ID x))"

lemma annotated_annotate: "annotated digest (annotate digest r)"
  by (auto simp: annotated_def annotate_def Let_def)

lemma graph_edges_annotated:
  assumes "annotated digest r" and "linked_report r"
  shows "graph_edges r =
     map (resource_edge digest) (elems (rp_Resources r))
     @ concat (map (\<lambda>f. map (finding_edge digest f) (elems (fd_Related f))) (elems (rp_Findings r)))
     @ concat (map (\<lambda>u. map (unknown_edge digest u) (elems (uk_AffectedOperations u))) (elems (rp_Unknowns r)))"
proof -
  let ?ops = "elems (rp_Operations r)"
  have ref: "at_key (operation_references ?ops) i = node_key digest (NodeOperation, i)" if "i \<in> op_ID ` set ?ops" for i
    using assms(1) that by (intro operation_references_at) (auto simp: annotated_def)
  have rel: "x \<in> set (elems (rp_Resources r)) \<Longrightarrow> rc_RelatedOperationID x \<in> op_ID ` set ?ops"
    "f \<in> set (elems (rp_Findings r)) \<Longrightarrow> i \<in> set (elems (fd_Related f)) \<Longrightarrow> i \<in> op_ID ` set ?ops"
    "u \<in> set (elems (rp_Unknowns r)) \<Longrightarrow> i \<in> set (elems (uk_AffectedOperations u)) \<Longrightarrow> i \<in> op_ID ` set ?ops"
    for x f u i
    using assms(2) unfolding linked_report_def by blast+
  have "map (\<lambda>x. (RelationshipDerivedFrom, NodeResource, rc_Reference x, NodeOperation,
            at_key (operation_references ?ops) (rc_RelatedOperationID x))) (elems (rp_Resources r))
        = map (resource_edge digest) (elems (rp_Resources r))"
    using assms(1) by (intro map_cong refl) (simp add: resource_edge_def annotated_def ref[OF rel(1)])
  moreover have "map (\<lambda>f. map (\<lambda>i. (support_type f, NodeFinding, fd_Reference f, NodeOperation,
            at_key (operation_references ?ops) i)) (elems (fd_Related f))) (elems (rp_Findings r))
        = map (\<lambda>f. map (finding_edge digest f) (elems (fd_Related f))) (elems (rp_Findings r))"
    using assms(1) by (intro map_cong refl) (simp add: finding_edge_def annotated_def ref[OF rel(2)])
  moreover have "map (\<lambda>u. map (\<lambda>i. (RelationshipUnknownBecause, NodeUnknown, uk_Reference u, NodeOperation,
            at_key (operation_references ?ops) i)) (elems (uk_AffectedOperations u))) (elems (rp_Unknowns r))
        = map (\<lambda>u. map (unknown_edge digest u) (elems (uk_AffectedOperations u))) (elems (rp_Unknowns r))"
    using assms(1) by (intro map_cong refl) (simp add: unknown_edge_def annotated_def ref[OF rel(3)])
  ultimately show ?thesis unfolding graph_edges_def base_edges_def by metis
qed

lemma distinct_concat_map:
  "distinct xs \<Longrightarrow> (\<And>x. x \<in> set xs \<Longrightarrow> distinct (g x)) \<Longrightarrow>
   (\<And>x y. x \<in> set xs \<Longrightarrow> y \<in> set xs \<Longrightarrow> x \<noteq> y \<Longrightarrow> set (g x) \<inter> set (g y) = {}) \<Longrightarrow>
   distinct (concat (map g xs))"
  by (induction xs) fastforce+

lemma linked_nodes_distinct:
  assumes "linked_report r"
  shows "distinct (elems (rp_Resources r)) \<and> inj_on rc_ID (set (elems (rp_Resources r)))"
    and "distinct (elems (rp_Findings r)) \<and> inj_on fd_ID (set (elems (rp_Findings r)))"
    and "distinct (elems (rp_Unknowns r)) \<and> inj_on uk_ID (set (elems (rp_Unknowns r)))"
  using assms by (simp_all add: linked_report_def graph_nodes_def distinct_map inj_on_def)

lemma in_graph_nodes:
  "x \<in> set (elems (rp_Resources r)) \<Longrightarrow> (NodeResource, rc_ID x) \<in> set (graph_nodes r)"
  "f \<in> set (elems (rp_Findings r)) \<Longrightarrow> (NodeFinding, fd_ID f) \<in> set (graph_nodes r)"
  "u \<in> set (elems (rp_Unknowns r)) \<Longrightarrow> (NodeUnknown, uk_ID u) \<in> set (graph_nodes r)"
  "i \<in> op_ID ` set (elems (rp_Operations r)) \<Longrightarrow> (NodeOperation, i) \<in> set (graph_nodes r)"
  by (auto simp: graph_nodes_def)

text \<open>What every edge of such a report looks like.\<close>

definition edge_between :: "digestFunction \<Rightarrow> Report \<Rightarrow> edgeTuple \<Rightarrow> bool" where
  "edge_between digest r t \<longleftrightarrow> (\<exists>k fk i j. t = (k, fk, node_key digest (fk, i), NodeOperation, node_key digest (NodeOperation, j))
     \<and> k \<in> set base_types \<and> fk \<in> {NodeResource, NodeFinding, NodeUnknown}
     \<and> (fk, i) \<in> set (graph_nodes r) \<and> (NodeOperation, j) \<in> set (graph_nodes r))"

lemma edge_betweenI:
  "k \<in> set base_types \<Longrightarrow> fk \<in> {NodeResource, NodeFinding, NodeUnknown} \<Longrightarrow> (fk, i) \<in> set (graph_nodes r) \<Longrightarrow>
   (NodeOperation, j) \<in> set (graph_nodes r) \<Longrightarrow>
   edge_between digest r (k, fk, node_key digest (fk, i), NodeOperation, node_key digest (NodeOperation, j))"
  unfolding edge_between_def by blast

lemma graph_edges_between:
  assumes "annotated digest r" and "linked_report r" and "t \<in> set (graph_edges r)"
  shows "edge_between digest r t"
proof -
  have ops: "x \<in> set (elems (rp_Resources r)) \<Longrightarrow> (NodeOperation, rc_RelatedOperationID x) \<in> set (graph_nodes r)"
    "f \<in> set (elems (rp_Findings r)) \<Longrightarrow> i \<in> set (elems (fd_Related f)) \<Longrightarrow> (NodeOperation, i) \<in> set (graph_nodes r)"
    "u \<in> set (elems (rp_Unknowns r)) \<Longrightarrow> i \<in> set (elems (uk_AffectedOperations u)) \<Longrightarrow> (NodeOperation, i) \<in> set (graph_nodes r)"
    for x f u i
    using assms(2) in_graph_nodes(4) unfolding linked_report_def by blast+
  have support: "support_type f \<in> set base_types" "RelationshipDerivedFrom \<in> set base_types"
    "RelationshipUnknownBecause \<in> set base_types" for f
    by (simp_all add: base_types_def support_type_def)
  have e: "x \<in> set (elems (rp_Resources r)) \<Longrightarrow> edge_between digest r (resource_edge digest x)"
    "f \<in> set (elems (rp_Findings r)) \<Longrightarrow> i \<in> set (elems (fd_Related f)) \<Longrightarrow> edge_between digest r (finding_edge digest f i)"
    "u \<in> set (elems (rp_Unknowns r)) \<Longrightarrow> i \<in> set (elems (uk_AffectedOperations u)) \<Longrightarrow> edge_between digest r (unknown_edge digest u i)"
    for x f u i
    unfolding resource_edge_def finding_edge_def unknown_edge_def
    by (rule edge_betweenI; use ops support in_graph_nodes(1-3) in \<open>simp; fail\<close>)+
  show ?thesis
    using assms(3) e unfolding graph_edges_annotated[OF assms(1,2)] by auto
qed

lemma linked_edges_distinct:
  assumes ann: "annotated digest r" and linked: "linked_report r" and free: "reference_collision_free digest r"
  shows "distinct (graph_edges r)"
proof -
  note inj = reference_injective[OF free]
  have ops: "f \<in> set (elems (rp_Findings r)) \<Longrightarrow> inj_on (\<lambda>i. node_key digest (NodeOperation, i)) (set (elems (fd_Related f)))"
    "u \<in> set (elems (rp_Unknowns r)) \<Longrightarrow> inj_on (\<lambda>i. node_key digest (NodeOperation, i)) (set (elems (uk_AffectedOperations u)))"
    for f u
    using linked inj in_graph_nodes(4) unfolding linked_report_def inj_on_def by (meson Pair_inject subsetD)+
  have key: "x \<in> set (elems (rp_Resources r)) \<Longrightarrow> y \<in> set (elems (rp_Resources r)) \<Longrightarrow>
      node_key digest (NodeResource, rc_ID x) = node_key digest (NodeResource, rc_ID y) \<Longrightarrow> x = y" for x y
    using inj[OF in_graph_nodes(1) in_graph_nodes(1), of x y] linked_nodes_distinct(1)[OF linked]
    by (simp add: inj_on_def)
  have "distinct (map (resource_edge digest) (elems (rp_Resources r)))"
    using linked_nodes_distinct(1)[OF linked] key
    by (simp add: distinct_map inj_on_def resource_edge_def)
  moreover have "distinct (concat (map (\<lambda>f. map (finding_edge digest f) (elems (fd_Related f))) (elems (rp_Findings r))))"
  proof (rule distinct_concat_map)
    show "distinct (map (finding_edge digest f) (elems (fd_Related f)))" if "f \<in> set (elems (rp_Findings r))" for f
      using ops(1)[OF that] linked that by (auto simp: distinct_map inj_on_def finding_edge_def linked_report_def)
    show "set (map (finding_edge digest f) (elems (fd_Related f))) \<inter> set (map (finding_edge digest g) (elems (fd_Related g))) = {}"
      if "f \<in> set (elems (rp_Findings r))" "g \<in> set (elems (rp_Findings r))" "f \<noteq> g" for f g
      using that inj[OF in_graph_nodes(2) in_graph_nodes(2), of f g] linked_nodes_distinct(2)[OF linked]
      by (auto simp: finding_edge_def inj_on_def)
  qed (use linked_nodes_distinct(2)[OF linked] in simp)
  moreover have "distinct (concat (map (\<lambda>u. map (unknown_edge digest u) (elems (uk_AffectedOperations u))) (elems (rp_Unknowns r))))"
  proof (rule distinct_concat_map)
    show "distinct (map (unknown_edge digest f) (elems (uk_AffectedOperations f)))" if "f \<in> set (elems (rp_Unknowns r))" for f
      using ops(2)[OF that] linked that by (auto simp: distinct_map inj_on_def unknown_edge_def linked_report_def)
    show "set (map (unknown_edge digest f) (elems (uk_AffectedOperations f))) \<inter> set (map (unknown_edge digest g) (elems (uk_AffectedOperations g))) = {}"
      if "f \<in> set (elems (rp_Unknowns r))" "g \<in> set (elems (rp_Unknowns r))" "f \<noteq> g" for f g
      using that inj[OF in_graph_nodes(3) in_graph_nodes(3), of f g] linked_nodes_distinct(3)[OF linked]
      by (auto simp: unknown_edge_def inj_on_def)
  qed (use linked_nodes_distinct(3)[OF linked] in simp)
  ultimately show ?thesis
    unfolding graph_edges_annotated[OF ann linked] distinct_append set_append set_concat set_map
    by (auto simp: resource_edge_def finding_edge_def unknown_edge_def)
qed

lemma nul_free_edge:
  assumes "edge_between digest r (k, fk, f, tk, t)"
  shows "nul_free k \<and> nul_free fk \<and> nul_free f \<and> nul_free tk \<and> nul_free t"
proof -
  have "\<forall>k \<in> set (base_types @ [NodeOperation, NodeResource, NodeFinding, NodeUnknown]). nul_free k"
    by (simp add: base_types_def nul_free_def)
  with assms nul_free_node_key show ?thesis unfolding edge_between_def by auto
qed

lemma edge_id_injective:
  assumes "annotated digest r" "linked_report r" "edge_collision_free digest r"
    and "s \<in> set (graph_edges r)" "t \<in> set (graph_edges r)" "edge_id digest s = edge_id digest t"
  shows "s = t"
proof -
  obtain k fk f tk u where s: "s = (k, fk, f, tk, u)" by (cases s)
  obtain k' fk' f' tk' u' where t: "t = (k', fk', f', tk', u')" by (cases t)
  have "edge_identity s = edge_identity t"
    using assms(3-6) unfolding edge_collision_free_def collision_free_def by blast
  then show ?thesis
    using nul_free_edge[OF graph_edges_between[OF assms(1,2) assms(4)[unfolded s]]]
      nul_free_edge[OF graph_edges_between[OF assms(1,2) assms(5)[unfolded t]]]
    unfolding s t by (intro edge_identity_inj) blast+
qed

lemma edge_relationship_fields [simp]:
  "re_ID (edge_relationship digest t) = edge_id digest t" "tuple_of (edge_relationship digest t) = t"
  "re_Type (edge_relationship digest t) = fst t"
  by (cases t; simp add: tuple_of_def)+

definition node_kinds_map :: "digestFunction \<Rightarrow> Report \<Rightarrow> (string \<rightharpoonup> string) \<Rightarrow> bool" where
  "node_kinds_map digest r kinds \<longleftrightarrow> (\<forall>(k, i) \<in> set (graph_nodes r). kinds (node_key digest (k, i)) = Some k)"

lemma edge_between_ok:
  assumes "edge_between digest r t" and "node_kinds_map digest r kinds" and "reference_collision_free digest r"
  shows "edge_ok digest kinds (edge_relationship digest t)"
proof -
  from assms(1) obtain k fk i j where
    t: "t = (k, fk, node_key digest (fk, i), NodeOperation, node_key digest (NodeOperation, j))"
    and fk: "fk \<in> {NodeResource, NodeFinding, NodeUnknown}"
    and mem: "(fk, i) \<in> set (graph_nodes r)" "(NodeOperation, j) \<in> set (graph_nodes r)"
    unfolding edge_between_def by blast
  have at: "kinds (node_key digest (fk, i)) = Some fk" "kinds (node_key digest (NodeOperation, j)) = Some NodeOperation"
    using mem assms(2) unfolding node_kinds_map_def by auto
  have "node_key digest (fk, i) \<noteq> node_key digest (NodeOperation, j)" using at fk by auto
  with at show ?thesis by (simp add: edge_ok_def t tuple_of_def)
qed

lemma linked_annotate: "linked_report r \<Longrightarrow> linked_report (annotate digest r)"
  unfolding linked_report_def graph_nodes_annotate
  by (simp add: annotate_def bindEvidenceInputs_def Let_def bind_operation_def bind_resource_def bind_finding_def
      bind_unknown_def reserved_coverage_def image_image)

lemma produced_graph_accepted:
  assumes r: "annotated digest r" "linked_report r" and free: "reference_collision_free digest r"
    and efree: "edge_collision_free digest r" and kinds: "node_kinds_map digest r kinds"
    and rels: "elems (rp_Relationships r) = sort_key re_ID (map (edge_relationship digest) (graph_edges r))"
  shows "valid_graph digest r kinds provenance"
proof -
  let ?es = "sort_key re_ID (map (edge_relationship digest) (graph_edges r))"
  have between: "edge_between digest r t" if "t \<in> set (graph_edges r)" for t
    using graph_edges_between[OF r that] .
  have base: "is_base (edge_relationship digest t)" if "t \<in> set (graph_edges r)" for t
    using between[OF that] by (auto simp: is_base_def edge_between_def)
  have none: "filter is_comparison ?es = []" "filter (disagrees x) ?es = []" for x
    using base base_not_comparison disagrees_comparison by (fastforce simp: filter_empty_conv)+
  have "inj_on (edge_id digest) (set (graph_edges r))"
    using edge_id_injective[OF r efree] by (rule inj_onI)
  then have "distinct (map re_ID (map (edge_relationship digest) (graph_edges r)))"
    using linked_edges_distinct[OF r free] by (simp add: distinct_map comp_def)
  then have ids: "distinct (map re_ID ?es)"
    by (metis mset_eq_imp_distinct_iff mset_map mset_sort)
  have each: "edge_ok digest kinds e \<and> typed_edge r provenance e" if "e \<in> set ?es" for e
  proof -
    from that obtain t where t: "t \<in> set (graph_edges r)" "e = edge_relationship digest t" by auto
    show ?thesis unfolding t(2) typed_edge_def edge_relationship_fields(2)
      using t(1) base between edge_between_ok[OF _ kinds free] by blast
  qed
  have acc: "accepted digest r kinds provenance ?es"
    unfolding accepted_def none using ids each by simp
  have reserved: "reserved_references r = {}"
    using r(2) by (auto simp: reserved_references_def linked_report_def)
  show ?thesis
    unfolding valid_graph_def rels reserved accepted_base_edges[OF acc, symmetric]
    using acc by (auto simp: image_image)
qed

text \<open>
  C21. Producer and validator agree: when the nodes of a report have distinct IDs, link only to
  its operations without repetition and reserve no coverage difference, every graph the
  construction returns passes the relationship validator.
\<close>

theorem buildEvidenceGraph_accepted:
  assumes "buildEvidenceGraphWithDigest digest r = Inr r'" and "linked_report r"
    and "node_kinds_map digest r kinds"
  shows "validateRelationshipsWithDigest digest r' kinds provenance = None"
proof -
  note built = build_graph_forward[OF assms(1)]
  let ?a = "annotate digest r"
  have r': "r' = ?a\<lparr>rp_Relationships := Some (sort_key re_ID (map (edge_relationship digest) (graph_edges ?a)))\<rparr>"
    using built by (simp add: graph_report_def by_relationship_id_def[abs_def] sort_slice_key)
  have keep: "annotated digest r' = annotated digest ?a" "linked_report r' = linked_report ?a"
    "reference_collision_free digest r' = reference_collision_free digest r"
    "edge_collision_free digest r' = edge_collision_free digest ?a"
    "node_kinds_map digest r' kinds = node_kinds_map digest r kinds" "graph_edges r' = graph_edges ?a"
    by (simp_all add: r' annotated_def linked_report_def reference_collision_free_def edge_collision_free_def
        node_kinds_map_def)
  have "elems (rp_Relationships r') = sort_key re_ID (map (edge_relationship digest) (graph_edges r'))"
    unfolding keep by (simp add: r')
  moreover have "annotated digest r'" "linked_report r'" "reference_collision_free digest r'"
    "edge_collision_free digest r'" "node_kinds_map digest r' kinds"
    unfolding keep using built assms(2,3) annotated_annotate linked_annotate by blast+
  ultimately show ?thesis
    unfolding validateRelationships_valid_graph by (intro produced_graph_accepted)
qed

theorem buildEvidenceGraph_accepted_witness:
  "validateRelationshipsWithDigest sample_digest (graph_report sample_digest sample_graph_report)
     [node_key sample_digest (NodeOperation, ''o1'') \<mapsto> NodeOperation,
      node_key sample_digest (NodeResource, ''r1'') \<mapsto> NodeResource] Map.empty = None"
proof (rule buildEvidenceGraph_accepted[OF sample_graph_built])
  have nodes: "graph_nodes sample_graph_report = [(NodeOperation, ''o1''), (NodeResource, ''r1'')]"
    by (simp add: graph_nodes_def sample_graph_report_def sample_report_def sample_operation_def sample_resource_def)
  show "linked_report sample_graph_report"
    unfolding linked_report_def nodes
    by (simp add: sample_graph_report_def sample_report_def sample_operation_def sample_resource_def)
  have "node_key sample_digest (NodeOperation, ''o1'') \<noteq> node_key sample_digest (NodeResource, ''r1'')"
    by (auto simp: node_key_def publicReferenceWithDigest_def Let_def sample_digest_def dest: upperHex_inj)
  then show "node_kinds_map sample_digest sample_graph_report
     [node_key sample_digest (NodeOperation, ''o1'') \<mapsto> NodeOperation,
      node_key sample_digest (NodeResource, ''r1'') \<mapsto> NodeResource]"
    by (simp add: node_kinds_map_def nodes)
qed

end
