(* ===== verification/ReportStrings.thy ===== *)
theory ReportStrings
  imports GraphValidation
begin

text \<open>
  Hostile strings (internal/report/validate.go, \<open>validateHostileStrings\<close> and
  \<open>validateEveryReportString\<close>). The second function walks the report by reflection; the values
  \<open>reflect\<close> shows it are the datatype below, and \<open>Report_value\<close> is \<open>reflect.ValueOf\<close> of a
  report, struct by struct.
\<close>

section \<open>Reflected values\<close>

datatype go_value =
    GString string
  | GScalar
  | GNilPointer
  | GPointer go_value
  | GStruct "(string \<times> bool \<times> go_value) list"
  | GSlice "go_value list"
  | GMap "(go_value \<times> go_value) list"

definition slice_value :: "('a \<Rightarrow> go_value) \<Rightarrow> 'a slice \<Rightarrow> go_value" where
  "slice_value f s = GSlice (map f (elems s))"

definition pointer_value :: "('a \<Rightarrow> go_value) \<Rightarrow> 'a option \<Rightarrow> go_value" where
  "pointer_value f p = (case p of None \<Rightarrow> GNilPointer | Some x \<Rightarrow> GPointer (f x))"

definition string_map_value :: "(string \<times> string) list option \<Rightarrow> go_value" where
  "string_map_value s = GMap (map (\<lambda>(k, v). (GString k, GString v)) (elems s))"

text \<open>\<open>time.Time\<close> has no exported field.\<close>

definition time_value :: go_value where
  "time_value = GStruct [(''wall'', False, GScalar), (''ext'', False, GScalar), (''loc'', False, GNilPointer)]"

definition ResourceLimits_value :: "ResourceLimits \<Rightarrow> go_value" where
  "ResourceLimits_value v = GStruct [
     (''MemoryMaxBytes'', True, GScalar), (''MemorySwapBytes'', True, GScalar),
      (''TasksMax'', True, GScalar), (''CPUQuotaPercent'', True, GScalar),
      (''WallTimeSeconds'', True, GScalar)]"

definition ScanMetadata_value :: "ScanMetadata \<Rightarrow> go_value" where
  "ScanMetadata_value v = GStruct [
     (''ScannerVersion'', True, GString (sm_ScannerVersion v)),
      (''PolicyVersion'', True, GString (sm_PolicyVersion v)), (''StartedAt'', True, time_value),
      (''CompletedAt'', True, time_value), (''Sandboxed'', True, GScalar),
      (''ResourceLimits'', True, pointer_value ResourceLimits_value (sm_ResourceLimits v))]"

definition Manifest_value :: "Manifest \<Rightarrow> go_value" where
  "Manifest_value v = GStruct [
     (''ID'', True, GString (mf_ID v)), (''Name'', True, GString (mf_Name v)),
      (''Version'', True, GString (mf_Version v)),
      (''Description'', True, GString (mf_Description v)),
      (''Kinds'', True, slice_value GString (mf_Kinds v)),
      (''EntryPoints'', True, string_map_value (mf_EntryPoints v))]"

definition Target_value :: "Target \<Rightarrow> go_value" where
  "Target_value v = GStruct [
     (''DisplayName'', True, GString (tg_DisplayName v)),
      (''RootDigest'', True, GString (tg_RootDigest v)), (''FileCount'', True, GScalar),
      (''ReadBytes'', True, GScalar), (''BinaryBytes'', True, GScalar),
      (''Manifest'', True, pointer_value Manifest_value (tg_Manifest v))]"

definition EvidenceInput_value :: "EvidenceInput \<Rightarrow> go_value" where
  "EvidenceInput_value v = GStruct [
     (''ID'', True, GString (ei_ID v)), (''Type'', True, GString (ei_Type v)),
      (''Label'', True, GString (ei_Label v)),
      (''DocumentSHA256'', True, GString (ei_DocumentSHA256 v)),
      (''SubjectRootDigest'', True, GString (ei_SubjectRootDigest v)),
      (''Format'', True, GString (ei_Format v)), (''Version'', True, GString (ei_Version v))]"

definition ReviewReason_value :: "ReviewReason \<Rightarrow> go_value" where
  "ReviewReason_value v = GStruct [
     (''Reference'', True, GString (rr_Reference v)), (''Title'', True, GString (rr_Title v)),
      (''Scope'', True, GString (rr_Scope v))]"

definition ImpactSummary_value :: "ImpactSummary \<Rightarrow> go_value" where
  "ImpactSummary_value v = GStruct [
     (''Level'', True, GString (im_Level v)),
      (''Reasons'', True, slice_value ReviewReason_value (im_Reasons v))]"

definition ConfidenceSummary_value :: "ConfidenceSummary \<Rightarrow> go_value" where
  "ConfidenceSummary_value v = GStruct [
     (''Level'', True, GString (co_Level v)), (''High'', True, GScalar),
      (''Medium'', True, GScalar), (''Low'', True, GScalar),
      (''Reasons'', True, slice_value ReviewReason_value (co_Reasons v))]"

definition CoverageSummary_value :: "CoverageSummary \<Rightarrow> go_value" where
  "CoverageSummary_value v = GStruct [
     (''Level'', True, GString (cv_Level v)), (''Denominator'', True, GString (cv_Denominator v)),
      (''AnalyzedUnits'', True, GScalar), (''PartialUnits'', True, GScalar),
      (''UnanalyzedUnits'', True, GScalar), (''ExcludedUnits'', True, GScalar),
      (''TotalUnits'', True, GScalar), (''RetainedUnits'', True, GScalar),
      (''Percentage'', True, pointer_value (\<lambda>_. GScalar) (cv_Percentage v))]"

definition UnknownSummary_value :: "UnknownSummary \<Rightarrow> go_value" where
  "UnknownSummary_value v = GStruct [
     (''Level'', True, GString (us_Level v)), (''Unknowns'', True, GScalar),
      (''Limitations'', True, GScalar), (''Errors'', True, GScalar),
      (''Reasons'', True, slice_value ReviewReason_value (us_Reasons v))]"

definition ClaimCounts_value :: "ClaimCounts \<Rightarrow> go_value" where
  "ClaimCounts_value v = GStruct [
     (''Facts'', True, GScalar), (''Inferences'', True, GScalar),
      (''UnknownBehaviors'', True, GScalar)]"

definition ReviewSummary_value :: "ReviewSummary \<Rightarrow> go_value" where
  "ReviewSummary_value v = GStruct [
     (''SecurityImpact'', True, ImpactSummary_value (rs_SecurityImpact v)),
      (''EvidenceConfidence'', True, ConfidenceSummary_value (rs_EvidenceConfidence v)),
      (''AnalysisCoverage'', True, CoverageSummary_value (rs_AnalysisCoverage v)),
      (''UnknownBehavior'', True, UnknownSummary_value (rs_UnknownBehavior v)),
      (''Counts'', True, ClaimCounts_value (rs_Counts v)),
      (''MainReasons'', True, slice_value ReviewReason_value (rs_MainReasons v))]"

definition Binary_value :: "Binary \<Rightarrow> go_value" where
  "Binary_value v = GStruct [
     (''Format'', True, GString (bn_Format v)), (''Class'', True, GString (bn_Class v)),
      (''ByteOrder'', True, GString (bn_ByteOrder v)),
      (''Machine'', True, GString (bn_Machine v)), (''Type'', True, GString (bn_Type v)),
      (''Interpreter'', True, GString (bn_Interpreter v)),
      (''Libraries'', True, slice_value GString (bn_Libraries v)),
      (''ImportedSymbols'', True, slice_value GString (bn_ImportedSymbols v)),
      (''ExtractedStrings'', True, slice_value GString (bn_ExtractedStrings v)),
      (''EmbeddedURLs'', True, slice_value GString (bn_EmbeddedURLs v)),
      (''FileCapabilities'', True, slice_value GString (bn_FileCapabilities v)),
      (''CapabilityEffective'', True, GScalar), (''SetUID'', True, GScalar),
      (''SetGID'', True, GScalar), (''HasSymbols'', True, GScalar)]"

definition ArchiveEntry_value :: "ArchiveEntry \<Rightarrow> go_value" where
  "ArchiveEntry_value v = GStruct [
     (''Path'', True, GString (ae_Path v)), (''Kind'', True, GString (ae_Kind v)),
      (''Mode'', True, GString (ae_Mode v)), (''LinkTarget'', True, GString (ae_LinkTarget v)),
      (''Size'', True, GScalar), (''CompressedSize'', True, GScalar),
      (''UnsafePath'', True, GScalar), (''Encrypted'', True, GScalar)]"

definition Archive_value :: "Archive \<Rightarrow> go_value" where
  "Archive_value v = GStruct [
     (''Format'', True, GString (ar_Format v)),
      (''Entries'', True, slice_value ArchiveEntry_value (ar_Entries v)),
      (''InventoryComplete'', True, GScalar), (''RetainedUncompressedBytes'', True, GScalar)]"

definition File_value :: "File \<Rightarrow> go_value" where
  "File_value v = GStruct [
     (''Path'', True, GString (fl_Path v)), (''Kind'', True, GString (fl_Kind v)),
      (''Mode'', True, GString (fl_Mode v)), (''Size'', True, GScalar),
      (''SHA256'', True, GString (fl_SHA256 v)),
      (''ContentType'', True, GString (fl_ContentType v)),
      (''LinkTarget'', True, GString (fl_LinkTarget v)), (''Inspected'', True, GScalar),
      (''SkipReason'', True, GString (fl_SkipReason v)),
      (''Analysis'', True, GString (fl_Analysis v)),
      (''AnalysisReason'', True, GString (fl_AnalysisReason v)),
      (''Binary'', True, pointer_value Binary_value (fl_Binary v)),
      (''Archive'', True, pointer_value Archive_value (fl_Archive v))]"

definition Evidence_value :: "Evidence \<Rightarrow> go_value" where
  "Evidence_value v = GStruct [
     (''InputID'', True, GString (ev_InputID v)), (''Path'', True, GString (ev_Path v)),
      (''LineStart'', True, GScalar), (''LineEnd'', True, GScalar),
      (''Operation'', True, GString (ev_Operation v)), (''Excerpt'', True, GString (ev_Excerpt v))]"

definition Provenance_value :: "Provenance \<Rightarrow> go_value" where
  "Provenance_value v = GStruct [
     (''RuleID'', True, GString (pv_RuleID v)), (''Analyzer'', True, GString (pv_Analyzer v)),
      (''AnalyzerVersion'', True, GString (pv_AnalyzerVersion v)),
      (''EvidenceSource'', True, GString (pv_EvidenceSource v))]"

definition Operation_value :: "Operation \<Rightarrow> go_value" where
  "Operation_value v = GStruct [
     (''ID'', True, GString (op_ID v)), (''Reference'', True, GString (op_Reference v)),
      (''Category'', True, GString (op_Category v)), (''Scope'', True, GString (op_Scope v)),
      (''Command'', True, GString (op_Command v)),
      (''Arguments'', True, slice_value GString (op_Arguments v)), (''Dynamic'', True, GScalar),
      (''Confidence'', True, GString (op_Confidence v)),
      (''Evidence'', True, Evidence_value (op_Evidence v)),
      (''Provenance'', True, Provenance_value (op_Provenance v))]"

definition Resource_value :: "Resource \<Rightarrow> go_value" where
  "Resource_value v = GStruct [
     (''ID'', True, GString (rc_ID v)), (''Reference'', True, GString (rc_Reference v)),
      (''Kind'', True, GString (rc_Kind v)), (''Access'', True, GString (rc_Access v)),
      (''Value'', True, GString (rc_Value v)), (''Sensitive'', True, GScalar),
      (''Dynamic'', True, GScalar), (''Scope'', True, GString (rc_Scope v)),
      (''Confidence'', True, GString (rc_Confidence v)),
      (''Evidence'', True, Evidence_value (rc_Evidence v)),
      (''RelatedOperationID'', True, GString (rc_RelatedOperationID v)),
      (''Provenance'', True, Provenance_value (rc_Provenance v))]"

definition Finding_value :: "Finding \<Rightarrow> go_value" where
  "Finding_value v = GStruct [
     (''ID'', True, GString (fd_ID v)), (''Reference'', True, GString (fd_Reference v)),
      (''Claim'', True, GString (fd_Claim v)), (''Severity'', True, GString (fd_Severity v)),
      (''Confidence'', True, GString (fd_Confidence v)),
      (''Category'', True, GString (fd_Category v)), (''Scope'', True, GString (fd_Scope v)),
      (''Title'', True, GString (fd_Title v)),
      (''Explanation'', True, GString (fd_Explanation v)),
      (''Evidence'', True, slice_value Evidence_value (fd_Evidence v)),
      (''Related'', True, slice_value GString (fd_Related v)),
      (''Provenance'', True, Provenance_value (fd_Provenance v))]"

definition ValueOrigin_value :: "ValueOrigin \<Rightarrow> go_value" where
  "ValueOrigin_value v = GStruct [
     (''Kind'', True, GString (vo_Kind v)), (''Name'', True, GString (vo_Name v)),
      (''Evidence'', True, Evidence_value (vo_Evidence v))]"

definition Unknown_value :: "Unknown \<Rightarrow> go_value" where
  "Unknown_value v = GStruct [
     (''ID'', True, GString (uk_ID v)), (''Reference'', True, GString (uk_Reference v)),
      (''Category'', True, GString (uk_Category v)), (''Reason'', True, GString (uk_Reason v)),
      (''Scope'', True, GString (uk_Scope v)), (''Confidence'', True, GString (uk_Confidence v)),
      (''Title'', True, GString (uk_Title v)),
      (''Description'', True, GString (uk_Description v)),
      (''Evidence'', True, slice_value Evidence_value (uk_Evidence v)),
      (''Origins'', True, slice_value ValueOrigin_value (uk_Origins v)),
      (''AffectedOperations'', True, slice_value GString (uk_AffectedOperations v)),
      (''SuppressedRules'', True, slice_value GString (uk_SuppressedRules v)),
      (''Provenance'', True, Provenance_value (uk_Provenance v))]"

definition ComparisonBasis_value :: "ComparisonBasis \<Rightarrow> go_value" where
  "ComparisonBasis_value v = GStruct [
     (''Kind'', True, GString (cb_Kind v)), (''Subject'', True, GString (cb_Subject v))]"

definition Relationship_value :: "Relationship \<Rightarrow> go_value" where
  "Relationship_value v = GStruct [
     (''ID'', True, GString (re_ID v)), (''Type'', True, GString (re_Type v)),
      (''FromKind'', True, GString (re_FromKind v)), (''From'', True, GString (re_From v)),
      (''ToKind'', True, GString (re_ToKind v)), (''To'', True, GString (re_To v)),
      (''Comparison'', True, pointer_value ComparisonBasis_value (re_Comparison v))]"

definition Limitation_value :: "Limitation \<Rightarrow> go_value" where
  "Limitation_value v = GStruct [
     (''Code'', True, GString (li_Code v)), (''Description'', True, GString (li_Description v)),
      (''Path'', True, GString (li_Path v)), (''Scope'', True, GString (li_Scope v))]"

definition ScanError_value :: "ScanError \<Rightarrow> go_value" where
  "ScanError_value v = GStruct [
     (''Code'', True, GString (se_Code v)), (''Message'', True, GString (se_Message v)),
      (''Path'', True, GString (se_Path v))]"

definition Report_value :: "Report \<Rightarrow> go_value" where
  "Report_value v = GStruct [
     (''SchemaVersion'', True, GString (rp_SchemaVersion v)),
      (''Status'', True, GString (rp_Status v)), (''Scan'', True, ScanMetadata_value (rp_Scan v)),
      (''Target'', True, Target_value (rp_Target v)),
      (''EvidenceInputs'', True, slice_value EvidenceInput_value (rp_EvidenceInputs v)),
      (''Review'', True, pointer_value ReviewSummary_value (rp_Review v)),
      (''Inventory'', True, slice_value File_value (rp_Inventory v)),
      (''Operations'', True, slice_value Operation_value (rp_Operations v)),
      (''Resources'', True, slice_value Resource_value (rp_Resources v)),
      (''Findings'', True, slice_value Finding_value (rp_Findings v)),
      (''Unknowns'', True, slice_value Unknown_value (rp_Unknowns v)),
      (''Relationships'', True, slice_value Relationship_value (rp_Relationships v)),
      (''Limitations'', True, slice_value Limitation_value (rp_Limitations v)),
      (''Errors'', True, slice_value ScanError_value (rp_Errors v))]"


section \<open>The walk\<close>

definition check_string :: "string \<Rightarrow> string \<Rightarrow> error" where
  "check_string label value = first_error [
     check (\<not> utf8_valid value) ''%s contains invalid UTF-8'' [AStr label],
     check (length (json_string value) > MaxHostileStringBytes)
       ''%s encoded length exceeds limit %d'' [AStr label, AInt (int MaxHostileStringBytes)]]"

fun validateEveryReportString :: "go_value \<Rightarrow> string \<Rightarrow> (string \<Rightarrow> string \<Rightarrow> error) \<Rightarrow> error" where
  "validateEveryReportString (GString s) label chk = chk label s"
| "validateEveryReportString GScalar label chk = None"
| "validateEveryReportString GNilPointer label chk = None"
| "validateEveryReportString (GPointer v) label chk = validateEveryReportString v label chk"
| "validateEveryReportString (GStruct fs) label chk =
     first_error (map (\<lambda>(name, exported, v).
       if exported then validateEveryReportString v (label @ ''.'' @ name) chk else None) fs)"
| "validateEveryReportString (GSlice vs) label chk =
     first_error (map (\<lambda>v. validateEveryReportString v label chk) vs)"
| "validateEveryReportString (GMap entries) label chk =
     first_error (map (\<lambda>(k, v). first_error [validateEveryReportString k (label @ '' key'') chk,
       validateEveryReportString v (label @ '' value'') chk]) entries)"

definition review_values :: "ReviewSummary \<Rightarrow> (string \<times> string) list" where
  "review_values review =
     (''coverage denominator'', cv_Denominator (rs_AnalysisCoverage review))
     # concat (map (\<lambda>collection. concat (map (\<lambda>reason.
         [(''review reason reference'', rr_Reference reason), (''review reason title'', rr_Title reason)])
         (elems collection)))
       [im_Reasons (rs_SecurityImpact review), co_Reasons (rs_EvidenceConfidence review),
        us_Reasons (rs_UnknownBehavior review), rs_MainReasons review])"

definition manifest_values :: "Manifest \<Rightarrow> (string \<times> string) list" where
  "manifest_values manifest =
     [(''manifest ID'', mf_ID manifest), (''manifest name'', mf_Name manifest),
      (''manifest version'', mf_Version manifest), (''manifest description'', mf_Description manifest)]
     @ map (\<lambda>value. (''manifest kind'', value)) (elems (mf_Kinds manifest))
     @ concat (map (\<lambda>(key, value). [(''manifest entry-point key'', key), (''manifest entry-point value'', value)])
         (elems (mf_EntryPoints manifest)))"

definition file_values :: "File \<Rightarrow> (string \<times> string) list" where
  "file_values file =
     [(''inventory path'', fl_Path file), (''link target'', fl_LinkTarget file)]
     @ (case fl_Binary file of None \<Rightarrow> [] | Some binary \<Rightarrow>
         (''ELF interpreter'', bn_Interpreter binary)
         # map (\<lambda>value. (''ELF library'', value)) (elems (bn_Libraries binary))
         @ concat (map (\<lambda>collection. map (\<lambda>value. (''ELF metadata'', value)) (elems collection))
             [bn_ImportedSymbols binary, bn_ExtractedStrings binary, bn_EmbeddedURLs binary,
              bn_FileCapabilities binary]))
     @ (case fl_Archive file of None \<Rightarrow> [] | Some archive \<Rightarrow>
         (''archive format'', ar_Format archive)
         # concat (map (\<lambda>entry. [(''archive entry path'', ae_Path entry), (''archive entry kind'', ae_Kind entry),
             (''archive entry mode'', ae_Mode entry), (''archive link target'', ae_LinkTarget entry)])
             (elems (ar_Entries archive))))"

definition operation_values :: "Operation \<Rightarrow> (string \<times> string) list" where
  "operation_values operation =
     [(''operation command'', op_Command operation), (''operation evidence'', ev_Operation (op_Evidence operation)),
      (''operation excerpt'', ev_Excerpt (op_Evidence operation)),
      (''operation rule ID'', pv_RuleID (op_Provenance operation)),
      (''operation analyzer'', pv_Analyzer (op_Provenance operation)),
      (''operation analyzer version'', pv_AnalyzerVersion (op_Provenance operation))]
     @ map (\<lambda>value. (''operation argument'', value)) (elems (op_Arguments operation))"

definition resource_values :: "Resource \<Rightarrow> (string \<times> string) list" where
  "resource_values resource =
     [(''resource value'', rc_Value resource), (''resource evidence'', ev_Operation (rc_Evidence resource)),
      (''resource excerpt'', ev_Excerpt (rc_Evidence resource)),
      (''resource rule ID'', pv_RuleID (rc_Provenance resource)),
      (''resource analyzer'', pv_Analyzer (rc_Provenance resource)),
      (''resource analyzer version'', pv_AnalyzerVersion (rc_Provenance resource))]"

definition finding_values :: "Finding \<Rightarrow> (string \<times> string) list" where
  "finding_values finding =
     [(''finding title'', fd_Title finding), (''finding explanation'', fd_Explanation finding),
      (''finding rule ID'', pv_RuleID (fd_Provenance finding)),
      (''finding analyzer'', pv_Analyzer (fd_Provenance finding)),
      (''finding analyzer version'', pv_AnalyzerVersion (fd_Provenance finding))]
     @ concat (map (\<lambda>evidence. [(''finding evidence'', ev_Operation evidence), (''finding excerpt'', ev_Excerpt evidence)])
         (elems (fd_Evidence finding)))"

definition unknown_values :: "Unknown \<Rightarrow> (string \<times> string) list" where
  "unknown_values unknown =
     [(''unknown category'', uk_Category unknown), (''unknown title'', uk_Title unknown),
      (''unknown description'', uk_Description unknown),
      (''unknown rule ID'', pv_RuleID (uk_Provenance unknown)),
      (''unknown analyzer'', pv_Analyzer (uk_Provenance unknown)),
      (''unknown analyzer version'', pv_AnalyzerVersion (uk_Provenance unknown))]
     @ concat (map (\<lambda>evidence. [(''unknown evidence'', ev_Operation evidence), (''unknown excerpt'', ev_Excerpt evidence)])
         (elems (uk_Evidence unknown)))
     @ concat (map (\<lambda>origin. [(''unknown origin name'', vo_Name origin),
           (''unknown origin evidence'', ev_Operation (vo_Evidence origin)),
           (''unknown origin excerpt'', ev_Excerpt (vo_Evidence origin))])
         (elems (uk_Origins unknown)))
     @ map (\<lambda>rule. (''unknown suppressed rule'', rule)) (elems (uk_SuppressedRules unknown))"

definition hostile_values :: "Report \<Rightarrow> (string \<times> string) list" where
  "hostile_values r =
     [(''target display name'', tg_DisplayName (rp_Target r))]
     @ (case rp_Review r of None \<Rightarrow> [] | Some review \<Rightarrow> review_values review)
     @ (case tg_Manifest (rp_Target r) of None \<Rightarrow> [] | Some manifest \<Rightarrow> manifest_values manifest)
     @ concat (map file_values (elems (rp_Inventory r)))
     @ concat (map operation_values (elems (rp_Operations r)))
     @ concat (map resource_values (elems (rp_Resources r)))
     @ concat (map finding_values (elems (rp_Findings r)))
     @ concat (map unknown_values (elems (rp_Unknowns r)))
     @ concat (map (\<lambda>limitation. [(''limitation description'', li_Description limitation),
         (''limitation path'', li_Path limitation)]) (elems (rp_Limitations r)))
     @ concat (map (\<lambda>scanError. [(''scan error message'', se_Message scanError),
         (''scan error path'', se_Path scanError)]) (elems (rp_Errors r)))"

definition validateHostileStrings :: "Report \<Rightarrow> error" where
  "validateHostileStrings r = first_error [
     validateEveryReportString (Report_value r) ''report'' check_string,
     first_error (map (\<lambda>(label, value). check_string label value) (hostile_values r))]"

section \<open>What the walk reaches\<close>

fun value_strings :: "go_value \<Rightarrow> string set" where
  "value_strings (GString s) = {s}"
| "value_strings GScalar = {}"
| "value_strings GNilPointer = {}"
| "value_strings (GPointer v) = value_strings v"
| "value_strings (GStruct fs) =
     (\<Union>(name, exported, v) \<in> set fs. if exported then value_strings v else {})"
| "value_strings (GSlice vs) = (\<Union>v \<in> set vs. value_strings v)"
| "value_strings (GMap entries) = (\<Union>(k, v) \<in> set entries. value_strings k \<union> value_strings v)"

definition string_ok :: "string \<Rightarrow> bool" where
  "string_ok s \<longleftrightarrow> utf8_valid s \<and> length (json_string s) \<le> MaxHostileStringBytes"

lemma check_string_None [simp]: "check_string label s = None \<longleftrightarrow> string_ok s"
  by (auto simp: check_string_def string_ok_def)

lemma validateEveryReportString_None:
  "validateEveryReportString v label check_string = None \<longleftrightarrow> (\<forall>s \<in> value_strings v. string_ok s)"
  by (induction v arbitrary: label rule: value_strings.induct) (auto split: if_splits)

section \<open>The explicit list adds nothing\<close>

abbreviation labelled :: "(string \<times> string) list \<Rightarrow> string set" where
  "labelled values \<equiv> snd ` set values"

lemma wrapped_strings [simp]:
  "value_strings (slice_value f s) = (\<Union>x \<in> set (elems s). value_strings (f x))"
  "value_strings (pointer_value f p) = (case p of None \<Rightarrow> {} | Some x \<Rightarrow> value_strings (f x))"
  "value_strings (string_map_value m) = (\<Union>(k, v) \<in> set (elems m). {k, v})"
  "value_strings time_value = {}"
  by (auto simp: slice_value_def pointer_value_def string_map_value_def time_value_def split: option.splits)

lemma labelled_review: "labelled (review_values x) \<subseteq> value_strings (ReviewSummary_value x)"
  by (auto simp: review_values_def ReviewSummary_value_def ReviewReason_value_def ImpactSummary_value_def
      ConfidenceSummary_value_def CoverageSummary_value_def UnknownSummary_value_def)

lemma labelled_manifest: "labelled (manifest_values x) \<subseteq> value_strings (Manifest_value x)"
  by (force simp: manifest_values_def Manifest_value_def)

lemma labelled_file: "labelled (file_values x) \<subseteq> value_strings (File_value x)"
  by (cases "fl_Binary x"; cases "fl_Archive x")
     (auto simp: file_values_def File_value_def Binary_value_def Archive_value_def ArchiveEntry_value_def)

lemma labelled_operation: "labelled (operation_values x) \<subseteq> value_strings (Operation_value x)"
  by (auto simp: operation_values_def Operation_value_def Evidence_value_def Provenance_value_def)

lemma labelled_resource: "labelled (resource_values x) \<subseteq> value_strings (Resource_value x)"
  by (auto simp: resource_values_def Resource_value_def Evidence_value_def Provenance_value_def)

lemma labelled_finding: "labelled (finding_values x) \<subseteq> value_strings (Finding_value x)"
  by (auto simp: finding_values_def Finding_value_def Evidence_value_def Provenance_value_def)

lemma labelled_unknown: "labelled (unknown_values x) \<subseteq> value_strings (Unknown_value x)"
  by (auto simp: unknown_values_def Unknown_value_def Evidence_value_def Provenance_value_def ValueOrigin_value_def)

lemma labelled_concat:
  "(\<And>x. x \<in> set xs \<Longrightarrow> labelled (g x) \<subseteq> h x) \<Longrightarrow> labelled (concat (map g xs)) \<subseteq> (\<Union>x \<in> set xs. h x)"
  by fastforce

lemma report_strings:
  "value_strings (Report_value r) =
     {rp_SchemaVersion r, rp_Status r}
     \<union> value_strings (ScanMetadata_value (rp_Scan r)) \<union> value_strings (Target_value (rp_Target r))
     \<union> (\<Union>x \<in> set (elems (rp_EvidenceInputs r)). value_strings (EvidenceInput_value x))
     \<union> (case rp_Review r of None \<Rightarrow> {} | Some x \<Rightarrow> value_strings (ReviewSummary_value x))
     \<union> (\<Union>x \<in> set (elems (rp_Inventory r)). value_strings (File_value x))
     \<union> (\<Union>x \<in> set (elems (rp_Operations r)). value_strings (Operation_value x))
     \<union> (\<Union>x \<in> set (elems (rp_Resources r)). value_strings (Resource_value x))
     \<union> (\<Union>x \<in> set (elems (rp_Findings r)). value_strings (Finding_value x))
     \<union> (\<Union>x \<in> set (elems (rp_Unknowns r)). value_strings (Unknown_value x))
     \<union> (\<Union>x \<in> set (elems (rp_Relationships r)). value_strings (Relationship_value x))
     \<union> (\<Union>x \<in> set (elems (rp_Limitations r)). value_strings (Limitation_value x))
     \<union> (\<Union>x \<in> set (elems (rp_Errors r)). value_strings (ScanError_value x))"
  unfolding Report_value_def value_strings.simps list.set UN_insert UN_empty prod.case if_True wrapped_strings
    Un_empty_right Un_assoc insert_is_Un[of "rp_SchemaVersion r" "{rp_Status r}"] ..

lemma hostile_values_covered: "labelled (hostile_values r) \<subseteq> value_strings (Report_value r)"
proof -
  have each:
    "labelled (concat (map file_values (elems (rp_Inventory r)))) \<subseteq> (\<Union>x \<in> set (elems (rp_Inventory r)). value_strings (File_value x))"
    "labelled (concat (map operation_values (elems (rp_Operations r)))) \<subseteq> (\<Union>x \<in> set (elems (rp_Operations r)). value_strings (Operation_value x))"
    "labelled (concat (map resource_values (elems (rp_Resources r)))) \<subseteq> (\<Union>x \<in> set (elems (rp_Resources r)). value_strings (Resource_value x))"
    "labelled (concat (map finding_values (elems (rp_Findings r)))) \<subseteq> (\<Union>x \<in> set (elems (rp_Findings r)). value_strings (Finding_value x))"
    "labelled (concat (map unknown_values (elems (rp_Unknowns r)))) \<subseteq> (\<Union>x \<in> set (elems (rp_Unknowns r)). value_strings (Unknown_value x))"
    by (intro labelled_concat labelled_file labelled_operation labelled_resource labelled_finding labelled_unknown)+
  have lims: "labelled (concat (map (\<lambda>l. [(''limitation description'', li_Description l), (''limitation path'', li_Path l)])
      (elems (rp_Limitations r)))) \<subseteq> (\<Union>x \<in> set (elems (rp_Limitations r)). value_strings (Limitation_value x))"
    by (rule labelled_concat) (auto simp: Limitation_value_def)
  have errs: "labelled (concat (map (\<lambda>e. [(''scan error message'', se_Message e), (''scan error path'', se_Path e)])
      (elems (rp_Errors r)))) \<subseteq> (\<Union>x \<in> set (elems (rp_Errors r)). value_strings (ScanError_value x))"
    by (rule labelled_concat) (auto simp: ScanError_value_def)
  have target: "tg_DisplayName (rp_Target r) \<in> value_strings (Target_value (rp_Target r))"
    "labelled (case tg_Manifest (rp_Target r) of None \<Rightarrow> [] | Some m \<Rightarrow> manifest_values m)
       \<subseteq> value_strings (Target_value (rp_Target r))"
    using labelled_manifest by (auto simp: Target_value_def split: option.splits)
  have review: "labelled (case rp_Review r of None \<Rightarrow> [] | Some x \<Rightarrow> review_values x)
      \<subseteq> (case rp_Review r of None \<Rightarrow> {} | Some x \<Rightarrow> value_strings (ReviewSummary_value x))"
    using labelled_review by (auto split: option.splits)
  have "labelled [(''target display name'', tg_DisplayName (rp_Target r))] \<subseteq> value_strings (Target_value (rp_Target r))"
    using target(1) by simp
  note parts = this target(2) review each lims errs
  have within: "value_strings (Target_value (rp_Target r)) \<subseteq> value_strings (Report_value r)"
    "(case rp_Review r of None \<Rightarrow> {} | Some x \<Rightarrow> value_strings (ReviewSummary_value x)) \<subseteq> value_strings (Report_value r)"
    "(\<Union>x \<in> set (elems (rp_Inventory r)). value_strings (File_value x)) \<subseteq> value_strings (Report_value r)"
    "(\<Union>x \<in> set (elems (rp_Operations r)). value_strings (Operation_value x)) \<subseteq> value_strings (Report_value r)"
    "(\<Union>x \<in> set (elems (rp_Resources r)). value_strings (Resource_value x)) \<subseteq> value_strings (Report_value r)"
    "(\<Union>x \<in> set (elems (rp_Findings r)). value_strings (Finding_value x)) \<subseteq> value_strings (Report_value r)"
    "(\<Union>x \<in> set (elems (rp_Unknowns r)). value_strings (Unknown_value x)) \<subseteq> value_strings (Report_value r)"
    "(\<Union>x \<in> set (elems (rp_Limitations r)). value_strings (Limitation_value x)) \<subseteq> value_strings (Report_value r)"
    "(\<Union>x \<in> set (elems (rp_Errors r)). value_strings (ScanError_value x)) \<subseteq> value_strings (Report_value r)"
    unfolding report_strings by blast+
  show ?thesis
    unfolding hostile_values_def set_append image_Un
    by (intro Un_least) (rule order_trans[OF parts(1)] order_trans[OF parts(2)] order_trans[OF parts(3)]
        order_trans[OF parts(4)] order_trans[OF parts(5)] order_trans[OF parts(6)] order_trans[OF parts(7)]
        order_trans[OF parts(8)] order_trans[OF parts(9)] order_trans[OF parts(10)], rule within)+
qed

text \<open>
  C38. The string check accepts a report exactly when every string the reflective walk reaches,
  which is every exported string field at any depth, map keys and values included, is valid
  UTF-8 and at most 4096 bytes long once JSON-encoded. The second, hand-written list of labelled
  values adds no string the walk has not already checked.
\<close>

theorem validateHostileStrings_iff:
  "validateHostileStrings r = None \<longleftrightarrow> (value_strings (Report_value r) \<subseteq> Collect string_ok)"
  using hostile_values_covered[of r]
  by (fastforce simp: validateHostileStrings_def validateEveryReportString_None)

end
