(* ===== verification/InputValidation.thy ===== *)
theory InputValidation
  imports ReportStrings
begin

text \<open>
  The validator's checks on one record (internal/report/validate.go): collection bounds,
  provenance, scope and confidence, evidence and the inputs it is anchored in, the unknown
  that declares an external input unbound, and the reserved coverage-difference finding.
\<close>

section \<open>Bounds, scope, provenance\<close>

definition validateCollectionBounds :: "Report \<Rightarrow> error" where
  "validateCollectionBounds r = first_error (map (\<lambda>(name, count, limit).
     check (count > limit) ''report %s count %d exceeds limit %d'' [AStr name, AInt (int count), AInt (int limit)])
     [(''inventory'', length (elems (rp_Inventory r)), MaxInventoryEntries),
      (''operations'', length (elems (rp_Operations r)), MaxOperationEntries),
      (''resources'', length (elems (rp_Resources r)), MaxResourceEntries),
      (''findings'', length (elems (rp_Findings r)), MaxFindingEntries),
      (''unknowns'', length (elems (rp_Unknowns r)), MaxUnknownEntries),
      (''relationships'', length (elems (rp_Relationships r)), MaxEvidenceRelations),
      (''limitations'', length (elems (rp_Limitations r)), MaxLimitationEntries),
      (''errors'', length (elems (rp_Errors r)), MaxErrorEntries)])"

definition validateScopeConfidence :: "string \<Rightarrow> string \<Rightarrow> error" where
  "validateScopeConfidence scope confidence = first_error [
     check (\<not> oneOf scope [ScopeRuntime, ScopeTooling, ScopeUnknown]) ''invalid scope %q'' [AStr scope],
     check (\<not> oneOf confidence [ConfidenceHigh, ConfidenceMedium, ConfidenceLow])
       ''invalid confidence %q'' [AStr confidence]]"

datatype provenanceRecordKind =
  provenanceOperation | provenanceResource | provenanceFinding | provenanceUnknown

definition validateProvenance :: "Provenance \<Rightarrow> string \<Rightarrow> provenanceRecordKind \<Rightarrow> error" where
  "validateProvenance value scannerVersion recordKind = first_error [
     check (pv_RuleID value = [] \<or> pv_Analyzer value = [] \<or> pv_AnalyzerVersion value = [])
       ''rule ID, analyzer, and analyzer version provenance are required'' [],
     check (\<not> oneOf (pv_EvidenceSource value)
         [EvidenceSourceTargetSource, EvidenceSourceInventoryMetadata, EvidenceSourceOmarchyAudit])
       ''invalid evidence source %q'' [AStr (pv_EvidenceSource value)],
     (if pv_EvidenceSource value = EvidenceSourceTargetSource
         \<or> pv_EvidenceSource value = EvidenceSourceInventoryMetadata then
        check (pv_Analyzer value \<noteq> DeterministicAnalyzer \<or> pv_AnalyzerVersion value \<noteq> scannerVersion)
          ''local evidence provenance does not match the trusted scanner identity'' []
      else if pv_Analyzer value = OmarchyAuditAnalyzer then
        check (pv_RuleID value \<noteq> OmarchyAuditObservationRule
            \<or> (recordKind \<noteq> provenanceOperation \<and> recordKind \<noteq> provenanceResource \<and> recordKind \<noteq> provenanceFinding))
          ''raw Omarchy observation provenance has an invalid rule or record kind'' []
      else if pv_Analyzer value = DeterministicAnalyzer then first_error [
        check (pv_AnalyzerVersion value \<noteq> scannerVersion)
          ''local external-evidence conclusion does not match the trusted scanner version'' [],
        check (\<not> (recordKind = provenanceFinding \<and> pv_RuleID value = CoverageComparisonRule
            \<or> recordKind = provenanceUnknown \<and> (pv_RuleID value = ExternalBindingAssessmentRule
                \<or> pv_RuleID value = ComparisonBudgetRule)))
          ''local analyzer rule is not permitted to assert this external-evidence record'' []]
      else Some (Errorf ''external evidence provenance has an unknown analyzer identity'' []))]"

definition validateReservedCoverageFinding :: "Finding \<Rightarrow> string \<Rightarrow> error" where
  "validateReservedCoverageFinding value scannerVersion = first_error [
     check (pv_RuleID (fd_Provenance value) \<noteq> CoverageComparisonRule \<or> fd_Category value \<noteq> CoverageDifferenceCategory)
       ''coverage comparison rule and coverage-difference category must be used together'' [],
     check (pv_Analyzer (fd_Provenance value) \<noteq> DeterministicAnalyzer
         \<or> pv_AnalyzerVersion (fd_Provenance value) \<noteq> scannerVersion)
       ''coverage-difference finding is not asserted by the trusted scanner'' [],
     check (fd_Claim value \<noteq> ClaimFact \<or> fd_Severity value \<noteq> SeverityInformational
         \<or> fd_Confidence value \<noteq> ConfidenceHigh \<or> fd_Scope value \<noteq> ScopeUnknown)
       ''coverage-difference finding has an invalid claim, severity, confidence, or scope'' [],
     check (length (elems (fd_Evidence value)) \<noteq> 1 \<or> length (elems (fd_Related value)) \<noteq> 0)
       ''coverage-difference finding must have exactly one evidence record and no related operations'' []]"

fun duplicate_loop :: "string set \<Rightarrow> string list \<Rightarrow> bool" where
  "duplicate_loop seen [] = False"
| "duplicate_loop seen (value # values) = (value \<in> seen \<or> duplicate_loop (insert value seen) values)"

definition duplicateString :: "string list \<Rightarrow> bool" where
  "duplicateString values = duplicate_loop {} values"

definition isObviouslyAnalyzablePath :: "string \<Rightarrow> bool" where
  "isObviouslyAnalyzablePath value \<longleftrightarrow>
     oneOf (toLower (path_ext value))
       [''.sh'', ''.bash'', ''.zsh'', ''.qml'', ''.py'', ''.pyw'', ''.js'', ''.mjs'', ''.cjs'', ''.jsx'',
        ''.desktop'', ''.service'', ''.socket'', ''.timer'']
     \<or> value = ''manifest.json''"

section \<open>Evidence and its inputs\<close>

definition validateEvidence :: "Evidence \<Rightarrow> error" where
  "validateEvidence evidence = first_error [
     check (ev_InputID evidence = [] \<or> ev_Path evidence = []) ''evidence input ID and path are required'' [],
     validateRelativePath (ev_Path evidence),
     check (ev_LineStart evidence < 0 \<or> ev_LineEnd evidence < 0
         \<or> (ev_LineStart evidence = 0 \<and> ev_LineEnd evidence \<noteq> 0)
         \<or> (ev_LineEnd evidence \<noteq> 0 \<and> ev_LineEnd evidence < ev_LineStart evidence))
       ''invalid evidence lines for %q'' [AStr (ev_Path evidence)]]"

record externalEvidenceInputPolicy =
  ep_Type :: string
  ep_Format :: string
  ep_Version :: string
  ep_RequiresDocumentSHA256 :: bool
  ep_SuppliesSubjectRootDigest :: bool

definition supportedExternalEvidenceInputPolicies :: "externalEvidenceInputPolicy list" where
  "supportedExternalEvidenceInputPolicies =
     [\<lparr>ep_Type = EvidenceInputOmarchyAudit, ep_Format = OmarchyAuditInputFormat,
       ep_Version = OmarchyAuditInputVersion, ep_RequiresDocumentSHA256 = True,
       ep_SuppliesSubjectRootDigest = False\<rparr>]"

definition policyFor :: "externalEvidenceInputPolicy list \<Rightarrow> EvidenceInput \<Rightarrow> externalEvidenceInputPolicy option" where
  "policyFor policies input =
     find (\<lambda>policy. ei_Type input = ep_Type policy \<and> ei_Format input = ep_Format policy
       \<and> ei_Version input = ep_Version policy) policies"

definition target_input_error :: "EvidenceInput \<Rightarrow> error" where
  "target_input_error input =
     check (ei_ID input \<noteq> TargetEvidenceInputID \<or> ei_Format input \<noteq> TargetEvidenceInputFormat
         \<or> ei_Version input \<noteq> TargetEvidenceInputVersion \<or> ei_DocumentSHA256 input \<noteq> []
         \<or> ei_SubjectRootDigest input = [])
       ''target evidence input has an invalid identity, format, version, or subject root digest'' []"

definition external_input_error :: "externalEvidenceInputPolicy list \<Rightarrow> EvidenceInput \<Rightarrow> error" where
  "external_input_error policies input =
     (case policyFor policies input of
        None \<Rightarrow> Some (Errorf ''external evidence input %q has unsupported identity, format, or version''
          [AStr (ei_ID input)])
      | Some policy \<Rightarrow> first_error [
          check (ei_ID input = TargetEvidenceInputID)
            ''external evidence input %q has unsupported identity, format, or version'' [AStr (ei_ID input)],
          check (ep_RequiresDocumentSHA256 policy \<and> ei_DocumentSHA256 input = [])
            ''external evidence input %q requires a document SHA-256'' [AStr (ei_ID input)],
          check (ei_SubjectRootDigest input \<noteq> [] \<and> \<not> ep_SuppliesSubjectRootDigest policy)
            ''external evidence input %q format does not supply a subject root digest'' [AStr (ei_ID input)]])"

text \<open>One iteration of the loop over the declared inputs, on the map and the target count.\<close>

fun input_step ::
  "string \<Rightarrow> externalEvidenceInputPolicy list \<Rightarrow> EvidenceInput \<Rightarrow> (string \<rightharpoonup> EvidenceInput) \<times> int
     \<Rightarrow> ((string \<rightharpoonup> EvidenceInput) \<times> int) result" where
  "input_step rootDigest policies input (values, targetCount) =
     andthen (first_error [
       check (ei_ID input = [] \<or> ei_Label input = [] \<or> ei_Format input = [] \<or> ei_Version input = [])
         ''evidence input identity, label, format, and version are required'' [],
       check (values (ei_ID input) \<noteq> None) ''duplicate evidence input %q'' [AStr (ei_ID input)],
       check (\<not> oneOf (ei_Type input) [EvidenceInputTarget, EvidenceInputOmarchyAudit])
         ''evidence input %q has invalid type %q'' [AStr (ei_ID input), AStr (ei_Type input)],
       (if ei_Type input = EvidenceInputTarget then target_input_error input
        else external_input_error policies input),
       first_error (map (\<lambda>(name, digest).
         check (digest \<noteq> [] \<and> \<not> sha256_text digest) ''evidence input %q %s must be lowercase SHA-256''
           [AStr (ei_ID input), AStr name])
         [(''document SHA-256'', ei_DocumentSHA256 input), (''subject root digest'', ei_SubjectRootDigest input)]),
       check (ei_Type input = EvidenceInputOmarchyAudit \<and> ei_SubjectRootDigest input \<noteq> []
           \<and> ei_SubjectRootDigest input \<noteq> rootDigest)
         ''external evidence input %q subject root digest does not match the retained target inventory''
         [AStr (ei_ID input)]])
     (Inr (values(ei_ID input \<mapsto> input),
           if ei_Type input = EvidenceInputTarget then targetCount + 1 else targetCount))"

definition validateEvidenceInputs ::
  "Report \<Rightarrow> externalEvidenceInputPolicy list \<Rightarrow> (string \<rightharpoonup> EvidenceInput) result" where
  "validateEvidenceInputs r policies =
     (let inputs = elems (rp_EvidenceInputs r); rootDigest = tg_RootDigest (rp_Target r) in
      andthen (check (length inputs = 0 \<or> length inputs > MaxEvidenceInputs)
        ''report requires a bounded evidence-input declaration'' [])
      (bindr (loop (input_step rootDigest policies) inputs (Map.empty, 0)) (\<lambda>(values, targetCount).
        case values TargetEvidenceInputID of
          None \<Rightarrow> Inl (Errorf ''target evidence input must identify and bind the retained target inventory'' [])
        | Some target \<Rightarrow>
            if targetCount \<noteq> 1 \<or> ei_Type target \<noteq> EvidenceInputTarget \<or> ei_SubjectRootDigest target \<noteq> rootDigest
            then Inl (Errorf ''target evidence input must identify and bind the retained target inventory'' [])
            else Inr values)))"

definition validateAnchoredEvidence ::
  "Evidence \<Rightarrow> Provenance \<Rightarrow> string set \<Rightarrow> (string \<rightharpoonup> EvidenceInput) \<Rightarrow> error" where
  "validateAnchoredEvidence evidence provenance files inputs = first_error [
     validateEvidence evidence,
     (case inputs (ev_InputID evidence) of
        None \<Rightarrow> Some (Errorf ''evidence refers to undeclared input %q'' [AStr (ev_InputID evidence)])
      | Some input \<Rightarrow>
          if pv_EvidenceSource provenance = EvidenceSourceTargetSource
             \<or> pv_EvidenceSource provenance = EvidenceSourceInventoryMetadata then first_error [
            check (ei_Type input \<noteq> EvidenceInputTarget \<or> ev_InputID evidence \<noteq> TargetEvidenceInputID)
              ''local evidence does not refer to the declared target inventory'' [],
            check (ev_Path evidence \<notin> files) ''local evidence path %q is absent from target inventory''
              [AStr (ev_Path evidence)]]
          else if pv_EvidenceSource provenance = EvidenceSourceOmarchyAudit then first_error [
            check (ei_Type input \<noteq> EvidenceInputOmarchyAudit)
              ''external evidence does not refer to a declared Omarchy audit input'' [],
            check (pv_Analyzer provenance = OmarchyAuditAnalyzer \<and> pv_AnalyzerVersion provenance \<noteq> ei_Version input)
              ''external evidence provenance does not match its declared input'' []]
          else None)]"

text \<open>The identifier of the input an unknown declares unbound, if it declares one.\<close>

definition validateExternalBindingUnknown ::
  "Unknown \<Rightarrow> (string \<rightharpoonup> EvidenceInput) \<Rightarrow> string option result" where
  "validateExternalBindingUnknown value inputs =
     (if \<not> (uk_Category value = ExternalEvidenceBindingCategory \<or> uk_Reason value = UnknownExternalBinding)
      then Inr None
      else andthen (check (uk_Category value \<noteq> ExternalEvidenceBindingCategory
            \<or> uk_Reason value \<noteq> UnknownExternalBinding \<or> uk_Scope value \<noteq> ScopeUnknown
            \<or> uk_Confidence value \<noteq> ConfidenceHigh)
          ''external binding unknown has an invalid category, reason, scope, or confidence'' [])
        (case elems (uk_Evidence value) of
           [evidence] \<Rightarrow>
             andthen (check (length (elems (uk_Origins value)) \<noteq> 0 \<or> length (elems (uk_AffectedOperations value)) \<noteq> 0
                 \<or> elems (uk_SuppressedRules value) \<noteq> [ExternalSnapshotBindingRule])
               ''external binding unknown has an invalid structural shape'' [])
             (case inputs (ev_InputID evidence) of
                None \<Rightarrow> Inl (Errorf ''external binding unknown does not identify one snapshot-unbound external input'' [])
              | Some input \<Rightarrow>
                  andthen (first_error [
                    check (ei_Type input \<noteq> EvidenceInputOmarchyAudit \<or> ei_SubjectRootDigest input \<noteq> [])
                      ''external binding unknown does not identify one snapshot-unbound external input'' [],
                    check (pv_RuleID (uk_Provenance value) \<noteq> ExternalBindingAssessmentRule
                        \<or> pv_EvidenceSource (uk_Provenance value) \<noteq> EvidenceSourceOmarchyAudit
                        \<or> pv_Analyzer (uk_Provenance value) \<noteq> DeterministicAnalyzer)
                      ''external binding unknown provenance is not a local binding assessment'' []])
                  (Inr (Some (ei_ID input))))
         | _ \<Rightarrow> Inl (Errorf ''external binding unknown has an invalid structural shape'' [])))"

section \<open>What the checks mean\<close>

lemma duplicateString_iff: "duplicateString values \<longleftrightarrow> \<not> distinct values"
proof -
  have "duplicate_loop seen values \<longleftrightarrow> \<not> distinct values \<or> set values \<inter> seen \<noteq> {}" for seen
    by (induction "values" arbitrary: seen) auto
  then show ?thesis by (simp add: duplicateString_def)
qed

lemma validateScopeConfidence_None [simp]:
  "validateScopeConfidence scope confidence = None \<longleftrightarrow>
     scope \<in> {ScopeRuntime, ScopeTooling, ScopeUnknown}
     \<and> confidence \<in> {ConfidenceHigh, ConfidenceMedium, ConfidenceLow}"
  by (auto simp: validateScopeConfidence_def)

section \<open>Declared inputs\<close>

definition external_input :: "EvidenceInput \<Rightarrow> bool" where
  "external_input i \<longleftrightarrow> ei_Type i = EvidenceInputOmarchyAudit"

definition target_input :: "EvidenceInput \<Rightarrow> bool" where
  "target_input i \<longleftrightarrow> ei_Type i = EvidenceInputTarget"

definition input_ok :: "string \<Rightarrow> externalEvidenceInputPolicy list \<Rightarrow> EvidenceInput \<Rightarrow> bool" where
  "input_ok rootDigest policies i \<longleftrightarrow>
     ei_ID i \<noteq> [] \<and> ei_Label i \<noteq> [] \<and> ei_Format i \<noteq> [] \<and> ei_Version i \<noteq> []
     \<and> (target_input i \<and> target_input_error i = None
        \<or> external_input i \<and> external_input_error policies i = None
          \<and> (ei_SubjectRootDigest i = [] \<or> ei_SubjectRootDigest i = rootDigest))
     \<and> (ei_DocumentSHA256 i = [] \<or> sha256_text (ei_DocumentSHA256 i))
     \<and> (ei_SubjectRootDigest i = [] \<or> sha256_text (ei_SubjectRootDigest i))"

lemma target_not_external: "target_input i \<Longrightarrow> \<not> external_input i"
  by (simp add: target_input_def external_input_def)

lemma input_step_Inr:
  "input_step rootDigest policies i (values, n) = Inr t \<longleftrightarrow>
     input_ok rootDigest policies i \<and> values (ei_ID i) = None
     \<and> t = (values(ei_ID i \<mapsto> i), if target_input i then n + 1 else n)"
  by (auto simp: input_ok_def target_input_def external_input_def)

definition inputs_map :: "EvidenceInput list \<Rightarrow> (string \<rightharpoonup> EvidenceInput) \<Rightarrow> bool" where
  "inputs_map is m \<longleftrightarrow> (\<forall>k i. m k = Some i \<longleftrightarrow> i \<in> set is \<and> ei_ID i = k)"

lemma input_loop_Inr:
  assumes "loop (input_step rootDigest policies) is (Map.empty, 0) = Inr (m, n)"
  shows "distinct (map ei_ID is) \<and> inputs_map is m \<and> list_all (input_ok rootDigest policies) is
    \<and> n = int (length (filter target_input is))"
proof -
  let ?P = "\<lambda>is (m, n). distinct (map ei_ID is) \<and> inputs_map is m \<and> list_all (input_ok rootDigest policies) is
    \<and> n = int (length (filter target_input is))"
  have step: "?P (is' @ [i]) v" if P: "?P is' u" and step: "input_step rootDigest policies i u = Inr v" for is' i u v
  proof -
    obtain m n where u: "u = (m, n)" by (cases u)
    have i: "input_ok rootDigest policies i" "m (ei_ID i) = None"
      and v: "v = (m(ei_ID i \<mapsto> i), if target_input i then n + 1 else n)"
      using step unfolding u input_step_Inr by simp_all
    have new: "ei_ID i \<notin> ei_ID ` set is'"
    proof
      assume "ei_ID i \<in> ei_ID ` set is'"
      then obtain j where j: "j \<in> set is'" "ei_ID j = ei_ID i" by auto
      with P have "m (ei_ID i) = Some j" unfolding u inputs_map_def by simp
      with i(2) show False by simp
    qed
    have fresh: "ei_ID j \<noteq> ei_ID i" if "j \<in> set is'" for j
      using new that by (metis imageI)
    have "inputs_map (is' @ [i]) (m(ei_ID i \<mapsto> i))"
      using P fresh unfolding u inputs_map_def by auto
    with P i(1) new show ?thesis unfolding u v by simp
  qed
  have "?P is (m, n)"
    by (rule loop_invariant[OF assms, where P = ?P], simp add: inputs_map_def, rule step)
  then show ?thesis by simp
qed

lemma validateEvidenceInputs_Inr:
  assumes "validateEvidenceInputs r policies = Inr m"
  shows "distinct (map ei_ID (elems (rp_EvidenceInputs r)))"
    and "inputs_map (elems (rp_EvidenceInputs r)) m"
    and "list_all (input_ok (tg_RootDigest (rp_Target r)) policies) (elems (rp_EvidenceInputs r))"
    and "length (filter target_input (elems (rp_EvidenceInputs r))) = 1"
    and "\<exists>target. m TargetEvidenceInputID = Some target \<and> target_input target
      \<and> ei_SubjectRootDigest target = tg_RootDigest (rp_Target r)"
    and "length (elems (rp_EvidenceInputs r)) \<le> MaxEvidenceInputs"
proof -
  from assms obtain n target where
    l: "loop (input_step (tg_RootDigest (rp_Target r)) policies) (elems (rp_EvidenceInputs r)) (Map.empty, 0) = Inr (m, n)"
    and t: "m TargetEvidenceInputID = Some target" "n = 1" "ei_Type target = EvidenceInputTarget"
      "ei_SubjectRootDigest target = tg_RootDigest (rp_Target r)"
    and bound: "length (elems (rp_EvidenceInputs r)) \<le> MaxEvidenceInputs"
    unfolding validateEvidenceInputs_def Let_def andthen_Inr bindr_Inr
    by (auto split: option.splits if_splits)
  note inv = input_loop_Inr[OF l]
  from inv show "distinct (map ei_ID (elems (rp_EvidenceInputs r)))" "inputs_map (elems (rp_EvidenceInputs r)) m"
    "list_all (input_ok (tg_RootDigest (rp_Target r)) policies) (elems (rp_EvidenceInputs r))" by blast+
  from inv t(2) show "length (filter target_input (elems (rp_EvidenceInputs r))) = 1" by simp
  from t show "\<exists>target. m TargetEvidenceInputID = Some target \<and> target_input target
      \<and> ei_SubjectRootDigest target = tg_RootDigest (rp_Target r)" by (simp add: target_input_def)
  show "length (elems (rp_EvidenceInputs r)) \<le> MaxEvidenceInputs" by (rule bound)
qed

text \<open>The shipped policy supports one external format, which supplies no subject digest.\<close>

lemma supported_external_unbound:
  "external_input_error supportedExternalEvidenceInputPolicies i = None \<Longrightarrow>
     ei_SubjectRootDigest i = [] \<and> ei_Format i = OmarchyAuditInputFormat \<and> ei_Version i = OmarchyAuditInputVersion
     \<and> ei_DocumentSHA256 i \<noteq> []"
  by (simp add: external_input_error_def policyFor_def supportedExternalEvidenceInputPolicies_def split: if_splits)

section \<open>Anchored evidence\<close>

definition anchored :: "(string \<rightharpoonup> EvidenceInput) \<Rightarrow> string set \<Rightarrow> Provenance \<Rightarrow> Evidence \<Rightarrow> bool" where
  "anchored inputs files p e \<longleftrightarrow>
     safe_relative_path (ev_Path e)
     \<and> 0 \<le> ev_LineStart e \<and> (ev_LineEnd e = 0 \<or> 0 < ev_LineStart e \<and> ev_LineStart e \<le> ev_LineEnd e)
     \<and> (\<exists>i. inputs (ev_InputID e) = Some i
          \<and> (if is_external p then external_input i \<and> (pv_Analyzer p = OmarchyAuditAnalyzer \<longrightarrow> pv_AnalyzerVersion p = ei_Version i)
             else target_input i \<and> ev_InputID e = TargetEvidenceInputID \<and> ev_Path e \<in> files))"

lemma validateEvidence_None:
  "validateEvidence e = None \<longleftrightarrow> ev_InputID e \<noteq> [] \<and> safe_relative_path (ev_Path e)
     \<and> 0 \<le> ev_LineStart e \<and> (ev_LineEnd e = 0 \<or> 0 < ev_LineStart e \<and> ev_LineStart e \<le> ev_LineEnd e)"
  by (auto simp: validateEvidence_def validateRelativePath_None safe_relative_path_def plain_component_def)

lemma validateAnchoredEvidence_anchored:
  assumes "validateAnchoredEvidence e p files inputs = None"
    and "pv_EvidenceSource p \<in> {EvidenceSourceTargetSource, EvidenceSourceInventoryMetadata, EvidenceSourceOmarchyAudit}"
  shows "anchored inputs files p e"
  using assms unfolding validateAnchoredEvidence_def anchored_def is_external_def external_input_def target_input_def
  by (auto simp: validateEvidence_None split: option.splits if_splits)

lemma validateProvenance_source:
  "validateProvenance p scanner k = None \<Longrightarrow>
     pv_EvidenceSource p \<in> {EvidenceSourceTargetSource, EvidenceSourceInventoryMetadata, EvidenceSourceOmarchyAudit}"
  by (simp add: validateProvenance_def)

text \<open>A local record is asserted by the trusted scanner itself, at its version.\<close>

lemma validateProvenance_local:
  "validateProvenance p scanner k = None \<Longrightarrow> \<not> is_external p \<Longrightarrow>
     pv_Analyzer p = DeterministicAnalyzer \<and> pv_AnalyzerVersion p = scanner"
  by (auto simp: validateProvenance_def is_external_def)

end
