(* ===== verification/InventoryValidation.thy ===== *)
theory InventoryValidation
  imports InputValidation
begin

text \<open>
  The inventory loop of the validator (internal/report/validate.go,
  \<open>validateWithEvidenceInputPolicies\<close>): every retained file's identity, disposition, archive
  and ELF metadata, and the byte totals of the target, summed in 64-bit arithmetic.
\<close>

section \<open>One file\<close>

abbreviation elf_type :: string where "elf_type \<equiv> ''application/x-elf''"

definition is_elf :: "File \<Rightarrow> bool" where
  "is_elf file \<longleftrightarrow> fl_Binary file \<noteq> None \<or> fl_ContentType file = elf_type"

definition file_identity_error :: "int \<Rightarrow> string set \<Rightarrow> File \<Rightarrow> error" where
  "file_identity_error index files file = first_error [
     check (fl_Path file = [] \<or> fl_Kind file = [] \<or> fl_Mode file = [] \<or> fl_Size file < 0)
       ''inventory file %d has invalid identity, kind, mode, or size'' [AInt index],
     wrap ''inventory file %d: %w'' [AInt index] (validateRelativePath (fl_Path file)),
     check (fl_Path file \<in> files) ''duplicate inventory path %q'' [AStr (fl_Path file)]]"

definition inspection_error :: "File \<Rightarrow> error" where
  "inspection_error file = first_error [
     check (fl_SHA256 file \<noteq> [] \<and> \<not> sha256_text (fl_SHA256 file))
       ''inventory file %q SHA-256 must be 64 lowercase hexadecimal characters'' [AStr (fl_Path file)],
     check (fl_Inspected file \<noteq> (fl_SHA256 file \<noteq> []))
       ''inventory file %q inspection status and SHA-256 must be established together'' [AStr (fl_Path file)],
     check (fl_Inspected file \<and> (fl_Kind file \<noteq> ''regular'' \<or> fl_ContentType file = []))
       ''inventory file %q is inspected without regular-file content metadata'' [AStr (fl_Path file)],
     check (fl_Inspected file \<and> fl_SkipReason file \<noteq> [])
       ''inventory file %q cannot be both inspected and skipped'' [AStr (fl_Path file)]]"

definition disposition_error :: "File \<Rightarrow> error" where
  "disposition_error file =
     (if fl_Analysis file = AnalysisNotApplicable then
        check (fl_AnalysisReason file = [])
          ''inventory file %q not-applicable disposition requires an explicit reason'' [AStr (fl_Path file)]
      else if fl_Analysis file = AnalysisAnalyzed then
        check (\<not> fl_Inspected file \<or> fl_AnalysisReason file \<noteq> [])
          ''inventory file %q analyzed disposition contradicts inspection metadata'' [AStr (fl_Path file)]
      else if fl_Analysis file = AnalysisPartial then
        check (\<not> fl_Inspected file \<or> fl_AnalysisReason file = [])
          ''inventory file %q partial disposition requires inspected content and a reason'' [AStr (fl_Path file)]
      else if fl_Analysis file = AnalysisUnanalyzed then
        check (fl_AnalysisReason file = [])
          ''inventory file %q unanalyzed disposition requires a reason'' [AStr (fl_Path file)]
      else Some (Errorf ''inventory file %q has invalid analysis disposition %q''
        [AStr (fl_Path file), AStr (fl_Analysis file)]))"

definition metadata_error :: "File \<Rightarrow> error" where
  "metadata_error file = first_error [
     check (fl_LinkTarget file \<noteq> [] \<and> fl_Kind file \<noteq> ''symlink'')
       ''inventory file %q has a link target but is not a symlink'' [AStr (fl_Path file)],
     check (fl_Binary file \<noteq> None \<and> (\<not> fl_Inspected file \<or> fl_ContentType file \<noteq> elf_type))
       ''inventory file %q has binary metadata without an inspected ELF'' [AStr (fl_Path file)],
     check (is_elf file \<and> fl_Analysis file \<noteq> AnalysisPartial \<and> fl_Analysis file \<noteq> AnalysisUnanalyzed)
       ''inventory ELF %q cannot claim complete or not-applicable semantic analysis'' [AStr (fl_Path file)],
     check (fl_Archive file \<noteq> None \<and> fl_Analysis file \<noteq> AnalysisPartial \<and> fl_Analysis file \<noteq> AnalysisUnanalyzed)
       ''inventory archive %q cannot claim complete or not-applicable semantic analysis'' [AStr (fl_Path file)],
     check (fl_Analysis file = AnalysisNotApplicable \<and> isObviouslyAnalyzablePath (fl_Path file))
       ''supported artifact %q cannot be excluded from semantic coverage'' [AStr (fl_Path file)],
     check (fl_Archive file \<noteq> None \<and> (\<not> fl_Inspected file \<or> fl_Kind file \<noteq> ''regular'' \<or> fl_Binary file \<noteq> None))
       ''inventory file %q has archive metadata without an inspected non-ELF regular file'' [AStr (fl_Path file)]]"

section \<open>Archives and ELF metadata\<close>

definition archive_entry_step :: "string \<Rightarrow> int \<Rightarrow> nat \<times> ArchiveEntry \<Rightarrow> int \<Rightarrow> int result" where
  "archive_entry_step path declared = (\<lambda>(entryIndex, entry) retained.
     andthen (check (ae_Path entry = [] \<or> ae_Kind entry = [] \<or> ae_Size entry < 0 \<or> ae_CompressedSize entry < 0
         \<or> ae_Size entry > sub64 declared retained)
       ''inventory file %q archive entry %d is invalid'' [AStr path, AInt (int entryIndex)])
     (Inr (add64 retained (ae_Size entry))))"

definition archive_error :: "string \<Rightarrow> Archive \<Rightarrow> error" where
  "archive_error path archive = first_error [
     check (\<not> oneOf (ar_Format archive) [''zip'', ''tar'', ''gzip'', ''xz'', ''zstd'', ''bzip2'']
         \<or> ar_Entries archive = None \<or> ar_RetainedUncompressedBytes archive < 0)
       ''inventory file %q has incomplete archive metadata'' [AStr path],
     check (length (elems (ar_Entries archive)) > MaxArchiveEntries)
       ''inventory file %q archive entries exceed limit %d'' [AStr path, AInt (int MaxArchiveEntries)],
     error_of (bindr (loop (archive_entry_step path (ar_RetainedUncompressedBytes archive))
         (enumerate 0 (elems (ar_Entries archive))) 0) (\<lambda>retained.
       andthen (check (retained \<noteq> ar_RetainedUncompressedBytes archive)
         ''inventory file %q archive retained byte total does not match entries'' [AStr path])
       (Inr ())))]"

definition binary_error :: "string \<Rightarrow> Binary \<Rightarrow> error" where
  "binary_error path binary = first_error [
     check (bn_Format binary \<noteq> ''ELF'' \<or> bn_Class binary = [] \<or> bn_ByteOrder binary = [] \<or> bn_Machine binary = []
         \<or> bn_Type binary = [] \<or> bn_Libraries binary = None \<or> bn_ImportedSymbols binary = None
         \<or> bn_ExtractedStrings binary = None \<or> bn_EmbeddedURLs binary = None \<or> bn_FileCapabilities binary = None)
       ''inventory file %q has incomplete ELF metadata'' [AStr path],
     check (length (elems (bn_Libraries binary)) > MaxImportedLibraries)
       ''inventory file %q imported libraries exceed limit %d'' [AStr path, AInt (int MaxImportedLibraries)],
     check (length (elems (bn_ImportedSymbols binary)) > MaxImportedSymbols
         \<or> length (elems (bn_ExtractedStrings binary)) > MaxExtractedStrings
         \<or> length (elems (bn_EmbeddedURLs binary)) > MaxEmbeddedURLs
         \<or> length (elems (bn_FileCapabilities binary)) > MaxFileCapabilities)
       ''inventory file %q ELF metadata exceeds a collection limit'' [AStr path]]"

section \<open>The loop\<close>

record inventory_state =
  is_files :: "string set"
  is_readBytes :: int
  is_binaryBytes :: int

definition count_bytes :: "Target \<Rightarrow> File \<Rightarrow> inventory_state \<Rightarrow> inventory_state result" where
  "count_bytes target file s =
     (if \<not> fl_Inspected file then Inr s
      else if fl_ContentType file = elf_type then
        andthen (check (fl_Size file > sub64 (tg_BinaryBytes target) (is_binaryBytes s))
          ''inventory %s bytes exceed target total'' [AStr ''binary''])
        (Inr (s\<lparr>is_binaryBytes := add64 (is_binaryBytes s) (fl_Size file)\<rparr>))
      else
        andthen (check (fl_Size file > sub64 (tg_ReadBytes target) (is_readBytes s))
          ''inventory %s bytes exceed target total'' [AStr ''source''])
        (Inr (s\<lparr>is_readBytes := add64 (is_readBytes s) (fl_Size file)\<rparr>)))"

definition file_record_error :: "File \<Rightarrow> error" where
  "file_record_error file = first_error [
     inspection_error file,
     disposition_error file,
     metadata_error file,
     (case fl_Archive file of None \<Rightarrow> None | Some archive \<Rightarrow> archive_error (fl_Path file) archive),
     (case fl_Binary file of None \<Rightarrow> None | Some binary \<Rightarrow> binary_error (fl_Path file) binary)]"

definition file_step :: "Target \<Rightarrow> nat \<times> File \<Rightarrow> inventory_state \<Rightarrow> inventory_state result" where
  "file_step target = (\<lambda>(index, file) s.
     andthen (first_error [file_identity_error (int index) (is_files s) file, file_record_error file])
     (count_bytes target file (s\<lparr>is_files := insert (fl_Path file) (is_files s)\<rparr>)))"

definition validate_inventory :: "Target \<Rightarrow> File list \<Rightarrow> string set result" where
  "validate_inventory target files =
     bindr (loop (file_step target) (enumerate 0 files)
       \<lparr>is_files = {}, is_readBytes = 0, is_binaryBytes = 0\<rparr>) (\<lambda>s.
     andthen (check (is_readBytes s \<noteq> tg_ReadBytes target \<or> is_binaryBytes s \<noteq> tg_BinaryBytes target)
       ''target byte totals do not match inspected inventory: source %d/%d, binary %d/%d''
       [AInt (tg_ReadBytes target), AInt (is_readBytes s), AInt (tg_BinaryBytes target), AInt (is_binaryBytes s)])
     (Inr (is_files s)))"

section \<open>Totals without overflow\<close>

text \<open>
  The guard \<open>size > declared - total\<close> is evaluated before every addition. As long as the total
  is between zero and a declared 64-bit value, neither the subtraction nor the addition wraps.
\<close>

lemma guarded_add:
  assumes "0 \<le> total_bytes" "total_bytes \<le> declared" "int64_range declared" "0 \<le> sz"
  shows "sz > sub64 declared total_bytes \<longleftrightarrow> total_bytes + sz > declared"
    and "\<not> sz > sub64 declared total_bytes \<Longrightarrow> add64 total_bytes sz = total_bytes + sz"
proof -
  have sub: "sub64 declared total_bytes = declared - total_bytes" using assms by (intro sub64_exact)
  then show "sz > sub64 declared total_bytes \<longleftrightarrow> total_bytes + sz > declared" by linarith
  assume "\<not> sz > sub64 declared total_bytes"
  then have "int64_range (total_bytes + sz)" using assms sub by (auto simp: int64_range_def)
  then show "add64 total_bytes sz = total_bytes + sz" by (rule add64_exact)
qed

definition entry_ok :: "ArchiveEntry \<Rightarrow> bool" where
  "entry_ok e \<longleftrightarrow> ae_Path e \<noteq> [] \<and> ae_Kind e \<noteq> [] \<and> 0 \<le> ae_Size e \<and> 0 \<le> ae_CompressedSize e"

lemma sum_list_nonneg_sizes: "(\<forall>e \<in> set es. 0 \<le> (f e :: int)) \<Longrightarrow> 0 \<le> sum_list (map f es)"
  by (induction es) auto

lemma archive_loop:
  assumes "int64_range declared" "0 \<le> retained" "retained \<le> declared"
  shows "(\<exists>t. loop (archive_entry_step path declared) (enumerate n es) retained = Inr t) \<longleftrightarrow>
      list_all entry_ok es \<and> retained + sum_list (map ae_Size es) \<le> declared"
    and "loop (archive_entry_step path declared) (enumerate n es) retained = Inr t \<Longrightarrow>
      t = retained + sum_list (map ae_Size es)"
proof -
  have "((\<exists>t. loop (archive_entry_step path declared) (enumerate n es) retained = Inr t) \<longleftrightarrow>
      list_all entry_ok es \<and> retained + sum_list (map ae_Size es) \<le> declared)
    \<and> (\<forall>t. loop (archive_entry_step path declared) (enumerate n es) retained = Inr t \<longrightarrow>
      t = retained + sum_list (map ae_Size es))"
    using assms
  proof (induction es arbitrary: n retained)
    case Nil
    then show ?case by simp
  next
    case (Cons e es)
    show ?case
    proof (cases "entry_ok e \<and> retained + ae_Size e \<le> declared")
      case True
      then have step: "archive_entry_step path declared (n, e) retained = Inr (retained + ae_Size e)"
        using guarded_add[of retained declared "ae_Size e"] Cons.prems
        by (simp add: archive_entry_step_def entry_ok_def)
      have "0 \<le> retained + ae_Size e" using True Cons.prems by (simp add: entry_ok_def)
      with Cons.IH[of "retained + ae_Size e" "Suc n"] True Cons.prems(1) step show ?thesis
        by (simp add: algebra_simps)
    next
      case False
      then have "\<exists>err. archive_entry_step path declared (n, e) retained = Inl err"
        using guarded_add(1)[of retained declared "ae_Size e"] Cons.prems
        by (cases "entry_ok e") (auto simp: archive_entry_step_def entry_ok_def andthen_def check_def)
      moreover have "\<not> (list_all entry_ok (e # es) \<and> retained + sum_list (map ae_Size (e # es)) \<le> declared)"
        using False sum_list_nonneg_sizes[of es ae_Size] by (auto simp: list_all_iff entry_ok_def)
      ultimately show ?thesis by auto
    qed
  qed
  then show "(\<exists>t. loop (archive_entry_step path declared) (enumerate n es) retained = Inr t) \<longleftrightarrow>
      list_all entry_ok es \<and> retained + sum_list (map ae_Size es) \<le> declared"
    and "loop (archive_entry_step path declared) (enumerate n es) retained = Inr t \<Longrightarrow>
      t = retained + sum_list (map ae_Size es)"
    by blast+
qed

definition archive_ok :: "Archive \<Rightarrow> bool" where
  "archive_ok a \<longleftrightarrow> ar_Format a \<in> {''zip'', ''tar'', ''gzip'', ''xz'', ''zstd'', ''bzip2''}
     \<and> ar_Entries a \<noteq> None \<and> length (elems (ar_Entries a)) \<le> MaxArchiveEntries
     \<and> list_all entry_ok (elems (ar_Entries a))
     \<and> ar_RetainedUncompressedBytes a = sum_list (map ae_Size (elems (ar_Entries a)))"

lemma archive_error_None:
  assumes "int64_range (ar_RetainedUncompressedBytes a)"
  shows "archive_error path a = None \<longleftrightarrow> archive_ok a"
proof (cases "ar_RetainedUncompressedBytes a < 0")
  case True
  then show ?thesis
    using sum_list_nonneg_sizes[of "elems (ar_Entries a)" ae_Size]
    by (auto simp: archive_error_def archive_ok_def list_all_iff entry_ok_def)
next
  case False
  then have nn: "0 \<le> ar_RetainedUncompressedBytes a" by simp
  let ?loop = "loop (archive_entry_step path (ar_RetainedUncompressedBytes a)) (enumerate 0 (elems (ar_Entries a))) 0"
  note l = archive_loop[OF assms order_refl nn, of path 0 "elems (ar_Entries a)", simplified]
  have "(\<exists>x. bindr ?loop (\<lambda>retained. andthen (check (retained \<noteq> ar_RetainedUncompressedBytes a)
         ''inventory file %q archive retained byte total does not match entries'' [AStr path]) (Inr ())) = Inr x)
     \<longleftrightarrow> list_all entry_ok (elems (ar_Entries a))
       \<and> ar_RetainedUncompressedBytes a = sum_list (map ae_Size (elems (ar_Entries a)))"
    using l by (auto simp: bindr_Inr)
  then show ?thesis using nn by (auto simp: archive_error_def archive_ok_def simp flip: not_le)
qed

section \<open>What the inventory loop accepts\<close>

definition file_ok :: "File \<Rightarrow> bool" where
  "file_ok f \<longleftrightarrow> fl_Path f \<noteq> [] \<and> fl_Kind f \<noteq> [] \<and> fl_Mode f \<noteq> [] \<and> 0 \<le> fl_Size f
     \<and> validateRelativePath (fl_Path f) = None \<and> file_record_error f = None"

definition source_size :: "File \<Rightarrow> int" where
  "source_size f = (if fl_Inspected f \<and> fl_ContentType f \<noteq> elf_type then fl_Size f else 0)"

definition elf_size :: "File \<Rightarrow> int" where
  "elf_size f = (if fl_Inspected f \<and> fl_ContentType f = elf_type then fl_Size f else 0)"

definition within_totals :: "Target \<Rightarrow> inventory_state \<Rightarrow> bool" where
  "within_totals target s \<longleftrightarrow> int64_range (tg_ReadBytes target) \<and> int64_range (tg_BinaryBytes target)
     \<and> 0 \<le> is_readBytes s \<and> is_readBytes s \<le> tg_ReadBytes target
     \<and> 0 \<le> is_binaryBytes s \<and> is_binaryBytes s \<le> tg_BinaryBytes target"

definition after_files :: "File list \<Rightarrow> inventory_state \<Rightarrow> inventory_state" where
  "after_files fs s = \<lparr>is_files = is_files s \<union> fl_Path ` set fs,
     is_readBytes = is_readBytes s + sum_list (map source_size fs),
     is_binaryBytes = is_binaryBytes s + sum_list (map elf_size fs)\<rparr>"

lemma sizes_nonneg: "file_ok f \<Longrightarrow> 0 \<le> source_size f \<and> 0 \<le> elf_size f"
  by (simp add: file_ok_def source_size_def elf_size_def)

lemma sum_sizes_nonneg:
  "list_all file_ok fs \<Longrightarrow> 0 \<le> sum_list (map source_size fs) \<and> 0 \<le> sum_list (map elf_size fs)"
  using sum_list_nonneg_sizes[of fs source_size] sum_list_nonneg_sizes[of fs elf_size] sizes_nonneg
  by (simp add: list_all_iff)

lemma count_bytes_Inr:
  assumes "within_totals target s" and "0 \<le> fl_Size f"
  shows "count_bytes target f s = Inr t \<longleftrightarrow>
     is_readBytes s + source_size f \<le> tg_ReadBytes target \<and> is_binaryBytes s + elf_size f \<le> tg_BinaryBytes target
     \<and> t = \<lparr>is_files = is_files s, is_readBytes = is_readBytes s + source_size f,
            is_binaryBytes = is_binaryBytes s + elf_size f\<rparr>"
  using assms guarded_add[of "is_readBytes s" "tg_ReadBytes target" "fl_Size f"]
    guarded_add[of "is_binaryBytes s" "tg_BinaryBytes target" "fl_Size f"]
  by (cases s) (auto simp: count_bytes_def within_totals_def source_size_def elf_size_def)

lemma file_identity_error_None:
  "file_identity_error n files f = None \<longleftrightarrow> fl_Path f \<noteq> [] \<and> fl_Kind f \<noteq> [] \<and> fl_Mode f \<noteq> [] \<and> 0 \<le> fl_Size f
     \<and> validateRelativePath (fl_Path f) = None \<and> fl_Path f \<notin> files"
  by (auto simp: file_identity_error_def)

lemma file_step_Inr:
  assumes "within_totals target s"
  shows "file_step target (n, f) s = Inr t \<longleftrightarrow>
     file_ok f \<and> fl_Path f \<notin> is_files s \<and> is_readBytes s + source_size f \<le> tg_ReadBytes target
     \<and> is_binaryBytes s + elf_size f \<le> tg_BinaryBytes target \<and> t = after_files [f] s"
proof (cases "0 \<le> fl_Size f")
  case True
  have "within_totals target (s\<lparr>is_files := insert (fl_Path f) (is_files s)\<rparr>)"
    using assms by (simp add: within_totals_def)
  from count_bytes_Inr[OF this True, of t] show ?thesis
    by (simp add: file_step_def file_identity_error_None file_ok_def after_files_def) argo
next
  case False
  then show ?thesis by (simp add: file_step_def file_identity_error_None file_ok_def)
qed

lemma inventory_loop:
  assumes "within_totals target s"
  shows "loop (file_step target) (enumerate n fs) s = Inr t \<longleftrightarrow>
     distinct (map fl_Path fs) \<and> fl_Path ` set fs \<inter> is_files s = {} \<and> list_all file_ok fs
     \<and> is_readBytes s + sum_list (map source_size fs) \<le> tg_ReadBytes target
     \<and> is_binaryBytes s + sum_list (map elf_size fs) \<le> tg_BinaryBytes target \<and> t = after_files fs s"
  using assms
proof (induction fs arbitrary: n s)
  case Nil
  then show ?case by (auto simp: within_totals_def after_files_def)
next
  case (Cons f fs)
  let ?s = "after_files [f] s"
  show ?case
  proof (cases "file_step target (n, f) s")
    case (Inl err)
    have "\<not> (file_ok f \<and> fl_Path f \<notin> is_files s \<and> is_readBytes s + source_size f \<le> tg_ReadBytes target
       \<and> is_binaryBytes s + elf_size f \<le> tg_BinaryBytes target)"
      using file_step_Inr[OF Cons.prems, of n f ?s] Inl by auto
    then show ?thesis using Inl sum_sizes_nonneg[of fs] by auto
  next
    case (Inr u)
    then have u: "u = ?s" and ok: "file_ok f" "fl_Path f \<notin> is_files s"
        "is_readBytes s + source_size f \<le> tg_ReadBytes target" "is_binaryBytes s + elf_size f \<le> tg_BinaryBytes target"
      using file_step_Inr[OF Cons.prems, of n f u] by auto
    have "within_totals target ?s"
      using Cons.prems ok sizes_nonneg[OF ok(1)] by (simp add: within_totals_def after_files_def)
    note IH = Cons.IH[OF this, of "Suc n"]
    have fields: "is_files ?s = insert (fl_Path f) (is_files s)" "is_readBytes ?s = is_readBytes s + source_size f"
      "is_binaryBytes ?s = is_binaryBytes s + elf_size f" "after_files fs ?s = after_files (f # fs) s"
      by (simp_all add: after_files_def add.assoc insert_commute)
    have step: "loop (file_step target) (enumerate n (f # fs)) s = loop (file_step target) (enumerate (Suc n) fs) ?s"
      using Inr u by simp
    have paths: "fl_Path ` set (f # fs) \<inter> is_files s = {} \<and> distinct (map fl_Path (f # fs)) \<longleftrightarrow>
        fl_Path ` set fs \<inter> insert (fl_Path f) (is_files s) = {} \<and> distinct (map fl_Path fs)"
      using ok(2) by auto
    have sums: "sum_list (map source_size (f # fs)) = source_size f + sum_list (map source_size fs)"
      "sum_list (map elf_size (f # fs)) = elf_size f + sum_list (map elf_size fs)" by simp_all
    show ?thesis unfolding step IH fields sums list.pred_inject(2) add.assoc
      using ok(1) paths by argo
  qed
qed

lemma validate_inventory_accepts:
  assumes "int64_range (tg_ReadBytes target)" "int64_range (tg_BinaryBytes target)"
    "0 \<le> tg_ReadBytes target" "0 \<le> tg_BinaryBytes target"
  shows "validate_inventory target fs = Inr paths \<longleftrightarrow>
     distinct (map fl_Path fs) \<and> list_all file_ok fs \<and> paths = fl_Path ` set fs
     \<and> tg_ReadBytes target = sum_list (map source_size fs)
     \<and> tg_BinaryBytes target = sum_list (map elf_size fs)"
proof -
  let ?s = "\<lparr>is_files = {}, is_readBytes = 0, is_binaryBytes = 0\<rparr>"
  have "within_totals target ?s" using assms by (simp add: within_totals_def)
  note loop_iff = inventory_loop[OF this, of 0 fs]
  have "validate_inventory target fs = Inr paths \<longleftrightarrow>
      (\<exists>s. loop (file_step target) (enumerate 0 fs) ?s = Inr s \<and> is_readBytes s = tg_ReadBytes target
         \<and> is_binaryBytes s = tg_BinaryBytes target \<and> paths = is_files s)"
    by (auto simp: validate_inventory_def bindr_Inr)
  also have "\<dots> \<longleftrightarrow> distinct (map fl_Path fs) \<and> list_all file_ok fs \<and> paths = fl_Path ` set fs
     \<and> tg_ReadBytes target = sum_list (map source_size fs) \<and> tg_BinaryBytes target = sum_list (map elf_size fs)"
    unfolding loop_iff by (auto simp: after_files_def)
  finally show ?thesis .
qed

text \<open>
  C26. The inventory loop accepts a file list, against target totals that are 64-bit values,
  exactly when the paths are distinct, every file passes its own checks and the declared source
  and binary totals are the exact integer sums of the sizes of the inspected files; it returns
  the set of paths. No sequence of sizes makes the running 64-bit totals wrap.
\<close>

theorem validate_inventory_iff:
  assumes "int64_range (tg_ReadBytes target)" "int64_range (tg_BinaryBytes target)"
    "0 \<le> tg_ReadBytes target" "0 \<le> tg_BinaryBytes target"
  shows "validate_inventory target fs = Inr paths \<longleftrightarrow>
     distinct (map fl_Path fs) \<and> list_all file_ok fs \<and> paths = fl_Path ` set fs
     \<and> tg_ReadBytes target = sum_list (map source_size fs)
     \<and> tg_BinaryBytes target = sum_list (map elf_size fs)"
  using assms by (rule validate_inventory_accepts)

theorem validate_inventory_iff_witness:
  "validate_inventory \<lparr>tg_DisplayName = ''plugin'', tg_RootDigest = [], tg_FileCount = 1, tg_ReadBytes = 3,
       tg_BinaryBytes = 0, tg_Manifest = None\<rparr>
     [(example_file ''a.sh'' AnalysisAnalyzed)\<lparr>fl_Inspected := True, fl_SHA256 := replicate 64 CHR ''0'',
        fl_ContentType := ''text/plain'', fl_AnalysisReason := []\<rparr>] = Inr {''a.sh''}"
proof (subst validate_inventory_iff, goal_cases)
  case 5
  have "sha256_text (replicate 64 CHR ''0'')"
    by (simp add: sha256_text_iff lower_hex_def in_rng_def list_all_iff)
  moreover have "validateRelativePath ''a.sh'' = None"
    by (simp add: validateRelativePath_None safe_relative_path_def plain_component_def slash_def)
  ultimately show ?case
    by (simp add: example_file_def file_ok_def file_record_error_def inspection_error_def disposition_error_def
        metadata_error_def is_elf_def source_size_def elf_size_def)
qed (simp_all add: int64_range_def)

text \<open>Without any assumption on the totals, acceptance still implies the checks on each file.\<close>

lemma file_step_accepts:
  "file_step target (n, f) s = Inr t \<Longrightarrow>
     file_ok f \<and> fl_Path f \<notin> is_files s \<and> is_files t = insert (fl_Path f) (is_files s)"
  by (auto simp: file_step_def file_identity_error_None file_ok_def count_bytes_def split: if_splits)

lemma validate_inventory_files:
  assumes "validate_inventory target fs = Inr paths"
  shows "distinct (map fl_Path fs) \<and> list_all file_ok fs \<and> paths = fl_Path ` set fs"
proof -
  have "loop (file_step target) (enumerate n fs) s = Inr t \<Longrightarrow>
      distinct (map fl_Path fs) \<and> fl_Path ` set fs \<inter> is_files s = {} \<and> list_all file_ok fs
      \<and> is_files t = is_files s \<union> fl_Path ` set fs" for n s t
  proof (induction fs arbitrary: n s)
    case (Cons f fs)
    from Cons.prems obtain u where u: "file_step target (n, f) s = Inr u"
      "loop (file_step target) (enumerate (Suc n) fs) u = Inr t" by (auto split: sum.splits)
    from Cons.IH[OF u(2)] file_step_accepts[OF u(1)] show ?case by auto
  qed simp
  with assms show ?thesis by (fastforce simp: validate_inventory_def bindr_Inr)
qed

end
