(* ===== verification/NodeValidation.thy ===== *)
theory NodeValidation
  imports InventoryValidation
begin

text \<open>
  The validator's loops over operations, resources, findings and unknowns
  (internal/report/validate.go, \<open>validateWithEvidenceInputPolicies\<close>).
\<close>

section \<open>State and context of the loops\<close>

text \<open>What the loops read: the digest, the scanner version, the paths and the declared inputs.\<close>

record node_context =
  nc_digest :: digestFunction
  nc_scanner :: string
  nc_files :: "string set"
  nc_inputs :: "string \<rightharpoonup> EvidenceInput"

record node_state =
  ns_operations :: "string set"
  ns_resources :: "string set"
  ns_findings :: "string set"
  ns_unknowns :: "string set"
  ns_references :: reference_maps
  ns_native :: "string set"
  ns_bindings :: "string set"

definition initial_node_state :: node_state where
  "initial_node_state = \<lparr>ns_operations = {}, ns_resources = {}, ns_findings = {}, ns_unknowns = {},
     ns_references = (Map.empty, Map.empty), ns_native = {}, ns_bindings = {}\<rparr>"

text \<open>\<open>addReference\<close> on the maps of the state, its error wrapped with the node's kind and ID.\<close>

definition add_reference :: "string \<Rightarrow> string \<Rightarrow> string \<Rightarrow> string \<Rightarrow> Provenance \<Rightarrow> node_state \<Rightarrow> node_state result" where
  "add_reference label ident reference kind provenance s =
     (case addReference reference kind provenance (ns_references s) of
        Inl e \<Rightarrow> Inl (Wrapf label [AStr ident] e)
      | Inr maps \<Rightarrow> Inr (s\<lparr>ns_references := maps\<rparr>))"

section \<open>Operations\<close>

definition operation_record_error :: "node_context \<Rightarrow> Operation \<Rightarrow> error" where
  "operation_record_error c operation = first_error [
     wrap ''operation %q: %w'' [AStr (op_ID operation)]
       (validateProvenance (op_Provenance operation) (nc_scanner c) provenanceOperation),
     check (length (elems (op_Arguments operation)) > MaxOperationArguments)
       ''operation %q arguments exceed limit %d'' [AStr (op_ID operation), AInt (int MaxOperationArguments)],
     wrap ''operation %q: %w'' [AStr (op_ID operation)]
       (validateScopeConfidence (op_Scope operation) (op_Confidence operation)),
     wrap ''operation %q: %w'' [AStr (op_ID operation)]
       (validateAnchoredEvidence (op_Evidence operation) (op_Provenance operation) (nc_files c) (nc_inputs c))]"

definition operation_step :: "node_context \<Rightarrow> nat \<times> Operation \<Rightarrow> node_state \<Rightarrow> node_state result" where
  "operation_step c = (\<lambda>(index, operation) s.
     andthen (first_error [
       check (op_ID operation = []
           \<or> op_Reference operation \<noteq> publicReferenceWithDigest NodeOperation (op_ID operation) (nc_digest c)
           \<or> op_Category operation = [] \<or> op_Command operation = [])
         ''operation %d has no ID, category, or command'' [AInt (int index)],
       check (op_ID operation \<in> ns_operations s) ''duplicate operation ID %q'' [AStr (op_ID operation)]])
     (bindr (add_reference ''operation %q: %w'' (op_ID operation) (op_Reference operation) NodeOperation
         (op_Provenance operation) (s\<lparr>ns_operations := insert (op_ID operation) (ns_operations s)\<rparr>)) (\<lambda>t.
       andthen (operation_record_error c operation) (Inr t))))"

section \<open>Resources\<close>

definition resource_record_error :: "node_context \<Rightarrow> string set \<Rightarrow> Resource \<Rightarrow> error" where
  "resource_record_error c operations resource = first_error [
     wrap ''resource %q: %w'' [AStr (rc_ID resource)]
       (validateProvenance (rc_Provenance resource) (nc_scanner c) provenanceResource),
     wrap ''resource %q: %w'' [AStr (rc_ID resource)]
       (validateScopeConfidence (rc_Scope resource) (rc_Confidence resource)),
     wrap ''resource %q: %w'' [AStr (rc_ID resource)]
       (validateAnchoredEvidence (rc_Evidence resource) (rc_Provenance resource) (nc_files c) (nc_inputs c)),
     check (rc_RelatedOperationID resource = [])
       ''resource %q has no originating operation'' [AStr (rc_ID resource)],
     check (rc_RelatedOperationID resource \<notin> operations)
       ''resource %q references missing operation %q'' [AStr (rc_ID resource), AStr (rc_RelatedOperationID resource)]]"

definition resource_step :: "node_context \<Rightarrow> Resource \<Rightarrow> node_state \<Rightarrow> node_state result" where
  "resource_step c resource s =
     andthen (first_error [
       check (rc_ID resource = []
           \<or> rc_Reference resource \<noteq> publicReferenceWithDigest NodeResource (rc_ID resource) (nc_digest c)
           \<or> rc_Kind resource = [] \<or> rc_Access resource = [] \<or> rc_Value resource = [])
         ''resource identity, kind, access, and value are required'' [],
       check (rc_ID resource \<in> ns_resources s) ''duplicate resource ID %q'' [AStr (rc_ID resource)]])
     (bindr (add_reference ''resource %q: %w'' (rc_ID resource) (rc_Reference resource) NodeResource
         (rc_Provenance resource) (s\<lparr>ns_resources := insert (rc_ID resource) (ns_resources s)\<rparr>)) (\<lambda>t.
       andthen (resource_record_error c (ns_operations t) resource) (Inr t)))"

section \<open>Findings\<close>

definition finding_record_error :: "node_context \<Rightarrow> string set \<Rightarrow> Finding \<Rightarrow> error" where
  "finding_record_error c operations finding = first_error [
     wrap ''finding %q: %w'' [AStr (fd_ID finding)]
       (validateProvenance (fd_Provenance finding) (nc_scanner c) provenanceFinding),
     check (length (elems (fd_Evidence finding)) = 0) ''finding %q has no evidence'' [AStr (fd_ID finding)],
     check (length (elems (fd_Evidence finding)) > MaxFindingEvidence
         \<or> length (elems (fd_Related finding)) > MaxFindingRelated)
       ''finding %q evidence or relationships exceed structural limits'' [AStr (fd_ID finding)],
     check (\<not> oneOf (fd_Claim finding) [ClaimFact, ClaimInference])
       ''finding %q has invalid claim %q'' [AStr (fd_ID finding), AStr (fd_Claim finding)],
     check (\<not> oneOf (fd_Severity finding)
         [SeverityCritical, SeverityHigh, SeverityMedium, SeverityLow, SeverityInformational])
       ''finding %q has invalid severity %q'' [AStr (fd_ID finding), AStr (fd_Severity finding)],
     wrap ''finding %q: %w'' [AStr (fd_ID finding)]
       (validateScopeConfidence (fd_Scope finding) (fd_Confidence finding)),
     first_error (map (\<lambda>evidence. wrap ''finding %q: %w'' [AStr (fd_ID finding)]
       (validateAnchoredEvidence evidence (fd_Provenance finding) (nc_files c) (nc_inputs c)))
       (elems (fd_Evidence finding))),
     first_error (map (\<lambda>related. check (related \<notin> operations)
       ''finding %q references missing operation %q'' [AStr (fd_ID finding), AStr related])
       (elems (fd_Related finding))),
     check (fd_Claim finding = ClaimInference \<and> length (elems (fd_Related finding)) = 0)
       ''inference %q has no declared supporting operation'' [AStr (fd_ID finding)],
     check (duplicateString (elems (fd_Related finding)))
       ''finding %q repeats a supporting operation'' [AStr (fd_ID finding)],
     (if reserved_coverage finding then
        wrap ''finding %q: %w'' [AStr (fd_ID finding)] (validateReservedCoverageFinding finding (nc_scanner c))
      else None)]"

definition finding_step :: "node_context \<Rightarrow> Finding \<Rightarrow> node_state \<Rightarrow> node_state result" where
  "finding_step c finding s =
     andthen (first_error [
       check (fd_ID finding = []
           \<or> fd_Reference finding \<noteq> publicReferenceWithDigest NodeFinding (fd_ID finding) (nc_digest c)
           \<or> fd_Category finding = [] \<or> fd_Title finding = [] \<or> fd_Explanation finding = [])
         ''finding identity, category, title, explanation, and provenance are required'' [],
       check (fd_ID finding \<in> ns_findings s) ''duplicate finding ID %q'' [AStr (fd_ID finding)]])
     (bindr (add_reference ''finding %q: %w'' (fd_ID finding) (fd_Reference finding) NodeFinding
         (fd_Provenance finding) (s\<lparr>ns_findings := insert (fd_ID finding) (ns_findings s)\<rparr>)) (\<lambda>t.
       andthen (finding_record_error c (ns_operations t) finding) (Inr t)))"

section \<open>Unknowns\<close>

abbreviation unknown_reason_values :: "string list" where
  "unknown_reason_values \<equiv> [UnknownDynamicValue, UnknownUnsupportedSyntax, UnknownParserFailure,
     UnknownBudgetExhaustion, UnknownUnreachableSource, UnknownNativeBehavior, UnknownUnresolvedFlow,
     UnknownExternalBinding]"

abbreviation origin_kind_values :: "string list" where
  "origin_kind_values \<equiv> [OriginAssignment, OriginParameterExpansion, OriginPropertyAssignment, OriginUseSite]"

text \<open>The checks before the native-behaviour and binding bookkeeping.\<close>

definition unknown_shape_error :: "node_context \<Rightarrow> Unknown \<Rightarrow> error" where
  "unknown_shape_error c unknown = first_error [
     wrap ''unknown %q: %w'' [AStr (uk_ID unknown)]
       (validateProvenance (uk_Provenance unknown) (nc_scanner c) provenanceUnknown),
     check (\<not> oneOf (uk_Reason unknown) unknown_reason_values)
       ''unknown %q has invalid reason %q'' [AStr (uk_ID unknown), AStr (uk_Reason unknown)],
     wrap ''unknown %q: %w'' [AStr (uk_ID unknown)]
       (validateScopeConfidence (uk_Scope unknown) (uk_Confidence unknown)),
     check (length (elems (uk_Evidence unknown)) = 0 \<or> length (elems (uk_Evidence unknown)) > MaxUnknownEvidence
         \<or> length (elems (uk_Origins unknown)) > MaxUnknownOrigins
         \<or> length (elems (uk_AffectedOperations unknown)) > MaxUnknownAffected
         \<or> length (elems (uk_SuppressedRules unknown)) > MaxUnknownSuppressed)
       ''unknown %q evidence, origins, affected operations, or suppressed rules exceed structural requirements''
       [AStr (uk_ID unknown)],
     check (uk_Origins unknown = None \<or> uk_AffectedOperations unknown = None \<or> uk_SuppressedRules unknown = None)
       ''unknown %q origin, affected-operation, and suppressed-rule collections must be JSON arrays''
       [AStr (uk_ID unknown)],
     first_error (map (\<lambda>evidence. wrap ''unknown %q: %w'' [AStr (uk_ID unknown)]
       (validateAnchoredEvidence evidence (uk_Provenance unknown) (nc_files c) (nc_inputs c)))
       (elems (uk_Evidence unknown))),
     check (uk_Reason unknown = UnknownNativeBehavior \<and> uk_Scope unknown = ScopeTooling)
       ''unknown %q uses repository-tooling scope for target native behavior'' [AStr (uk_ID unknown)]]"

definition native_paths :: "Unknown \<Rightarrow> string list" where
  "native_paths unknown =
     (if uk_Reason unknown = UnknownNativeBehavior then
        map ev_Path (filter (\<lambda>evidence. ev_InputID evidence = TargetEvidenceInputID
          \<and> (pv_EvidenceSource (uk_Provenance unknown) = EvidenceSourceTargetSource
             \<or> pv_EvidenceSource (uk_Provenance unknown) = EvidenceSourceInventoryMetadata))
          (elems (uk_Evidence unknown)))
      else [])"

definition record_binding :: "node_context \<Rightarrow> Unknown \<Rightarrow> node_state \<Rightarrow> (bool \<times> node_state) result" where
  "record_binding c unknown s =
     (case validateExternalBindingUnknown unknown (nc_inputs c) of
        Inl e \<Rightarrow> Inl (Wrapf ''unknown %q: %w'' [AStr (uk_ID unknown)] e)
      | Inr None \<Rightarrow> Inr (False, s)
      | Inr (Some bindingInput) \<Rightarrow>
          if bindingInput \<in> ns_bindings s
          then Inl (Errorf ''external evidence input %q has duplicate binding unknowns'' [AStr bindingInput])
          else Inr (True, s\<lparr>ns_bindings := insert bindingInput (ns_bindings s)\<rparr>))"

fun affected_error :: "string \<Rightarrow> string set \<Rightarrow> string set \<Rightarrow> string list \<Rightarrow> error" where
  "affected_error ident operations seen [] = None"
| "affected_error ident operations seen (affected # rest) =
     (if affected \<notin> operations then
        Some (Errorf ''unknown %q references missing operation %q'' [AStr ident, AStr affected])
      else if affected \<in> seen then
        Some (Errorf ''unknown %q repeats affected operation %q'' [AStr ident, AStr affected])
      else affected_error ident operations (insert affected seen) rest)"

definition unknown_links_error :: "node_context \<Rightarrow> string set \<Rightarrow> bool \<Rightarrow> Unknown \<Rightarrow> error" where
  "unknown_links_error c operations binding unknown = first_error [
     (if is_external (uk_Provenance unknown) \<and> pv_Analyzer (uk_Provenance unknown) = DeterministicAnalyzer then
        (if pv_RuleID (uk_Provenance unknown) = ExternalBindingAssessmentRule then
           check (\<not> binding)
             ''unknown %q uses the binding-assessment rule without the required binding shape'' [AStr (uk_ID unknown)]
         else if pv_RuleID (uk_Provenance unknown) = ComparisonBudgetRule then
           check (uk_Reason unknown \<noteq> UnknownBudgetExhaustion)
             ''unknown %q uses the comparison-budget rule without budget exhaustion'' [AStr (uk_ID unknown)]
         else None)
      else None),
     first_error (map (\<lambda>origin. first_error [
       check (\<not> oneOf (vo_Kind origin) origin_kind_values)
         ''unknown %q has invalid origin kind %q'' [AStr (uk_ID unknown), AStr (vo_Kind origin)],
       wrap ''unknown %q origin: %w'' [AStr (uk_ID unknown)]
         (validateAnchoredEvidence (vo_Evidence origin) (uk_Provenance unknown) (nc_files c) (nc_inputs c))])
       (elems (uk_Origins unknown))),
     affected_error (uk_ID unknown) operations {} (elems (uk_AffectedOperations unknown))]"

definition unknown_step :: "node_context \<Rightarrow> Unknown \<Rightarrow> node_state \<Rightarrow> node_state result" where
  "unknown_step c unknown s =
     andthen (first_error [
       check (uk_ID unknown = []
           \<or> uk_Reference unknown \<noteq> publicReferenceWithDigest NodeUnknown (uk_ID unknown) (nc_digest c)
           \<or> uk_Category unknown = [] \<or> uk_Title unknown = [] \<or> uk_Description unknown = [])
         ''unknown identity, category, title, description, and public reference are required'' [],
       check (uk_ID unknown \<in> ns_unknowns s) ''duplicate unknown ID %q'' [AStr (uk_ID unknown)]])
     (bindr (add_reference ''unknown %q: %w'' (uk_ID unknown) (uk_Reference unknown) NodeUnknown
         (uk_Provenance unknown) (s\<lparr>ns_unknowns := insert (uk_ID unknown) (ns_unknowns s)\<rparr>)) (\<lambda>t.
       andthen (unknown_shape_error c unknown)
       (bindr (record_binding c unknown (t\<lparr>ns_native := ns_native t \<union> set (native_paths unknown)\<rparr>))
         (\<lambda>(binding, u).
           andthen (unknown_links_error c (ns_operations u) binding unknown) (Inr u)))))"

section \<open>All nodes\<close>

definition validate_nodes :: "node_context \<Rightarrow> Report \<Rightarrow> node_state result" where
  "validate_nodes c r =
     bindr (loop (operation_step c) (enumerate 0 (elems (rp_Operations r))) initial_node_state) (\<lambda>s1.
     bindr (loop (resource_step c) (elems (rp_Resources r)) s1) (\<lambda>s2.
     bindr (loop (finding_step c) (elems (rp_Findings r)) s2) (\<lambda>s3.
     loop (unknown_step c) (elems (rp_Unknowns r)) s3)))"

section \<open>The contract of a node loop\<close>

text \<open>
  The four loops share a contract: each step registers the node's identifier and its reference,
  both new, under the node's kind and provenance. What follows from it is proved once.
\<close>

locale node_loop =
  fixes step :: "'x \<Rightarrow> node_state \<Rightarrow> node_state result"
    and ident :: "'x \<Rightarrow> string" and reference :: "'x \<Rightarrow> string"
    and kind :: string and provenance :: "'x \<Rightarrow> Provenance"
    and seen :: "node_state \<Rightarrow> string set"
    and ok :: "string set \<Rightarrow> 'x \<Rightarrow> bool"
  assumes step_reference: "step x s = Inr t \<Longrightarrow>
      fst (ns_references s) (reference x) = None
      \<and> ns_references t = ((fst (ns_references s))(reference x \<mapsto> kind),
                           (snd (ns_references s))(reference x \<mapsto> provenance x))"
    and step_ident: "step x s = Inr t \<Longrightarrow> ident x \<notin> seen s \<and> seen t = insert (ident x) (seen s)"
    and step_ok: "step x s = Inr t \<Longrightarrow> ok (ns_operations t) x"
begin

lemma loop_idents:
  "loop step xs s = Inr t \<Longrightarrow>
   distinct (map ident xs) \<and> ident ` set xs \<inter> seen s = {} \<and> seen t = seen s \<union> ident ` set xs"
proof (induction xs arbitrary: s)
  case (Cons x xs)
  from Cons.prems obtain u where u: "step x s = Inr u" "loop step xs u = Inr t" by (rule loop_ConsE)
  from Cons.IH[OF u(2)] step_ident[OF u(1)] show ?case by auto
qed simp

lemma loop_references:
  "loop step xs s = Inr t \<Longrightarrow>
   distinct (map reference xs) \<and> (\<forall>x \<in> set xs. fst (ns_references s) (reference x) = None)
   \<and> fst (ns_references t) = (\<lambda>k. if k \<in> reference ` set xs then Some kind else fst (ns_references s) k)
   \<and> (\<forall>x \<in> set xs. snd (ns_references t) (reference x) = Some (provenance x))
   \<and> (\<forall>k. k \<notin> reference ` set xs \<longrightarrow> snd (ns_references t) k = snd (ns_references s) k)"
proof (induction xs arbitrary: s)
  case Nil
  then show ?case by simp
next
  case (Cons x xs)
  from Cons.prems obtain u where u: "step x s = Inr u" "loop step xs u = Inr t" by (rule loop_ConsE)
  have fresh: "fst (ns_references s) (reference x) = None"
    and fst_u: "fst (ns_references u) = (fst (ns_references s))(reference x \<mapsto> kind)"
    and snd_u: "snd (ns_references u) = (snd (ns_references s))(reference x \<mapsto> provenance x)"
    using step_reference[OF u(1)] by simp_all
  note IH = Cons.IH[OF u(2), unfolded fst_u snd_u]
  have new: "reference x \<notin> reference ` set xs" using IH by force
  have rest: "\<forall>y \<in> set xs. fst (ns_references s) (reference y) = None" using IH new by (auto split: if_splits)
  have dom: "fst (ns_references t) =
      (\<lambda>k. if k \<in> reference ` set (x # xs) then Some kind else fst (ns_references s) k)"
    using IH by (auto simp: fun_eq_iff)
  show ?case using IH new rest dom fresh by simp
qed

end

text \<open>The loops after the first leave the set of operations as it is.\<close>

locale linked_node_loop = node_loop +
  assumes keeps_operations: "step x s = Inr t \<Longrightarrow> ns_operations t = ns_operations s"
begin

lemma loop_ok:
  "loop step xs s = Inr t \<Longrightarrow> ns_operations t = ns_operations s \<and> (\<forall>x \<in> set xs. ok (ns_operations s) x)"
proof (induction xs arbitrary: s)
  case (Cons x xs)
  from Cons.prems obtain u where u: "step x s = Inr u" "loop step xs u = Inr t" by (rule loop_ConsE)
  from Cons.IH[OF u(2)] step_ok[OF u(1)] keeps_operations[OF u(1)] show ?case by auto
qed simp

end

text \<open>The loops before the last record no native path and no binding.\<close>

locale unmarking_loop =
  fixes step :: "'x \<Rightarrow> node_state \<Rightarrow> node_state result"
  assumes step_marks: "step x s = Inr t \<Longrightarrow> ns_native t = ns_native s \<and> ns_bindings t = ns_bindings s"
begin

lemma loop_marks: "loop step xs s = Inr t \<Longrightarrow> ns_native t = ns_native s \<and> ns_bindings t = ns_bindings s"
proof (induction xs arbitrary: s)
  case (Cons x xs)
  from Cons.prems obtain u where u: "step x s = Inr u" "loop step xs u = Inr t" by (rule loop_ConsE)
  from Cons.IH[OF u(2)] step_marks[OF u(1)] show ?case by simp
qed simp

end

section \<open>The four loops meet the contract\<close>

lemma add_reference_Inr:
  "add_reference label ident reference kind provenance s = Inr t \<longleftrightarrow>
     reference \<noteq> [] \<and> fst (ns_references s) reference = None
     \<and> t = s\<lparr>ns_references := ((fst (ns_references s))(reference \<mapsto> kind),
                              (snd (ns_references s))(reference \<mapsto> provenance))\<rparr>"
  by (cases "ns_references s") (auto simp: add_reference_def split: sum.splits option.splits if_splits)

definition operation_ok :: "node_context \<Rightarrow> Operation \<Rightarrow> bool" where
  "operation_ok c x \<longleftrightarrow> op_ID x \<noteq> [] \<and> op_Reference x = node_key (nc_digest c) (NodeOperation, op_ID x)
     \<and> op_Category x \<noteq> [] \<and> op_Command x \<noteq> [] \<and> operation_record_error c x = None"

definition resource_ok :: "node_context \<Rightarrow> string set \<Rightarrow> Resource \<Rightarrow> bool" where
  "resource_ok c operations x \<longleftrightarrow> rc_ID x \<noteq> [] \<and> rc_Reference x = node_key (nc_digest c) (NodeResource, rc_ID x)
     \<and> rc_Kind x \<noteq> [] \<and> rc_Access x \<noteq> [] \<and> rc_Value x \<noteq> [] \<and> resource_record_error c operations x = None"

definition finding_ok :: "node_context \<Rightarrow> string set \<Rightarrow> Finding \<Rightarrow> bool" where
  "finding_ok c operations x \<longleftrightarrow> fd_ID x \<noteq> [] \<and> fd_Reference x = node_key (nc_digest c) (NodeFinding, fd_ID x)
     \<and> fd_Category x \<noteq> [] \<and> fd_Title x \<noteq> [] \<and> fd_Explanation x \<noteq> [] \<and> finding_record_error c operations x = None"

definition unknown_ok :: "node_context \<Rightarrow> string set \<Rightarrow> Unknown \<Rightarrow> bool" where
  "unknown_ok c operations x \<longleftrightarrow> uk_ID x \<noteq> [] \<and> uk_Reference x = node_key (nc_digest c) (NodeUnknown, uk_ID x)
     \<and> uk_Category x \<noteq> [] \<and> uk_Title x \<noteq> [] \<and> uk_Description x \<noteq> [] \<and> unknown_shape_error c x = None
     \<and> (\<exists>d. validateExternalBindingUnknown x (nc_inputs c) = Inr d
          \<and> unknown_links_error c operations (d \<noteq> None) x = None)"

lemma operation_step_Inr:
  "operation_step c (n, x) s = Inr t \<longleftrightarrow> operation_ok c x \<and> op_ID x \<notin> ns_operations s
     \<and> add_reference ''operation %q: %w'' (op_ID x) (op_Reference x) NodeOperation (op_Provenance x)
         (s\<lparr>ns_operations := insert (op_ID x) (ns_operations s)\<rparr>) = Inr t"
  by (auto simp: operation_step_def operation_ok_def node_key_def bindr_Inr)

lemma resource_step_Inr:
  "resource_step c x s = Inr t \<longleftrightarrow> resource_ok c (ns_operations t) x \<and> rc_ID x \<notin> ns_resources s
     \<and> add_reference ''resource %q: %w'' (rc_ID x) (rc_Reference x) NodeResource (rc_Provenance x)
         (s\<lparr>ns_resources := insert (rc_ID x) (ns_resources s)\<rparr>) = Inr t"
  by (auto simp: resource_step_def resource_ok_def node_key_def bindr_Inr)

lemma finding_step_Inr:
  "finding_step c x s = Inr t \<longleftrightarrow> finding_ok c (ns_operations t) x \<and> fd_ID x \<notin> ns_findings s
     \<and> add_reference ''finding %q: %w'' (fd_ID x) (fd_Reference x) NodeFinding (fd_Provenance x)
         (s\<lparr>ns_findings := insert (fd_ID x) (ns_findings s)\<rparr>) = Inr t"
  by (auto simp: finding_step_def finding_ok_def node_key_def bindr_Inr)

definition declared_binding :: "node_context \<Rightarrow> Unknown \<Rightarrow> string option" where
  "declared_binding c x =
     (case validateExternalBindingUnknown x (nc_inputs c) of Inl _ \<Rightarrow> None | Inr b \<Rightarrow> b)"

lemma record_binding_Inr:
  "record_binding c x s = Inr (b, t) \<longleftrightarrow>
     (\<exists>d. validateExternalBindingUnknown x (nc_inputs c) = Inr d \<and> b = (d \<noteq> None)
        \<and> set_option d \<inter> ns_bindings s = {} \<and> t = s\<lparr>ns_bindings := ns_bindings s \<union> set_option d\<rparr>)"
  by (auto simp: record_binding_def split: sum.splits option.splits)

lemma unknown_step_Inr:
  "unknown_step c x s = Inr t \<longleftrightarrow>
     (\<exists>u b. add_reference ''unknown %q: %w'' (uk_ID x) (uk_Reference x) NodeUnknown (uk_Provenance x)
            (s\<lparr>ns_unknowns := insert (uk_ID x) (ns_unknowns s)\<rparr>) = Inr u
        \<and> uk_ID x \<noteq> [] \<and> uk_Reference x = node_key (nc_digest c) (NodeUnknown, uk_ID x)
        \<and> uk_Category x \<noteq> [] \<and> uk_Title x \<noteq> [] \<and> uk_Description x \<noteq> [] \<and> uk_ID x \<notin> ns_unknowns s
        \<and> unknown_shape_error c x = None
        \<and> record_binding c x (u\<lparr>ns_native := ns_native u \<union> set (native_paths x)\<rparr>) = Inr (b, t)
        \<and> unknown_links_error c (ns_operations t) b x = None)"
  by (auto simp: unknown_step_def node_key_def bindr_Inr)

lemma unknown_step_effect:
  assumes "unknown_step c x s = Inr t"
  shows "fst (ns_references s) (uk_Reference x) = None"
    and "ns_references t = ((fst (ns_references s))(uk_Reference x \<mapsto> NodeUnknown),
      (snd (ns_references s))(uk_Reference x \<mapsto> uk_Provenance x))"
    and "uk_ID x \<notin> ns_unknowns s" and "ns_unknowns t = insert (uk_ID x) (ns_unknowns s)"
    and "ns_operations t = ns_operations s" and "unknown_ok c (ns_operations t) x"
    and "ns_native t = ns_native s \<union> set (native_paths x)"
    and "ns_bindings t = ns_bindings s \<union> set_option (declared_binding c x)"
    and "set_option (declared_binding c x) \<inter> ns_bindings s = {}"
proof -
  from assms obtain u b where
    u: "add_reference ''unknown %q: %w'' (uk_ID x) (uk_Reference x) NodeUnknown (uk_Provenance x)
            (s\<lparr>ns_unknowns := insert (uk_ID x) (ns_unknowns s)\<rparr>) = Inr u"
    and own: "uk_ID x \<noteq> []" "uk_Reference x = node_key (nc_digest c) (NodeUnknown, uk_ID x)"
      "uk_Category x \<noteq> []" "uk_Title x \<noteq> []" "uk_Description x \<noteq> []" "uk_ID x \<notin> ns_unknowns s"
      "unknown_shape_error c x = None"
    and bind: "record_binding c x (u\<lparr>ns_native := ns_native u \<union> set (native_paths x)\<rparr>) = Inr (b, t)"
    and links: "unknown_links_error c (ns_operations t) b x = None"
    unfolding unknown_step_Inr by blast
  from bind obtain d where d: "validateExternalBindingUnknown x (nc_inputs c) = Inr d"
    "set_option d \<inter> ns_bindings u = {}"
    "t = u\<lparr>ns_native := ns_native u \<union> set (native_paths x), ns_bindings := ns_bindings u \<union> set_option d\<rparr>"
    unfolding record_binding_Inr by auto
  note u' = u[unfolded add_reference_Inr]
  show "fst (ns_references s) (uk_Reference x) = None" "uk_ID x \<notin> ns_unknowns s" using u' own by simp_all
  show "ns_references t = ((fst (ns_references s))(uk_Reference x \<mapsto> NodeUnknown),
      (snd (ns_references s))(uk_Reference x \<mapsto> uk_Provenance x))"
    "ns_unknowns t = insert (uk_ID x) (ns_unknowns s)" "ns_operations t = ns_operations s"
    "ns_native t = ns_native s \<union> set (native_paths x)"
    using u' d(3) by simp_all
  show "ns_bindings t = ns_bindings s \<union> set_option (declared_binding c x)"
    "set_option (declared_binding c x) \<inter> ns_bindings s = {}"
    using u' d by (simp_all add: declared_binding_def)
  have "b = (d \<noteq> None)" using bind d(1) unfolding record_binding_Inr by auto
  with own links d(1) show "unknown_ok c (ns_operations t) x" unfolding unknown_ok_def by blast
qed

interpretation operation_loop: node_loop "operation_step c" "\<lambda>x. op_ID (snd x)" "\<lambda>x. op_Reference (snd x)" NodeOperation
    "\<lambda>x. op_Provenance (snd x)" ns_operations "\<lambda>_ x. operation_ok c (snd x)" for c
  by unfold_locales (auto simp: operation_step_Inr add_reference_Inr)

interpretation resource_loop: linked_node_loop "resource_step c" rc_ID rc_Reference NodeResource rc_Provenance
    ns_resources "resource_ok c" for c
  by unfold_locales (auto simp: resource_step_Inr add_reference_Inr)

interpretation finding_loop: linked_node_loop "finding_step c" fd_ID fd_Reference NodeFinding fd_Provenance
    ns_findings "finding_ok c" for c
  by unfold_locales (auto simp: finding_step_Inr add_reference_Inr)

interpretation unknown_loop: linked_node_loop "unknown_step c" uk_ID uk_Reference NodeUnknown uk_Provenance
    ns_unknowns "unknown_ok c" for c
proof (unfold_locales, goal_cases)
  case (1 x s t)
  show ?case using unknown_step_effect(1,2)[OF 1] ..
next
  case (2 x s t)
  show ?case using unknown_step_effect(3,4)[OF 2] ..
next
  case (3 x s t)
  show ?case using unknown_step_effect(6)[OF 3] .
next
  case (4 x s t)
  show ?case using unknown_step_effect(5)[OF 4] .
qed

interpretation operation_marks: unmarking_loop "operation_step c" for c
  by unfold_locales (auto simp: operation_step_Inr add_reference_Inr)

interpretation resource_marks: unmarking_loop "resource_step c" for c
  by unfold_locales (auto simp: resource_step_Inr add_reference_Inr)

interpretation finding_marks: unmarking_loop "finding_step c" for c
  by unfold_locales (auto simp: finding_step_Inr add_reference_Inr)

lemma unknown_marks:
  "loop (unknown_step c) xs s = Inr t \<Longrightarrow>
     ns_native t = ns_native s \<union> (\<Union>x \<in> set xs. set (native_paths x))
     \<and> ns_bindings t = ns_bindings s \<union> (\<Union>x \<in> set xs. set_option (declared_binding c x))
     \<and> distinct (List.map_filter (declared_binding c) xs)
     \<and> set (List.map_filter (declared_binding c) xs) \<inter> ns_bindings s = {}"
proof (induction xs arbitrary: s)
  case Nil
  then show ?case by (simp add: map_filter_simps)
next
  case (Cons x xs)
  from Cons.prems obtain u where u: "unknown_step c x s = Inr u" "loop (unknown_step c) xs u = Inr t"
    by (rule loop_ConsE)
  show ?case
    using Cons.IH[OF u(2)] unknown_step_effect(7-9)[OF u(1)]
    by (cases "declared_binding c x") (auto simp: map_filter_simps)
qed

section \<open>What accepted nodes satisfy\<close>

definition nodes_ok :: "node_context \<Rightarrow> Report \<Rightarrow> bool" where
  "nodes_ok c r \<longleftrightarrow> (let ops = op_ID ` set (elems (rp_Operations r)) in
     (\<forall>x \<in> set (elems (rp_Operations r)). operation_ok c x)
     \<and> (\<forall>x \<in> set (elems (rp_Resources r)). resource_ok c ops x)
     \<and> (\<forall>x \<in> set (elems (rp_Findings r)). finding_ok c ops x)
     \<and> (\<forall>x \<in> set (elems (rp_Unknowns r)). unknown_ok c ops x))"

definition kinds_of :: "Report \<Rightarrow> string \<Rightarrow> string option" where
  "kinds_of r k =
     (if k \<in> uk_Reference ` set (elems (rp_Unknowns r)) then Some NodeUnknown
      else if k \<in> fd_Reference ` set (elems (rp_Findings r)) then Some NodeFinding
      else if k \<in> rc_Reference ` set (elems (rp_Resources r)) then Some NodeResource
      else if k \<in> op_Reference ` set (elems (rp_Operations r)) then Some NodeOperation else None)"

lemma enumerate_snd: "map (\<lambda>x. f (snd x)) (enumerate n xs) = map f xs"
  by (induction xs arbitrary: n) simp_all

lemma set_enumerate_snd: "(\<lambda>x. f (snd x)) ` set (enumerate n xs) = f ` set xs"
  using arg_cong[OF enumerate_snd[of f n xs], of set] by simp

lemma in_set_enumerate_snd: "y \<in> set xs \<Longrightarrow> \<exists>i. (i, y) \<in> set (enumerate n xs)"
proof -
  assume "y \<in> set xs"
  then have "y \<in> snd ` set (enumerate n xs)" using set_enumerate_snd[of "\<lambda>x. x" n xs] by simp
  then show ?thesis by force
qed

lemma operation_loop_ok:
  "loop (operation_step c) xs s = Inr t \<Longrightarrow> \<forall>x \<in> set xs. operation_ok c (snd x)"
proof
  fix x assume l: "loop (operation_step c) xs s = Inr t" and x: "x \<in> set xs"
  from loop_each[OF l x] obtain u v where "operation_step c x u = Inr v" by blast
  then show "operation_ok c (snd x)" by (rule operation_loop.step_ok)
qed

lemma validate_nodes_loops:
  assumes "validate_nodes c r = Inr s"
  obtains s1 s2 s3 where
    "loop (operation_step c) (enumerate 0 (elems (rp_Operations r))) initial_node_state = Inr s1"
    "loop (resource_step c) (elems (rp_Resources r)) s1 = Inr s2"
    "loop (finding_step c) (elems (rp_Findings r)) s2 = Inr s3"
    "loop (unknown_step c) (elems (rp_Unknowns r)) s3 = Inr s"
  using assms unfolding validate_nodes_def bindr_Inr by blast

lemma validate_nodes_accepted:
  assumes "validate_nodes c r = Inr s"
  shows "nodes_ok c r"
    and "ns_operations s = op_ID ` set (elems (rp_Operations r))"
    and "distinct (graph_nodes r)"
    and "fst (ns_references s) = kinds_of r"
    and "ns_native s = (\<Union>x \<in> set (elems (rp_Unknowns r)). set (native_paths x))"
    and "ns_bindings s = (\<Union>x \<in> set (elems (rp_Unknowns r)). set_option (declared_binding c x))"
    and "distinct (List.map_filter (declared_binding c) (elems (rp_Unknowns r)))"
proof -
  from assms obtain s1 s2 s3 where
    l1: "loop (operation_step c) (enumerate 0 (elems (rp_Operations r))) initial_node_state = Inr s1" and
    l2: "loop (resource_step c) (elems (rp_Resources r)) s1 = Inr s2" and
    l3: "loop (finding_step c) (elems (rp_Findings r)) s2 = Inr s3" and
    l4: "loop (unknown_step c) (elems (rp_Unknowns r)) s3 = Inr s"
    by (rule validate_nodes_loops)
  have ids1: "distinct (map op_ID (elems (rp_Operations r)))" "ns_operations s1 = op_ID ` set (elems (rp_Operations r))"
    using operation_loop.loop_idents[OF l1]
    by (simp_all add: enumerate_snd set_enumerate_snd initial_node_state_def)
  have ok1: "\<forall>x \<in> set (elems (rp_Operations r)). operation_ok c x"
    using operation_loop_ok[OF l1] in_set_enumerate_snd by fastforce
  note ok2 = resource_loop.loop_ok[OF l2] and ok3 = finding_loop.loop_ok[OF l3] and ok4 = unknown_loop.loop_ok[OF l4]
  show ops: "ns_operations s = op_ID ` set (elems (rp_Operations r))" using ids1(2) ok2 ok3 ok4 by simp
  show "nodes_ok c r" unfolding nodes_ok_def Let_def using ok1 ok2 ok3 ok4 ids1(2) by simp
  show "distinct (graph_nodes r)"
    using ids1(1) resource_loop.loop_idents[OF l2] finding_loop.loop_idents[OF l3] unknown_loop.loop_idents[OF l4]
    unfolding graph_nodes_def by (simp add: distinct_map inj_on_def) blast
  show "fst (ns_references s) = kinds_of r"
    using operation_loop.loop_references[OF l1] resource_loop.loop_references[OF l2]
      finding_loop.loop_references[OF l3] unknown_loop.loop_references[OF l4]
    by (simp add: fun_eq_iff kinds_of_def set_enumerate_snd initial_node_state_def)
  have "ns_native s3 = {} \<and> ns_bindings s3 = {}"
    using operation_marks.loop_marks[OF l1] resource_marks.loop_marks[OF l2] finding_marks.loop_marks[OF l3]
    by (simp add: initial_node_state_def)
  with unknown_marks[OF l4]
  show "ns_native s = (\<Union>x \<in> set (elems (rp_Unknowns r)). set (native_paths x))"
    and "ns_bindings s = (\<Union>x \<in> set (elems (rp_Unknowns r)). set_option (declared_binding c x))"
    and "distinct (List.map_filter (declared_binding c) (elems (rp_Unknowns r)))"
    by simp_all
qed

end
