(* ===== verification/Validate.thy ===== *)
theory Validate
  imports NodeValidation
begin

text \<open>
  The whole validator of a report (internal/report/validate.go, \<open>Validate\<close> and
  \<open>validateWithEvidenceInputPolicies\<close>), composed of the parts of the preceding theories in the
  order the code runs them, and what an accepted report guarantees.
\<close>

section \<open>The checks around the loops\<close>

definition nil_collection_error :: "Report \<Rightarrow> error" where
  "nil_collection_error r = first_error (map (\<lambda>(name, isNil).
     check isNil ''top-level report collections must be JSON arrays, not null: %s'' [AStr name])
     [(''evidenceInputs'', rp_EvidenceInputs r = None), (''inventory'', rp_Inventory r = None),
      (''operations'', rp_Operations r = None), (''resources'', rp_Resources r = None),
      (''findings'', rp_Findings r = None), (''unknowns'', rp_Unknowns r = None),
      (''relationships'', rp_Relationships r = None), (''limitations'', rp_Limitations r = None),
      (''errors'', rp_Errors r = None)])"

text \<open>Times are nanoseconds since the zero time of the package \<open>time\<close>.\<close>

definition scan_error :: "ScanMetadata \<Rightarrow> error" where
  "scan_error scan = first_error [
     check (sm_ScannerVersion scan = [] \<or> sm_PolicyVersion scan = [])
       ''scanner and policy versions are required'' [],
     check (sm_StartedAt scan = 0 \<or> sm_CompletedAt scan = 0 \<or> sm_CompletedAt scan < sm_StartedAt scan)
       ''invalid scan timestamps'' [],
     check (sm_Sandboxed scan \<noteq> (sm_ResourceLimits scan \<noteq> None))
       ''sandbox and resource-limit metadata must be established together'' [],
     (case sm_ResourceLimits scan of None \<Rightarrow> None | Some limits \<Rightarrow>
        check (rl_MemoryMaxBytes limits \<le> 0 \<or> rl_MemorySwapBytes limits < 0 \<or> rl_TasksMax limits \<le> 0
            \<or> rl_CPUQuotaPercent limits \<le> 0 \<or> rl_CPUQuotaPercent limits > 100 \<or> rl_WallTimeSeconds limits \<le> 0)
          ''invalid resource-limit metadata'' [])]"

definition target_error :: "Target \<Rightarrow> File list \<Rightarrow> error" where
  "target_error target files = first_error [
     check (tg_DisplayName target = [] \<or> tg_FileCount target < 0 \<or> tg_ReadBytes target < 0 \<or> tg_BinaryBytes target < 0)
       ''invalid target metadata'' [],
     check (\<not> sha256_text (tg_RootDigest target))
       ''target root digest must be 64 lowercase hexadecimal SHA-256 characters'' [],
     check (tg_FileCount target \<noteq> int (length files))
       ''target file count %d does not match inventory length %d''
       [AInt (tg_FileCount target), AInt (int (length files))]]"

definition manifest_error :: "Manifest option \<Rightarrow> error" where
  "manifest_error m = (case m of None \<Rightarrow> None | Some manifest \<Rightarrow> first_error [
     check (mf_Kinds manifest = None \<or> mf_EntryPoints manifest = None)
       ''manifest kinds and entry points must be JSON collections, not null'' [],
     check (length (elems (mf_Kinds manifest)) > MaxManifestKinds
         \<or> length (elems (mf_EntryPoints manifest)) > MaxManifestEntryPoints)
       ''manifest collections exceed structural limits'' []])"

definition root_digest_error ::
  "digestFunction \<Rightarrow> Report \<Rightarrow> (string \<rightharpoonup> EvidenceInput) \<Rightarrow> error" where
  "root_digest_error digest r inputs =
     (case InventoryRootDigest digest (elems (rp_Inventory r)) of
        Inl e \<Rightarrow> Some (Wrapf ''target inventory root digest: %w'' [] e)
      | Inr recomputedRoot \<Rightarrow>
          check (tg_RootDigest (rp_Target r) \<noteq> recomputedRoot
              \<or> (case inputs TargetEvidenceInputID of None \<Rightarrow> [] | Some input \<Rightarrow> ei_SubjectRootDigest input)
                  \<noteq> recomputedRoot)
            ''target root digest does not match the retained inventory'' [])"

definition unknown_coverage_error :: "Report \<Rightarrow> node_state \<Rightarrow> error" where
  "unknown_coverage_error r s = first_error [
     first_error (map (\<lambda>file. check (is_elf file \<and> fl_Path file \<notin> ns_native s)
       ''inventory ELF %q lacks an explicit native-behavior unknown'' [AStr (fl_Path file)])
       (elems (rp_Inventory r))),
     first_error (map (\<lambda>input. check (ei_Type input = EvidenceInputOmarchyAudit
         \<and> ei_SubjectRootDigest input = [] \<and> ei_ID input \<notin> ns_bindings s)
       ''snapshot-unbound external evidence input %q lacks an explicit binding unknown'' [AStr (ei_ID input)])
       (elems (rp_EvidenceInputs r)))]"

definition limitation_error :: "nat \<times> Limitation \<Rightarrow> error" where
  "limitation_error = (\<lambda>(index, limitation). first_error [
     check (li_Code limitation = [] \<or> li_Description limitation = [])
       ''limitation %d has no code or description'' [AInt (int index)],
     (if li_Path limitation \<noteq> [] then
        wrap ''limitation %d: %w'' [AInt (int index)] (validateRelativePath (li_Path limitation)) else None),
     check (li_Scope limitation \<noteq> [] \<and> \<not> oneOf (li_Scope limitation) [ScopeRuntime, ScopeTooling, ScopeUnknown])
       ''limitation %d has invalid scope %q'' [AInt (int index), AStr (li_Scope limitation)]])"

definition scan_error_error :: "nat \<times> ScanError \<Rightarrow> error" where
  "scan_error_error = (\<lambda>(index, scanError). first_error [
     check (se_Code scanError = [] \<or> se_Message scanError = [])
       ''scan error %d has no code or message'' [AInt (int index)],
     (if se_Path scanError \<noteq> [] then
        wrap ''scan error %d: %w'' [AInt (int index)] (validateRelativePath (se_Path scanError)) else None)])"

definition status_error :: "Report \<Rightarrow> error" where
  "status_error r =
     (let unexplained = (length (elems (rp_Unknowns r)) = 0 \<and> length (elems (rp_Limitations r)) = 0
            \<and> length (elems (rp_Errors r)) = 0)
      in if rp_Status r = StatusComplete then
           first_error [
             check (\<not> unexplained) ''complete report cannot contain unknowns, limitations, or scan errors'' [],
             (case rp_Review r of None \<Rightarrow> None | Some review \<Rightarrow> first_error [
                check (cv_Level (rs_AnalysisCoverage review) \<noteq> ''complete''
                    \<and> cv_Level (rs_AnalysisCoverage review) \<noteq> ''not-applicable'')
                  ''complete report requires complete analysis coverage'' [],
                check (cv_ExcludedUnits (rs_AnalysisCoverage review) \<noteq> 0)
                  ''complete report cannot exclude retained inventory from semantic coverage'' []])]
         else if rp_Status r = StatusIncomplete then
           check unexplained ''incomplete report must explain itself with an unknown, limitation, or scan error'' []
         else if rp_Status r = StatusError then
           check (length (elems (rp_Errors r)) = 0) ''error report must contain a scan error'' []
         else None)"

section \<open>The validator\<close>

definition report_context :: "digestFunction \<Rightarrow> Report \<Rightarrow> string set \<Rightarrow> (string \<rightharpoonup> EvidenceInput) \<Rightarrow> node_context" where
  "report_context digest r files inputs =
     \<lparr>nc_digest = digest, nc_scanner = sm_ScannerVersion (rp_Scan r), nc_files = files, nc_inputs = inputs\<rparr>"

definition header_error :: "Report \<Rightarrow> error" where
  "header_error r = first_error [
     check (rp_SchemaVersion r \<noteq> SchemaVersion) ''unsupported report schema %q'' [AStr (rp_SchemaVersion r)],
     validateCollectionBounds r,
     nil_collection_error r,
     validateHostileStrings r,
     check (\<not> oneOf (rp_Status r) [StatusComplete, StatusIncomplete, StatusError])
       ''invalid report status %q'' [AStr (rp_Status r)],
     scan_error (rp_Scan r),
     target_error (rp_Target r) (elems (rp_Inventory r))]"

definition trailer_error :: "Report \<Rightarrow> error" where
  "trailer_error r = first_error [
     first_error (map limitation_error (enumerate 0 (elems (rp_Limitations r)))),
     first_error (map scan_error_error (enumerate 0 (elems (rp_Errors r)))),
     validateReviewSummary r,
     status_error r]"

definition validateWithEvidenceInputPolicies ::
  "digestFunction \<Rightarrow> externalEvidenceInputPolicy list \<Rightarrow> Report \<Rightarrow> error" where
  "validateWithEvidenceInputPolicies digest policies r = error_of (
     andthen (header_error r)
     (bindr (validateEvidenceInputs r policies) (\<lambda>inputs.
      andthen (manifest_error (tg_Manifest (rp_Target r)))
      (bindr (validate_inventory (rp_Target r) (elems (rp_Inventory r))) (\<lambda>files.
       andthen (root_digest_error digest r inputs)
       (bindr (validate_nodes (report_context digest r files inputs) r) (\<lambda>s.
        andthen (first_error [
          unknown_coverage_error r s,
          validateRelationshipsWithDigest digest r (fst (ns_references s)) (snd (ns_references s)),
          trailer_error r])
        (Inr ()))))))))"

definition Validate :: "digestFunction \<Rightarrow> Report \<Rightarrow> error" where
  "Validate digest r = validateWithEvidenceInputPolicies digest supportedExternalEvidenceInputPolicies r"

section \<open>The stages of an accepted report\<close>

lemma validate_stages:
  assumes "validateWithEvidenceInputPolicies digest policies r = None"
  obtains inputs files s where
    "header_error r = None" "validateEvidenceInputs r policies = Inr inputs"
    "manifest_error (tg_Manifest (rp_Target r)) = None"
    "validate_inventory (rp_Target r) (elems (rp_Inventory r)) = Inr files"
    "root_digest_error digest r inputs = None"
    "validate_nodes (report_context digest r files inputs) r = Inr s"
    "unknown_coverage_error r s = None"
    "validateRelationshipsWithDigest digest r (fst (ns_references s)) (snd (ns_references s)) = None"
    "trailer_error r = None"
  using assms unfolding validateWithEvidenceInputPolicies_def error_of_None andthen_Inr bindr_Inr
    first_error_None by auto

end
