(* ===== verification/SampleReports.thy ===== *)
theory SampleReports
  imports Validate "HOL-Library.Code_Target_Nat"
begin

text \<open>
  Two concrete reports that the validator accepts, one complete and one incomplete, on which the
  theorems of the theory \<open>Guarantees\<close> are instantiated. None of this models code.
\<close>

definition sha_text :: string where
  "sha_text = replicate 64 CHR ''a''"

definition script_file :: File where
  "script_file = (example_file ''a.sh'' AnalysisAnalyzed)
     \<lparr>fl_SHA256 := sha_text, fl_ContentType := ''text/plain'', fl_Inspected := True, fl_AnalysisReason := []\<rparr>"

definition elf_file :: File where
  "elf_file = (example_file ''b'' AnalysisPartial)
     \<lparr>fl_SHA256 := sha_text, fl_ContentType := elf_type, fl_Inspected := True\<rparr>"

definition native_unknown :: Unknown where
  "native_unknown = \<lparr>uk_ID = ''u1'', uk_Reference = [], uk_Category = ''native'', uk_Reason = UnknownNativeBehavior,
     uk_Scope = ScopeRuntime, uk_Confidence = ConfidenceHigh, uk_Title = ''title'', uk_Description = ''d'',
     uk_Evidence = Some [sample_evidence\<lparr>ev_Path := ''b''\<rparr>], uk_Origins = Some [], uk_AffectedOperations = Some [],
     uk_SuppressedRules = Some [], uk_Provenance = sample_provenance\<rparr>"

definition audit_input :: EvidenceInput where
  "audit_input = NewOmarchyAuditEvidenceInput sample_digest ''audit'' ''label'' ''document''"

definition binding_unknown :: Unknown where
  "binding_unknown = \<lparr>uk_ID = ''u2'', uk_Reference = [], uk_Category = ExternalEvidenceBindingCategory,
     uk_Reason = UnknownExternalBinding, uk_Scope = ScopeUnknown, uk_Confidence = ConfidenceHigh,
     uk_Title = ''title'', uk_Description = ''d'', uk_Evidence = Some [sample_evidence\<lparr>ev_InputID := ''audit''\<rparr>],
     uk_Origins = Some [], uk_AffectedOperations = Some [], uk_SuppressedRules = Some [ExternalSnapshotBindingRule],
     uk_Provenance = sample_provenance\<lparr>pv_RuleID := ExternalBindingAssessmentRule,
       pv_EvidenceSource := EvidenceSourceOmarchyAudit\<rparr>\<rparr>"

definition finish_report :: "int \<Rightarrow> int \<Rightarrow> EvidenceInput list \<Rightarrow> Report \<Rightarrow> Report" where
  "finish_report source binary inputs r =
     (let root = (case InventoryRootDigest sample_digest (elems (rp_Inventory r)) of Inl e \<Rightarrow> [] | Inr d \<Rightarrow> d);
          bound = r\<lparr>rp_Target := (rp_Target r)\<lparr>tg_RootDigest := root, tg_ReadBytes := source, tg_BinaryBytes := binary\<rparr>,
            rp_EvidenceInputs := Some (inputs @ [\<lparr>ei_ID = TargetEvidenceInputID, ei_Type = EvidenceInputTarget, ei_Label = ''target'',
              ei_DocumentSHA256 = [], ei_SubjectRootDigest = root, ei_Format = TargetEvidenceInputFormat,
              ei_Version = TargetEvidenceInputVersion\<rparr>])\<rparr>
      in case buildEvidenceGraphWithDigest sample_digest bound of
           Inl e \<Rightarrow> r
         | Inr built \<Rightarrow> built\<lparr>rp_Review :=
             Some (deriveReviewSummary built (coverageFromInventory (elems (rp_Inventory built))))\<rparr>)"

definition complete_sample :: Report where
  "complete_sample = finish_report 3 0 []
     (sample_report [script_file] [sample_operation ''o1'' ''curl''] [sample_resource ''r1'' ''o1'']
       [sample_finding ''f1'' SeverityHigh ConfidenceMedium] [])"

definition policy_limits :: ResourceLimits where
  "policy_limits = \<lparr>rl_MemoryMaxBytes = 268435456, rl_MemorySwapBytes = 0, rl_TasksMax = 64,
     rl_CPUQuotaPercent = 100, rl_WallTimeSeconds = 30\<rparr>"

definition incomplete_sample :: Report where
  "incomplete_sample = finish_report 3 3 [audit_input]
     ((sample_report [script_file, elf_file]
       [(sample_operation ''o1'' ''curl'')\<lparr>op_Arguments := Some [''-s'']\<rparr>] [] [] [native_unknown, binding_unknown])
       \<lparr>rp_Status := StatusIncomplete, rp_Scan := \<lparr>sm_ScannerVersion = ''1'', sm_PolicyVersion = ''1'', sm_StartedAt = 1, sm_CompletedAt = 2,
         sm_Sandboxed = True, sm_ResourceLimits = Some policy_limits\<rparr>\<rparr>)"

text \<open>The code equations of numerals on binary integers keep the evaluation of the limits small.\<close>

lemma complete_sample_accepted: "Validate sample_digest complete_sample = None"
  by code_simp

lemma incomplete_sample_accepted: "Validate sample_digest incomplete_sample = None"
  by code_simp

lemma finish_report_kept:
  "rp_Status (finish_report source binary inputs r) = rp_Status r" "rp_Scan (finish_report source binary inputs r) = rp_Scan r"
  "rp_Inventory (finish_report source binary inputs r) = rp_Inventory r"
  by (auto simp: finish_report_def Let_def dest: graph_fields split: sum.split)

lemma complete_sample_status: "rp_Status complete_sample = StatusComplete"
  by (simp add: complete_sample_def finish_report_kept sample_report_def)

lemma incomplete_sample_elf: "elf_file \<in> set (elems (rp_Inventory incomplete_sample)) \<and> is_elf elf_file"
  by (simp add: incomplete_sample_def finish_report_kept sample_report_def is_elf_def elf_file_def)

lemma incomplete_sample_scan: "sm_ResourceLimits (rp_Scan incomplete_sample) = Some policy_limits"
  by (simp add: incomplete_sample_def finish_report_kept)

lemma incomplete_sample_input: "audit_input \<in> set (elems (rp_EvidenceInputs incomplete_sample))"
  by code_simp

end
