(* ===== verification/Guarantees.thy ===== *)
theory Guarantees
  imports SampleReports
begin

text \<open>
  What an accepted report guarantees to the component that presents it: the stages of the
  validator (theory \<open>Validate\<close>) turned into statements about the report.
\<close>

section \<open>Acceptance, unfolded\<close>

lemma Validate_stages:
  assumes "Validate digest r = None"
  obtains inputs s where
    "header_error r = None" "validateEvidenceInputs r supportedExternalEvidenceInputPolicies = Inr inputs"
    "list_all file_ok (elems (rp_Inventory r))" "distinct (map fl_Path (elems (rp_Inventory r)))"
    "root_digest_error digest r inputs = None"
    "validate_nodes (report_context digest r (fl_Path ` set (elems (rp_Inventory r))) inputs) r = Inr s"
    "unknown_coverage_error r s = None"
    "validateRelationshipsWithDigest digest r (fst (ns_references s)) (snd (ns_references s)) = None"
    "trailer_error r = None"
proof -
  from assms[unfolded Validate_def] obtain inputs files s where
    stages: "header_error r = None" "validateEvidenceInputs r supportedExternalEvidenceInputPolicies = Inr inputs"
      "validate_inventory (rp_Target r) (elems (rp_Inventory r)) = Inr files"
      "root_digest_error digest r inputs = None"
      "validate_nodes (report_context digest r files inputs) r = Inr s"
      "unknown_coverage_error r s = None"
      "validateRelationshipsWithDigest digest r (fst (ns_references s)) (snd (ns_references s)) = None"
      "trailer_error r = None"
    by (rule validate_stages)
  from validate_inventory_files[OF stages(3)] stages show ?thesis
    by (intro that[of inputs s]) simp_all
qed

lemma file_ok_disposition:
  assumes "file_ok f"
  shows "valid_disposition f"
    and "fl_Analysis f = AnalysisAnalyzed \<Longrightarrow> fl_Inspected f \<and> \<not> is_elf f \<and> fl_Archive f = None"
proof -
  have d: "disposition_error f = None" and m: "metadata_error f = None"
    using assms by (simp_all add: file_ok_def file_record_error_def)
  show "valid_disposition f"
    using d by (simp add: disposition_error_def valid_disposition_def split: if_splits)
  show "fl_Inspected f \<and> \<not> is_elf f \<and> fl_Archive f = None" if a: "fl_Analysis f = AnalysisAnalyzed"
    using d m by (simp add: disposition_error_def metadata_error_def a)
qed

lemma trailer_parts:
  assumes "trailer_error r = None"
  shows "validateReviewSummary r = None" and "status_error r = None"
  using assms by (simp_all add: trailer_error_def)

lemma accepted_coverage:
  assumes "validateReviewSummary r = None" and "rp_Review r = Some review"
  shows "rs_AnalysisCoverage review = coverageFromInventory (elems (rp_Inventory r))"
    and "review = deriveReviewSummary r (rs_AnalysisCoverage review)"
  using assms(1)[unfolded validateReviewSummary_def assms(2) option.case, simplified] by blast+

lemma accepted_review: "validateReviewSummary r = None \<Longrightarrow> \<exists>review. rp_Review r = Some review"
  by (cases "rp_Review r") (simp_all add: validateReviewSummary_def)

lemma header_bounds:
  assumes "header_error r = None"
  shows "length (elems (rp_Inventory r)) \<le> MaxInventoryEntries"
  using assms by (simp add: header_error_def validateCollectionBounds_def)

section \<open>Complete reports\<close>

definition external_inputs :: "Report \<Rightarrow> EvidenceInput list" where
  "external_inputs r = filter external_input (elems (rp_EvidenceInputs r))"

lemma accepted_external_unbound:
  assumes "validateEvidenceInputs r supportedExternalEvidenceInputPolicies = Inr inputs"
    and "i \<in> set (external_inputs r)"
  shows "ei_SubjectRootDigest i = []"
proof -
  have "input_ok (tg_RootDigest (rp_Target r)) supportedExternalEvidenceInputPolicies i" "external_input i"
    using validateEvidenceInputs_Inr(3)[OF assms(1)] assms(2) by (auto simp: external_inputs_def list_all_iff)
  then have "external_input_error supportedExternalEvidenceInputPolicies i = None"
    using target_not_external[of i] by (auto simp: input_ok_def)
  then show ?thesis using supported_external_unbound by blast
qed

lemma external_needs_binding:
  assumes "unknown_coverage_error r s = None" and "i \<in> set (external_inputs r)" and "ei_SubjectRootDigest i = []"
  shows "ei_ID i \<in> ns_bindings s"
  using assms by (auto simp: unknown_coverage_error_def external_inputs_def external_input_def)

text \<open>
  C2. A report that validates as complete leaves nothing open: it has no unknown, no limitation
  and no scan error; every retained file was inspected and analyzed, and none is an ELF or an
  archive; and it rests on no external input, because no supported external format binds
  itself to the inspected snapshot.
\<close>

theorem complete_report_covers_everything:
  assumes "Validate digest r = None" and "rp_Status r = StatusComplete"
  shows "elems (rp_Unknowns r) = [] \<and> elems (rp_Limitations r) = [] \<and> elems (rp_Errors r) = []
    \<and> list_all (\<lambda>f. fl_Analysis f = AnalysisAnalyzed \<and> fl_Inspected f \<and> \<not> is_elf f \<and> fl_Archive f = None)
        (elems (rp_Inventory r))
    \<and> external_inputs r = []"
proof -
  from assms(1) obtain inputs s where
    h: "header_error r = None" and i: "validateEvidenceInputs r supportedExternalEvidenceInputPolicies = Inr inputs" and
    f: "list_all file_ok (elems (rp_Inventory r))" and
    n: "validate_nodes (report_context digest r (fl_Path ` set (elems (rp_Inventory r))) inputs) r = Inr s" and
    u: "unknown_coverage_error r s = None" and t: "trailer_error r = None"
    by (rule Validate_stages)
  note rv = trailer_parts[OF t]
  from accepted_review[OF rv(1)] obtain review where review: "rp_Review r = Some review" ..
  have none: "elems (rp_Unknowns r) = []" "elems (rp_Limitations r) = []" "elems (rp_Errors r) = []"
    and level: "cv_Level (rs_AnalysisCoverage review) \<in> {''complete'', ''not-applicable''}"
      "cv_ExcludedUnits (rs_AnalysisCoverage review) = 0"
    using rv(2) assms(2) review by (auto simp: status_error_def Let_def)
  have "list_all valid_disposition (elems (rp_Inventory r))"
    using f file_ok_disposition(1) by (auto simp: list_all_iff)
  from coverage_complete_analyzed[OF this header_bounds[OF h]] level
  have "\<forall>f \<in> set (elems (rp_Inventory r)). fl_Analysis f = AnalysisAnalyzed"
    unfolding accepted_coverage(1)[OF rv(1) review] by blast
  with f file_ok_disposition(2) have "list_all (\<lambda>f. fl_Analysis f = AnalysisAnalyzed \<and> fl_Inspected f
      \<and> \<not> is_elf f \<and> fl_Archive f = None) (elems (rp_Inventory r))"
    by (auto simp: list_all_iff)
  moreover have "external_inputs r = []"
  proof (rule ccontr)
    assume "external_inputs r \<noteq> []"
    then obtain i' where i': "i' \<in> set (external_inputs r)" by (meson hd_in_set)
    from external_needs_binding[OF u i' accepted_external_unbound[OF i i']]
      validate_nodes_accepted(6)[OF n] none(1) show False by simp
  qed
  ultimately show ?thesis using none by blast
qed

theorem complete_report_covers_everything_witness:
  "elems (rp_Unknowns complete_sample) = [] \<and> elems (rp_Limitations complete_sample) = []
    \<and> elems (rp_Errors complete_sample) = []
    \<and> list_all (\<lambda>f. fl_Analysis f = AnalysisAnalyzed \<and> fl_Inspected f \<and> \<not> is_elf f \<and> fl_Archive f = None)
        (elems (rp_Inventory complete_sample))
    \<and> external_inputs complete_sample = []"
  by (rule complete_report_covers_everything[OF complete_sample_accepted complete_sample_status])

section \<open>Anchored evidence\<close>

definition operation_evidence :: "Operation \<Rightarrow> (Provenance \<times> Evidence) list" where
  "operation_evidence x = [(op_Provenance x, op_Evidence x)]"

definition resource_evidence :: "Resource \<Rightarrow> (Provenance \<times> Evidence) list" where
  "resource_evidence x = [(rc_Provenance x, rc_Evidence x)]"

definition finding_evidence :: "Finding \<Rightarrow> (Provenance \<times> Evidence) list" where
  "finding_evidence x = map (Pair (fd_Provenance x)) (elems (fd_Evidence x))"

definition unknown_evidence :: "Unknown \<Rightarrow> (Provenance \<times> Evidence) list" where
  "unknown_evidence x = map (Pair (uk_Provenance x)) (elems (uk_Evidence x) @ map vo_Evidence (elems (uk_Origins x)))"

definition report_evidence :: "Report \<Rightarrow> (Provenance \<times> Evidence) list" where
  "report_evidence r = concat (map operation_evidence (elems (rp_Operations r)))
     @ concat (map resource_evidence (elems (rp_Resources r)))
     @ concat (map finding_evidence (elems (rp_Findings r)))
     @ concat (map unknown_evidence (elems (rp_Unknowns r)))"

abbreviation all_anchored :: "node_context \<Rightarrow> (Provenance \<times> Evidence) list \<Rightarrow> bool" where
  "all_anchored c \<equiv> list_all (\<lambda>(p, e). anchored (nc_inputs c) (nc_files c) p e)"

lemma evidence_anchored:
  "validateProvenance p scanner k = None \<Longrightarrow> validateAnchoredEvidence e p files inputs = None \<Longrightarrow>
   anchored inputs files p e"
  using validateAnchoredEvidence_anchored validateProvenance_source by blast

lemma operation_anchored:
  assumes "operation_ok c x"
  shows "all_anchored c (operation_evidence x)"
proof -
  have "operation_record_error c x = None" using assms by (simp add: operation_ok_def)
  then have "validateProvenance (op_Provenance x) (nc_scanner c) provenanceOperation = None"
    "validateAnchoredEvidence (op_Evidence x) (op_Provenance x) (nc_files c) (nc_inputs c) = None"
    by (simp_all add: operation_record_error_def)
  from evidence_anchored[OF this] show ?thesis by (simp add: operation_evidence_def)
qed

lemma resource_anchored:
  assumes "resource_ok c ops x"
  shows "all_anchored c (resource_evidence x)"
proof -
  have "resource_record_error c ops x = None" using assms by (simp add: resource_ok_def)
  then have "validateProvenance (rc_Provenance x) (nc_scanner c) provenanceResource = None"
    "validateAnchoredEvidence (rc_Evidence x) (rc_Provenance x) (nc_files c) (nc_inputs c) = None"
    by (simp_all add: resource_record_error_def)
  from evidence_anchored[OF this] show ?thesis by (simp add: resource_evidence_def)
qed

lemma finding_anchored:
  assumes "finding_ok c ops x"
  shows "all_anchored c (finding_evidence x)"
proof -
  have "finding_record_error c ops x = None" using assms by (simp add: finding_ok_def)
  then have p: "validateProvenance (fd_Provenance x) (nc_scanner c) provenanceFinding = None"
    and e: "\<forall>e \<in> set (elems (fd_Evidence x)).
      validateAnchoredEvidence e (fd_Provenance x) (nc_files c) (nc_inputs c) = None"
    by (simp_all add: finding_record_error_def)
  from evidence_anchored[OF p] e show ?thesis by (simp add: finding_evidence_def list_all_iff)
qed

lemma unknown_anchored:
  assumes "unknown_ok c ops x"
  shows "all_anchored c (unknown_evidence x)"
proof -
  obtain b where sh: "unknown_shape_error c x = None" and li: "unknown_links_error c ops b x = None"
    using assms unfolding unknown_ok_def by blast
  have p: "validateProvenance (uk_Provenance x) (nc_scanner c) provenanceUnknown = None"
    and e: "\<forall>e \<in> set (elems (uk_Evidence x)).
      validateAnchoredEvidence e (uk_Provenance x) (nc_files c) (nc_inputs c) = None"
    using sh by (simp_all add: unknown_shape_error_def)
  have "\<forall>v \<in> set (elems (uk_Origins x)).
      validateAnchoredEvidence (vo_Evidence v) (uk_Provenance x) (nc_files c) (nc_inputs c) = None"
    using li by (simp add: unknown_links_error_def)
  with evidence_anchored[OF p] e show ?thesis by (auto simp: unknown_evidence_def list_all_iff)
qed

text \<open>
  C7. Every piece of evidence in an accepted report, of an operation, a resource, a finding, an
  unknown or the origin of an unknown value, is anchored: it has a safe relative path and an
  ordered line range; local evidence names a file of the retained inventory through the target
  input, external evidence names a declared audit input of the version its provenance claims.
\<close>

theorem accepted_evidence_is_anchored:
  assumes "Validate digest r = None"
  shows "\<exists>inputs. inputs_map (elems (rp_EvidenceInputs r)) inputs \<and>
    list_all (\<lambda>(p, e). anchored inputs (fl_Path ` set (elems (rp_Inventory r))) p e) (report_evidence r)"
proof -
  from assms obtain inputs s where
    i: "validateEvidenceInputs r supportedExternalEvidenceInputPolicies = Inr inputs" and
    n: "validate_nodes (report_context digest r (fl_Path ` set (elems (rp_Inventory r))) inputs) r = Inr s"
    by (rule Validate_stages)
  let ?c = "report_context digest r (fl_Path ` set (elems (rp_Inventory r))) inputs"
  note ok = validate_nodes_accepted(1)[OF n, unfolded nodes_ok_def Let_def]
  have "all_anchored ?c (report_evidence r)"
    unfolding report_evidence_def list_all_append list_all_iff[of _ "concat _"] set_concat set_map
    using ok operation_anchored[of ?c] resource_anchored[of ?c] finding_anchored[of ?c] unknown_anchored[of ?c]
    by (fastforce simp: list_all_iff)
  then show ?thesis
    using validateEvidenceInputs_Inr(2)[OF i] by (auto simp: report_context_def)
qed

theorem accepted_evidence_is_anchored_witness:
  "\<exists>inputs. inputs_map (elems (rp_EvidenceInputs incomplete_sample)) inputs \<and>
    list_all (\<lambda>(p, e). anchored inputs (fl_Path ` set (elems (rp_Inventory incomplete_sample))) p e)
      (report_evidence incomplete_sample)"
  by (rule accepted_evidence_is_anchored[OF incomplete_sample_accepted])

section \<open>The graph of an accepted report\<close>

lemma ok_references:
  "operation_ok c x \<Longrightarrow> op_Reference x = node_key (nc_digest c) (NodeOperation, op_ID x)"
  "resource_ok c ops y \<Longrightarrow> rc_Reference y = node_key (nc_digest c) (NodeResource, rc_ID y)"
  "finding_ok c ops z \<Longrightarrow> fd_Reference z = node_key (nc_digest c) (NodeFinding, fd_ID z)"
  "unknown_ok c ops w \<Longrightarrow> uk_Reference w = node_key (nc_digest c) (NodeUnknown, uk_ID w)"
  by (simp_all add: operation_ok_def resource_ok_def finding_ok_def unknown_ok_def)

lemma nodes_ok_annotated: "nodes_ok c r \<Longrightarrow> annotated (nc_digest c) r"
  unfolding nodes_ok_def annotated_def Let_def using ok_references by blast



section \<open>Native code and unbound inputs\<close>

definition explains_native :: "string \<Rightarrow> Unknown \<Rightarrow> bool" where
  "explains_native path u \<longleftrightarrow> uk_Reason u = UnknownNativeBehavior \<and> uk_Scope u \<noteq> ScopeTooling
     \<and> list_ex (\<lambda>e. ev_Path e = path \<and> ev_InputID e = TargetEvidenceInputID) (elems (uk_Evidence u))"

lemma native_paths_explains:
  "unknown_ok c ops u \<Longrightarrow> p \<in> set (native_paths u) \<Longrightarrow> explains_native p u"
  by (auto simp: native_paths_def explains_native_def list_ex_iff unknown_ok_def unknown_shape_error_def split: if_splits)

text \<open>
  C13. Native code is never silent: for every file of an accepted report that was recognised as
  an ELF, whether or not it parsed, the report has an unknown of native behaviour, not scoped to
  repository tooling, whose evidence names that file in the target inventory.
\<close>

theorem accepted_elf_is_explained:
  assumes "Validate digest r = None" and "f \<in> set (elems (rp_Inventory r))" and "is_elf f"
  shows "\<exists>u \<in> set (elems (rp_Unknowns r)). explains_native (fl_Path f) u"
proof -
  from assms(1) obtain inputs s where
    n: "validate_nodes (report_context digest r (fl_Path ` set (elems (rp_Inventory r))) inputs) r = Inr s" and
    u: "unknown_coverage_error r s = None"
    by (rule Validate_stages)
  note acc = validate_nodes_accepted[OF n]
  from u assms(2,3) have "fl_Path f \<in> ns_native s" by (auto simp: unknown_coverage_error_def)
  with acc(5) obtain x where "x \<in> set (elems (rp_Unknowns r))" "fl_Path f \<in> set (native_paths x)" by auto
  with acc(1) native_paths_explains show ?thesis unfolding nodes_ok_def Let_def by blast
qed

theorem accepted_elf_is_explained_witness:
  "\<exists>u \<in> set (elems (rp_Unknowns incomplete_sample)). explains_native (fl_Path elf_file) u"
  using accepted_elf_is_explained[OF incomplete_sample_accepted] incomplete_sample_elf by blast

definition declares_unbound :: "string \<Rightarrow> Unknown \<Rightarrow> bool" where
  "declares_unbound ident u \<longleftrightarrow> uk_Reason u = UnknownExternalBinding \<and> map ev_InputID (elems (uk_Evidence u)) = [ident]"

lemma binding_declared:
  assumes "validateExternalBindingUnknown u inputs = Inr d" and "inputs_map is inputs"
  shows "d = Some ident \<longleftrightarrow> declares_unbound ident u"
  using assms unfolding validateExternalBindingUnknown_def declares_unbound_def inputs_map_def
  by (auto split: if_splits list.splits option.splits)

lemma map_filter_count:
  "distinct (List.map_filter g xs) \<Longrightarrow> length (filter (\<lambda>x. g x = Some k) xs) \<le> 1"
proof (induction xs)
  case (Cons x xs)
  have "g x = Some k \<Longrightarrow> filter (\<lambda>x. g x = Some k) xs = []"
    using Cons.prems by (auto simp: map_filter_simps filter_empty_conv List.map_filter_def image_iff)
  with Cons show ?case by (auto simp: map_filter_simps split: option.splits)
qed simp

text \<open>
  C12. Every external input of an accepted report is unbound to the inspected snapshot, and the
  report says so exactly once: there is exactly one unknown that declares it unbound.
\<close>

theorem accepted_external_input_is_declared_unbound:
  assumes "Validate digest r = None" and "i \<in> set (external_inputs r)"
  shows "ei_SubjectRootDigest i = [] \<and> length (filter (declares_unbound (ei_ID i)) (elems (rp_Unknowns r))) = 1"
proof -
  from assms(1) obtain inputs s where
    v: "validateEvidenceInputs r supportedExternalEvidenceInputPolicies = Inr inputs" and
    n: "validate_nodes (report_context digest r (fl_Path ` set (elems (rp_Inventory r))) inputs) r = Inr s" and
    u: "unknown_coverage_error r s = None"
    by (rule Validate_stages)
  let ?c = "report_context digest r (fl_Path ` set (elems (rp_Inventory r))) inputs"
  note acc = validate_nodes_accepted[OF n]
  have same: "declared_binding ?c x = Some k \<longleftrightarrow> declares_unbound k x" if "x \<in> set (elems (rp_Unknowns r))" for x k
  proof -
    from acc(1) that obtain d where "validateExternalBindingUnknown x inputs = Inr d"
      unfolding nodes_ok_def Let_def unknown_ok_def report_context_def by fastforce
    with binding_declared[OF this validateEvidenceInputs_Inr(2)[OF v], of k] show ?thesis
      by (simp add: declared_binding_def report_context_def)
  qed
  have unbound: "ei_SubjectRootDigest i = []" by (rule accepted_external_unbound[OF v assms(2)])
  from external_needs_binding[OF u assms(2) this] acc(6)
  obtain x where "x \<in> set (elems (rp_Unknowns r))" "declared_binding ?c x = Some (ei_ID i)" by auto
  then have "filter (\<lambda>x. declared_binding ?c x = Some (ei_ID i)) (elems (rp_Unknowns r)) \<noteq> []"
    by (auto simp: filter_empty_conv)
  with map_filter_count[OF acc(7), of "ei_ID i"]
  have "length (filter (\<lambda>x. declared_binding ?c x = Some (ei_ID i)) (elems (rp_Unknowns r))) = 1"
    by (simp add: le_Suc_eq)
  moreover have "filter (\<lambda>x. declared_binding ?c x = Some (ei_ID i)) (elems (rp_Unknowns r)) =
      filter (declares_unbound (ei_ID i)) (elems (rp_Unknowns r))"
    using same by (intro filter_cong) auto
  ultimately show ?thesis using unbound by simp
qed

theorem accepted_external_input_is_declared_unbound_witness:
  "ei_SubjectRootDigest audit_input = []
    \<and> length (filter (declares_unbound (ei_ID audit_input)) (elems (rp_Unknowns incomplete_sample))) = 1"
proof -
  have "audit_input \<in> set (external_inputs incomplete_sample)"
    using incomplete_sample_input
    by (simp add: external_inputs_def external_input_def audit_input_def NewOmarchyAuditEvidenceInput_def)
  then show ?thesis
    by (rule accepted_external_input_is_declared_unbound[OF incomplete_sample_accepted])
qed

section \<open>The target\<close>

text \<open>
  C14. The root digest an accepted report shows is recomputed from its own inventory, and the one
  target input declares that same digest.
\<close>

theorem accepted_root_digest:
  assumes "Validate digest r = None"
  shows "InventoryRootDigest digest (elems (rp_Inventory r)) = Inr (tg_RootDigest (rp_Target r))
    \<and> map ei_SubjectRootDigest (filter target_input (elems (rp_EvidenceInputs r))) = [tg_RootDigest (rp_Target r)]"
proof -
  from assms obtain inputs where
    v: "validateEvidenceInputs r supportedExternalEvidenceInputPolicies = Inr inputs" and
    d: "root_digest_error digest r inputs = None"
    by (rule Validate_stages)
  from validateEvidenceInputs_Inr(4)[OF v] obtain t where t: "filter target_input (elems (rp_EvidenceInputs r)) = [t]"
    by (auto simp: length_Suc_conv)
  from validateEvidenceInputs_Inr(5)[OF v] obtain t' where
    t': "inputs TargetEvidenceInputID = Some t'" "target_input t'" "ei_SubjectRootDigest t' = tg_RootDigest (rp_Target r)"
    by blast
  have "t' \<in> set (filter target_input (elems (rp_EvidenceInputs r)))"
    using validateEvidenceInputs_Inr(2)[OF v] t'(1,2) by (simp add: inputs_map_def)
  then have "t' = t" using t by simp
  with t t' d show ?thesis by (auto simp: root_digest_error_def split: sum.splits)
qed

theorem accepted_root_digest_witness:
  "InventoryRootDigest sample_digest (elems (rp_Inventory complete_sample)) = Inr (tg_RootDigest (rp_Target complete_sample))
    \<and> map ei_SubjectRootDigest (filter target_input (elems (rp_EvidenceInputs complete_sample)))
      = [tg_RootDigest (rp_Target complete_sample)]"
  by (rule accepted_root_digest[OF complete_sample_accepted])

end
