(* ===== verification/Encode.thy ===== *)
theory Encode
  imports Guarantees
begin

text \<open>
  The canonical encoder (internal/report/encode.go): comparators, the canonical order of every
  collection, the review rebuilt and the validator run on the result, and the bounded buffer.
  \<open>encoding/json\<close> is the parameter \<open>marshal\<close> of \<open>EncodeCanonical\<close>: the bytes the encoder
  passes to its one \<open>Write\<close>, or its error.
\<close>

section \<open>Comparators\<close>

definition compareString :: "string \<Rightarrow> string \<Rightarrow> int" where
  "compareString left right = (if left < right then -1 else if left > right then 1 else 0)"

definition compareInt :: "int \<Rightarrow> int \<Rightarrow> int" where
  "compareInt left right = (if left < right then -1 else if left > right then 1 else 0)"

definition compareEvidence :: "Evidence \<Rightarrow> Evidence \<Rightarrow> int" where
  "compareEvidence left right =
     then_by (compareString (ev_InputID left) (ev_InputID right))
     (then_by (compareString (ev_Path left) (ev_Path right))
     (then_by (compareInt (ev_LineStart left) (ev_LineStart right))
     (then_by (compareInt (ev_LineEnd left) (ev_LineEnd right))
     (then_by (compareString (ev_Operation left) (ev_Operation right))
       (compareString (ev_Excerpt left) (ev_Excerpt right))))))"

definition compareLimitation :: "Limitation \<Rightarrow> Limitation \<Rightarrow> int" where
  "compareLimitation left right =
     then_by (compareString (li_Code left) (li_Code right))
     (then_by (compareString (li_Path left) (li_Path right))
     (then_by (compareString (li_Scope left) (li_Scope right))
       (compareString (li_Description left) (li_Description right))))"

definition compareScanError :: "ScanError \<Rightarrow> ScanError \<Rightarrow> int" where
  "compareScanError left right =
     then_by (compareString (se_Code left) (se_Code right))
     (then_by (compareString (se_Path left) (se_Path right))
       (compareString (se_Message left) (se_Message right)))"

definition relationshipTuple :: "Relationship \<Rightarrow> string" where
  "relationshipTuple v = re_Type v @ NUL @ re_FromKind v @ NUL @ re_From v @ NUL @ re_ToKind v @ NUL @ re_To v"

text \<open>\<open>sort.Strings\<close> on a copy made by appending to \<open>nil\<close>.\<close>

definition sortedStrings :: "string slice \<Rightarrow> string slice" where
  "sortedStrings values = append_nil (sort (elems values))"

definition sortEvidence :: "Evidence list \<Rightarrow> Evidence list" where
  "sortEvidence values = sort_slice (\<lambda>x y. compareEvidence x y < 0) values"

text \<open>A map is an association list with one entry per key; its copy is the same map.\<close>

definition cloneStringMap :: "(string \<times> string) list option \<Rightarrow> (string \<times> string) list option" where
  "cloneStringMap values = map_option (\<lambda>entries. foldl (\<lambda>m (key, value). AList.update key value m) [] entries) values"

section \<open>The canonical form\<close>

definition canonical_manifest :: "Manifest \<Rightarrow> Manifest" where
  "canonical_manifest manifest = manifest\<lparr>mf_Kinds := append_nil (sort (elems (mf_Kinds manifest))),
     mf_EntryPoints := cloneStringMap (mf_EntryPoints manifest)\<rparr>"

definition canonical_binary :: "Binary \<Rightarrow> Binary" where
  "canonical_binary binary = binary\<lparr>bn_Libraries := sortedStrings (bn_Libraries binary),
     bn_ImportedSymbols := sortedStrings (bn_ImportedSymbols binary),
     bn_ExtractedStrings := sortedStrings (bn_ExtractedStrings binary),
     bn_EmbeddedURLs := sortedStrings (bn_EmbeddedURLs binary),
     bn_FileCapabilities := sortedStrings (bn_FileCapabilities binary)\<rparr>"

definition canonical_archive :: "Archive \<Rightarrow> Archive" where
  "canonical_archive archive = archive\<lparr>ar_Entries := append_nil (elems (ar_Entries archive))\<rparr>"

definition canonical_file :: "File \<Rightarrow> File" where
  "canonical_file file = file\<lparr>fl_Binary := map_option canonical_binary (fl_Binary file),
     fl_Archive := map_option canonical_archive (fl_Archive file)\<rparr>"

definition canonical_operation :: "Operation \<Rightarrow> Operation" where
  "canonical_operation operation = operation\<lparr>op_Arguments := append_nil (elems (op_Arguments operation))\<rparr>"

definition canonical_finding :: "Finding \<Rightarrow> Finding" where
  "canonical_finding finding = finding\<lparr>fd_Evidence := Some (sortEvidence (elems (fd_Evidence finding))),
     fd_Related := Some (sort (elems (fd_Related finding)))\<rparr>"

definition canonical_unknown :: "Unknown \<Rightarrow> Unknown" where
  "canonical_unknown unknown = unknown\<lparr>uk_Evidence := Some (sortEvidence (elems (uk_Evidence unknown))),
     uk_Origins := Some (elems (uk_Origins unknown)),
     uk_AffectedOperations := Some (sort (elems (uk_AffectedOperations unknown))),
     uk_SuppressedRules := Some (sort (elems (uk_SuppressedRules unknown)))\<rparr>"

definition canonical_form :: "Report \<Rightarrow> Report" where
  "canonical_form r = r\<lparr>
     rp_Target := (rp_Target r)\<lparr>tg_Manifest := map_option canonical_manifest (tg_Manifest (rp_Target r))\<rparr>,
     rp_EvidenceInputs := Some (sort_slice (\<lambda>x y. ei_ID x < ei_ID y) (elems (rp_EvidenceInputs r))),
     rp_Inventory := Some (map canonical_file (sort_slice (\<lambda>x y. fl_Path x < fl_Path y) (elems (rp_Inventory r)))),
     rp_Operations := Some (map canonical_operation (sort_slice (\<lambda>x y. op_ID x < op_ID y) (elems (rp_Operations r)))),
     rp_Resources := Some (sort_slice (\<lambda>x y. rc_ID x < rc_ID y) (elems (rp_Resources r))),
     rp_Findings := Some (map canonical_finding (sort_slice (\<lambda>x y. fd_ID x < fd_ID y) (elems (rp_Findings r)))),
     rp_Unknowns := Some (map canonical_unknown (sort_slice (\<lambda>x y. uk_ID x < uk_ID y) (elems (rp_Unknowns r)))),
     rp_Relationships := Some (sort_slice (\<lambda>x y. relationshipTuple x < relationshipTuple y) (elems (rp_Relationships r))),
     rp_Limitations := Some (sort_slice (\<lambda>x y. compareLimitation x y < 0) (elems (rp_Limitations r))),
     rp_Errors := Some (sort_slice (\<lambda>x y. compareScanError x y < 0) (elems (rp_Errors r)))\<rparr>"

definition canonicalReport :: "digestFunction \<Rightarrow> Report \<Rightarrow> Report result" where
  "canonicalReport digest r =
     (let value = canonical_form r in
      bindr (BuildReviewSummary (coverageFromInventory (elems (rp_Inventory value))) value) (\<lambda>reviewed.
        andthen (Validate digest reviewed) (Inr reviewed)))"

section \<open>The bounded buffer\<close>

record boundedBuffer =
  bb_bytes :: string
  bb_limit :: int

definition ErrEncodedReportTooLarge :: go_error where
  "ErrEncodedReportTooLarge = Errorf ''canonical encoded report exceeds 16 MiB limit'' []"

text \<open>\<open>Write\<close> returns the number of bytes written and an error, and updates the buffer.\<close>

definition buffer_Write :: "string \<Rightarrow> boundedBuffer \<Rightarrow> (int \<times> error) \<times> boundedBuffer" where
  "buffer_Write d b =
     (if int (length d) > sub64 (bb_limit b) (int (length (bb_bytes b))) then ((0, Some ErrEncodedReportTooLarge), b)
      else ((int (length d), None), b\<lparr>bb_bytes := bb_bytes b @ d\<rparr>))"

definition EncodeCanonical :: "(Report \<Rightarrow> string result) \<Rightarrow> digestFunction \<Rightarrow> Report \<Rightarrow> string result" where
  "EncodeCanonical marshal digest r =
     bindr (canonicalReport digest r) (\<lambda>canonical.
     bindr (marshal canonical) (\<lambda>encoded.
       case buffer_Write encoded \<lparr>bb_bytes = [], bb_limit = int MaxEncodedReportBytes\<rparr> of
         ((_, Some e), _) \<Rightarrow> Inl e
       | ((_, None), buffer) \<Rightarrow> Inr (bb_bytes buffer)))"

text \<open>The destination is a writer: from the bytes offered to its error and the bytes it took.\<close>

definition WriteCanonical ::
  "(string \<Rightarrow> error \<times> string) \<Rightarrow> (Report \<Rightarrow> string result) \<Rightarrow> digestFunction \<Rightarrow> Report \<Rightarrow> error \<times> string" where
  "WriteCanonical destination marshal digest r =
     (case EncodeCanonical marshal digest r of Inl e \<Rightarrow> (Some e, []) | Inr encoded \<Rightarrow> destination encoded)"

section \<open>The comparators are total\<close>

interpretation string_order: comparator compareString
  by unfold_locales (auto simp: compareString_def split: if_splits)

interpretation int_order: comparator compareInt
  by unfold_locales (auto simp: compareInt_def split: if_splits)

text \<open>Field by field on tuples, then on the records the tuples determine.\<close>

lemma comparator_3:
  assumes "comparator a" "comparator b" "comparator c"
  shows "comparator (\<lambda>(x1, x2, x3) (y1, y2, y3). then_by (a x1 y1) (then_by (b x2 y2) (c x3 y3)))"
  using comparator_then_by[OF assms(1) comparator_then_by[OF assms(2,3)]] by (simp add: case_prod_unfold)

lemma comparator_4:
  assumes "comparator a" "comparator b" "comparator c" "comparator d"
  shows "comparator (\<lambda>(x1, x2, x3, x4) (y1, y2, y3, y4).
    then_by (a x1 y1) (then_by (b x2 y2) (then_by (c x3 y3) (d x4 y4))))"
  using comparator_then_by[OF assms(1) comparator_3[OF assms(2-4)]] by (simp add: case_prod_unfold)

lemma comparator_6:
  assumes "comparator a" "comparator b" "comparator c" "comparator d" "comparator e" "comparator f"
  shows "comparator (\<lambda>(x1, x2, x3, x4, x5, x6) (y1, y2, y3, y4, y5, y6).
    then_by (a x1 y1) (then_by (b x2 y2) (then_by (c x3 y3) (then_by (d x4 y4) (then_by (e x5 y5) (f x6 y6))))))"
  using comparator_then_by[OF assms(1) comparator_then_by[OF assms(2) comparator_4[OF assms(3-6)]]]
  by (simp add: case_prod_unfold)

lemma evidence_fields_inj:
  "inj (\<lambda>x :: Evidence. (ev_InputID x, ev_Path x, ev_LineStart x, ev_LineEnd x, ev_Operation x, ev_Excerpt x))"
  by (intro injI Evidence.equality) auto

lemma limitation_fields_inj: "inj (\<lambda>x :: Limitation. (li_Code x, li_Path x, li_Scope x, li_Description x))"
  by (intro injI Limitation.equality) auto

lemma scan_error_fields_inj: "inj (\<lambda>x :: ScanError. (se_Code x, se_Path x, se_Message x))"
  by (intro injI ScanError.equality) auto

lemmas string_cmp = string_order.comparator_axioms
lemmas int_cmp = int_order.comparator_axioms

interpretation evidence_order: comparator compareEvidence
  using comparator_on[OF comparator_6[OF string_cmp string_cmp int_cmp int_cmp string_cmp string_cmp] evidence_fields_inj]
  by (simp add: compareEvidence_def[abs_def])

interpretation limitation_order: comparator compareLimitation
  using comparator_on[OF comparator_4[OF string_cmp string_cmp string_cmp string_cmp] limitation_fields_inj]
  by (simp add: compareLimitation_def[abs_def])

interpretation scan_error_order: comparator compareScanError
  using comparator_on[OF comparator_3[OF string_cmp string_cmp string_cmp] scan_error_fields_inj]
  by (simp add: compareScanError_def[abs_def])

section \<open>Sorting by a key\<close>

lemma map_insort_key: "(\<And>x. f (g x) = f x) \<Longrightarrow> map g (insort_key f x xs) = insort_key f (g x) (map g xs)"
  by (induction xs) auto

lemma map_sort_key: "(\<And>x. f (g x) = f x) \<Longrightarrow> map g (sort_key f xs) = sort_key f (map g xs)"
  by (induction xs) (simp_all add: map_insort_key)

lemma canonical_keys [simp]:
  "fl_Path (canonical_file f) = fl_Path f" "op_ID (canonical_operation x) = op_ID x"
  "fd_ID (canonical_finding y) = fd_ID y" "uk_ID (canonical_unknown z) = uk_ID z"
  by (simp_all add: canonical_file_def canonical_operation_def canonical_finding_def canonical_unknown_def)

text \<open>The collections of the canonical form, as sorted lists of canonical elements.\<close>

lemma canonical_form_collections:
  "elems (rp_EvidenceInputs (canonical_form r)) = sort_key ei_ID (elems (rp_EvidenceInputs r))"
  "elems (rp_Inventory (canonical_form r)) = sort_key fl_Path (map canonical_file (elems (rp_Inventory r)))"
  "elems (rp_Operations (canonical_form r)) = sort_key op_ID (map canonical_operation (elems (rp_Operations r)))"
  "elems (rp_Resources (canonical_form r)) = sort_key rc_ID (elems (rp_Resources r))"
  "elems (rp_Findings (canonical_form r)) = sort_key fd_ID (map canonical_finding (elems (rp_Findings r)))"
  "elems (rp_Unknowns (canonical_form r)) = sort_key uk_ID (map canonical_unknown (elems (rp_Unknowns r)))"
  "elems (rp_Relationships (canonical_form r)) = sort_key relationshipTuple (elems (rp_Relationships r))"
  by (simp_all add: canonical_form_def sort_slice_key map_sort_key)

section \<open>Canonicalisation is idempotent\<close>

lemma clone_distinct: "distinct (map fst entries) \<Longrightarrow> distinct (map fst (m @ entries)) \<Longrightarrow>
    foldl (\<lambda>m (key, value). AList.update key value m) m entries = m @ entries"
proof (induction entries arbitrary: m)
  case (Cons e es)
  obtain k v where e: "e = (k, v)" by (cases e)
  have "k \<notin> fst ` set m" using Cons.prems e by auto
  then have "AList.update k v m = m @ [(k, v)]" by (induction m) auto
  with Cons.IH[of "m @ [(k, v)]"] Cons.prems e show ?case by simp
qed simp

lemma clone_keys: "distinct (map fst m) \<Longrightarrow>
    distinct (map fst (foldl (\<lambda>m (key, value). AList.update key value m) m entries))"
  by (induction entries arbitrary: m) (auto simp: distinct_update)

lemma cloneStringMap_idem [simp]: "cloneStringMap (cloneStringMap m) = cloneStringMap m"
proof (cases m)
  case (Some entries)
  have "distinct (map fst (foldl (\<lambda>m (key, value). AList.update key value m) [] entries))"
    by (rule clone_keys) simp
  then show ?thesis
    using clone_distinct[of "foldl (\<lambda>m (key, value). AList.update key value m) [] entries" "[]"]
    by (simp add: cloneStringMap_def Some)
qed (simp add: cloneStringMap_def)

lemma sortedStrings_idem [simp]: "sortedStrings (sortedStrings xs) = sortedStrings xs"
  by (simp add: sortedStrings_def)

lemma sortEvidence_idem [simp]: "sortEvidence (sortEvidence xs) = sortEvidence xs"
  unfolding sortEvidence_def by (rule evidence_order.sort_slice_idem)

lemma canonical_parts_idem [simp]:
  "canonical_manifest (canonical_manifest m) = canonical_manifest m"
  "canonical_binary (canonical_binary b) = canonical_binary b"
  "canonical_archive (canonical_archive a) = canonical_archive a"
  by (simp_all add: canonical_manifest_def canonical_binary_def canonical_archive_def)

lemma canonical_elements_idem [simp]:
  "canonical_file (canonical_file f) = canonical_file f"
  "canonical_operation (canonical_operation x) = canonical_operation x"
  "canonical_finding (canonical_finding y) = canonical_finding y"
  "canonical_unknown (canonical_unknown z) = canonical_unknown z"
  by (simp_all add: canonical_file_def canonical_operation_def canonical_finding_def canonical_unknown_def
      option.map_comp comp_def)

lemma canonical_form_idem: "canonical_form (canonical_form r) = canonical_form r"
  by (simp add: canonical_form_def sort_slice_key map_sort_key comp_def option.map_comp
      limitation_order.sort_slice_idem scan_error_order.sort_slice_idem)

lemma canonical_form_review: "canonical_form (r\<lparr>rp_Review := v\<rparr>) = (canonical_form r)\<lparr>rp_Review := v\<rparr>"
  by (simp add: canonical_form_def)

lemma review_update_fields:
  "rp_Operations (r\<lparr>rp_Review := v\<rparr>) = rp_Operations r" "rp_Resources (r\<lparr>rp_Review := v\<rparr>) = rp_Resources r"
  "rp_Findings (r\<lparr>rp_Review := v\<rparr>) = rp_Findings r" "rp_Unknowns (r\<lparr>rp_Review := v\<rparr>) = rp_Unknowns r"
  "rp_Limitations (r\<lparr>rp_Review := v\<rparr>) = rp_Limitations r" "rp_Errors (r\<lparr>rp_Review := v\<rparr>) = rp_Errors r"
  by simp_all

definition form_coverage :: "Report \<Rightarrow> CoverageSummary" where
  "form_coverage r = coverageFromInventory (elems (rp_Inventory (canonical_form r)))"

lemma canonicalReport_Inr:
  "canonicalReport digest r = Inr c \<longleftrightarrow> validateCoverageSummary (form_coverage r) = None
     \<and> c = (canonical_form r)\<lparr>rp_Review := Some (deriveReviewSummary (canonical_form r) (form_coverage r))\<rparr>
     \<and> Validate digest c = None"
  by (auto simp: canonicalReport_def BuildReviewSummary_def bindr_Inr Let_def form_coverage_def)

lemma canonical_accepted: "canonicalReport digest r = Inr c \<Longrightarrow> Validate digest c = None"
  unfolding canonicalReport_Inr by blast

lemma canonical_idem:
  assumes "canonicalReport digest r = Inr c"
  shows "canonicalReport digest c = Inr c"
proof -
  have c: "c = (canonical_form r)\<lparr>rp_Review := Some (deriveReviewSummary (canonical_form r) (form_coverage r))\<rparr>"
    and "validateCoverageSummary (form_coverage r) = None" "Validate digest c = None"
    using assms unfolding canonicalReport_Inr by blast+
  moreover have "canonical_form c = c" unfolding c canonical_form_review canonical_form_idem ..
  moreover from this have "form_coverage c = form_coverage r" by (simp add: form_coverage_def c)
  moreover have "c\<lparr>rp_Review := Some (deriveReviewSummary c (form_coverage r))\<rparr> = c" by (simp add: c)
  ultimately show ?thesis unfolding canonicalReport_Inr by simp
qed

text \<open>
  Canonicalisation is idempotent: the canonical report is its own canonical report, so
  encoding a decoded canonical report gives the same report again.
\<close>

theorem canonicalReport_idempotent:
  assumes "canonicalReport digest r = Inr c"
  shows "canonicalReport digest c = Inr c"
  by (rule canonical_idem[OF assms])

section \<open>The canonical report does not depend on the order of the collections\<close>

definition permuted :: "'a slice \<Rightarrow> 'a slice \<Rightarrow> bool" where
  "permuted xs ys \<longleftrightarrow> mset (elems xs) = mset (elems ys)"

text \<open>Equal up to the order of the collections the encoder sorts.\<close>

definition manifest_upto :: "Manifest \<Rightarrow> Manifest \<Rightarrow> bool" where
  "manifest_upto m n \<longleftrightarrow> (\<exists>kinds. n = m\<lparr>mf_Kinds := kinds\<rparr> \<and> permuted (mf_Kinds m) kinds)"

definition binary_upto :: "Binary \<Rightarrow> Binary \<Rightarrow> bool" where
  "binary_upto a b \<longleftrightarrow> (\<exists>libraries symbols strings urls capabilities.
     b = a\<lparr>bn_Libraries := libraries, bn_ImportedSymbols := symbols, bn_ExtractedStrings := strings,
       bn_EmbeddedURLs := urls, bn_FileCapabilities := capabilities\<rparr>
     \<and> permuted (bn_Libraries a) libraries \<and> permuted (bn_ImportedSymbols a) symbols
     \<and> permuted (bn_ExtractedStrings a) strings \<and> permuted (bn_EmbeddedURLs a) urls
     \<and> permuted (bn_FileCapabilities a) capabilities)"

definition file_upto :: "File \<Rightarrow> File \<Rightarrow> bool" where
  "file_upto f g \<longleftrightarrow> (\<exists>binary. g = f\<lparr>fl_Binary := binary\<rparr> \<and> rel_option binary_upto (fl_Binary f) binary)"

definition finding_upto :: "Finding \<Rightarrow> Finding \<Rightarrow> bool" where
  "finding_upto x y \<longleftrightarrow> (\<exists>evidence related. y = x\<lparr>fd_Evidence := evidence, fd_Related := related\<rparr>
     \<and> permuted (fd_Evidence x) evidence \<and> permuted (fd_Related x) related)"

definition unknown_upto :: "Unknown \<Rightarrow> Unknown \<Rightarrow> bool" where
  "unknown_upto x y \<longleftrightarrow> (\<exists>evidence affected suppressed.
     y = x\<lparr>uk_Evidence := evidence, uk_AffectedOperations := affected, uk_SuppressedRules := suppressed\<rparr>
     \<and> permuted (uk_Evidence x) evidence \<and> permuted (uk_AffectedOperations x) affected
     \<and> permuted (uk_SuppressedRules x) suppressed)"

definition items_upto :: "('a \<Rightarrow> 'a \<Rightarrow> bool) \<Rightarrow> 'a slice \<Rightarrow> 'a slice \<Rightarrow> bool" where
  "items_upto R xs ys \<longleftrightarrow> rel_mset R (mset (elems xs)) (mset (elems ys))"

definition report_upto :: "Report \<Rightarrow> Report \<Rightarrow> bool" where
  "report_upto r q \<longleftrightarrow>
     rp_SchemaVersion q = rp_SchemaVersion r \<and> rp_Status q = rp_Status r \<and> rp_Scan q = rp_Scan r
     \<and> (\<exists>manifest. rp_Target q = (rp_Target r)\<lparr>tg_Manifest := manifest\<rparr>
         \<and> rel_option manifest_upto (tg_Manifest (rp_Target r)) manifest)
     \<and> permuted (rp_EvidenceInputs r) (rp_EvidenceInputs q)
     \<and> items_upto file_upto (rp_Inventory r) (rp_Inventory q)
     \<and> permuted (rp_Operations r) (rp_Operations q)
     \<and> permuted (rp_Resources r) (rp_Resources q)
     \<and> items_upto finding_upto (rp_Findings r) (rp_Findings q)
     \<and> items_upto unknown_upto (rp_Unknowns r) (rp_Unknowns q)
     \<and> permuted (rp_Relationships r) (rp_Relationships q)
     \<and> permuted (rp_Limitations r) (rp_Limitations q)
     \<and> permuted (rp_Errors r) (rp_Errors q)"

lemma permuted_refl [simp]: "permuted xs xs"
  by (simp add: permuted_def)

lemma permuted_rev [simp]: "permuted xs (map_option rev xs)"
  by (cases xs) (simp_all add: permuted_def)

lemma permuted_sort: "permuted xs ys \<Longrightarrow> sort (elems ys) = sort (elems (xs :: string slice))"
  by (rule sort_key_perm) (simp_all add: permuted_def)

lemma permuted_sortEvidence: "permuted xs ys \<Longrightarrow> sortEvidence (elems ys) = sortEvidence (elems xs)"
  unfolding sortEvidence_def by (rule evidence_order.sort_slice_perm) (simp add: permuted_def)

lemmas permuted_sorts = permuted_sort permuted_sortEvidence

lemma upto_canonical:
  "manifest_upto m m' \<Longrightarrow> canonical_manifest m' = canonical_manifest m"
  "binary_upto b b' \<Longrightarrow> canonical_binary b' = canonical_binary b"
  "finding_upto y y' \<Longrightarrow> canonical_finding y' = canonical_finding y"
  "unknown_upto z z' \<Longrightarrow> canonical_unknown z' = canonical_unknown z"
  unfolding manifest_upto_def binary_upto_def finding_upto_def unknown_upto_def
  by (auto simp: canonical_manifest_def canonical_binary_def canonical_finding_def canonical_unknown_def
      sortedStrings_def permuted_sorts)

lemma rel_option_canonical:
  assumes "rel_option R x y" and "\<And>a b. R a b \<Longrightarrow> c b = c a"
  shows "map_option c y = map_option c x"
  using assms by (cases rule: option.rel_cases) auto

lemma file_upto_canonical: "file_upto f g \<Longrightarrow> canonical_file g = canonical_file f"
  unfolding file_upto_def
  by (auto simp: canonical_file_def dest!: rel_option_canonical[where c = canonical_binary] upto_canonical(2))

lemma items_upto_canonical:
  assumes "items_upto R xs ys" and "\<And>a b. R a b \<Longrightarrow> c b = c a"
  shows "mset (map c (elems ys)) = mset (map c (elems xs))"
proof -
  obtain us vs where uv: "mset us = mset (elems xs)" "mset vs = mset (elems ys)" "list_all2 R us vs"
    using assms(1) by (auto simp: items_upto_def rel_mset_def)
  from uv(3) have "map c vs = map c us" by (induction rule: list_all2_induct) (auto simp: assms(2))
  with uv(1,2) show ?thesis by (metis mset_map)
qed

lemma sort_key_same:
  assumes "distinct (map k (sort_key k xs))" and "mset ys = mset xs"
  shows "sort_key k ys = sort_key k xs"
proof (rule sort_key_perm[OF assms(2)])
  from assms(1) show "inj_on k (set xs)" by (simp add: distinct_map)
qed

section \<open>Keys of an accepted report\<close>

lemma relationshipTuple_inj:
  assumes "accepted digest r kinds provenance es"
  shows "distinct (map relationshipTuple es)"
proof -
  have "re_ID e = ''PE-'' @ upperHex (take 16 (digest (relationshipTuple e)))" if "e \<in> set es" for e
    using assms that by (auto simp: accepted_def edge_ok_def edge_id_tuple_of relationshipIDWithDigest_def
        relationshipTuple_def Let_def)
  then have "inj_on relationshipTuple (set es)" "distinct es"
    using assms by (auto simp: accepted_def distinct_map inj_on_def)
  then show ?thesis by (simp add: distinct_map)
qed

lemma distinct_key: "distinct (map (\<lambda>x. (k, f x)) xs) \<longleftrightarrow> distinct (map f xs)"
  by (auto simp: distinct_map inj_on_def)

lemma accepted_keys:
  assumes "Validate digest r = None"
  shows "distinct (map ei_ID (elems (rp_EvidenceInputs r)))" "distinct (map fl_Path (elems (rp_Inventory r)))"
    "distinct (map op_ID (elems (rp_Operations r)))" "distinct (map rc_ID (elems (rp_Resources r)))"
    "distinct (map fd_ID (elems (rp_Findings r)))" "distinct (map uk_ID (elems (rp_Unknowns r)))"
    "distinct (map relationshipTuple (elems (rp_Relationships r)))"
proof -
  from assms obtain inputs s where
    i: "validateEvidenceInputs r supportedExternalEvidenceInputPolicies = Inr inputs" and
    f: "distinct (map fl_Path (elems (rp_Inventory r)))" and
    n: "validate_nodes (report_context digest r (fl_Path ` set (elems (rp_Inventory r))) inputs) r = Inr s" and
    g: "validateRelationshipsWithDigest digest r (fst (ns_references s)) (snd (ns_references s)) = None"
    by (rule Validate_stages)
  show "distinct (map ei_ID (elems (rp_EvidenceInputs r)))" by (rule validateEvidenceInputs_Inr(1)[OF i])
  show "distinct (map fl_Path (elems (rp_Inventory r)))" by (rule f)
  from validate_nodes_accepted(3)[OF n]
  show "distinct (map op_ID (elems (rp_Operations r)))" "distinct (map rc_ID (elems (rp_Resources r)))"
    "distinct (map fd_ID (elems (rp_Findings r)))" "distinct (map uk_ID (elems (rp_Unknowns r)))"
    by (simp_all add: graph_nodes_def distinct_key)
  from g show "distinct (map relationshipTuple (elems (rp_Relationships r)))"
    unfolding validateRelationships_valid_graph valid_graph_def by (blast intro: relationshipTuple_inj)
qed

lemma report_upto_form:
  assumes upto: "report_upto r q" and "canonicalReport digest r = Inr c"
  shows "canonical_form q = (canonical_form r)\<lparr>rp_Review := rp_Review q\<rparr>"
proof -
  have c: "c = (canonical_form r)\<lparr>rp_Review := Some (deriveReviewSummary (canonical_form r) (form_coverage r))\<rparr>"
    and v: "Validate digest c = None"
    using assms(2) unfolding canonicalReport_Inr by blast+
  note keys = accepted_keys[OF v, unfolded c, simplified, unfolded canonical_form_collections]
  note same = upto[unfolded report_upto_def permuted_def]
  obtain manifest where t: "rp_Target q = (rp_Target r)\<lparr>tg_Manifest := manifest\<rparr>"
    and m: "map_option canonical_manifest manifest = map_option canonical_manifest (tg_Manifest (rp_Target r))"
    using same rel_option_canonical[where R = manifest_upto and c = canonical_manifest] upto_canonical(1) by blast
  have ops: "mset (map canonical_operation (elems (rp_Operations q))) =
      mset (map canonical_operation (elems (rp_Operations r)))"
    using same by simp
  have l:
    "sort_key ei_ID (elems (rp_EvidenceInputs q)) = sort_key ei_ID (elems (rp_EvidenceInputs r))"
    "sort_key fl_Path (map canonical_file (elems (rp_Inventory q))) =
       sort_key fl_Path (map canonical_file (elems (rp_Inventory r)))"
    "sort_key op_ID (map canonical_operation (elems (rp_Operations q))) =
       sort_key op_ID (map canonical_operation (elems (rp_Operations r)))"
    "sort_key rc_ID (elems (rp_Resources q)) = sort_key rc_ID (elems (rp_Resources r))"
    "sort_key fd_ID (map canonical_finding (elems (rp_Findings q))) =
       sort_key fd_ID (map canonical_finding (elems (rp_Findings r)))"
    "sort_key uk_ID (map canonical_unknown (elems (rp_Unknowns q))) =
       sort_key uk_ID (map canonical_unknown (elems (rp_Unknowns r)))"
    "sort_key relationshipTuple (elems (rp_Relationships q)) = sort_key relationshipTuple (elems (rp_Relationships r))"
    using same ops
    by (auto intro!: sort_key_same keys items_upto_canonical[where R = file_upto]
        items_upto_canonical[where R = finding_upto] items_upto_canonical[where R = unknown_upto]
        file_upto_canonical upto_canonical simp del: mset_map)
  show ?thesis
    unfolding canonical_form_def sort_slice_key
    using same t m l limitation_order.sort_slice_perm[of "elems (rp_Limitations q)" "elems (rp_Limitations r)"]
      scan_error_order.sort_slice_perm[of "elems (rp_Errors q)" "elems (rp_Errors r)"]
    by (simp add: map_sort_key)
qed

text \<open>
  C20. The canonical report depends only on what the report says, not on the order in which it
  says it: two reports that differ only in the order of their collections (inputs, files,
  nodes, relationships, limitations, errors, the evidence of a finding or an unknown, the
  imported names of a binary, the kinds of a manifest) have the same canonical report.
\<close>

theorem canonicalReport_order_independent:
  assumes "report_upto r q" and "canonicalReport digest r = Inr c"
  shows "canonicalReport digest q = Inr c"
proof -
  note form = report_upto_form[OF assms]
  have "form_coverage q = form_coverage r" by (simp add: form_coverage_def form)
  moreover have "(canonical_form r)\<lparr>rp_Review := u, rp_Review := v\<rparr> = (canonical_form r)\<lparr>rp_Review := v\<rparr>" for u v
    by simp
  ultimately show ?thesis
    using assms(2) unfolding canonicalReport_Inr form deriveReviewSummary_review by metis
qed

section \<open>Strict order\<close>

lemma sort_key_strict: "distinct (map k (sort_key k xs)) \<Longrightarrow> sorted_wrt (<) (map k (sort_key k xs))"
  by (simp add: strict_sorted_iff)

text \<open>
  The collections of a canonical report are strictly increasing in their keys: inputs by
  identifier, files by path, the nodes of each kind by identifier and relationships by their
  tuple; the report passes the validator.
\<close>

theorem canonicalReport_ordered:
  assumes "canonicalReport digest r = Inr c"
  shows "Validate digest c = None
    \<and> sorted_wrt (<) (map ei_ID (elems (rp_EvidenceInputs c))) \<and> sorted_wrt (<) (map fl_Path (elems (rp_Inventory c)))
    \<and> sorted_wrt (<) (map op_ID (elems (rp_Operations c))) \<and> sorted_wrt (<) (map rc_ID (elems (rp_Resources c)))
    \<and> sorted_wrt (<) (map fd_ID (elems (rp_Findings c))) \<and> sorted_wrt (<) (map uk_ID (elems (rp_Unknowns c)))
    \<and> sorted_wrt (<) (map relationshipTuple (elems (rp_Relationships c)))"
proof -
  have c: "c = (canonical_form r)\<lparr>rp_Review := Some (deriveReviewSummary (canonical_form r) (form_coverage r))\<rparr>"
    and v: "Validate digest c = None"
    using assms unfolding canonicalReport_Inr by blast+
  note keys = accepted_keys[OF v, unfolded c, simplified, unfolded canonical_form_collections]
  have fields: "rp_EvidenceInputs c = rp_EvidenceInputs (canonical_form r)"
    "rp_Inventory c = rp_Inventory (canonical_form r)" "rp_Operations c = rp_Operations (canonical_form r)"
    "rp_Resources c = rp_Resources (canonical_form r)" "rp_Findings c = rp_Findings (canonical_form r)"
    "rp_Unknowns c = rp_Unknowns (canonical_form r)" "rp_Relationships c = rp_Relationships (canonical_form r)"
    by (simp_all add: c)
  show ?thesis
    unfolding fields canonical_form_collections by (intro conjI v sort_key_strict keys)
qed

section \<open>Bounded output\<close>

lemma buffer_Write_room:
  assumes "int (length (bb_bytes b)) \<le> bb_limit b" and "int64_range (bb_limit b)"
  shows "buffer_Write d b = (if int (length (bb_bytes b @ d)) \<le> bb_limit b
    then ((int (length d), None), b\<lparr>bb_bytes := bb_bytes b @ d\<rparr>) else ((0, Some ErrEncodedReportTooLarge), b))"
  using sub64_exact[of "int (length (bb_bytes b))" "bb_limit b"] assms by (auto simp: buffer_Write_def)

lemma encode_iff:
  "EncodeCanonical marshal digest r = Inr encoded \<longleftrightarrow>
     (\<exists>c. canonicalReport digest r = Inr c \<and> marshal c = Inr encoded \<and> length encoded \<le> MaxEncodedReportBytes)"
proof -
  have "buffer_Write d \<lparr>bb_bytes = [], bb_limit = int MaxEncodedReportBytes\<rparr> =
      (if length d \<le> MaxEncodedReportBytes
       then ((int (length d), None), \<lparr>bb_bytes = d, bb_limit = int MaxEncodedReportBytes\<rparr>)
       else ((0, Some ErrEncodedReportTooLarge), \<lparr>bb_bytes = [], bb_limit = int MaxEncodedReportBytes\<rparr>))" for d
    by (subst buffer_Write_room) (simp_all add: limits int64_range_def)
  then show ?thesis by (auto simp: EncodeCanonical_def bindr_Inr split: if_splits)
qed

text \<open>
  The encoder returns bytes exactly when the report has a canonical form, the JSON encoder
  renders it, and the rendering fits in the limit; the bytes are then the whole rendering, never
  a prefix of it.
\<close>

theorem EncodeCanonical_iff:
  "EncodeCanonical marshal digest r = Inr encoded \<longleftrightarrow>
     (\<exists>c. canonicalReport digest r = Inr c \<and> marshal c = Inr encoded \<and> length encoded \<le> MaxEncodedReportBytes)"
  by (rule encode_iff)

section \<open>Empty collections\<close>

definition empty_strings :: "Binary \<Rightarrow> bool" where
  "empty_strings b \<longleftrightarrow> list_ex (\<lambda>c. elems c = [])
     [bn_Libraries b, bn_ImportedSymbols b, bn_ExtractedStrings b, bn_EmbeddedURLs b, bn_FileCapabilities b]"

text \<open>A report one of whose copied collections is empty: copying it onto \<open>nil\<close> gives \<open>nil\<close>.\<close>

definition loses_collection :: "Report \<Rightarrow> bool" where
  "loses_collection r \<longleftrightarrow>
     (case tg_Manifest (rp_Target r) of None \<Rightarrow> False | Some m \<Rightarrow> elems (mf_Kinds m) = [])
     \<or> list_ex (\<lambda>f. (case fl_Binary f of None \<Rightarrow> False | Some b \<Rightarrow> empty_strings b)
         \<or> (case fl_Archive f of None \<Rightarrow> False | Some a \<Rightarrow> elems (ar_Entries a) = [])) (elems (rp_Inventory r))"

lemma file_ok_collections:
  assumes "file_ok f"
  shows "fl_Binary f = Some b \<Longrightarrow> bn_Libraries b \<noteq> None \<and> bn_ImportedSymbols b \<noteq> None
      \<and> bn_ExtractedStrings b \<noteq> None \<and> bn_EmbeddedURLs b \<noteq> None \<and> bn_FileCapabilities b \<noteq> None"
    and "fl_Archive f = Some a \<Longrightarrow> ar_Entries a \<noteq> None"
  using assms by (simp_all add: file_ok_def file_record_error_def binary_error_def archive_error_def)

lemma canonical_file_loses:
  assumes "file_ok (canonical_file f)"
  shows "\<not> ((case fl_Binary f of None \<Rightarrow> False | Some b \<Rightarrow> empty_strings b)
    \<or> (case fl_Archive f of None \<Rightarrow> False | Some a \<Rightarrow> elems (ar_Entries a) = []))"
  using file_ok_collections[OF assms]
  by (auto simp: canonical_file_def canonical_binary_def canonical_archive_def sortedStrings_def empty_strings_def
      simp del: not_None_eq split: option.splits)

lemma collections_lost:
  assumes "loses_collection r"
  shows "\<exists>e. canonicalReport digest r = Inl e"
proof (cases "canonicalReport digest r")
  case (Inr c)
  then have c: "c = (canonical_form r)\<lparr>rp_Review := Some (deriveReviewSummary (canonical_form r) (form_coverage r))\<rparr>"
    and v: "Validate digest c = None"
    unfolding canonicalReport_Inr by blast+
  from v have files: "list_all file_ok (elems (rp_Inventory c))" by (rule Validate_stages)
  have kept: "\<not> (case tg_Manifest (rp_Target r) of None \<Rightarrow> False | Some m \<Rightarrow> elems (mf_Kinds m) = [])"
    using v[unfolded Validate_def]
    by (rule validate_stages)
       (auto simp: c canonical_form_def manifest_error_def canonical_manifest_def split: option.splits)
  have "rp_Inventory c = rp_Inventory (canonical_form r)" by (simp add: c)
  with files have "\<forall>f \<in> set (elems (rp_Inventory r)). file_ok (canonical_file f)"
    by (simp add: canonical_form_collections list_all_iff)
  with canonical_file_loses kept assms have False
    by (auto simp: loses_collection_def list_ex_iff)
  then show ?thesis ..
qed simp

text \<open>
  C37. The encoder refuses every report that has a manifest without kinds, an ELF without
  imported libraries, imported symbols, extracted strings, embedded URLs or file capabilities,
  or an archive without entries, whatever else the report says: the copies made for sorting
  turn an empty collection into \<open>nil\<close>, which the validator that runs on the result refuses.
  The witness is such a report that the validator itself accepts.
\<close>

theorem canonicalReport_refuses_empty_collections:
  assumes "loses_collection r"
  shows "\<exists>e. canonicalReport digest r = Inl e"
  using assms by (rule collections_lost)

section \<open>Concrete reports\<close>

lemma accepted_form_canonical:
  assumes v: "Validate digest r = None" and form: "canonical_form r = r"
  shows "canonicalReport digest r = Inr r"
proof -
  from v obtain review where rv: "validateReviewSummary r = None" "rp_Review r = Some review"
    by (rule Validate_stages) (use trailer_parts(1) accepted_review in blast)
  have cov: "form_coverage r = rs_AnalysisCoverage review"
    unfolding form_coverage_def form accepted_coverage(1)[OF rv] ..
  have "r = r\<lparr>rp_Review := Some (deriveReviewSummary r (rs_AnalysisCoverage review))\<rparr>"
    using rv(2) accepted_coverage(2)[OF rv] by simp
  moreover have "validateCoverageSummary (rs_AnalysisCoverage review) = None"
    using rv(1)[unfolded validateReviewSummary_def rv(2) option.case, simplified] by blast
  ultimately show ?thesis unfolding canonicalReport_Inr cov form using v by metis
qed

lemma incomplete_sample_form: "canonical_form incomplete_sample = incomplete_sample"
  by code_simp

lemmas incomplete_sample_canonical = accepted_form_canonical[OF incomplete_sample_accepted incomplete_sample_form]

definition reversed_sample :: Report where
  "reversed_sample = incomplete_sample
     \<lparr>rp_Inventory := map_option rev (rp_Inventory incomplete_sample),
      rp_Unknowns := map_option rev (rp_Unknowns incomplete_sample)\<rparr>"

lemma upto_refl:
  "manifest_upto m m" "file_upto f f" "finding_upto y y" "unknown_upto z z"
proof -
  show "manifest_upto m m" unfolding manifest_upto_def by (rule exI[of _ "mf_Kinds m"]) simp
  have "rel_option binary_upto b b" for b
  proof (rule option.rel_refl)
    show "binary_upto x x" for x
      unfolding binary_upto_def
      by (rule exI[of _ "bn_Libraries x"], rule exI[of _ "bn_ImportedSymbols x"], rule exI[of _ "bn_ExtractedStrings x"],
          rule exI[of _ "bn_EmbeddedURLs x"], rule exI[of _ "bn_FileCapabilities x"]) (simp add: permuted_def)
  qed
  then show "file_upto f f" unfolding file_upto_def by (intro exI[of _ "fl_Binary f"]) simp
  show "finding_upto y y" unfolding finding_upto_def
    by (rule exI[of _ "fd_Evidence y"], rule exI[of _ "fd_Related y"]) (simp add: permuted_def)
  show "unknown_upto z z" unfolding unknown_upto_def
    by (rule exI[of _ "uk_Evidence z"], rule exI[of _ "uk_AffectedOperations z"], rule exI[of _ "uk_SuppressedRules z"])
      (simp add: permuted_def)
qed

lemma items_upto_permuted: "(\<And>x. R x x) \<Longrightarrow> permuted xs ys \<Longrightarrow> items_upto R xs ys"
  unfolding items_upto_def permuted_def by (simp add: multiset.rel_refl)

lemma reversed_sample_upto: "report_upto incomplete_sample reversed_sample"
proof -
  have "rel_option manifest_upto m m" for m by (rule option.rel_refl) (rule upto_refl)
  then show ?thesis
    unfolding report_upto_def
    by (auto simp: reversed_sample_def intro!: items_upto_permuted upto_refl
        exI[of _ "tg_Manifest (rp_Target incomplete_sample)"])
qed

theorem canonicalReport_order_independent_witness: "canonicalReport sample_digest reversed_sample = Inr incomplete_sample"
  by (rule canonicalReport_order_independent[OF reversed_sample_upto incomplete_sample_canonical])

lemma reversed_sample_canonical: "canonicalReport sample_digest reversed_sample = Inr incomplete_sample"
proof -
  note form = report_upto_form[OF reversed_sample_upto incomplete_sample_canonical]
  show ?thesis
    using incomplete_sample_canonical unfolding canonicalReport_Inr form form_coverage_def by (simp add: reversed_sample_def)
qed

theorem canonicalReport_idempotent_witness: "canonicalReport sample_digest incomplete_sample = Inr incomplete_sample"
  by (rule canonicalReport_idempotent[OF reversed_sample_canonical])

theorem canonicalReport_ordered_witness:
  "Validate sample_digest incomplete_sample = None
    \<and> sorted_wrt (<) (map ei_ID (elems (rp_EvidenceInputs incomplete_sample)))
    \<and> sorted_wrt (<) (map fl_Path (elems (rp_Inventory incomplete_sample)))
    \<and> sorted_wrt (<) (map op_ID (elems (rp_Operations incomplete_sample)))
    \<and> sorted_wrt (<) (map rc_ID (elems (rp_Resources incomplete_sample)))
    \<and> sorted_wrt (<) (map fd_ID (elems (rp_Findings incomplete_sample)))
    \<and> sorted_wrt (<) (map uk_ID (elems (rp_Unknowns incomplete_sample)))
    \<and> sorted_wrt (<) (map relationshipTuple (elems (rp_Relationships incomplete_sample)))"
  by (rule canonicalReport_ordered[OF incomplete_sample_canonical])

definition kindless_sample :: Report where
  "kindless_sample = complete_sample\<lparr>rp_Target := (rp_Target complete_sample)\<lparr>tg_Manifest :=
     Some \<lparr>mf_ID = ''id'', mf_Name = ''name'', mf_Version = ''1'', mf_Description = [], mf_Kinds = Some [],
       mf_EntryPoints = Some []\<rparr>\<rparr>\<rparr>"

lemma kindless_sample_accepted: "Validate sample_digest kindless_sample = None"
  by code_simp

theorem canonicalReport_refuses_empty_collections_witness:
  "Validate sample_digest kindless_sample = None \<and> (\<exists>e. canonicalReport sample_digest kindless_sample = Inl e)"
proof
  show "\<exists>e. canonicalReport sample_digest kindless_sample = Inl e"
    by (rule canonicalReport_refuses_empty_collections) (simp add: loses_collection_def kindless_sample_def)
qed (rule kindless_sample_accepted)

end
