(* ===== verification/JsonStructure.thy ===== *)
theory JsonStructure
  imports Encode
begin

text \<open>
  The structural check of a report's JSON before it is decoded (internal/report/json_structure.go):
  surrogate escapes, and the walk over the decoder's tokens against the Go type of the report.
  A type is what \<open>reflect\<close> shows of it. The tokens of a document, in order, and the error the
  decoder returns when they are used up (\<open>io.EOF\<close> at the end of the input) are the decoder's
  state; the tokenizer of \<open>encoding/json\<close> is a parameter of \<open>validateJSONStructure\<close>.
\<close>

section \<open>Types\<close>

text \<open>The fields of a struct: name, whether it is exported, the \<open>json\<close> tag, the type.\<close>

datatype go_type =
    TString | TInt | TBool | TTime | TAny
  | TPointer go_type
  | TSlice go_type
  | TMapOf go_type
  | TStruct string "(string \<times> bool \<times> string \<times> go_type) list"

definition ResourceLimits_type :: go_type where
  "ResourceLimits_type = TStruct ''ResourceLimits'' [
     (''MemoryMaxBytes'', True, ''memoryMaxBytes'', TInt),
      (''MemorySwapBytes'', True, ''memorySwapBytes'', TInt), (''TasksMax'', True, ''tasksMax'', TInt),
      (''CPUQuotaPercent'', True, ''cpuQuotaPercent'', TInt),
      (''WallTimeSeconds'', True, ''wallTimeSeconds'', TInt)]"

definition ScanMetadata_type :: go_type where
  "ScanMetadata_type = TStruct ''ScanMetadata'' [
     (''ScannerVersion'', True, ''scannerVersion'', TString),
      (''PolicyVersion'', True, ''policyVersion'', TString), (''StartedAt'', True, ''startedAt'', TTime),
      (''CompletedAt'', True, ''completedAt'', TTime), (''Sandboxed'', True, ''sandboxed'', TBool),
      (''ResourceLimits'', True, ''resourceLimits,omitempty'', TPointer ResourceLimits_type)]"

definition Manifest_type :: go_type where
  "Manifest_type = TStruct ''Manifest'' [
     (''ID'', True, ''id'', TString), (''Name'', True, ''name'', TString),
      (''Version'', True, ''version'', TString), (''Description'', True, ''description,omitempty'', TString),
      (''Kinds'', True, ''kinds'', TSlice TString), (''EntryPoints'', True, ''entryPoints'', TMapOf TString)]"

definition Target_type :: go_type where
  "Target_type = TStruct ''Target'' [
     (''DisplayName'', True, ''displayName'', TString),
      (''RootDigest'', True, ''rootDigest,omitempty'', TString), (''FileCount'', True, ''fileCount'', TInt),
      (''ReadBytes'', True, ''readBytes'', TInt), (''BinaryBytes'', True, ''binaryBytes'', TInt),
      (''Manifest'', True, ''manifest,omitempty'', TPointer Manifest_type)]"

definition EvidenceInput_type :: go_type where
  "EvidenceInput_type = TStruct ''EvidenceInput'' [
     (''ID'', True, ''id'', TString), (''Type'', True, ''type'', TString),
      (''Label'', True, ''label'', TString), (''DocumentSHA256'', True, ''documentSha256,omitempty'', TString),
      (''SubjectRootDigest'', True, ''subjectRootDigest,omitempty'', TString),
      (''Format'', True, ''format'', TString), (''Version'', True, ''version'', TString)]"

definition ReviewReason_type :: go_type where
  "ReviewReason_type = TStruct ''ReviewReason'' [
     (''Reference'', True, ''reference,omitempty'', TString), (''Title'', True, ''title'', TString),
      (''Scope'', True, ''scope,omitempty'', TString)]"

definition ImpactSummary_type :: go_type where
  "ImpactSummary_type = TStruct ''ImpactSummary'' [
     (''Level'', True, ''level'', TString), (''Reasons'', True, ''reasons'', TSlice ReviewReason_type)]"

definition ConfidenceSummary_type :: go_type where
  "ConfidenceSummary_type = TStruct ''ConfidenceSummary'' [
     (''Level'', True, ''level'', TString), (''High'', True, ''high'', TInt),
      (''Medium'', True, ''medium'', TInt), (''Low'', True, ''low'', TInt),
      (''Reasons'', True, ''reasons'', TSlice ReviewReason_type)]"

definition CoverageSummary_type :: go_type where
  "CoverageSummary_type = TStruct ''CoverageSummary'' [
     (''Level'', True, ''level'', TString), (''Denominator'', True, ''denominator'', TString),
      (''AnalyzedUnits'', True, ''analyzedUnits'', TInt), (''PartialUnits'', True, ''partialUnits'', TInt),
      (''UnanalyzedUnits'', True, ''unanalyzedUnits'', TInt),
      (''ExcludedUnits'', True, ''excludedUnits'', TInt), (''TotalUnits'', True, ''totalUnits'', TInt),
      (''RetainedUnits'', True, ''retainedUnits'', TInt), (''Percentage'', True, ''percentage'', TPointer TInt)]"

definition UnknownSummary_type :: go_type where
  "UnknownSummary_type = TStruct ''UnknownSummary'' [
     (''Level'', True, ''level'', TString), (''Unknowns'', True, ''unknowns'', TInt),
      (''Limitations'', True, ''limitations'', TInt), (''Errors'', True, ''errors'', TInt),
      (''Reasons'', True, ''reasons'', TSlice ReviewReason_type)]"

definition ClaimCounts_type :: go_type where
  "ClaimCounts_type = TStruct ''ClaimCounts'' [
     (''Facts'', True, ''facts'', TInt), (''Inferences'', True, ''inferences'', TInt),
      (''UnknownBehaviors'', True, ''unknownBehaviors'', TInt)]"

definition ReviewSummary_type :: go_type where
  "ReviewSummary_type = TStruct ''ReviewSummary'' [
     (''SecurityImpact'', True, ''securityImpact'', ImpactSummary_type),
      (''EvidenceConfidence'', True, ''evidenceConfidence'', ConfidenceSummary_type),
      (''AnalysisCoverage'', True, ''analysisCoverage'', CoverageSummary_type),
      (''UnknownBehavior'', True, ''unknownBehavior'', UnknownSummary_type),
      (''Counts'', True, ''counts'', ClaimCounts_type),
      (''MainReasons'', True, ''mainReasons'', TSlice ReviewReason_type)]"

definition Binary_type :: go_type where
  "Binary_type = TStruct ''Binary'' [
     (''Format'', True, ''format'', TString), (''Class'', True, ''class'', TString),
      (''ByteOrder'', True, ''byteOrder'', TString), (''Machine'', True, ''machine'', TString),
      (''Type'', True, ''type'', TString), (''Interpreter'', True, ''interpreter,omitempty'', TString),
      (''Libraries'', True, ''libraries'', TSlice TString),
      (''ImportedSymbols'', True, ''importedSymbols'', TSlice TString),
      (''ExtractedStrings'', True, ''extractedStrings'', TSlice TString),
      (''EmbeddedURLs'', True, ''embeddedUrls'', TSlice TString),
      (''FileCapabilities'', True, ''fileCapabilities'', TSlice TString),
      (''CapabilityEffective'', True, ''capabilityEffective'', TBool), (''SetUID'', True, ''setuid'', TBool),
      (''SetGID'', True, ''setgid'', TBool), (''HasSymbols'', True, ''hasSymbols'', TBool)]"

definition ArchiveEntry_type :: go_type where
  "ArchiveEntry_type = TStruct ''ArchiveEntry'' [
     (''Path'', True, ''path'', TString), (''Kind'', True, ''kind'', TString),
      (''Mode'', True, ''mode,omitempty'', TString), (''LinkTarget'', True, ''linkTarget,omitempty'', TString),
      (''Size'', True, ''size'', TInt), (''CompressedSize'', True, ''compressedSize,omitempty'', TInt),
      (''UnsafePath'', True, ''unsafePath'', TBool), (''Encrypted'', True, ''encrypted,omitempty'', TBool)]"

definition Archive_type :: go_type where
  "Archive_type = TStruct ''Archive'' [
     (''Format'', True, ''format'', TString), (''Entries'', True, ''entries'', TSlice ArchiveEntry_type),
      (''InventoryComplete'', True, ''inventoryComplete'', TBool),
      (''RetainedUncompressedBytes'', True, ''retainedUncompressedBytes'', TInt)]"

definition File_type :: go_type where
  "File_type = TStruct ''File'' [
     (''Path'', True, ''path'', TString), (''Kind'', True, ''kind'', TString),
      (''Mode'', True, ''mode'', TString), (''Size'', True, ''size'', TInt),
      (''SHA256'', True, ''sha256,omitempty'', TString),
      (''ContentType'', True, ''contentType,omitempty'', TString),
      (''LinkTarget'', True, ''linkTarget,omitempty'', TString), (''Inspected'', True, ''inspected'', TBool),
      (''SkipReason'', True, ''skipReason,omitempty'', TString), (''Analysis'', True, ''analysis'', TString),
      (''AnalysisReason'', True, ''analysisReason,omitempty'', TString),
      (''Binary'', True, ''binary,omitempty'', TPointer Binary_type),
      (''Archive'', True, ''archive,omitempty'', TPointer Archive_type)]"

definition Evidence_type :: go_type where
  "Evidence_type = TStruct ''Evidence'' [
     (''InputID'', True, ''inputId'', TString), (''Path'', True, ''path'', TString),
      (''LineStart'', True, ''lineStart,omitempty'', TInt), (''LineEnd'', True, ''lineEnd,omitempty'', TInt),
      (''Operation'', True, ''operation,omitempty'', TString),
      (''Excerpt'', True, ''excerpt,omitempty'', TString)]"

definition Provenance_type :: go_type where
  "Provenance_type = TStruct ''Provenance'' [
     (''RuleID'', True, ''ruleId'', TString), (''Analyzer'', True, ''analyzer'', TString),
      (''AnalyzerVersion'', True, ''analyzerVersion'', TString),
      (''EvidenceSource'', True, ''evidenceSource'', TString)]"

definition Operation_type :: go_type where
  "Operation_type = TStruct ''Operation'' [
     (''ID'', True, ''id'', TString), (''Reference'', True, ''reference'', TString),
      (''Category'', True, ''category'', TString), (''Scope'', True, ''scope'', TString),
      (''Command'', True, ''command,omitempty'', TString),
      (''Arguments'', True, ''arguments,omitempty'', TSlice TString), (''Dynamic'', True, ''dynamic'', TBool),
      (''Confidence'', True, ''confidence'', TString), (''Evidence'', True, ''evidence'', Evidence_type),
      (''Provenance'', True, ''provenance'', Provenance_type)]"

definition Resource_type :: go_type where
  "Resource_type = TStruct ''Resource'' [
     (''ID'', True, ''id'', TString), (''Reference'', True, ''reference'', TString),
      (''Kind'', True, ''kind'', TString), (''Access'', True, ''access'', TString),
      (''Value'', True, ''value'', TString), (''Sensitive'', True, ''sensitive'', TBool),
      (''Dynamic'', True, ''dynamic'', TBool), (''Scope'', True, ''scope'', TString),
      (''Confidence'', True, ''confidence'', TString), (''Evidence'', True, ''evidence'', Evidence_type),
      (''RelatedOperationID'', True, ''relatedOperationId'', TString),
      (''Provenance'', True, ''provenance'', Provenance_type)]"

definition Finding_type :: go_type where
  "Finding_type = TStruct ''Finding'' [
     (''ID'', True, ''id'', TString), (''Reference'', True, ''reference'', TString),
      (''Claim'', True, ''claim'', TString), (''Severity'', True, ''severity'', TString),
      (''Confidence'', True, ''confidence'', TString), (''Category'', True, ''category'', TString),
      (''Scope'', True, ''scope'', TString), (''Title'', True, ''title'', TString),
      (''Explanation'', True, ''explanation'', TString),
      (''Evidence'', True, ''evidence'', TSlice Evidence_type),
      (''Related'', True, ''relatedOperationIds,omitempty'', TSlice TString),
      (''Provenance'', True, ''provenance'', Provenance_type)]"

definition ValueOrigin_type :: go_type where
  "ValueOrigin_type = TStruct ''ValueOrigin'' [
     (''Kind'', True, ''kind'', TString), (''Name'', True, ''name,omitempty'', TString),
      (''Evidence'', True, ''evidence'', Evidence_type)]"

definition Unknown_type :: go_type where
  "Unknown_type = TStruct ''Unknown'' [
     (''ID'', True, ''id'', TString), (''Reference'', True, ''reference'', TString),
      (''Category'', True, ''category'', TString), (''Reason'', True, ''reason'', TString),
      (''Scope'', True, ''scope'', TString), (''Confidence'', True, ''confidence'', TString),
      (''Title'', True, ''title'', TString), (''Description'', True, ''description'', TString),
      (''Evidence'', True, ''evidence'', TSlice Evidence_type),
      (''Origins'', True, ''origins'', TSlice ValueOrigin_type),
      (''AffectedOperations'', True, ''affectedOperationIds'', TSlice TString),
      (''SuppressedRules'', True, ''suppressedRuleIds'', TSlice TString),
      (''Provenance'', True, ''provenance'', Provenance_type)]"

definition ComparisonBasis_type :: go_type where
  "ComparisonBasis_type = TStruct ''ComparisonBasis'' [
     (''Kind'', True, ''kind'', TString), (''Subject'', True, ''subject'', TString)]"

definition Relationship_type :: go_type where
  "Relationship_type = TStruct ''Relationship'' [
     (''ID'', True, ''id'', TString), (''Type'', True, ''type'', TString),
      (''FromKind'', True, ''fromKind'', TString), (''From'', True, ''from'', TString),
      (''ToKind'', True, ''toKind'', TString), (''To'', True, ''to'', TString),
      (''Comparison'', True, ''comparison,omitempty'', TPointer ComparisonBasis_type)]"

definition Limitation_type :: go_type where
  "Limitation_type = TStruct ''Limitation'' [
     (''Code'', True, ''code'', TString), (''Description'', True, ''description'', TString),
      (''Path'', True, ''path,omitempty'', TString), (''Scope'', True, ''scope,omitempty'', TString)]"

definition ScanError_type :: go_type where
  "ScanError_type = TStruct ''ScanError'' [
     (''Code'', True, ''code'', TString), (''Message'', True, ''message'', TString),
      (''Path'', True, ''path,omitempty'', TString)]"

definition Report_type :: go_type where
  "Report_type = TStruct ''Report'' [
     (''SchemaVersion'', True, ''schemaVersion'', TString), (''Status'', True, ''status'', TString),
      (''Scan'', True, ''scan'', ScanMetadata_type), (''Target'', True, ''target'', Target_type),
      (''EvidenceInputs'', True, ''evidenceInputs'', TSlice EvidenceInput_type),
      (''Review'', True, ''review'', TPointer ReviewSummary_type),
      (''Inventory'', True, ''inventory'', TSlice File_type),
      (''Operations'', True, ''operations'', TSlice Operation_type),
      (''Resources'', True, ''resources'', TSlice Resource_type),
      (''Findings'', True, ''findings'', TSlice Finding_type),
      (''Unknowns'', True, ''unknowns'', TSlice Unknown_type),
      (''Relationships'', True, ''relationships'', TSlice Relationship_type),
      (''Limitations'', True, ''limitations'', TSlice Limitation_type),
      (''Errors'', True, ''errors'', TSlice ScanError_type)]"

fun pointer_base :: "go_type \<Rightarrow> go_type" where
  "pointer_base (TPointer t) = pointer_base t"
| "pointer_base t = t"

definition json_name :: "string \<Rightarrow> string \<Rightarrow> string" where
  "json_name fieldName tag = (let name = hd (split_on CHR '','' tag) in if name = [] then fieldName else name)"

definition exactJSONFields :: "(string \<times> bool \<times> string \<times> go_type) list \<Rightarrow> string \<rightharpoonup> go_type" where
  "exactJSONFields fieldList = fold (\<lambda>(fieldName, exported, tag, t) found.
     if \<not> exported then found
     else if json_name fieldName tag \<noteq> ''-'' then found(json_name fieldName tag \<mapsto> t) else found) fieldList Map.empty"

text \<open>The type whose members an object has: anything but a struct or a map is read as \<open>map[string]any\<close>.\<close>

definition object_type :: "go_type \<Rightarrow> go_type" where
  "object_type target = (case target of TStruct _ _ \<Rightarrow> target | TMapOf _ \<Rightarrow> target | _ \<Rightarrow> TMapOf TAny)"

definition element_type :: "go_type \<Rightarrow> go_type" where
  "element_type target = (case target of TSlice t \<Rightarrow> t | _ \<Rightarrow> TAny)"

definition member_type :: "go_type \<Rightarrow> string \<Rightarrow> go_type option" where
  "member_type target name = (case target of TMapOf t \<Rightarrow> Some t | TStruct _ fieldList \<Rightarrow> exactJSONFields fieldList name | _ \<Rightarrow> None)"

section \<open>The token walk\<close>

datatype json_token = Delim char | StringToken string | ScalarToken

type_synonym decoder = "json_token list \<times> go_error"

abbreviation open_brace :: char where "open_brace \<equiv> CHR 0x7B"
abbreviation close_brace :: char where "close_brace \<equiv> CHR 0x7D"
abbreviation open_bracket :: char where "open_bracket \<equiv> CHR ''[''"
abbreviation close_bracket :: char where "close_bracket \<equiv> CHR '']''"

definition Token :: "decoder \<Rightarrow> (json_token \<times> decoder) result" where
  "Token d = (case fst d of [] \<Rightarrow> Inl (snd d) | t # ts \<Rightarrow> Inr (t, (ts, snd d)))"

definition More :: "decoder \<Rightarrow> bool" where
  "More d = (case fst d of [] \<Rightarrow> False | t # ts \<Rightarrow> t \<noteq> Delim close_brace \<and> t \<noteq> Delim close_bracket)"

definition close_delimiter :: "char \<Rightarrow> decoder \<Rightarrow> decoder result" where
  "close_delimiter delimiter d =
     (let want = (if delimiter = open_bracket then close_bracket else close_brace) in
      bindr (Token d) (\<lambda>(closing, rest).
        andthen (check (closing \<noteq> Delim want) ''mismatched JSON delimiter %q'' []) (Inr rest)))"

definition member_name :: "json_token \<Rightarrow> string option" where
  "member_name t = (case t of StringToken name \<Rightarrow> Some name | _ \<Rightarrow> None)"

function (sequential) consumeTypedJSONValue :: "go_type \<Rightarrow> nat \<Rightarrow> decoder \<Rightarrow> decoder result"
  and object_members :: "go_type \<Rightarrow> nat \<Rightarrow> string set \<Rightarrow> decoder \<Rightarrow> decoder result"
  and array_elements :: "go_type \<Rightarrow> nat \<Rightarrow> decoder \<Rightarrow> decoder result" where
  "consumeTypedJSONValue target depth d =
     (if depth > MaxJSONDepth then Inl (Errorf ''JSON nesting exceeds limit %d'' [AInt (int MaxJSONDepth)])
      else case Token d of Inl e \<Rightarrow> Inl e
      | Inr (Delim delimiter, rest) \<Rightarrow>
          if pointer_base target = TTime then Inl (Errorf ''%s must be encoded as one scalar JSON value'' [])
          else if delimiter = open_brace then
            bindr (object_members (object_type (pointer_base target)) depth {} rest) (close_delimiter delimiter)
          else if delimiter = open_bracket then
            bindr (array_elements (element_type (pointer_base target)) depth rest) (close_delimiter delimiter)
          else Inl (Errorf ''unexpected JSON delimiter %q'' [])
      | Inr (_, rest) \<Rightarrow> Inr rest)"
| "object_members target depth seen d =
     (if \<not> More d then Inr d
      else case Token d of Inl e \<Rightarrow> Inl e
      | Inr (nameToken, rest) \<Rightarrow>
          (case member_name nameToken of
             None \<Rightarrow> Inl (Errorf ''object member name is not a string'' [])
           | Some name \<Rightarrow>
               if name \<in> seen then Inl (Errorf ''duplicate JSON object member %q'' [AStr name])
               else (case member_type target name of
                 None \<Rightarrow> Inl (Errorf ''unknown or incorrectly cased JSON member %q for %s'' [AStr name])
               | Some valueType \<Rightarrow>
                   (case consumeTypedJSONValue valueType (depth + 1) rest of
                      Inl e \<Rightarrow> Inl e
                    | Inr next_d \<Rightarrow> object_members target depth (insert name seen) next_d))))"
| "array_elements elementType depth d =
     (if \<not> More d then Inr d
      else case consumeTypedJSONValue elementType (depth + 1) d of
        Inl e \<Rightarrow> Inl e
      | Inr next_d \<Rightarrow> array_elements elementType depth next_d)"
  by pat_completeness auto

lemma Token_shorter: "Token d = Inr (t, rest) \<Longrightarrow> length (fst d) = Suc (length (fst rest))"
  by (auto simp: Token_def split: list.splits)

lemma close_delimiter_shorter: "close_delimiter c d = Inr rest \<Longrightarrow> length (fst d) = Suc (length (fst rest))"
  by (auto simp: close_delimiter_def Let_def bindr_Inr dest: Token_shorter)

lemma walk_shorter:
  "consumeTypedJSONValue_object_members_array_elements_dom (Inl (target, depth, d)) \<Longrightarrow>
     consumeTypedJSONValue target depth d = Inr rest \<Longrightarrow> length (fst rest) < length (fst d)"
  "consumeTypedJSONValue_object_members_array_elements_dom (Inr (Inl (target, depth, seen, d))) \<Longrightarrow>
     object_members target depth seen d = Inr rest \<Longrightarrow> length (fst rest) \<le> length (fst d)"
  "consumeTypedJSONValue_object_members_array_elements_dom (Inr (Inr (target, depth, d))) \<Longrightarrow>
     array_elements target depth d = Inr rest \<Longrightarrow> length (fst rest) \<le> length (fst d)"
proof (induction target depth d and target depth seen d and target depth d arbitrary: rest and rest and rest
    rule: consumeTypedJSONValue_object_members_array_elements.pinduct)
  case (1 target depth d)
  have "\<not> MaxJSONDepth < depth" using 1(4) by (auto simp: consumeTypedJSONValue.psimps[OF 1(1)])
  note eq = 1(4)[unfolded consumeTypedJSONValue.psimps[OF 1(1)], simplified this if_False]
  obtain t d1 where t: "Token d = Inr (t, d1)" using eq by (auto split: sum.splits)
  show ?case
  proof (cases t)
    case (Delim c)
    then obtain d2 where d2: "close_delimiter c d2 = Inr rest"
      "c = open_brace \<and> object_members (object_type (pointer_base target)) depth {} d1 = Inr d2
       \<or> c = open_bracket \<and> array_elements (element_type (pointer_base target)) depth d1 = Inr d2"
      and "pointer_base target \<noteq> TTime"
      using eq t by (auto simp: bindr_Inr split: if_splits)
    with 1(2,3) t Delim \<open>\<not> MaxJSONDepth < depth\<close> have "length (fst d2) \<le> length (fst d1)"
      by (cases d1; cases d2) auto
    with Token_shorter[OF t] close_delimiter_shorter[OF d2(1)] show ?thesis by simp
  qed (use eq t Token_shorter[OF t] in simp_all)
next
  case (2 target depth seen d)
  show ?case
  proof (cases "More d")
    case False
    with 2(4) show ?thesis by (simp add: object_members.psimps[OF 2(1)])
  next
    case True
    with 2(4) obtain t d1 name ty d2 where steps:
      "Token d = Inr (t, d1)" "member_name t = Some name" "name \<notin> seen" "member_type target name = Some ty"
      "consumeTypedJSONValue ty (depth + 1) d1 = Inr d2" "object_members target depth (insert name seen) d2 = Inr rest"
      unfolding object_members.psimps[OF 2(1)] by (auto split: sum.splits option.splits if_splits)
    have "length (fst d2) < length (fst d1)" "length (fst rest) \<le> length (fst d2)"
      using 2(2,3) True steps by auto
    with Token_shorter[OF steps(1)] show ?thesis by simp
  qed
next
  case (3 elementType depth d)
  show ?case
  proof (cases "More d")
    case False
    with 3(4) show ?thesis by (simp add: array_elements.psimps[OF 3(1)])
  next
    case True
    with 3(4) obtain d2 where steps: "consumeTypedJSONValue elementType (depth + 1) d = Inr d2"
        "array_elements elementType depth d2 = Inr rest"
      unfolding array_elements.psimps[OF 3(1)] by (auto split: sum.splits)
    have "length (fst d2) < length (fst d)" "length (fst rest) \<le> length (fst d2)"
      using 3(2,3) True steps by auto
    then show ?thesis by simp
  qed
qed

termination consumeTypedJSONValue
proof (relation "measure (case_sum (\<lambda>(_, _, d). 2 * length (fst d)) (case_sum (\<lambda>(_, _, _, d). 2 * length (fst d) + 1)
    (\<lambda>(_, _, d). 2 * length (fst d) + 1)))", goal_cases)
  case (5 target depth seen d _ t d1 name ty d2)
  then show ?case using Token_shorter walk_shorter(1) by fastforce
qed (auto dest: Token_shorter walk_shorter)

declare consumeTypedJSONValue.simps [simp del] object_members.simps [simp del] array_elements.simps [simp del]

section \<open>What the walk accepts\<close>

text \<open>A JSON document, and the tokens the decoder reads from it.\<close>

datatype json = JScalar | JString string | JArray "json list" | JObject "(string \<times> json) list"

fun json_tokens :: "json \<Rightarrow> json_token list" where
  "json_tokens JScalar = [ScalarToken]"
| "json_tokens (JString s) = [StringToken s]"
| "json_tokens (JArray vs) = Delim open_bracket # concat (map json_tokens vs) @ [Delim close_bracket]"
| "json_tokens (JObject ms) =
     Delim open_brace # concat (map (\<lambda>(name, v). StringToken name # json_tokens v) ms) @ [Delim close_brace]"

text \<open>
  The documents of a type: nested no deeper than the limit, a time only as a scalar, every
  object without repeated members, and an object of a struct type with members named exactly
  as the struct's fields are tagged.
\<close>

fun conforms :: "go_type \<Rightarrow> nat \<Rightarrow> json \<Rightarrow> bool" where
  "conforms target depth JScalar \<longleftrightarrow> depth \<le> MaxJSONDepth"
| "conforms target depth (JString s) \<longleftrightarrow> depth \<le> MaxJSONDepth"
| "conforms target depth (JArray vs) \<longleftrightarrow> depth \<le> MaxJSONDepth \<and> pointer_base target \<noteq> TTime
     \<and> (\<forall>v \<in> set vs. conforms (element_type (pointer_base target)) (Suc depth) v)"
| "conforms target depth (JObject ms) \<longleftrightarrow> depth \<le> MaxJSONDepth \<and> pointer_base target \<noteq> TTime
     \<and> distinct (map fst ms)
     \<and> (\<forall>(name, v) \<in> set ms. case member_type (object_type (pointer_base target)) name of
          None \<Rightarrow> False | Some t \<Rightarrow> conforms t (Suc depth) v)"

lemma json_tokens_first: "\<exists>t ts. json_tokens v = t # ts \<and> t \<noteq> Delim close_brace \<and> t \<noteq> Delim close_bracket"
  by (cases v) auto

lemma elements_accept:
  assumes "\<And>v target depth ts r. v \<in> set vs \<Longrightarrow>
    consumeTypedJSONValue target depth (json_tokens v @ ts, e) = Inr r \<longleftrightarrow> conforms target depth v \<and> r = (ts, e)"
  shows "array_elements t depth (concat (map json_tokens vs) @ Delim close_bracket # ts, e) = Inr r \<longleftrightarrow>
    (\<forall>v \<in> set vs. conforms t (Suc depth) v) \<and> r = (Delim close_bracket # ts, e)"
  using assms
proof (induction vs)
  case Nil
  show ?case by (auto simp: array_elements.simps More_def)
next
  case (Cons v vs)
  let ?rest = "concat (map json_tokens vs) @ Delim close_bracket # ts"
  have more: "More (json_tokens v @ ?rest, e)" using json_tokens_first[of v] by (auto simp: More_def)
  have v: "consumeTypedJSONValue t (Suc depth) (json_tokens v @ ?rest, e) = Inr q \<longleftrightarrow>
      conforms t (Suc depth) v \<and> q = (?rest, e)" for q
    using Cons.prems[of v t "Suc depth" ?rest q] by simp
  have IH: "array_elements t depth (?rest, e) = Inr r \<longleftrightarrow>
      (\<forall>v \<in> set vs. conforms t (Suc depth) v) \<and> r = (Delim close_bracket # ts, e)"
    by (rule Cons.IH) (rule Cons.prems, simp)
  show ?case
  proof (cases "conforms t (Suc depth) v")
    case True
    with v have "consumeTypedJSONValue t (Suc depth) (json_tokens v @ ?rest, e) = Inr (?rest, e)" by simp
    with IH more True show ?thesis by (simp add: array_elements.simps[of _ _ "(json_tokens v @ _, e)"])
  next
    case False
    with v obtain err where "consumeTypedJSONValue t (Suc depth) (json_tokens v @ ?rest, e) = Inl err"
      by (cases "consumeTypedJSONValue t (Suc depth) (json_tokens v @ ?rest, e)") auto
    with more False show ?thesis by (simp add: array_elements.simps[of _ _ "(json_tokens v @ _, e)"])
  qed
qed

lemma members_accept:
  assumes "\<And>name v target depth ts r. (name, v) \<in> set ms \<Longrightarrow>
    consumeTypedJSONValue target depth (json_tokens v @ ts, e) = Inr r \<longleftrightarrow> conforms target depth v \<and> r = (ts, e)"
  shows "object_members t depth seen (concat (map (\<lambda>(name, v). StringToken name # json_tokens v) ms)
      @ Delim close_brace # ts, e) = Inr r \<longleftrightarrow>
    distinct (map fst ms) \<and> fst ` set ms \<inter> seen = {}
    \<and> (\<forall>(name, v) \<in> set ms. case member_type t name of None \<Rightarrow> False | Some u \<Rightarrow> conforms u (Suc depth) v)
    \<and> r = (Delim close_brace # ts, e)"
  using assms
proof (induction ms arbitrary: seen)
  case Nil
  show ?case by (auto simp: object_members.simps More_def)
next
  case (Cons m ms)
  obtain name v where m: "m = (name, v)" by (cases m)
  let ?rest = "concat (map (\<lambda>(name, v). StringToken name # json_tokens v) ms) @ Delim close_brace # ts"
  have v: "consumeTypedJSONValue u (Suc depth) (json_tokens v @ ?rest, e) = Inr q \<longleftrightarrow>
      conforms u (Suc depth) v \<and> q = (?rest, e)" for u q
    using Cons.prems[of name v u "Suc depth" ?rest q] m by simp
  note step = object_members.simps[of t depth seen "(StringToken name # json_tokens v @ ?rest, e)"]
  have IH: "object_members t depth (insert name seen) (?rest, e) = Inr r \<longleftrightarrow>
      distinct (map fst ms) \<and> fst ` set ms \<inter> insert name seen = {}
      \<and> (\<forall>(name, v) \<in> set ms. case member_type t name of None \<Rightarrow> False | Some u \<Rightarrow> conforms u (Suc depth) v)
      \<and> r = (Delim close_brace # ts, e)"
    by (rule Cons.IH) (rule Cons.prems, rule list.set_intros(2))
  show ?case
  proof (cases "\<exists>u. name \<notin> seen \<and> member_type t name = Some u \<and> conforms u (Suc depth) v")
    case True
    then obtain u where u: "name \<notin> seen" "member_type t name = Some u" "conforms u (Suc depth) v" by blast
    with v[of u] have "consumeTypedJSONValue u (Suc depth) (json_tokens v @ ?rest, e) = Inr (?rest, e)" by simp
    with u IH m step show ?thesis by (auto simp: More_def Token_def member_name_def)
  next
    case False
    have "\<exists>err. object_members t depth seen (StringToken name # json_tokens v @ ?rest, e) = Inl err"
      using False v unfolding step
      by (auto simp: More_def Token_def member_name_def split: option.splits sum.splits)
    with False m show ?thesis by (auto split: option.splits)
  qed
qed

lemma walk_accepts:
  "consumeTypedJSONValue target depth (json_tokens v @ ts, e) = Inr r \<longleftrightarrow> conforms target depth v \<and> r = (ts, e)"
proof (induction v arbitrary: target depth ts r)
  case (JArray vs)
  show ?case
    using elements_accept[of vs e "element_type (pointer_base target)" depth ts, OF JArray]
    by (subst consumeTypedJSONValue.simps) (auto simp: Token_def bindr_Inr close_delimiter_def Let_def)
next
  case (JObject ms)
  have "\<And>name v target depth ts r. (name, v) \<in> set ms \<Longrightarrow>
    consumeTypedJSONValue target depth (json_tokens v @ ts, e) = Inr r \<longleftrightarrow> conforms target depth v \<and> r = (ts, e)"
    by (rule JObject) auto
  from members_accept[of ms e "object_type (pointer_base target)" depth "{}" ts, OF this] show ?case
    by (subst consumeTypedJSONValue.simps) (auto simp: Token_def bindr_Inr close_delimiter_def Let_def)
qed (auto simp: consumeTypedJSONValue.simps Token_def)

section \<open>Surrogate escapes\<close>

definition hex_number :: "string \<Rightarrow> nat option" where
  "hex_number s = foldl (\<lambda>acc c. case (acc, fromHexChar c) of
     (Some n, Some h) \<Rightarrow> Some (16 * n + h) | _ \<Rightarrow> None) (Some 0) s"

abbreviation backslash :: char where "backslash \<equiv> CHR 0x5C"
abbreviation quote :: char where "quote \<equiv> CHR 0x22"

text \<open>The code unit and the index after the escape that starts at \<open>slashIndex\<close>.\<close>

definition parseUnicodeEscape :: "string \<Rightarrow> nat \<Rightarrow> (nat \<times> nat) result" where
  "parseUnicodeEscape data slashIndex =
     (if slashIndex + 6 > length data \<or> data ! slashIndex \<noteq> backslash \<or> data ! (slashIndex + 1) \<noteq> CHR ''u''
      then Inl (Errorf ''malformed Unicode escape'' [])
      else case hex_number (take 4 (drop (slashIndex + 2) data)) of
        None \<Rightarrow> Inl (Errorf ''malformed Unicode escape'' [])
      | Some value \<Rightarrow> Inr (value, slashIndex + 6))"

text \<open>
  The loop body at \<open>index\<close>: the index the next iteration starts at (after its \<open>index++\<close>) and the
  flags \<open>inString\<close> and \<open>escaped\<close>.
\<close>

definition surrogate_step :: "string \<Rightarrow> nat \<Rightarrow> bool \<Rightarrow> bool \<Rightarrow> (nat \<times> bool \<times> bool) result" where
  "surrogate_step data index inString escaped =
     (let value = data ! index in
      if \<not> inString then Inr (index + 1, value = quote, escaped)
      else if escaped then
        (if value \<noteq> CHR ''u'' then Inr (index + 1, True, False)
         else bindr (parseUnicodeEscape data (index - 1)) (\<lambda>(code, next_i).
           if 0xD800 \<le> code \<and> code \<le> 0xDBFF then
             (if next_i + 6 > length data \<or> data ! next_i \<noteq> backslash \<or> data ! (next_i + 1) \<noteq> CHR ''u''
              then Inl (Errorf ''unpaired high UTF-16 surrogate escape'' [])
              else case parseUnicodeEscape data next_i of
                Inl e \<Rightarrow> Inl (Errorf ''malformed UTF-16 surrogate pair'' [])
              | Inr (low, after) \<Rightarrow>
                  if low < 0xDC00 \<or> low > 0xDFFF then Inl (Errorf ''malformed UTF-16 surrogate pair'' [])
                  else Inr (after, True, False))
           else if 0xDC00 \<le> code \<and> code \<le> 0xDFFF then Inl (Errorf ''unpaired low UTF-16 surrogate escape'' [])
           else Inr (next_i, True, False)))
      else if value = backslash then Inr (index + 1, True, True)
      else Inr (index + 1, value \<noteq> quote, False))"

lemma parseUnicodeEscape_next: "parseUnicodeEscape data slashIndex = Inr (code, next_i) \<Longrightarrow> next_i = slashIndex + 6"
  by (auto simp: parseUnicodeEscape_def split: if_splits option.splits)

lemma surrogate_step_next:
  "surrogate_step data index inString escaped = Inr (j, s, e) \<Longrightarrow> index < j"
  by (auto simp: surrogate_step_def Let_def bindr_Inr split: if_splits sum.splits dest!: parseUnicodeEscape_next)

function surrogate_loop :: "string \<Rightarrow> nat \<Rightarrow> bool \<Rightarrow> bool \<Rightarrow> error" where
  "surrogate_loop data index inString escaped =
     (if index < length data then
        (case surrogate_step data index inString escaped of
           Inl e \<Rightarrow> Some e
         | Inr (j, s, e) \<Rightarrow> surrogate_loop data j s e)
      else None)"
  by pat_completeness auto

termination
  by (relation "measure (\<lambda>(data, index, _, _). length data - index)") (auto dest: surrogate_step_next)

declare surrogate_loop.simps [simp del]

definition validateSurrogateEscapes :: "string \<Rightarrow> error" where
  "validateSurrogateEscapes data = surrogate_loop data 0 False False"

definition validateJSONStructure :: "(string \<Rightarrow> decoder) \<Rightarrow> go_error \<Rightarrow> string \<Rightarrow> go_type \<Rightarrow> error" where
  "validateJSONStructure newDecoder eof data target = first_error [
     check (\<not> utf8_valid data) ''JSON input is not valid UTF-8'' [],
     validateSurrogateEscapes data,
     (case consumeTypedJSONValue target 0 (newDecoder data) of
        Inl e \<Rightarrow> Some e
      | Inr rest \<Rightarrow>
          (case Token rest of
             Inr _ \<Rightarrow> Some (Errorf ''multiple JSON values after %v'' [])
           | Inl e \<Rightarrow> if e = eof then None else Some e))]"

section \<open>What the scanner accepts\<close>

text \<open>
  The body of a JSON string: bytes, escapes of one character, and escapes of one code unit
  with their four hexadecimal digits.
\<close>

datatype string_unit = Lit char | Esc char | Code string

fun unit_ok :: "string_unit \<Rightarrow> bool" where
  "unit_ok (Lit c) \<longleftrightarrow> c \<noteq> quote \<and> c \<noteq> backslash"
| "unit_ok (Esc c) \<longleftrightarrow> c \<noteq> CHR ''u''"
| "unit_ok (Code ds) \<longleftrightarrow> length ds = 4 \<and> list_all (\<lambda>c. fromHexChar c \<noteq> None) ds"

fun unit_text :: "string_unit \<Rightarrow> string" where
  "unit_text (Lit c) = [c]"
| "unit_text (Esc c) = [backslash, c]"
| "unit_text (Code ds) = backslash # CHR ''u'' # ds"

definition high_unit :: "string \<Rightarrow> bool" where
  "high_unit ds \<longleftrightarrow> (case hex_number ds of None \<Rightarrow> False | Some n \<Rightarrow> 0xD800 \<le> n \<and> n \<le> 0xDBFF)"

definition low_unit :: "string \<Rightarrow> bool" where
  "low_unit ds \<longleftrightarrow> (case hex_number ds of None \<Rightarrow> False | Some n \<Rightarrow> 0xDC00 \<le> n \<and> n \<le> 0xDFFF)"

text \<open>Every high surrogate is followed at once by a low one, and there is no other low one.\<close>

fun paired :: "string_unit list \<Rightarrow> bool" where
  "paired [] = True"
| "paired (Code ds # us) =
     (if high_unit ds then (case us of Code low # vs \<Rightarrow> low_unit low \<and> paired vs | _ \<Rightarrow> False)
      else \<not> low_unit ds \<and> paired us)"
| "paired (_ # us) = paired us"

abbreviation body :: "string_unit list \<Rightarrow> string" where
  "body us \<equiv> concat (map unit_text us)"

lemma hex_number_Some: "list_all (\<lambda>c. fromHexChar c \<noteq> None) ds \<Longrightarrow> \<exists>n. hex_number ds = Some n"
proof -
  have "list_all (\<lambda>c. fromHexChar c \<noteq> None) ds \<Longrightarrow> \<exists>n. foldl (\<lambda>acc c. case (acc, fromHexChar c) of
     (Some n, Some h) \<Rightarrow> Some (16 * n + h) | _ \<Rightarrow> None) (Some m) ds = Some n" for m
    by (induction ds arbitrary: m) auto
  then show "list_all (\<lambda>c. fromHexChar c \<noteq> None) ds \<Longrightarrow> ?thesis" by (simp add: hex_number_def)
qed

text \<open>What the loop does at an index, in terms of the bytes from there on.\<close>

lemma drop_Cons: "drop i xs = x # ys \<Longrightarrow> i < length xs \<and> xs ! i = x \<and> drop (Suc i) xs = ys"
  by (metis Cons_nth_drop_Suc drop_eq_Nil linorder_not_less list.discI list.inject)

lemma loop_at:
  assumes "drop i d = c # suf"
  shows "surrogate_loop d i s e =
     (case surrogate_step d i s e of Inl x \<Rightarrow> Some x | Inr (j, s', e') \<Rightarrow> surrogate_loop d j s' e')"
  using drop_Cons[OF assms] by (subst surrogate_loop.simps) simp

lemma loop_outside:
  assumes "drop i d = xs @ suf" and "quote \<notin> set xs"
  shows "surrogate_loop d i False False = surrogate_loop d (i + length xs) False False"
  using assms
proof (induction xs arbitrary: i)
  case (Cons c xs)
  note at = drop_Cons[of i d c "xs @ suf"]
  have "c \<noteq> quote" using Cons.prems(2) by auto
  then have "surrogate_loop d i False False = surrogate_loop d (Suc i) False False"
    using loop_at[of i d c "xs @ suf" False False] at Cons.prems(1) by (simp add: surrogate_step_def Let_def)
  with Cons.IH[of "Suc i"] at Cons.prems show ?case by simp
qed simp

lemma loop_quote:
  assumes "drop i d = quote # suf"
  shows "surrogate_loop d i s False = surrogate_loop d (Suc i) (\<not> s) False"
  using drop_Cons[OF assms] by (simp add: loop_at[OF assms] surrogate_step_def Let_def)

lemma loop_lit:
  assumes "drop i d = c # suf" and "unit_ok (Lit c)"
  shows "surrogate_loop d i True False = surrogate_loop d (Suc i) True False"
  using drop_Cons[OF assms(1)] assms(2) by (simp add: loop_at[OF assms(1)] surrogate_step_def Let_def)

lemma loop_escaped:
  assumes "drop i d = backslash # c # suf"
  shows "surrogate_loop d i True False =
     (case surrogate_step d (Suc i) True True of Inl x \<Rightarrow> Some x | Inr (j, s', e') \<Rightarrow> surrogate_loop d j s' e')"
proof -
  note at = drop_Cons[OF assms]
  have "surrogate_loop d i True False = surrogate_loop d (Suc i) True True"
    using at by (simp add: loop_at[OF assms] surrogate_step_def Let_def)
  then show ?thesis using loop_at[of "Suc i" d c suf] at by simp
qed

lemma loop_esc:
  assumes "drop i d = backslash # c # suf" and "unit_ok (Esc c)"
  shows "surrogate_loop d i True False = surrogate_loop d (i + 2) True False"
  using drop_Cons[of "Suc i" d c suf] drop_Cons[OF assms(1)] assms(2)
  by (simp add: loop_escaped[OF assms(1)] surrogate_step_def Let_def)

lemma parse_at:
  assumes "drop i d = backslash # CHR ''u'' # ds @ suf" and "length ds = 4"
  shows "parseUnicodeEscape d i = (case hex_number ds of
    None \<Rightarrow> Inl (Errorf ''malformed Unicode escape'' []) | Some n \<Rightarrow> Inr (n, i + 6))"
proof -
  have at: "d ! i = backslash" "d ! Suc i = CHR ''u''" "drop (Suc (Suc i)) d = ds @ suf"
    using drop_Cons[OF assms(1)] drop_Cons[of "Suc i" d "CHR ''u''" "ds @ suf"] by simp_all
  have "length d - i = 6 + length suf"
    using arg_cong[OF assms(1), of length] assms(2) by simp
  then have "\<not> length d < i + 6" by linarith
  with at assms(2) show ?thesis by (simp add: parseUnicodeEscape_def)
qed

text \<open>The three outcomes of an escaped code unit.\<close>

lemma loop_code:
  assumes d: "drop i d = backslash # CHR ''u'' # ds @ suf" and ok: "unit_ok (Code ds)"
  shows "\<not> high_unit ds \<Longrightarrow> \<not> low_unit ds \<Longrightarrow> surrogate_loop d i True False = surrogate_loop d (i + 6) True False"
    and "low_unit ds \<Longrightarrow> surrogate_loop d i True False \<noteq> None"
    and "high_unit ds \<Longrightarrow> suf = backslash # CHR ''u'' # low @ rest \<Longrightarrow> unit_ok (Code low) \<Longrightarrow> low_unit low \<Longrightarrow>
      surrogate_loop d i True False = surrogate_loop d (i + 12) True False"
    and "high_unit ds \<Longrightarrow> suf = backslash # CHR ''u'' # low @ rest \<Longrightarrow> unit_ok (Code low) \<Longrightarrow> \<not> low_unit low \<Longrightarrow>
      surrogate_loop d i True False \<noteq> None"
    and "high_unit ds \<Longrightarrow> take 2 suf \<noteq> [backslash, CHR ''u''] \<Longrightarrow> surrogate_loop d i True False \<noteq> None"
proof -
  obtain n where n: "hex_number ds = Some n" using hex_number_Some ok by auto
  have u: "d ! Suc i = CHR ''u''" using drop_Cons[of "Suc i" d "CHR ''u''"] drop_Cons[OF d] by blast
  have parse: "parseUnicodeEscape d i = Inr (n, i + 6)" using parse_at[OF d] ok n by simp
  note go = loop_escaped[OF d] surrogate_step_def Let_def u parse high_unit_def low_unit_def n
  show "\<not> high_unit ds \<Longrightarrow> \<not> low_unit ds \<Longrightarrow> surrogate_loop d i True False = surrogate_loop d (i + 6) True False"
    by (auto simp: go)
  show "low_unit ds \<Longrightarrow> surrogate_loop d i True False \<noteq> None" by (auto simp: go)
  have twelve: "i + 6 + 6 = i + 12" by simp
  have suf: "drop (i + 6) d = suf"
    using arg_cong[OF d, of "drop 6"] ok by (simp add: add.commute)
  show "surrogate_loop d i True False = surrogate_loop d (i + 12) True False"
    if "high_unit ds" "suf = backslash # CHR ''u'' # low @ rest" "unit_ok (Code low)" "low_unit low"
  proof -
    have s: "drop (i + 6) d = backslash # CHR ''u'' # low @ rest" using suf that(2) by simp
    have at: "d ! (i + 6) = backslash" "d ! (i + 7) = CHR ''u''"
      using drop_Cons[OF s] drop_Cons[of "Suc (i + 6)" d] by (auto simp: eval_nat_numeral)
    have len: "\<not> length d < i + 12" using arg_cong[OF s, of length] that(3) by simp
    have "parseUnicodeEscape d (i + 6) = (case hex_number low of
        None \<Rightarrow> Inl (Errorf ''malformed Unicode escape'' []) | Some m \<Rightarrow> Inr (m, i + 12))"
      using parse_at[OF s] that(3) unfolding twelve by simp
    with that at len show ?thesis by (auto simp: go add.commute split: option.splits)
  qed
  show "surrogate_loop d i True False \<noteq> None"
    if low: "high_unit ds" "suf = backslash # CHR ''u'' # low @ rest" "unit_ok (Code low)" "\<not> low_unit low"
  proof -
    have s: "drop (i + 6) d = backslash # CHR ''u'' # low @ rest" using suf low(2) by simp
    obtain m where "hex_number low = Some m" using hex_number_Some low(3) by auto
    with parse_at[OF s] low(3) have "parseUnicodeEscape d (i + 6) = Inr (m, i + 12)" unfolding twelve by simp
    with low \<open>hex_number low = Some m\<close> show ?thesis by (auto simp: go)
  qed
  show "surrogate_loop d i True False \<noteq> None" if "high_unit ds" "take 2 suf \<noteq> [backslash, CHR ''u'']"
  proof -
    have "length d < i + 12 \<or> d ! (i + 6) \<noteq> backslash \<or> d ! (i + 7) \<noteq> CHR ''u''"
    proof (rule ccontr)
      assume "\<not> ?thesis"
      then have "take 2 (drop (i + 6) d) = [backslash, CHR ''u'']"
        by (auto simp: numeral_2_eq_2 take_Suc_conv_app_nth eval_nat_numeral)
      with that suf show False by simp
    qed
    with that(1) show ?thesis by (auto simp: go add.commute)
  qed
qed

lemma body_accept:
  assumes "list_all unit_ok us" and "drop i d = body us @ quote # suf"
  shows "surrogate_loop d i True False = None \<longleftrightarrow>
    paired us \<and> surrogate_loop d (i + length (body us)) True False = None"
  using assms
proof (induction us arbitrary: i rule: paired.induct[case_names empty unit lit esc])
  case empty
  show ?case by simp
next
  case (unit ds us)
  have d: "drop i d = backslash # CHR ''u'' # ds @ (body us @ quote # suf)" using unit(4) by simp
  have ok: "unit_ok (Code ds)" "length ds = 4" using unit(3) by simp_all
  note code = loop_code[OF d ok(1)]
  have next_d: "drop (i + 6) d = body us @ quote # suf"
    using arg_cong[OF d, of "drop 6"] ok by (simp add: add.commute)
  show ?case
  proof (cases "high_unit ds")
    case False
    have IH: "surrogate_loop d (i + 6) True False = None \<longleftrightarrow>
        paired us \<and> surrogate_loop d (i + 6 + length (body us)) True False = None"
      using unit(2)[OF False _ next_d] unit(3) by simp
    show ?thesis
    proof (cases "low_unit ds")
      case True
      with code(2) \<open>\<not> high_unit ds\<close> show ?thesis by simp
    next
      case low: False
      from code(1)[OF False low] IH False low ok(2) show ?thesis by (simp add: add.assoc)
    qed
  next
    case True
    show ?thesis
    proof (cases us)
      case Nil
      then show ?thesis using code(5) True by simp
    next
      case (Cons u vs)
      show ?thesis
      proof (cases u)
        case (Lit c)
        then show ?thesis using code(5) True Cons unit(3) by simp
      next
        case (Esc c)
        then show ?thesis using code(5) True Cons unit(3) by simp
      next
        case (Code low)
        have low: "unit_ok (Code low)" "length low = 4" "list_all unit_ok vs" using unit(3) Cons Code by simp_all
        have "drop (i + 12) d = body vs @ quote # suf"
          using arg_cong[OF next_d, of "drop 6"] Cons Code low(2) by (simp add: add.commute)
        from unit(1)[OF True Cons Code low(3) this] have IH: "surrogate_loop d (i + 12) True False = None \<longleftrightarrow>
            paired vs \<and> surrogate_loop d (i + 12 + length (body vs)) True False = None" .
        have tail: "body us @ quote # suf = backslash # CHR ''u'' # low @ (body vs @ quote # suf)"
          using Cons Code by simp
        have shape: "paired (Code ds # us) \<longleftrightarrow> low_unit low \<and> paired vs"
          "i + length (body (Code ds # us)) = i + 12 + length (body vs)"
          using True Cons Code low(2) ok(2) by simp_all
        show ?thesis
        proof (cases "low_unit low")
          case True
          from code(3)[OF \<open>high_unit ds\<close> tail low(1) True] IH True show ?thesis unfolding shape by simp
        next
          case False
          with code(4)[OF \<open>high_unit ds\<close> tail low(1) False] show ?thesis unfolding shape by simp
        qed
      qed
    qed
  qed
next
  case (lit c us)
  then show ?case using loop_lit[of i d c "body us @ quote # suf"] drop_Cons[of i d c "body us @ quote # suf"] by simp
next
  case (esc c us)
  have d: "drop i d = backslash # c # body us @ quote # suf" using esc(3) by simp
  have "drop (i + 2) d = body us @ quote # suf" using arg_cong[OF d, of "drop 2"] by (simp add: add.commute)
  with esc loop_esc[OF d] show ?case by (simp add: add.assoc)
qed

text \<open>A document: text outside strings, then a string, and so on, then text outside strings.\<close>

definition document :: "(string \<times> string_unit list) list \<Rightarrow> string \<Rightarrow> string" where
  "document segments tail =
     concat (map (\<lambda>(outside, us). outside @ quote # body us @ [quote]) segments) @ tail"

definition document_ok :: "(string \<times> string_unit list) list \<Rightarrow> string \<Rightarrow> bool" where
  "document_ok segments tail \<longleftrightarrow>
     list_all (\<lambda>(outside, us). quote \<notin> set outside \<and> list_all unit_ok us) segments \<and> quote \<notin> set tail"

lemma document_accept:
  assumes "document_ok segments tail" and "drop i d = document segments tail"
  shows "surrogate_loop d i False False = None \<longleftrightarrow> list_all (\<lambda>(outside, us). paired us) segments"
  using assms
proof (induction segments arbitrary: i)
  case Nil
  then have d: "drop i d = tail @ []" "quote \<notin> set tail" by (simp_all add: document_def document_ok_def)
  have "length d \<le> i + length tail" using arg_cong[OF d(1), of length] by simp
  with loop_outside[OF d] show ?case by (simp add: surrogate_loop.simps[of d "i + _"])
next
  case (Cons seg segments)
  obtain outside us where seg: "seg = (outside, us)" by (cases seg)
  let ?rest = "document segments tail"
  have ok: "quote \<notin> set outside" "list_all unit_ok us" "document_ok segments tail"
    using Cons.prems(1) seg by (simp_all add: document_ok_def)
  have d0: "drop i d = outside @ quote # body us @ quote # ?rest" using Cons.prems(2) seg by (simp add: document_def)
  define j where "j = Suc (i + length outside)"
  have d1: "drop (i + length outside) d = quote # body us @ quote # ?rest"
    using arg_cong[OF d0, of "drop (length outside)"] by (simp add: add.commute)
  have d2: "drop j d = body us @ quote # ?rest" using drop_Cons[OF d1] by (simp add: j_def)
  have d3: "drop (j + length (body us)) d = quote # ?rest"
    using arg_cong[OF d2, of "drop (length (body us))"] by (simp add: add.commute)
  have "surrogate_loop d i False False = surrogate_loop d j True False"
    using loop_outside[OF d0 ok(1)] loop_quote[OF d1, of False] by (simp add: j_def)
  moreover have "surrogate_loop d (j + length (body us)) True False = surrogate_loop d (Suc (j + length (body us))) False False"
    using loop_quote[OF d3, of True] by simp
  ultimately show ?case
    using body_accept[OF ok(2) d2] Cons.IH[OF ok(3), of "Suc (j + length (body us))"] drop_Cons[OF d3] seg by simp
qed

section \<open>The structural check\<close>

text \<open>
  The scanner for surrogate escapes accepts a document (text outside strings, and strings
  of bytes, one-character escapes and code-unit escapes) exactly when in every string each
  high surrogate escape is followed at once by a low one and no low one stands alone.
\<close>

theorem validateSurrogateEscapes_iff:
  assumes "document_ok segments tail"
  shows "validateSurrogateEscapes (document segments tail) = None \<longleftrightarrow> list_all (\<lambda>(outside, us). paired us) segments"
  using document_accept[OF assms, of 0] by (simp add: validateSurrogateEscapes_def)

theorem validateSurrogateEscapes_iff_witness:
  "validateSurrogateEscapes (document [(''{'', [Lit CHR ''a'', Code ''d83D'', Code ''DE00'', Esc CHR ''n''])] ''}'') = None"
  by (subst validateSurrogateEscapes_iff) code_simp+

text \<open>
  C18. When the decoder reads the data as one JSON value, the structural check accepts it exactly
  when the data is valid UTF-8 without stray surrogate escapes and the value conforms to the
  type of a report: at most 64 levels deep, no repeated member in any object, every member of
  a struct named exactly (with its letter case) as the struct's tags say, times as scalars.
\<close>

theorem validateJSONStructure_iff:
  assumes "newDecoder data = (json_tokens v, eof)"
  shows "validateJSONStructure newDecoder eof data Report_type = None \<longleftrightarrow>
    utf8_valid data \<and> validateSurrogateEscapes data = None \<and> conforms Report_type 0 v"
proof -
  have walk: "consumeTypedJSONValue Report_type 0 (newDecoder data) = Inr r \<longleftrightarrow> conforms Report_type 0 v \<and> r = ([], eof)" for r
    using walk_accepts[of Report_type 0 v "[]" eof r] assms by simp
  show ?thesis
  proof (cases "conforms Report_type 0 v")
    case True
    with walk have "consumeTypedJSONValue Report_type 0 (newDecoder data) = Inr ([], eof)" by blast
    with True show ?thesis by (simp add: validateJSONStructure_def Token_def)
  next
    case False
    with walk obtain e where "consumeTypedJSONValue Report_type 0 (newDecoder data) = Inl e"
      by (cases "consumeTypedJSONValue Report_type 0 (newDecoder data)") auto
    with False show ?thesis by (simp add: validateJSONStructure_def)
  qed
qed

definition sample_json :: json where
  "sample_json = JObject [(''status'', JString ''complete''), (''limitations'', JArray [])]"

definition sample_json_text :: string where
  "sample_json_text = document [(''{'', map Lit ''status''), ('': '', map Lit ''complete''), ('','', map Lit ''limitations'')] '':[]}''"

theorem validateJSONStructure_iff_witness:
  "validateJSONStructure (\<lambda>_. (json_tokens sample_json, Errorf ''EOF'' [])) (Errorf ''EOF'' []) sample_json_text Report_type = None"
  by (subst validateJSONStructure_iff[of _ _ sample_json]) (rule refl, code_simp)

section \<open>Decoding\<close>

text \<open>
  \<open>encoding/json\<close> as \<open>Decode\<close> (internal/report/validate.go) uses it: the token stream of the data,
  the end-of-input error, the value the strict decoder fills in, and the error of decoding once
  more after it (\<^const>\<open>None\<close> when there is a second value).
\<close>

record json_package =
  js_newDecoder :: "string \<Rightarrow> decoder"
  js_EOF :: go_error
  js_decode :: "string \<Rightarrow> Report result"
  js_trailer :: "string \<Rightarrow> error"
  js_marshal :: "Report \<Rightarrow> string result"

definition Decode :: "json_package \<Rightarrow> digestFunction \<Rightarrow> string \<Rightarrow> Report result" where
  "Decode js digest data =
     andthen (first_error [
       check (length data > MaxEncodedReportBytes) ''decode report: encoded input exceeds limit %d''
         [AInt (int MaxEncodedReportBytes)],
       wrap ''decode report: %w'' [] (validateJSONStructure (js_newDecoder js) (js_EOF js) data Report_type)])
     (case js_decode js data of
        Inl e \<Rightarrow> Inl (Wrapf ''decode report: %w'' [] e)
      | Inr value \<Rightarrow>
          andthen (case js_trailer js data of
            None \<Rightarrow> Some (Errorf ''decode report: multiple JSON values'' [])
          | Some e \<Rightarrow> if e = js_EOF js then None else Some (Wrapf ''decode report trailer: %w'' [] e))
          (andthen (Validate digest value) (Inr value)))"

text \<open>
  What the round trip needs of the package for one report: the rendering is one well-formed
  value with the report's structure, and decoding it gives the report back.
\<close>

definition json_roundtrip :: "json_package \<Rightarrow> Report \<Rightarrow> string \<Rightarrow> bool" where
  "json_roundtrip js c encoded \<longleftrightarrow>
     validateJSONStructure (js_newDecoder js) (js_EOF js) encoded Report_type = None
     \<and> js_decode js encoded = Inr c \<and> js_trailer js encoded = Some (js_EOF js)"


definition sample_package :: json_package where
  "sample_package = \<lparr>js_newDecoder = \<lambda>_. (json_tokens sample_json, Errorf ''EOF'' []), js_EOF = Errorf ''EOF'' [],
     js_decode = \<lambda>_. Inr incomplete_sample, js_trailer = \<lambda>_. Some (Errorf ''EOF'' []),
     js_marshal = \<lambda>_. Inr sample_json_text\<rparr>"

lemma sample_package_structure:
  "validateJSONStructure (js_newDecoder sample_package) (js_EOF sample_package) sample_json_text Report_type = None"
  by (simp add: sample_package_def) code_simp

lemma sample_text_short: "length sample_json_text \<le> MaxEncodedReportBytes"
  by (simp add: sample_json_text_def document_def limits)


end
