(* ===== verification/GoFields.thy ===== *)
theory GoFields
  imports GoPath
begin

text \<open>
  Further parts of \<open>strings\<close>, \<open>strconv\<close> and \<open>path/filepath\<close> that the containment code reads
  kernel and service-manager text with: \<open>Fields\<close>, \<open>TrimSpace\<close>, \<open>ParseInt\<close>, \<open>Join\<close> and \<open>Abs\<close>.
\<close>

section \<open>White space\<close>

text \<open>
  The UTF-8 encodings of the characters \<open>unicode.IsSpace\<close> accepts. None of them begins with a
  continuation byte, so a scan that steps over one such encoding or over one byte meets exactly
  those that decoding rune by rune meets.
\<close>

definition space_runes :: "string list" where
  "space_runes =
     [[CHR 0x09], [CHR 0x0A], [CHR 0x0B], [CHR 0x0C], [CHR 0x0D], [CHR 0x20],
      [CHR 0xC2, CHR 0x85], [CHR 0xC2, CHR 0xA0], [CHR 0xE1, CHR 0x9A, CHR 0x80],
      [CHR 0xE2, CHR 0x80, CHR 0x80], [CHR 0xE2, CHR 0x80, CHR 0x81], [CHR 0xE2, CHR 0x80, CHR 0x82],
      [CHR 0xE2, CHR 0x80, CHR 0x83], [CHR 0xE2, CHR 0x80, CHR 0x84], [CHR 0xE2, CHR 0x80, CHR 0x85],
      [CHR 0xE2, CHR 0x80, CHR 0x86], [CHR 0xE2, CHR 0x80, CHR 0x87], [CHR 0xE2, CHR 0x80, CHR 0x88],
      [CHR 0xE2, CHR 0x80, CHR 0x89], [CHR 0xE2, CHR 0x80, CHR 0x8A], [CHR 0xE2, CHR 0x80, CHR 0xA8],
      [CHR 0xE2, CHR 0x80, CHR 0xA9], [CHR 0xE2, CHR 0x80, CHR 0xAF], [CHR 0xE2, CHR 0x81, CHR 0x9F],
      [CHR 0xE3, CHR 0x80, CHR 0x80]]"

text \<open>The length of the pattern a text starts with, 0 when there is none.\<close>

definition leading :: "string list \<Rightarrow> string \<Rightarrow> nat" where
  "leading patterns s = (case find (\<lambda>p. prefix p s) patterns of None \<Rightarrow> 0 | Some p \<Rightarrow> length p)"

lemma leading_le: "leading patterns s \<le> length s"
  by (auto simp: leading_def find_Some_iff dest: prefix_length_le split: option.splits)

lemma leading_pos: "0 < leading patterns s \<Longrightarrow> s \<noteq> []"
  using leading_le[of patterns s] by auto

function strip_leading :: "string list \<Rightarrow> string \<Rightarrow> string" where
  "strip_leading patterns s =
     (if leading patterns s = 0 then s else strip_leading patterns (drop (leading patterns s) s))"
  by pat_completeness auto

termination
  by (relation "measure (\<lambda>(_, s). length s)") (auto simp: leading_pos)

declare strip_leading.simps [simp del]

definition trimSpace :: "string \<Rightarrow> string" where
  "trimSpace s = rev (strip_leading (map rev space_runes) (rev (strip_leading space_runes s)))"

definition emit :: "string \<Rightarrow> string list" where
  "emit word = (if word = [] then [] else [word])"

function fields_from :: "string \<Rightarrow> string \<Rightarrow> string list" where
  "fields_from word [] = emit word"
| "fields_from word (c # cs) =
     (if leading space_runes (c # cs) = 0 then fields_from (word @ [c]) cs
      else emit word @ fields_from [] (drop (leading space_runes (c # cs)) (c # cs)))"
  by pat_completeness auto

termination
  by (relation "measure (\<lambda>(_, s). length s)") auto

definition text_fields :: "string \<Rightarrow> string list" where
  "text_fields s = fields_from [] s"

text \<open>Words of a text are never empty.\<close>

lemma fields_from_not_Nil: "w \<in> set (fields_from word s) \<Longrightarrow> w \<noteq> []"
  by (induction word s rule: fields_from.induct) (auto simp: emit_def split: if_splits)

text \<open>A byte that starts no white space.\<close>

definition word_byte :: "char \<Rightarrow> bool" where
  "word_byte c \<longleftrightarrow> in_rng 0x21 0x7E c"

lemma leading_word: "word_byte c \<Longrightarrow> leading space_runes (c # cs) = 0"
proof -
  assume c: "word_byte c"
  have "list_all (\<lambda>p. p \<noteq> [] \<and> \<not> word_byte (hd p)) space_runes" by code_simp
  with c have "\<forall>p \<in> set space_runes. \<not> prefix p (c # cs)"
    by (auto simp: list_all_iff prefix_Cons)
  then have "find (\<lambda>p. prefix p (c # cs)) space_runes = None" by (auto simp: find_None_iff)
  then show ?thesis by (simp add: leading_def)
qed

lemma fields_from_word:
  "list_all word_byte w \<Longrightarrow> fields_from word (w @ s) = fields_from (word @ w) s"
  by (induction w arbitrary: word) (auto simp: leading_word)

lemma fields_from_blank: "fields_from word (CHR '' '' # s) = emit word @ fields_from [] s"
  by (simp add: leading_def space_runes_def)

section \<open>Decimal integers\<close>

text \<open>\<open>strconv.ParseInt(s, 10, 64)\<close>.\<close>

definition parse_unsigned :: "string \<Rightarrow> nat option" where
  "parse_unsigned ds = (if ds = [] \<or> \<not> list_all is_digit ds then None else Some (dec_value 0 ds))"

definition parseInt :: "string \<Rightarrow> int option" where
  "parseInt s =
     (let (negative, ds) = (case s of [] \<Rightarrow> (False, s) | c # cs \<Rightarrow>
            if c = CHR ''-'' then (True, cs) else if c = CHR ''+'' then (False, cs) else (False, s))
      in case parse_unsigned ds of
           None \<Rightarrow> None
         | Some n \<Rightarrow>
             if negative then (if n \<le> 2 ^ 63 then Some (- int n) else None)
             else (if n < 2 ^ 63 then Some (int n) else None))"

lemma parseInt_range: "parseInt s = Some v \<Longrightarrow> int64_range v"
  by (auto simp: parseInt_def int64_range_def Let_def split: list.splits if_splits option.splits)

lemma parseInt_decimal: "n < 2 ^ 63 \<Longrightarrow> parseInt (decimal n) = Some (int n)"
proof -
  assume n: "n < 2 ^ 63"
  obtain c cs where d: "decimal n = c # cs" by (cases "decimal n") auto
  have "is_digit c" using decimal_digits[of c n] d by simp
  then have "c \<noteq> CHR ''-''" "c \<noteq> CHR ''+''" by (auto simp: is_digit_def in_rng_def)
  moreover have "parse_unsigned (decimal n) = Some n"
    by (simp add: parse_unsigned_def list_all_iff decimal_digits)
  ultimately show ?thesis using n d by (simp add: parseInt_def)
qed

section \<open>Joining paths\<close>

definition path_isAbs :: "string \<Rightarrow> bool" where
  "path_isAbs s \<longleftrightarrow> prefix [slash] s"

definition path_join :: "string list \<Rightarrow> string" where
  "path_join parts =
     (let kept = dropWhile (\<lambda>p. p = []) parts
      in if kept = [] then [] else path_clean (join_with [slash] kept))"

text \<open>\<open>filepath.Abs\<close>, given the working directory or the error of asking for it.\<close>

definition path_abs :: "string result \<Rightarrow> string \<Rightarrow> string result" where
  "path_abs wd s = (if path_isAbs s then Inr (path_clean s) else bindr wd (\<lambda>d. Inr (path_join [d, s])))"

text \<open>The components of a cleaned rooted path.\<close>

definition rooted_components :: "string \<Rightarrow> string list" where
  "rooted_components s = clean_components True [] (split_on slash s)"

lemma rooted_components_plain: "list_all plain_component (rooted_components s)"
proof -
  have "clean_stack True (rev (rooted_components s))"
    unfolding rooted_components_def by (rule clean_components_stack) (simp add: clean_stack_def)
  then show ?thesis by (auto simp: clean_stack_def list_all_iff rev_swap)
qed

lemma path_clean_rooted: "path_isAbs s \<Longrightarrow> path_clean s = slash # join_with [slash] (rooted_components s)"
  by (simp add: path_clean_def path_isAbs_def rooted_components_def Let_def)

end
