(* ===== verification/TrustedExec.thy ===== *)
theory TrustedExec
  imports GoFields "HOL-Library.Word"
begin

unbundle bit_operations_syntax

text \<open>
  Pinned trusted executables (internal/trustedexec/trustedexec.go). What the kernel returns for
  an open is a descriptor with the metadata the code asks it for; opening is a parameter, a
  function of the path and of the flags the code passes.
\<close>

section \<open>Descriptors\<close>

text \<open>\<open>st_sys\<close> says whether the metadata carries a \<open>syscall.Stat_t\<close>.\<close>

record stat_info =
  st_sys :: bool
  st_regular :: bool
  st_dir :: bool
  st_perm :: "32 word"
  st_uid :: nat
  st_nlink :: nat

datatype elf_kind = ET_EXEC | ET_DYN | ET_OTHER
datatype prog_kind = PT_INTERP | PT_OTHER

record elf_file =
  ef_Type :: elf_kind
  ef_Progs :: "prog_kind list"
  ef_Libraries :: "string list result"

record descriptor =
  de_fd :: nat
  de_Stat :: "stat_info result"
  de_ELF :: "elf_file result"

record open_how =
  oh_Directory :: bool
  oh_Path :: bool
  oh_Beneath :: bool
  oh_NoSymlinks :: bool
  oh_NoMagiclinks :: bool
  oh_NoXdev :: bool

type_synonym kernel_open = "string \<Rightarrow> open_how \<Rightarrow> descriptor result"

section \<open>Opening\<close>

definition executable_how :: open_how where
  "executable_how = \<lparr>oh_Directory = False, oh_Path = False, oh_Beneath = False, oh_NoSymlinks = True,
     oh_NoMagiclinks = True, oh_NoXdev = False\<rparr>"

definition openOwned :: "kernel_open \<Rightarrow> string \<Rightarrow> nat \<Rightarrow> descriptor result" where
  "openOwned openat2 path owner =
     (if \<not> path_isAbs path then Inl (Errorf ''trusted executable path must be absolute'' [])
      else case openat2 path executable_how of
        Inl e \<Rightarrow> Inl (Wrapf ''open trusted executable without symlinks: %w'' [] e)
      | Inr file \<Rightarrow>
          bindr (de_Stat file) (\<lambda>info.
            andthen (first_error [
              check (\<not> st_sys info) ''trusted executable ownership is unavailable'' [],
              check (\<not> st_regular info) ''trusted executable must be a regular file'' [],
              check (st_perm info AND 0b001001001 = 0) ''trusted executable is not executable'' [],
              check (st_perm info AND 0b000010010 \<noteq> 0) ''trusted executable is group- or world-writable'' [],
              check (st_uid info \<noteq> owner) ''trusted executable is owned by uid %d, expected %d''
                [AInt (int (st_uid info)), AInt (int owner)]])
            (case de_ELF file of
               Inl e \<Rightarrow> Inl (Wrapf ''trusted executable is not an ELF binary: %w'' [] e)
             | Inr _ \<Rightarrow> Inr file)))"

definition trusted_Open :: "kernel_open \<Rightarrow> string \<Rightarrow> descriptor result" where
  "trusted_Open openat2 path = openOwned openat2 path 0"

text \<open>An \<open>*Executable\<close> that is \<open>nil\<close> or has no file is \<^const>\<open>None\<close>.\<close>

definition CommandPath :: "descriptor option \<Rightarrow> string list \<Rightarrow> (string \<times> string list) result" where
  "CommandPath e arguments =
     (case e of
        None \<Rightarrow> Inl (Errorf ''trusted executable descriptor is unavailable'' [])
      | Some file \<Rightarrow> Inr (''/proc/self/fd/'' @ decimal (de_fd file), arguments))"

section \<open>What is trusted\<close>

text \<open>Bits 0, 3 and 6 are the execute bits, bits 1 and 4 let the others and the group write.\<close>

definition trusted_file :: "nat \<Rightarrow> descriptor \<Rightarrow> bool" where
  "trusted_file owner file \<longleftrightarrow>
     (case (de_Stat file, de_ELF file) of
        (Inr info, Inr _) \<Rightarrow> st_sys info \<and> st_regular info \<and> st_uid info = owner
          \<and> (bit (st_perm info) 0 \<or> bit (st_perm info) 3 \<or> bit (st_perm info) 6)
          \<and> \<not> bit (st_perm info) 1 \<and> \<not> bit (st_perm info) 4
      | _ \<Rightarrow> False)"

lemma bit_masks:
  "bit (0b001001001 :: 32 word) n \<longleftrightarrow> n \<in> {0, 3, 6}" "bit (0b000010010 :: 32 word) n \<longleftrightarrow> n \<in> {1, 4}"
  by (auto simp: bit_numeral_rec bit_1_iff split: nat.splits)

lemma and_zero_iff:
  fixes w m :: "32 word"
  shows "w AND m = 0 \<longleftrightarrow> (\<forall>n. bit m n \<longrightarrow> \<not> bit w n)"
proof -
  have "n < 32" if "bit w n" for n using bit_imp_le_length[OF that] by simp
  then show ?thesis by (auto simp: bit_eq_iff bit_and_iff)
qed

lemma perm_bits:
  fixes w :: "32 word"
  shows "w AND 0b001001001 = 0 \<longleftrightarrow> \<not> (bit w 0 \<or> bit w 3 \<or> bit w 6)" "w AND 0b000010010 = 0 \<longleftrightarrow> \<not> bit w 1 \<and> \<not> bit w 4"
  unfolding and_zero_iff bit_masks by auto

lemma open_owned: "openOwned openat2 path owner = Inr file \<longleftrightarrow>
    path_isAbs path \<and> openat2 path executable_how = Inr file \<and> trusted_file owner file"
  unfolding openOwned_def trusted_file_def
  by (auto simp: bindr_Inr perm_bits split: sum.splits)

text \<open>
  C28. An executable is trusted exactly when its path is absolute, no symbolic or magic link was
  followed to open it, and the opened file is a regular ELF that its expected owner owns, that
  somebody may execute and that neither its group nor others may write.
\<close>

theorem openOwned_iff: "openOwned openat2 path owner = Inr file \<longleftrightarrow>
    path_isAbs path \<and> openat2 path executable_how = Inr file \<and> trusted_file owner file"
  by (rule open_owned)

end
