(* ===== verification/Policy.thy ===== *)
theory Policy
  imports GoText
begin

text \<open>
  The resource policy (internal/policy/limits.go). A \<open>time.Duration\<close> is a number of nanoseconds.
\<close>

named_theorems policy_defs \<open>values of the resource policy\<close>

definition Millisecond :: int where [policy_defs]: "Millisecond = 1000000"
definition Second :: int where [policy_defs]: "Second = 1000 * Millisecond"

definition MemoryMaxBytes :: int where [policy_defs]: "MemoryMaxBytes = 256 * 2 ^ 20"
definition MemorySwapBytes :: int where [policy_defs]: "MemorySwapBytes = 0"
definition TasksMax :: int where [policy_defs]: "TasksMax = 64"
definition CPUQuotaPercent :: int where [policy_defs]: "CPUQuotaPercent = 100"
definition OpenFilesMax :: int where [policy_defs]: "OpenFilesMax = 256"
definition WallTime :: int where [policy_defs]: "WallTime = 30 * Second"
definition ScopeRuntimeMax :: int where [policy_defs]: "ScopeRuntimeMax = 35 * Second"
definition ProcessWaitDelay :: int where [policy_defs]: "ProcessWaitDelay = 2 * Second"
definition TeardownTimeout :: int where [policy_defs]: "TeardownTimeout = 3 * Second"
definition TeardownCommandTimeout :: int where [policy_defs]: "TeardownCommandTimeout = 1 * Second"

definition OperationTimeout :: int where [policy_defs]:
  "OperationTimeout = ScopeRuntimeMax + ProcessWaitDelay + TeardownTimeout + ProcessWaitDelay"

definition ValidTimingPolicy :: bool where
  "ValidTimingPolicy \<longleftrightarrow> WallTime + ProcessWaitDelay < ScopeRuntimeMax
     \<and> TeardownCommandTimeout \<le> TeardownTimeout
     \<and> OperationTimeout = ScopeRuntimeMax + ProcessWaitDelay + TeardownTimeout + ProcessWaitDelay"

lemma timing_policy: "ValidTimingPolicy"
  by (simp add: ValidTimingPolicy_def policy_defs)

end
