(* ===== verification/ResourceScope.thy ===== *)
theory ResourceScope
  imports TrustedExec Policy
begin

text \<open>
  The resource scope of a review (internal/resource/scope.go): the unit name, the arguments of
  \<open>systemd-run\<close>, the verification of the limits from inside the scope, and its teardown.

  What the operating system does is a parameter: a state \<open>'w\<close> of the world and the calls of the
  record \<open>scope_io\<close> on it. A context is its deadline, in nanoseconds, or \<^const>\<open>None\<close>.
\<close>

section \<open>The world\<close>

datatype file_read = FileData string | NotExist go_error | ReadError go_error

record 'w scope_io =
  io_openat2 :: "'w \<Rightarrow> kernel_open"
  io_output :: "int option \<Rightarrow> string \<Rightarrow> string list \<Rightarrow> string list \<Rightarrow> 'w \<Rightarrow> string result \<times> 'w"
  io_run :: "int option \<Rightarrow> string \<Rightarrow> string list \<Rightarrow> string list \<Rightarrow> 'w \<Rightarrow> error \<times> 'w"
  io_readFile :: "string \<Rightarrow> 'w \<Rightarrow> file_read \<times> 'w"
  io_select :: "int option \<Rightarrow> 'w \<Rightarrow> error \<times> 'w"
  io_now :: "'w \<Rightarrow> int"
  io_euid :: nat
  io_getwd :: "string result"

text \<open>\<open>io_select\<close> is the \<open>select\<close> on the context and the ticker: an error when the context is done.\<close>

definition minTime :: "int \<Rightarrow> int \<Rightarrow> int" where
  "minTime a b = (if a < b then a else b)"

definition withDeadline :: "int option \<Rightarrow> int \<Rightarrow> int option" where
  "withDeadline ctx d = Some (case ctx of None \<Rightarrow> d | Some e \<Rightarrow> min e d)"

definition withTimeout :: "'w scope_io \<Rightarrow> int option \<Rightarrow> int \<Rightarrow> 'w \<Rightarrow> int option" where
  "withTimeout io ctx d w = withDeadline ctx (io_now io w + d)"

section \<open>Names and text\<close>

record Manager =
  mg_SystemdRun :: string
  mg_Systemctl :: string
  mg_CgroupRoot :: string
  mg_ProcCgroup :: string

definition systemdRunPath :: string where "systemdRunPath = ''/usr/bin/systemd-run''"
definition systemctlPath :: string where "systemctlPath = ''/usr/bin/systemctl''"

definition DefaultManager :: "kernel_open \<Rightarrow> Manager result" where
  "DefaultManager openat2 =
     (case trusted_Open openat2 systemdRunPath of
        Inl e \<Rightarrow> Inl (Wrapf ''trusted systemd-run is required; refusing to scan without resource containment: %w'' [] e)
      | Inr _ \<Rightarrow>
          (case trusted_Open openat2 systemctlPath of
             Inl e \<Rightarrow> Inl (Wrapf ''trusted systemctl is required; refusing to scan without runtime verification: %w'' [] e)
           | Inr _ \<Rightarrow> Inr \<lparr>mg_SystemdRun = systemdRunPath, mg_Systemctl = systemctlPath,
               mg_CgroupRoot = ''/sys/fs/cgroup'', mg_ProcCgroup = ''/proc/self/cgroup''\<rparr>))"

text \<open>The nonce is the result of \<open>rand.Read\<close> into twelve bytes.\<close>

definition NewUnitName :: "string result \<Rightarrow> string result" where
  "NewUnitName nonce =
     (case nonce of
        Inl e \<Rightarrow> Inl (Wrapf ''generate scope nonce: %w'' [] e)
      | Inr bytes \<Rightarrow> Inr (''plug-prejudice-'' @ hexEncode bytes @ ''.scope''))"

definition validUnitName :: "string \<Rightarrow> bool" where
  "validUnitName unit =
     (if \<not> hasPrefix unit ''plug-prejudice-'' \<or> \<not> hasSuffix unit ''.scope'' then False
      else let nonce = trimSuffix (trimPrefix unit ''plug-prejudice-'') ''.scope''
        in length nonce = 24 \<and> hexDecode nonce \<noteq> None)"

text \<open>\<open>%d\<close> of a policy constant, none of which is negative, and \<open>%s\<close> of the scope's lifetime.\<close>

definition scope_Arguments :: "string \<Rightarrow> string \<Rightarrow> string list \<Rightarrow> string list" where
  "scope_Arguments unit executable arguments =
     [''--user'', ''--scope'', ''--unit'', unit, ''--quiet'', ''--collect'',
      ''--property=MemoryAccounting=yes'',
      ''--property=MemoryMax='' @ decimal (nat MemoryMaxBytes),
      ''--property=MemorySwapMax='' @ decimal (nat MemorySwapBytes),
      ''--property=TasksAccounting=yes'',
      ''--property=TasksMax='' @ decimal (nat TasksMax),
      ''--property=CPUQuota='' @ decimal (nat CPUQuotaPercent) @ ''%'',
      ''--property=RuntimeMaxSec='' @ decimal (nat (ScopeRuntimeMax div Second)) @ ''s'',
      ''--'', executable] @ arguments"

fun unified_loop :: "string list \<Rightarrow> string result" where
  "unified_loop [] = Inl (Errorf ''unified cgroup v2 path is unavailable'' [])"
| "unified_loop (line # rest) =
     (if hasPrefix line ''0::/'' then Inr (trimPrefix line ''0::'') else unified_loop rest)"

definition unifiedCgroupPath :: "string \<Rightarrow> string result" where
  "unifiedCgroupPath d = unified_loop (split_on CHR 0x0A d)"

definition readLimit :: "(string \<Rightarrow> file_read) \<Rightarrow> string \<Rightarrow> int result" where
  "readLimit readFile name =
     (case readFile name of
        NotExist e \<Rightarrow> Inl e
      | ReadError e \<Rightarrow> Inl e
      | FileData d \<Rightarrow>
          (let text = trimSpace d in
           if text = ''max'' then Inr (- 1)
           else case parseInt text of
             None \<Rightarrow> Inl (Errorf ''parse %q: %w'' [AStr text])
           | Some value \<Rightarrow> Inr value))"

text \<open>State of the scan for the populated line: whether it was found, and its value.\<close>

definition populated_step :: "string \<Rightarrow> bool \<times> bool \<Rightarrow> (bool \<times> bool) result" where
  "populated_step line = (\<lambda>(found, populated).
     (case text_fields line of
        [key, value] \<Rightarrow>
          if key = ''populated'' then
            andthen (check (found \<or> (value \<noteq> ''0'' \<and> value \<noteq> ''1''))
              ''cgroup.events has malformed or duplicate populated state'' [])
            (Inr (True, value = ''1''))
          else Inr (found, populated)
      | _ \<Rightarrow> Inr (found, populated)))"

definition parseCgroupPopulated :: "string \<Rightarrow> bool result" where
  "parseCgroupPopulated d =
     andthen (check (length d > 4096) ''cgroup.events exceeds limit'' [])
     (bindr (loop populated_step (split_on CHR 0x0A (trimSpace d)) (False, False)) (\<lambda>(found, populated).
       andthen (check (\<not> found) ''cgroup.events omits populated state'' []) (Inr populated)))"

text \<open>\<open>^[0-9]+(?:\.[0-9]+)?(?:us|ms|s)$\<close>\<close>

definition runtimeDurationPattern :: "string \<Rightarrow> bool" where
  "runtimeDurationPattern text =
     (let digits = takeWhile is_digit text; rest = dropWhile is_digit text;
          units = [''us'', ''ms'', ''s'']
      in digits \<noteq> [] \<and>
        (case rest of
           [] \<Rightarrow> False
         | c # fraction \<Rightarrow>
             if c = CHR ''.'' then takeWhile is_digit fraction \<noteq> [] \<and> oneOf (dropWhile is_digit fraction) units
             else oneOf rest units))"

text \<open>\<open>time.ParseDuration\<close> computes fractions in floating point; it is a parameter.\<close>

definition verifyRuntimeMax :: "(string \<Rightarrow> int result) \<Rightarrow> string \<Rightarrow> error" where
  "verifyRuntimeMax parseDuration value =
     (let text = trimSuffix value [CHR 0x0A] in
      if contains text [CHR 0x0A] \<or> \<not> runtimeDurationPattern text then
        Some (Errorf ''RuntimeMaxUSec is %q, expected supported systemd duration syntax'' [AStr value])
      else case parseDuration text of
        Inl _ \<Rightarrow> Some (Errorf ''RuntimeMaxUSec is %q, expected at most %s'' [AStr text, AInt ScopeRuntimeMax])
      | Inr duration \<Rightarrow> check (duration \<le> 0 \<or> duration > ScopeRuntimeMax)
          ''RuntimeMaxUSec is %q, expected at most %s'' [AStr text, AInt ScopeRuntimeMax])"

section \<open>Verification from inside the scope\<close>

definition limit_checks :: "(string \<times> int) list" where
  "limit_checks = [(''memory.max'', MemoryMaxBytes), (''memory.swap.max'', MemorySwapBytes), (''pids.max'', TasksMax)]"

definition limit_error :: "(string \<Rightarrow> file_read) \<Rightarrow> string \<Rightarrow> string \<times> int \<Rightarrow> error" where
  "limit_error readFile directory = (\<lambda>(name, maximum).
     (case readLimit readFile (path_join [directory, name]) of
        Inl e \<Rightarrow> Some (Wrapf ''verify %s: %w'' [AStr name] e)
      | Inr value \<Rightarrow> check (value < 0 \<or> value > maximum) ''%s is %d, expected at most %d''
          [AStr name, AInt value, AInt maximum]))"

definition cpu_error :: "string \<Rightarrow> error" where
  "cpu_error cpu =
     (case text_fields cpu of
        [q, p] \<Rightarrow>
          if q = ''max'' then Some (Errorf ''cpu.max is not bounded: %q'' [AStr (trimSpace cpu)])
          else (case (parseInt q, parseInt p) of
            (Some quota, Some period) \<Rightarrow>
              check (quota \<le> 0 \<or> period \<le> 0 \<or> CPUQuotaPercent \<noteq> 100 \<or> quota > period)
                ''cpu.max exceeds %d%%: %q'' [AInt CPUQuotaPercent, AStr (trimSpace cpu)]
          | _ \<Rightarrow> Some (Errorf ''cpu.max exceeds %d%%: %q'' [AInt CPUQuotaPercent, AStr (trimSpace cpu)]))
      | _ \<Rightarrow> Some (Errorf ''cpu.max is not bounded: %q'' [AStr (trimSpace cpu)]))"

definition beneath :: "string \<Rightarrow> string \<Rightarrow> bool" where
  "beneath root directory \<longleftrightarrow> hasPrefix directory (root @ [slash])"

text \<open>The checks on the directory of the current cgroup.\<close>

definition directory_error :: "(string \<Rightarrow> file_read) \<Rightarrow> string \<Rightarrow> error" where
  "directory_error readFile directory = first_error [
     first_error (map (limit_error readFile directory) limit_checks),
     (case readFile (path_join [directory, ''cpu.max'']) of
        NotExist e \<Rightarrow> Some (Wrapf ''verify cpu.max: %w'' [] e)
      | ReadError e \<Rightarrow> Some (Wrapf ''verify cpu.max: %w'' [] e)
      | FileData cpu \<Rightarrow> cpu_error cpu)]"

definition Verify :: "string result \<Rightarrow> (string \<Rightarrow> file_read) \<Rightarrow> Manager \<Rightarrow> string \<Rightarrow> error" where
  "Verify getwd readFile m unit = error_of (
     andthen (check (\<not> validUnitName unit) ''resource scope unit name is invalid'' [])
     (case readFile (mg_ProcCgroup m) of
        NotExist e \<Rightarrow> Inl (Wrapf ''read current cgroup: %w'' [] e)
      | ReadError e \<Rightarrow> Inl (Wrapf ''read current cgroup: %w'' [] e)
      | FileData d \<Rightarrow>
          bindr (unifiedCgroupPath d) (\<lambda>cgroupPath.
          andthen (check (path_base cgroupPath \<noteq> unit) ''current cgroup %q is not expected scope %q''
            [AStr cgroupPath, AStr unit])
          (case path_abs getwd (mg_CgroupRoot m) of
             Inl e \<Rightarrow> Inl (Wrapf ''resolve cgroup root: %w'' [] e)
           | Inr root \<Rightarrow>
               (let directory = path_join [root, trimPrefix (path_clean cgroupPath) [slash]] in
                andthen (first_error [
                  check (directory \<noteq> root \<and> \<not> beneath root directory) ''current cgroup escapes cgroup root'' [],
                  directory_error readFile directory])
                (Inr ()))))))"

section \<open>Trusted commands\<close>

definition runtime_how :: open_how where
  "runtime_how = \<lparr>oh_Directory = True, oh_Path = True, oh_Beneath = False, oh_NoSymlinks = True,
     oh_NoMagiclinks = True, oh_NoXdev = False\<rparr>"

definition userManagerEnvironment :: "nat \<Rightarrow> kernel_open \<Rightarrow> string list result" where
  "userManagerEnvironment euid openat2 =
     (let runtimeDirectory = ''/run/user/'' @ decimal euid in
      case openat2 runtimeDirectory runtime_how of
        Inl e \<Rightarrow> Inl (Wrapf ''open user runtime directory: %w'' [] e)
      | Inr file \<Rightarrow>
          (case de_Stat file of
             Inl e \<Rightarrow> Inl (Wrapf ''inspect user runtime directory: %w'' [] e)
           | Inr info \<Rightarrow>
               andthen (check (\<not> st_sys info \<or> \<not> st_dir info \<or> st_uid info \<noteq> euid
                   \<or> st_perm info AND 0b000111111 \<noteq> 0)
                 ''user runtime directory has unsafe ownership, type, or mode'' [])
               (Inr [''XDG_RUNTIME_DIR='' @ runtimeDirectory, ''LANG=C'', ''LC_ALL=C'', ''SYSTEMD_PAGER=cat'',
                 ''SYSTEMD_COLORS=0'', ''SYSTEMD_URLIFY=0''])))"

definition systemctl :: "'w scope_io \<Rightarrow> Manager \<Rightarrow> int option \<Rightarrow> string list \<Rightarrow> 'w \<Rightarrow> string result \<times> 'w" where
  "systemctl io m ctx arguments w =
     (if mg_Systemctl m = [] then (Inl (Errorf ''systemctl path is empty'' []), w)
      else case trusted_Open (io_openat2 io w) (mg_Systemctl m) of
        Inl e \<Rightarrow> (Inl (Wrapf ''pin systemctl: %w'' [] e), w)
      | Inr executable \<Rightarrow>
          (case CommandPath (Some executable) (''--user'' # arguments) of
             Inl e \<Rightarrow> (Inl e, w)
           | Inr (procPath, args) \<Rightarrow>
               (case userManagerEnvironment (io_euid io) (io_openat2 io w) of
                  Inl e \<Rightarrow> (Inl (Wrapf ''construct trusted systemctl environment: %w'' [] e), w)
                | Inr env \<Rightarrow> io_output io ctx procPath args env w)))"

definition VerifyRuntime ::
  "(string \<Rightarrow> int result) \<Rightarrow> 'w scope_io \<Rightarrow> Manager \<Rightarrow> int option \<Rightarrow> string \<Rightarrow> 'w \<Rightarrow> error \<times> 'w" where
  "VerifyRuntime parseDuration io m ctx unit w =
     (if \<not> validUnitName unit then (Some (Errorf ''resource scope unit name is invalid'' []), w)
      else case systemctl io m ctx [''show'', unit, ''--property=RuntimeMaxUSec'', ''--value'', ''--no-pager''] w of
        (Inl e, w1) \<Rightarrow> (Some (Wrapf ''query live scope lifetime: %w'' [] e), w1)
      | (Inr output, w1) \<Rightarrow>
          (if length output > 128 then (Some (Errorf ''live scope lifetime response exceeds limit'' []), w1)
           else (verifyRuntimeMax parseDuration output, w1)))"

section \<open>Teardown\<close>

definition cgroupDirectory :: "string result \<Rightarrow> Manager \<Rightarrow> string \<Rightarrow> string \<Rightarrow> string result" where
  "cgroupDirectory getwd m unit cgroupPath =
     andthen (check (cgroupPath = [] \<or> \<not> path_isAbs cgroupPath \<or> path_clean cgroupPath \<noteq> cgroupPath
         \<or> path_base cgroupPath \<noteq> unit)
       ''scope ControlGroup is empty, malformed, or does not match the expected unit'' [])
     (case path_abs getwd (mg_CgroupRoot m) of
        Inl e \<Rightarrow> Inl (Wrapf ''resolve cgroup root: %w'' [] e)
      | Inr root \<Rightarrow>
          (let directory = path_join [root, trimPrefix cgroupPath [slash]] in
           andthen (check (directory = root \<or> \<not> beneath root directory)
             ''scope ControlGroup escapes cgroup root'' [])
           (Inr directory)))"

definition terminalStateWithoutControlGroup :: "string \<Rightarrow> string \<Rightarrow> bool" where
  "terminalStateWithoutControlGroup loadState activeState \<longleftrightarrow>
     loadState = ''loaded'' \<and> (activeState = ''inactive'' \<or> activeState = ''failed'')"

definition teardownResult :: "error \<Rightarrow> error \<Rightarrow> error" where
  "teardownResult killErr waitErr =
     (case waitErr of
        None \<Rightarrow> None
      | Some w \<Rightarrow>
          (case killErr of
             Some k \<Rightarrow> Some (Joined (Wrapf ''request whole-scope termination: %w'' [] k) w)
           | None \<Rightarrow> Some (Wrapf ''verify whole-scope termination: %w'' [] w)))"

partial_function (option) waitCgroupEmpty ::
  "'w scope_io \<Rightarrow> int option \<Rightarrow> string \<Rightarrow> 'w \<Rightarrow> (error \<times> 'w) option" where
  "waitCgroupEmpty io ctx directory w =
     (case io_readFile io (path_join [directory, ''cgroup.events'']) w of
        (NotExist e, w1) \<Rightarrow> Some (None, w1)
      | (ReadError e, w1) \<Rightarrow> Some (Some e, w1)
      | (FileData d, w1) \<Rightarrow>
          (case parseCgroupPopulated d of
             Inl e \<Rightarrow> Some (Some e, w1)
           | Inr populated \<Rightarrow>
               if \<not> populated then Some (None, w1)
               else (case io_select io ctx w1 of
                 (Some e, w2) \<Rightarrow> Some (Some e, w2)
               | (None, w2) \<Rightarrow> waitCgroupEmpty io ctx directory w2)))"

text \<open>From the control group on: kill the whole scope and wait until it is empty.\<close>

definition kill_scope ::
  "'w scope_io \<Rightarrow> Manager \<Rightarrow> int option \<Rightarrow> string \<Rightarrow> string \<Rightarrow> 'w \<Rightarrow> (error \<times> 'w) option" where
  "kill_scope io m teardown unit controlGroup w =
     (case cgroupDirectory (io_getwd io) m unit controlGroup of
        Inl e \<Rightarrow> Some (Some (Wrapf ''validate resource scope cgroup: %w'' [] e), w)
      | Inr directory \<Rightarrow>
          (case systemctl io m (withTimeout io teardown TeardownCommandTimeout w)
              [''kill'', unit, ''--kill-whom=all'', ''--signal=KILL'', ''--no-block''] w of
             (killed, w1) \<Rightarrow>
               map_option (\<lambda>(waitErr, w2). (teardownResult (error_of killed) waitErr, w2))
                 (waitCgroupEmpty io teardown directory w1)))"

text \<open>An empty \<open>ControlGroup\<close>: only a unit known to be finished counts as torn down.\<close>

definition finished_scope ::
  "'w scope_io \<Rightarrow> Manager \<Rightarrow> int option \<Rightarrow> string \<Rightarrow> string \<Rightarrow> 'w \<Rightarrow> error \<times> 'w" where
  "finished_scope io m teardown unit loadState w =
     (case systemctl io m teardown [''show'', unit, ''--property=ActiveState'', ''--value'', ''--no-pager''] w of
        (activeState, w1) \<Rightarrow>
          (if (case activeState of Inl _ \<Rightarrow> False | Inr s \<Rightarrow> length s \<le> 128
                \<and> terminalStateWithoutControlGroup (trimSpace loadState) (trimSpace s))
           then (None, w1)
           else (Some (Errorf ''resource scope has no ControlGroup but is not confirmed inactive'' []), w1)))"

definition Terminate :: "'w scope_io \<Rightarrow> Manager \<Rightarrow> int option \<Rightarrow> string \<Rightarrow> 'w \<Rightarrow> (error \<times> 'w) option" where
  "Terminate io m ctx unit w =
     (if \<not> validUnitName unit then Some (Some (Errorf ''resource scope unit name is invalid'' []), w)
      else let teardown = withTimeout io ctx TeardownTimeout w in
        (case systemctl io m teardown [''show'', unit, ''--property=LoadState'', ''--value'', ''--no-pager''] w of
           (Inl e, w1) \<Rightarrow> Some (Some (Wrapf ''query resource scope before teardown: %w'' [] e), w1)
         | (Inr loadState, w1) \<Rightarrow>
             if length loadState > 128 then
               Some (Some (Errorf ''resource scope LoadState response exceeds limit'' []), w1)
             else if trimSpace loadState = ''not-found'' then Some (None, w1)
             else (case systemctl io m teardown
                 [''show'', unit, ''--property=ControlGroup'', ''--value'', ''--no-pager''] w1 of
               (Inl e, w2) \<Rightarrow> Some (Some (Wrapf ''query resource scope cgroup: %w'' [] e), w2)
             | (Inr controlGroup, w2) \<Rightarrow>
                 if length controlGroup > 4096 then
                   Some (Some (Errorf ''resource scope ControlGroup response exceeds limit'' []), w2)
                 else if trimSpace controlGroup = [] then Some (finished_scope io m teardown unit loadState w2)
                 else kill_scope io m teardown unit (trimSpace controlGroup) w2)))"

section \<open>Running a command in a scope\<close>

record operationDeadlines =
  od_operationEnd :: int
  od_runEnd :: int

definition deadlinesFor :: "int \<Rightarrow> operationDeadlines" where
  "deadlinesFor start =
     (let operationEnd = start + OperationTimeout in
      \<lparr>od_operationEnd = operationEnd, od_runEnd = operationEnd - (TeardownTimeout + 2 * ProcessWaitDelay)\<rparr>)"

definition teardownEnd :: "operationDeadlines \<Rightarrow> int \<Rightarrow> int" where
  "teardownEnd deadlines now = minTime (od_operationEnd deadlines - ProcessWaitDelay) (now + TeardownTimeout)"

text \<open>The errors of the run and of the teardown, joined.\<close>

definition run_result :: "error \<Rightarrow> error \<Rightarrow> error" where
  "run_result runErr teardownErr =
     (case runErr of
        Some r \<Rightarrow> (case teardownErr of Some t \<Rightarrow> Some (Joined r t) | None \<Rightarrow> Some r)
      | None \<Rightarrow> teardownErr)"

definition Manager_Run ::
  "'w scope_io \<Rightarrow> Manager \<Rightarrow> int option \<Rightarrow> string \<Rightarrow> string \<Rightarrow> string list \<Rightarrow> 'w \<Rightarrow> (error \<times> 'w) option" where
  "Manager_Run io m ctx unit executable arguments w =
     (if mg_SystemdRun m = [] then Some (Some (Errorf ''systemd-run path is empty'' []), w)
      else if \<not> validUnitName unit then Some (Some (Errorf ''resource scope unit name is invalid'' []), w)
      else case trusted_Open (io_openat2 io w) (mg_SystemdRun m) of
        Inl e \<Rightarrow> Some (Some (Wrapf ''pin systemd-run: %w'' [] e), w)
      | Inr systemdRun \<Rightarrow>
          (case CommandPath (Some systemdRun) (scope_Arguments unit executable arguments) of
             Inl e \<Rightarrow> Some (Some e, w)
           | Inr (procPath, args) \<Rightarrow>
               if \<not> ValidTimingPolicy then Some (Some (Errorf ''resource timing policy is internally inconsistent'' []), w)
               else let deadlines = deadlinesFor (io_now io w) in
                 (case userManagerEnvironment (io_euid io) (io_openat2 io w) of
                    Inl e \<Rightarrow> Some (Some (Wrapf ''construct trusted systemd-run environment: %w'' [] e), w)
                  | Inr env \<Rightarrow>
                      (case io_run io (withDeadline ctx (od_runEnd deadlines)) procPath args env w of
                         (runErr, w1) \<Rightarrow>
                           map_option (\<lambda>(teardownErr, w2). (run_result runErr teardownErr, w2))
                             (Terminate io m (Some (teardownEnd deadlines (io_now io w1))) unit w1)))))"

section \<open>Process limits\<close>

text \<open>The kernel's table of soft and hard limits, and the errors of reading and setting one.\<close>

type_synonym rlimits = "nat \<Rightarrow> nat \<times> nat"

definition RLIMIT_CORE :: nat where "RLIMIT_CORE = 4"
definition RLIMIT_NOFILE :: nat where "RLIMIT_NOFILE = 7"

fun apply_limits :: "(nat \<Rightarrow> error) \<Rightarrow> (nat \<Rightarrow> error) \<Rightarrow> (nat \<times> nat) list \<Rightarrow> rlimits \<Rightarrow> error \<times> rlimits" where
  "apply_limits getErr setErr [] t = (None, t)"
| "apply_limits getErr setErr ((res, value) # rest) t =
     (case getErr res of
        Some e \<Rightarrow> (Some (Wrapf ''read process resource limit %d: %w'' [AInt (int res)] e), t)
      | None \<Rightarrow>
          (let cur = min (fst (t res)) value; hard = min (snd (t res)) value;
               soft = (if cur > hard then hard else cur)
           in case setErr res of
                Some e \<Rightarrow> (Some (Wrapf ''set process resource limit %d: %w'' [AInt (int res)] e), t)
              | None \<Rightarrow> apply_limits getErr setErr rest (t(res := (soft, hard)))))"

definition ApplyProcessLimits :: "(nat \<Rightarrow> error) \<Rightarrow> (nat \<Rightarrow> error) \<Rightarrow> rlimits \<Rightarrow> error \<times> rlimits" where
  "ApplyProcessLimits getErr setErr t =
     apply_limits getErr setErr [(RLIMIT_CORE, 0), (RLIMIT_NOFILE, nat OpenFilesMax)] t"

end
