(* ===== verification/ScopeGuarantees.thy ===== *)
theory ScopeGuarantees
  imports ResourceScope "HOL-Library.Code_Target_Nat"
begin

text \<open>
  What the resource scope guarantees: names that cannot be confused, directories that cannot
  leave the cgroup tree, limits that are really in force, a teardown that always returns and
  succeeds only when the scope is gone, and process limits that are only ever lowered.
\<close>

section \<open>Unit names\<close>

abbreviation unit_prefix :: string where "unit_prefix \<equiv> ''plug-prejudice-''"
abbreviation unit_suffix :: string where "unit_suffix \<equiv> ''.scope''"

lemma hexDecode_even: "hexDecode s \<noteq> None \<longleftrightarrow> even (length s) \<and> list_all (\<lambda>c. fromHexChar c \<noteq> None) s"
proof
  assume "hexDecode s \<noteq> None"
  then show "even (length s) \<and> list_all (\<lambda>c. fromHexChar c \<noteq> None) s"
    by (auto simp: list_all_iff dest!: hexDecode_Some)
next
  assume "even (length s) \<and> list_all (\<lambda>c. fromHexChar c \<noteq> None) s"
  then obtain n where "length s = 2 * n" "\<forall>c \<in> set s. fromHexChar c \<noteq> None" by (auto simp: list_all_iff elim: evenE)
  from hexDecode_total[OF this] show "hexDecode s \<noteq> None" by auto
qed

lemma suffix_of_tail: "suffix s (p @ r) \<Longrightarrow> length s \<le> length r \<Longrightarrow> suffix s r"
  by (meson suffix_append suffix_length_suffix suffixI)

lemma trimPrefix_append: "trimPrefix (p @ r) p = r"
  by (simp add: trimPrefix_def)

lemma trimSuffix_append: "trimSuffix (r @ p) p = r"
  by (simp add: trimSuffix_def suffixI)

lemma path_base_last: "slash \<notin> set u \<Longrightarrow> u \<noteq> [] \<Longrightarrow> path_base (p @ slash # u) = u"
proof -
  assume u: "slash \<notin> set u" "u \<noteq> []"
  obtain c cs where c: "rev u = c # cs" using u(2) by (cases "rev u") auto
  have "c \<noteq> slash" using u(1) c by (metis list.set_intros(1) set_rev)
  then have "dropWhile (\<lambda>x. x = slash) (rev u @ slash # rev p) = rev u @ slash # rev p" by (simp add: c)
  moreover have "takeWhile (\<lambda>x. x \<noteq> slash) (rev u @ slash # rev p) = rev u"
    using u(1) by (subst takeWhile_append2) auto
  ultimately show ?thesis using u(2) by (simp add: path_base_def Let_def)
qed

lemma validUnitName_frame:
  "validUnitName (unit_prefix @ nonce @ unit_suffix) \<longleftrightarrow> length nonce = 24 \<and> list_all (\<lambda>c. fromHexChar c \<noteq> None) nonce"
proof -
  let ?u = "unit_prefix @ nonce @ unit_suffix"
  have "hasPrefix ?u unit_prefix" unfolding hasPrefix_def by (rule prefixI) (rule refl)
  moreover have "hasSuffix ?u unit_suffix" unfolding hasSuffix_def by (metis append.assoc suffixI)
  ultimately show ?thesis
    unfolding validUnitName_def Let_def trimPrefix_append trimSuffix_append hexDecode_even by auto
qed

lemma validUnitName_shape:
  "validUnitName u \<longleftrightarrow>
     (\<exists>nonce. u = unit_prefix @ nonce @ unit_suffix \<and> length nonce = 24 \<and> list_all (\<lambda>c. fromHexChar c \<noteq> None) nonce)"
proof
  assume v: "validUnitName u"
  then have pre: "prefix unit_prefix u" and suf: "suffix unit_suffix u"
    and nonce: "length (trimSuffix (trimPrefix u unit_prefix) unit_suffix) = 24"
    unfolding validUnitName_def hasPrefix_def hasSuffix_def Let_def if_bool_eq_conj by argo+
  obtain r where r: "u = unit_prefix @ r" using pre by (auto simp only: prefix_def)
  have "length (trimSuffix r unit_suffix) \<le> length r" by (simp add: trimSuffix_def)
  with nonce have "24 \<le> length r" unfolding r trimPrefix_append by linarith
  then have "length unit_suffix \<le> length r" by simp
  with suf[unfolded r] have "suffix unit_suffix r" by (rule suffix_of_tail)
  then obtain n where n: "r = n @ unit_suffix" by (auto simp only: suffix_def)
  show "\<exists>nonce. u = unit_prefix @ nonce @ unit_suffix \<and> length nonce = 24 \<and> list_all (\<lambda>c. fromHexChar c \<noteq> None) nonce"
    using v unfolding r n validUnitName_frame by blast
next
  assume "\<exists>nonce. u = unit_prefix @ nonce @ unit_suffix \<and> length nonce = 24 \<and> list_all (\<lambda>c. fromHexChar c \<noteq> None) nonce"
  then obtain nonce where n: "u = unit_prefix @ nonce @ unit_suffix" "length nonce = 24"
    "list_all (\<lambda>c. fromHexChar c \<noteq> None) nonce" by blast
  show "validUnitName u" unfolding n(1) validUnitName_frame using n(2,3) by blast
qed

lemma validUnitName_slash: "validUnitName u \<Longrightarrow> slash \<notin> set u \<and> u \<noteq> []"
proof -
  assume "validUnitName u"
  then obtain nonce where u: "u = unit_prefix @ nonce @ unit_suffix" "list_all (\<lambda>c. fromHexChar c \<noteq> None) nonce"
    unfolding validUnitName_shape by blast
  have "fromHexChar slash = None" "slash \<notin> set unit_prefix" "slash \<notin> set unit_suffix" by code_simp+
  then show ?thesis unfolding u(1) using u(2) by (auto simp only: list_all_iff set_append append_is_Nil_conv)
qed

text \<open>
  The name generated for a scope is always one the manager accepts, whatever twelve random
  bytes were drawn, and in a cgroup path that ends in it the name is the whole last component.
\<close>

theorem NewUnitName_valid:
  assumes "length nonce = 12"
  shows "\<exists>u. NewUnitName (Inr nonce) = Inr u \<and> validUnitName u \<and> (\<forall>parent. path_base (parent @ slash # u) = u)"
proof -
  let ?u = "unit_prefix @ hexEncode nonce @ unit_suffix"
  have "list_all (\<lambda>c. fromHexChar c \<noteq> None) (hexEncode nonce)" "length (hexEncode nonce) = 24"
    using hexDecode_hexEncode[of nonce] hexDecode_even[of "hexEncode nonce"] assms by auto
  then have v: "validUnitName ?u" by (simp only: validUnitName_frame)
  from validUnitName_slash[OF v] have "path_base (p @ slash # ?u) = ?u" for p by (intro path_base_last) simp_all
  with v show ?thesis unfolding NewUnitName_def sum.case by blast
qed

theorem NewUnitName_valid_witness:
  "\<exists>u. NewUnitName (Inr (replicate 12 CHR 0xFF)) = Inr u \<and> validUnitName u \<and> (\<forall>parent. path_base (parent @ slash # u) = u)"
  by (rule NewUnitName_valid) simp

section \<open>Directories beneath the cgroup root\<close>

lemma clean_components_skip:
  "list_all (\<lambda>c. c = [] \<or> plain_component c) cs \<Longrightarrow> clean_components rooted st cs = rev st @ filter (\<lambda>c. c \<noteq> []) cs"
  by (induction cs arbitrary: st) (auto simp: plain_component_def)

lemma rooted_components_free: "c \<in> set (rooted_components s) \<Longrightarrow> slash \<notin> set c"
  unfolding rooted_components_def by (rule clean_components_slash_free)

lemma plain_filter: "list_all plain_component cs \<Longrightarrow> filter (\<lambda>c. c \<noteq> []) cs = cs"
  by (auto simp: list_all_iff plain_component_def intro: filter_True)

lemma split_join_filter:
  assumes "\<And>c. c \<in> set cs \<Longrightarrow> slash \<notin> set c" and "list_all plain_component cs"
  shows "filter (\<lambda>c. c \<noteq> []) (split_on slash (join_with [slash] cs)) = cs"
    and "list_all (\<lambda>c. c = [] \<or> plain_component c) (split_on slash (join_with [slash] cs))"
proof -
  have "split_on slash (join_with [slash] cs) = (if cs = [] then [[]] else cs)"
    using split_on_join_with[of cs slash] assms(1) by auto
  then show "filter (\<lambda>c. c \<noteq> []) (split_on slash (join_with [slash] cs)) = cs"
    and "list_all (\<lambda>c. c = [] \<or> plain_component c) (split_on slash (join_with [slash] cs))"
    using assms(2) by (auto simp: plain_filter list_all_iff)
qed

text \<open>A rooted path and what follows its root, joined with a slash.\<close>

lemma clean_append:
  assumes "list_all plain_component xs" "list_all plain_component ys"
    and "\<And>c. c \<in> set (xs @ ys) \<Longrightarrow> slash \<notin> set c"
  shows "path_clean ((slash # join_with [slash] xs) @ slash # join_with [slash] ys) = slash # join_with [slash] (xs @ ys)"
proof -
  have split: "split_on slash ((slash # a) @ slash # b) = [] # split_on slash a @ split_on slash b" for a b
  proof (induction a)
    case (Cons c a)
    then show ?case by (cases "split_on slash a") (auto split: list.splits)
  qed simp
  have "clean_components True [] (split_on slash ((slash # join_with [slash] xs) @ slash # join_with [slash] ys)) = xs @ ys"
    unfolding split using assms
    by (subst clean_components_skip) (simp_all add: split_join_filter)
  then show ?thesis by (simp add: path_clean_def Let_def)
qed

lemma join_rooted:
  assumes "path_isAbs root" "path_isAbs p"
  shows "path_join [path_clean root, trimPrefix (path_clean p) [slash]] =
    slash # join_with [slash] (rooted_components root @ rooted_components p)"
proof -
  have trim: "trimPrefix (path_clean p) [slash] = join_with [slash] (rooted_components p)"
    by (simp add: path_clean_rooted[OF assms(2)] trimPrefix_def)
  show ?thesis
    unfolding trim path_clean_rooted[OF assms(1)]
    using clean_append[of "rooted_components root" "rooted_components p"] rooted_components_plain rooted_components_free
    by (auto simp: path_join_def Let_def)
qed

lemma join_with_append:
  "xs \<noteq> [] \<Longrightarrow> ys \<noteq> [] \<Longrightarrow> join_with d (xs @ ys) = join_with d xs @ d @ join_with d ys"
proof (induction xs)
  case (Cons x xs)
  then show ?case by (cases "xs = []") (simp_all add: join_with_Cons)
qed simp

lemma beneath_join:
  assumes "ys \<noteq> []" and "xs \<noteq> []"
  shows "beneath (slash # join_with [slash] xs) (slash # join_with [slash] (xs @ ys))"
  unfolding beneath_def hasPrefix_def join_with_append[OF assms(2,1)] by simp

lemma join_longer: "ys \<noteq> [] \<Longrightarrow> list_all plain_component ys \<Longrightarrow> join_with [slash] (xs @ ys) \<noteq> join_with [slash] xs"
proof -
  assume ys: "ys \<noteq> []" "list_all plain_component ys"
  then obtain y zs where y: "ys = y # zs" "y \<noteq> []" by (cases ys) (auto simp: plain_component_def)
  then have "join_with [slash] ys \<noteq> []" by (cases "zs = []") (auto simp: join_with_Cons)
  then show ?thesis using ys(1) by (cases "xs = []") (simp_all add: join_with_append)
qed

text \<open>
  C29. The directory that teardown watches cannot leave the cgroup tree: for an absolute cgroup
  root with at least one component, a control group is accepted exactly when it is a cleaned
  absolute path, not the root, whose last component is the unit; the directory is then the
  root's components followed by the control group's, none of them \<open>.\<close> or \<open>..\<close>.
\<close>

theorem cgroupDirectory_iff:
  assumes "path_isAbs (mg_CgroupRoot m)" and "rooted_components (mg_CgroupRoot m) \<noteq> []"
  shows "cgroupDirectory getwd m unit p = Inr directory \<longleftrightarrow>
    path_isAbs p \<and> path_clean p = p \<and> rooted_components p \<noteq> [] \<and> path_base p = unit
    \<and> directory = slash # join_with [slash] (rooted_components (mg_CgroupRoot m) @ rooted_components p)"
proof -
  let ?root = "path_clean (mg_CgroupRoot m)"
  have abs: "path_abs getwd (mg_CgroupRoot m) = Inr ?root" using assms(1) by (simp add: path_abs_def)
  have root: "?root = slash # join_with [slash] (rooted_components (mg_CgroupRoot m))"
    by (rule path_clean_rooted[OF assms(1)])
  show ?thesis
  proof (cases "path_isAbs p \<and> path_clean p = p")
    case True
    have dir: "path_join [?root, trimPrefix p [slash]] =
        slash # join_with [slash] (rooted_components (mg_CgroupRoot m) @ rooted_components p)"
      using join_rooted[OF assms(1), of p] True by simp
    have "p \<noteq> []" using True by (auto simp: path_isAbs_def)
    show ?thesis
    proof (cases "rooted_components p = []")
      case empty: True
      show ?thesis unfolding cgroupDirectory_def abs sum.case Let_def dir[unfolded root] root using empty by simp
    next
      case False
      note b = beneath_join[OF False assms(2)]
      note j = join_longer[OF False rooted_components_plain[of p], of "rooted_components (mg_CgroupRoot m)"]
      show ?thesis
        using True False b j \<open>p \<noteq> []\<close> unfolding cgroupDirectory_def abs sum.case Let_def dir[unfolded root] root
        by auto
    qed
  next
    case False
    then show ?thesis by (auto simp: cgroupDirectory_def)
  qed
qed

section \<open>Limits in force\<close>

definition limit_within :: "(string \<Rightarrow> file_read) \<Rightarrow> string \<Rightarrow> int \<Rightarrow> bool" where
  "limit_within readFile name maximum \<longleftrightarrow> (\<exists>text value. readFile name = FileData text
     \<and> parseInt (trimSpace text) = Some value \<and> 0 \<le> value \<and> value \<le> maximum)"

definition cpu_within :: "(string \<Rightarrow> file_read) \<Rightarrow> string \<Rightarrow> bool" where
  "cpu_within readFile name \<longleftrightarrow> (\<exists>text q p quota period. readFile name = FileData text \<and> text_fields text = [q, p]
     \<and> parseInt q = Some quota \<and> parseInt p = Some period \<and> 0 < quota \<and> quota \<le> period)"

lemma parseInt_max: "parseInt ''max'' = None"
  by code_simp

lemma limit_error_None:
  "limit_error readFile directory (name, maximum) = None \<longleftrightarrow> limit_within readFile (path_join [directory, name]) maximum"
  using parseInt_max
  by (auto simp: limit_error_def readLimit_def limit_within_def Let_def split: file_read.splits option.splits if_splits)

lemma cpu_error_None:
  "cpu_error cpu = None \<longleftrightarrow> (\<exists>q p quota period. text_fields cpu = [q, p]
     \<and> parseInt q = Some quota \<and> parseInt p = Some period \<and> 0 < quota \<and> quota \<le> period)"
  using parseInt_max by (auto simp: cpu_error_def CPUQuotaPercent_def split: list.splits option.splits if_splits)

lemma unified_abs: "unifiedCgroupPath text = Inr cgroup \<Longrightarrow> path_isAbs cgroup"
proof -
  have "path_isAbs cgroup" if "unified_loop ls = Inr cgroup" for ls
    using that
  proof (induction ls)
    case (Cons line rest)
    show ?case
    proof (cases "hasPrefix line ''0::/''")
      case True
      then obtain r where "line = ''0::'' @ (slash # r)" by (auto simp: hasPrefix_def prefix_def slash_def)
      with Cons.prems True show ?thesis
        using trimPrefix_append[of "''0::''" "slash # r"] by (auto simp: path_isAbs_def)
    next
      case False
      with Cons show ?thesis by simp
    qed
  qed simp
  then show "unifiedCgroupPath text = Inr cgroup \<Longrightarrow> ?thesis" by (simp add: unifiedCgroupPath_def)
qed

lemma directory_error_None:
  "directory_error readFile directory = None \<longleftrightarrow>
    limit_within readFile (path_join [directory, ''memory.max'']) (256 * 2 ^ 20)
    \<and> limit_within readFile (path_join [directory, ''memory.swap.max'']) 0
    \<and> limit_within readFile (path_join [directory, ''pids.max'']) 64
    \<and> cpu_within readFile (path_join [directory, ''cpu.max''])"
  by (auto simp: directory_error_def limit_checks_def limit_error_None cpu_within_def cpu_error_None
      MemoryMaxBytes_def MemorySwapBytes_def TasksMax_def split: file_read.splits)

lemma verify_iff:
  assumes "path_isAbs (mg_CgroupRoot m)" and "rooted_components (mg_CgroupRoot m) \<noteq> []"
  shows "Verify getwd readFile m unit = None \<longleftrightarrow>
    (\<exists>text cgroup directory. validUnitName unit \<and> readFile (mg_ProcCgroup m) = FileData text
      \<and> unifiedCgroupPath text = Inr cgroup \<and> path_base cgroup = unit
      \<and> directory = slash # join_with [slash] (rooted_components (mg_CgroupRoot m) @ rooted_components cgroup)
      \<and> limit_within readFile (path_join [directory, ''memory.max'']) (256 * 2 ^ 20)
      \<and> limit_within readFile (path_join [directory, ''memory.swap.max'']) 0
      \<and> limit_within readFile (path_join [directory, ''pids.max'']) 64
      \<and> cpu_within readFile (path_join [directory, ''cpu.max'']))"
proof -
  have abs: "path_abs getwd (mg_CgroupRoot m) = Inr (path_clean (mg_CgroupRoot m))"
    using assms(1) by (simp add: path_abs_def)
  have dir: "path_join [path_clean (mg_CgroupRoot m), trimPrefix (path_clean cgroup) [slash]] =
        slash # join_with [slash] (rooted_components (mg_CgroupRoot m) @ rooted_components cgroup)"
    and stays: "slash # join_with [slash] (rooted_components (mg_CgroupRoot m) @ rooted_components cgroup)
        = path_clean (mg_CgroupRoot m)
      \<or> beneath (path_clean (mg_CgroupRoot m))
        (slash # join_with [slash] (rooted_components (mg_CgroupRoot m) @ rooted_components cgroup))"
    if "unifiedCgroupPath d = Inr cgroup" for d cgroup
    using join_rooted[OF assms(1) unified_abs[OF that]] beneath_join[OF _ assms(2), of "rooted_components cgroup"]
    unfolding path_clean_rooted[OF assms(1)] by (cases "rooted_components cgroup = []"; simp)+
  show ?thesis
    unfolding Verify_def abs error_of_None
    by (auto simp: bindr_Inr directory_error_None Let_def dir stays split: file_read.splits)
qed

text \<open>
  C15. Verification from inside the scope succeeds exactly when the process really runs in the
  expected scope with the policy in force: the current cgroup's last component is the unit, and
  in its directory beneath the cgroup root memory is bounded by 256 MiB, swap by nothing, tasks
  by 64, and the CPU quota is positive and at most one full period.
\<close>

theorem Verify_iff:
  assumes "path_isAbs (mg_CgroupRoot m)" and "rooted_components (mg_CgroupRoot m) \<noteq> []"
  shows "Verify getwd readFile m unit = None \<longleftrightarrow>
    (\<exists>text cgroup directory. validUnitName unit \<and> readFile (mg_ProcCgroup m) = FileData text
      \<and> unifiedCgroupPath text = Inr cgroup \<and> path_base cgroup = unit
      \<and> directory = slash # join_with [slash] (rooted_components (mg_CgroupRoot m) @ rooted_components cgroup)
      \<and> limit_within readFile (path_join [directory, ''memory.max'']) (256 * 2 ^ 20)
      \<and> limit_within readFile (path_join [directory, ''memory.swap.max'']) 0
      \<and> limit_within readFile (path_join [directory, ''pids.max'']) 64
      \<and> cpu_within readFile (path_join [directory, ''cpu.max'']))"
  by (rule verify_iff[OF assms])

section \<open>Teardown\<close>

text \<open>What a successful teardown has seen: the unit unknown, finished without a cgroup, or its cgroup empty.\<close>

abbreviation show_arguments :: "string \<Rightarrow> string \<Rightarrow> string list" where
  "show_arguments unit property \<equiv> [''show'', unit, property, ''--value'', ''--no-pager'']"

definition unit_unknown :: "'w scope_io \<Rightarrow> Manager \<Rightarrow> string \<Rightarrow> bool" where
  "unit_unknown io m unit \<longleftrightarrow> (\<exists>ctx w s. fst (systemctl io m ctx (show_arguments unit ''--property=LoadState'') w) = Inr s
     \<and> trimSpace s = ''not-found'')"

definition unit_finished :: "'w scope_io \<Rightarrow> Manager \<Rightarrow> string \<Rightarrow> bool" where
  "unit_finished io m unit \<longleftrightarrow> (\<exists>ctx w s. fst (systemctl io m ctx (show_arguments unit ''--property=ActiveState'') w) = Inr s
     \<and> trimSpace s \<in> {''inactive'', ''failed''})"

definition events_empty :: "'w scope_io \<Rightarrow> string \<Rightarrow> 'w \<Rightarrow> bool" where
  "events_empty io directory w \<longleftrightarrow>
     (case fst (io_readFile io (path_join [directory, ''cgroup.events'']) w) of
        NotExist _ \<Rightarrow> True | ReadError _ \<Rightarrow> False | FileData d \<Rightarrow> parseCgroupPopulated d = Inr False)"

definition cgroup_empty :: "'w scope_io \<Rightarrow> Manager \<Rightarrow> string \<Rightarrow> bool" where
  "cgroup_empty io m unit \<longleftrightarrow>
     (\<exists>p directory w. cgroupDirectory (io_getwd io) m unit p = Inr directory \<and> events_empty io directory w)"

definition scope_gone :: "'w scope_io \<Rightarrow> Manager \<Rightarrow> string \<Rightarrow> bool" where
  "scope_gone io m unit \<longleftrightarrow> unit_unknown io m unit \<or> unit_finished io m unit \<or> cgroup_empty io m unit"

lemma wait_empty:
  assumes "waitCgroupEmpty io ctx directory w = Some r" and "fst r = None"
  shows "\<exists>v. events_empty io directory v"
proof -
  have "fst r = None \<longrightarrow> (\<exists>v. events_empty io directory v)"
  proof (rule waitCgroupEmpty.raw_induct[OF _ assms(1), where P = "\<lambda>io ctx directory w r. fst r = None \<longrightarrow> (\<exists>v. events_empty io directory v)"])
    fix wait :: "'w scope_io \<Rightarrow> int option \<Rightarrow> string \<Rightarrow> 'w \<Rightarrow> (error \<times> 'w) option"
    fix io :: "'w scope_io" and ctx directory w r
    assume IH: "\<And>io ctx directory w r. wait io ctx directory w = Some r \<Longrightarrow> fst r = None \<longrightarrow> (\<exists>v. events_empty io directory v)"
      and eq: "(case io_readFile io (path_join [directory, ''cgroup.events'']) w of
        (FileData d, w1) \<Rightarrow> case parseCgroupPopulated d of Inl e \<Rightarrow> Some (Some e, w1)
          | Inr populated \<Rightarrow> if \<not> populated then Some (None, w1)
              else case io_select io ctx w1 of (None, w2) \<Rightarrow> wait io ctx directory w2 | (Some e, w2) \<Rightarrow> Some (Some e, w2)
        | (NotExist e, w1) \<Rightarrow> Some (None, w1) | (ReadError e, w1) \<Rightarrow> Some (Some e, w1)) = Some r"
    have "events_empty io directory w" if "fst r = None" "\<And>w2. wait io ctx directory w2 \<noteq> Some r"
      using eq that
      by (auto simp: events_empty_def split: prod.splits file_read.splits sum.splits if_splits option.splits)
        (metis fst_conv option.distinct(1))
    then show "fst r = None \<longrightarrow> (\<exists>v. events_empty io directory v)" using IH by blast
  qed
  with assms(2) show ?thesis by blast
qed

lemma terminate_gone:
  assumes "Terminate io m ctx unit w = Some (None, w')"
  shows "scope_gone io m unit"
proof -
  let ?show = "\<lambda>p. show_arguments unit p"
  let ?t = "withTimeout io ctx TeardownTimeout w"
  have valid: "validUnitName unit" using assms by (auto simp: Terminate_def split: if_splits)
  obtain load w1 where load: "systemctl io m ?t (?show ''--property=LoadState'') w = (load, w1)" by fastforce
  obtain cg w2 where cg: "systemctl io m ?t (?show ''--property=ControlGroup'') w1 = (cg, w2)" by fastforce
  obtain active w3 where active: "systemctl io m ?t (?show ''--property=ActiveState'') w2 = (active, w3)" by fastforce
  note eq = assms[unfolded Terminate_def Let_def load prod.case]
  obtain l where l: "load = Inr l" using eq valid by (cases load) auto
  show ?thesis
  proof (cases "trimSpace l = ''not-found''")
    case True
    then have "unit_unknown io m unit" unfolding unit_unknown_def using load l by (metis fst_conv)
    then show ?thesis by (simp add: scope_gone_def)
  next
    case False
    obtain c where c: "cg = Inr c" using eq valid l False cg by (cases cg) (auto split: if_splits)
    show ?thesis
    proof (cases "trimSpace c = []")
      case True
      have "finished_scope io m ?t unit l w2 = (None, w')"
        using eq valid l False cg c True by (auto split: if_splits)
      then obtain a where "active = Inr a" "trimSpace a \<in> {''inactive'', ''failed''}"
        using active by (cases active) (auto simp: finished_scope_def terminalStateWithoutControlGroup_def split: if_splits)
      then have "unit_finished io m unit" unfolding unit_finished_def using active by (metis fst_conv)
      then show ?thesis by (simp add: scope_gone_def)
    next
      case busy: False
      have kill: "kill_scope io m ?t unit (trimSpace c) w2 = Some (None, w')"
        using eq valid l False cg c busy by (auto split: if_splits)
      then obtain directory and killed :: "string result" and w4 r where
        d: "cgroupDirectory (io_getwd io) m unit (trimSpace c) = Inr directory" and
        r: "waitCgroupEmpty io ?t directory w4 = Some r" "teardownResult (error_of killed) (fst r) = None"
        by (auto simp: kill_scope_def split: sum.splits prod.splits)
      then have "fst r = None" by (auto simp: teardownResult_def split: option.splits)
      from wait_empty[OF r(1) this] d have "cgroup_empty io m unit" by (auto simp: cgroup_empty_def)
      then show ?thesis by (simp add: scope_gone_def)
    qed
  qed
qed


section \<open>Teardown returns\<close>

text \<open>The world after one unsuccessful round of the wait, and that the context ends after some rounds.\<close>

definition wait_round :: "'w scope_io \<Rightarrow> int option \<Rightarrow> string \<Rightarrow> 'w \<Rightarrow> 'w" where
  "wait_round io ctx directory w =
     snd (io_select io ctx (snd (io_readFile io (path_join [directory, ''cgroup.events'']) w)))"

definition context_ends :: "'w scope_io \<Rightarrow> int option \<Rightarrow> string \<Rightarrow> 'w \<Rightarrow> bool" where
  "context_ends io ctx directory w \<longleftrightarrow>
     (\<exists>n. fst (io_select io ctx (snd (io_readFile io (path_join [directory, ''cgroup.events''])
        ((wait_round io ctx directory ^^ n) w)))) \<noteq> None)"

lemma wait_returns:
  assumes "context_ends io ctx directory w"
  shows "\<exists>r. waitCgroupEmpty io ctx directory w = Some r"
proof -
  from assms obtain n where "fst (io_select io ctx (snd (io_readFile io (path_join [directory, ''cgroup.events''])
      ((wait_round io ctx directory ^^ n) w)))) \<noteq> None"
    by (auto simp: context_ends_def)
  then show ?thesis
  proof (induction n arbitrary: w)
    case 0
    then show ?case
      by (subst waitCgroupEmpty.simps) (auto split: prod.splits file_read.splits sum.splits option.splits)
  next
    case (Suc n)
    then have "\<exists>r. waitCgroupEmpty io ctx directory (wait_round io ctx directory w) = Some r"
      by (simp add: funpow_swap1)
    then show ?case
      by (subst waitCgroupEmpty.simps)
        (auto simp: wait_round_def split: prod.splits file_read.splits sum.splits option.splits)
  qed
qed

lemma terminate_returns:
  assumes "\<And>d directory v. context_ends io (Some d) directory v"
  shows "\<exists>r. Terminate io m ctx unit w = Some r"
proof -
  obtain d where d: "withTimeout io ctx TeardownTimeout w = Some d" by (simp add: withTimeout_def withDeadline_def)
  have "\<exists>r. kill_scope io m (Some d) unit p v = Some r" for p v
    using wait_returns[OF assms] by (fastforce simp: kill_scope_def split: sum.splits prod.splits)
  then show ?thesis
    unfolding Terminate_def d Let_def by (auto split: sum.splits prod.splits)
qed

text \<open>
  C16. Running a command in a scope always returns: when a context with a deadline is done after
  some number of polls, the manager comes back with a result, whatever the service manager and
  the kernel answer and however long the scope stays populated.
\<close>

theorem Run_returns:
  assumes "\<And>d directory v. context_ends io (Some d) directory v"
  shows "\<exists>r. Manager_Run io m ctx unit executable arguments w = Some r"
  using terminate_returns[OF assms]
  by (fastforce simp: Manager_Run_def Let_def split: sum.splits prod.splits)

section \<open>Deadlines\<close>

text \<open>
  The time budget adds up. The run may last as long as the scope, and every phase ends within
  the operation's timeout; when the run has come back by its deadline or its wait delay after
  it, teardown still has its full timeout, and a wait delay of its own after that.
\<close>

theorem deadline_budget:
  assumes "now \<le> od_runEnd (deadlinesFor start) + ProcessWaitDelay"
  shows "od_runEnd (deadlinesFor start) = start + ScopeRuntimeMax
    \<and> teardownEnd (deadlinesFor start) now = now + TeardownTimeout
    \<and> teardownEnd (deadlinesFor start) now + ProcessWaitDelay \<le> start + OperationTimeout"
  using assms by (simp add: deadlinesFor_def teardownEnd_def minTime_def policy_defs Let_def)

theorem deadline_budget_witness:
  "od_runEnd (deadlinesFor 0) = 0 + ScopeRuntimeMax
    \<and> teardownEnd (deadlinesFor 0) (37 * Second) = 37 * Second + TeardownTimeout
    \<and> teardownEnd (deadlinesFor 0) (37 * Second) + ProcessWaitDelay \<le> 0 + OperationTimeout"
  by (rule deadline_budget) (simp add: deadlinesFor_def policy_defs Let_def)

section \<open>Process limits are only lowered\<close>

text \<open>
  C30. When the process limits have been applied, core dumps are off, the process may have at most
  256 open files, every soft limit is within its hard limit, and no limit of any kind was raised
  or, apart from these two, changed.
\<close>

theorem ApplyProcessLimits_lowers:
  assumes "ApplyProcessLimits getErr setErr t = (None, u)"
  shows "u RLIMIT_CORE = (0, 0) \<and> fst (u RLIMIT_NOFILE) \<le> snd (u RLIMIT_NOFILE) \<and> snd (u RLIMIT_NOFILE) \<le> 256
    \<and> (\<forall>res. fst (u res) \<le> fst (t res) \<and> snd (u res) \<le> snd (t res)
         \<and> (res \<noteq> RLIMIT_CORE \<longrightarrow> res \<noteq> RLIMIT_NOFILE \<longrightarrow> u res = t res))"
  using assms
  by (auto simp: ApplyProcessLimits_def RLIMIT_CORE_def RLIMIT_NOFILE_def OpenFilesMax_def Let_def
      split: option.splits)

theorem ApplyProcessLimits_lowers_witness:
  "\<exists>u. ApplyProcessLimits (\<lambda>_. None) (\<lambda>_. None) (\<lambda>_. (1024, 4096)) = (None, u) \<and> u RLIMIT_CORE = (0, 0)
    \<and> snd (u RLIMIT_NOFILE) \<le> 256"
proof -
  have "fst (ApplyProcessLimits (\<lambda>_. None) (\<lambda>_. None) (\<lambda>_. (1024, 4096))) = None"
    by (simp add: ApplyProcessLimits_def Let_def)
  then obtain u where u: "ApplyProcessLimits (\<lambda>_. None) (\<lambda>_. None) (\<lambda>_. (1024, 4096)) = (None, u)"
    by (metis prod.collapse)
  from ApplyProcessLimits_lowers[OF u] u show ?thesis by blast
qed

section \<open>A concrete world\<close>

text \<open>
  A world that is its clock: the trusted programs are root's, the service manager knows no unit,
  the cgroup stays populated, and every poll takes one nanosecond.
\<close>

definition sample_descriptor :: "nat \<Rightarrow> 32 word \<Rightarrow> descriptor" where
  "sample_descriptor uid perm = \<lparr>de_fd = 7,
     de_Stat = Inr \<lparr>st_sys = True, st_regular = True, st_dir = True, st_perm = perm, st_uid = uid, st_nlink = 1\<rparr>,
     de_ELF = Inr \<lparr>ef_Type = ET_EXEC, ef_Progs = [], ef_Libraries = Inr []\<rparr>\<rparr>"

definition sample_io :: "int scope_io" where
  "sample_io = \<lparr>io_openat2 = (\<lambda>w path how. Inr (if oh_Directory how then sample_descriptor 1000 0b111000000
       else sample_descriptor 0 0b111101101)),
     io_output = (\<lambda>ctx path args env w. (Inr ''not-found'', w)),
     io_run = (\<lambda>ctx path args env w. (None, w)),
     io_readFile = (\<lambda>path w. (FileData ''populated 1'', w)),
     io_select = (\<lambda>ctx w. case ctx of None \<Rightarrow> (None, w + 1)
        | Some d \<Rightarrow> if d \<le> w then (Some (Errorf ''deadline'' []), w) else (None, w + 1)),
     io_now = (\<lambda>w. w), io_euid = 1000, io_getwd = Inr ''/''\<rparr>"

definition sample_manager :: Manager where
  "sample_manager = \<lparr>mg_SystemdRun = systemdRunPath, mg_Systemctl = systemctlPath, mg_CgroupRoot = ''/sys/fs/cgroup'',
     mg_ProcCgroup = ''/proc/self/cgroup''\<rparr>"

definition sample_unit :: string where
  "sample_unit = unit_prefix @ replicate 24 CHR ''a'' @ unit_suffix"

lemma sample_unit_valid: "validUnitName sample_unit"
  unfolding sample_unit_def validUnitName_frame by code_simp

lemma sample_context_ends: "context_ends sample_io (Some d) directory w"
proof -
  have one: "wait_round sample_io (Some d) directory v = (if d \<le> v then v else v + 1)" for v
    by (simp add: wait_round_def sample_io_def)
  have "\<exists>n. d \<le> (wait_round sample_io (Some d) directory ^^ n) w"
  proof (cases "d \<le> w")
    case True
    then have "d \<le> (wait_round sample_io (Some d) directory ^^ 0) w" by simp
    then show ?thesis ..
  next
    case False
    have "int n \<le> d - w \<Longrightarrow> (wait_round sample_io (Some d) directory ^^ n) w = w + int n" for n
      by (induction n) (auto simp: one)
    from this[of "nat (d - w)"] False have "d \<le> (wait_round sample_io (Some d) directory ^^ nat (d - w)) w" by simp
    then show ?thesis ..
  qed
  then show ?thesis by (auto simp: context_ends_def sample_io_def)
qed

theorem Run_returns_witness:
  "\<exists>r. Manager_Run sample_io sample_manager None sample_unit ''/proc/1/exe'' [''--list''] 0 = Some r"
  by (rule Run_returns) (rule sample_context_ends)

lemma sample_open:
  "path_isAbs p \<Longrightarrow> trusted_Open (io_openat2 sample_io w) p = Inr (sample_descriptor 0 0b111101101)"
  unfolding trusted_Open_def open_owned
  by (simp add: sample_io_def executable_how_def trusted_file_def sample_descriptor_def bit_numeral_rec)

lemma sample_environment: "\<exists>env. userManagerEnvironment (io_euid sample_io) (io_openat2 sample_io w) = Inr env"
  by (simp add: userManagerEnvironment_def Let_def sample_io_def runtime_how_def sample_descriptor_def)

lemma sample_paths: "path_isAbs systemdRunPath" "path_isAbs systemctlPath" "systemdRunPath \<noteq> []" "systemctlPath \<noteq> []"
  by (simp_all add: path_isAbs_def slash_def systemdRunPath_def systemctlPath_def)

lemma sample_systemctl: "systemctl sample_io sample_manager ctx arguments w = (Inr ''not-found'', w)"
proof -
  obtain env where "userManagerEnvironment (io_euid sample_io) (io_openat2 sample_io w) = Inr env"
    using sample_environment by blast
  then show ?thesis
    by (simp add: systemctl_def sample_manager_def sample_paths sample_open CommandPath_def) (simp add: sample_io_def)
qed

lemma trim_not_found: "trimSpace ''not-found'' = ''not-found''"
  by code_simp

lemma sample_run: "Manager_Run sample_io sample_manager None sample_unit ''/proc/1/exe'' [''--list''] 0 = Some (None, 0)"
proof -
  obtain env where env: "userManagerEnvironment (io_euid sample_io) (io_openat2 sample_io 0) = Inr env"
    using sample_environment by blast
  have "io_run sample_io ctx path args env w = (None, w)" for ctx path args env w by (simp add: sample_io_def)
  moreover have "Terminate sample_io sample_manager ctx sample_unit w = Some (None, w)" for ctx w
    by (simp add: Terminate_def sample_unit_valid sample_systemctl Let_def trim_not_found)
  moreover have "mg_SystemdRun sample_manager = systemdRunPath" by (simp add: sample_manager_def)
  ultimately show ?thesis
    using env by (simp add: Manager_Run_def sample_unit_valid timing_policy Let_def CommandPath_def run_result_def
        sample_open sample_paths)
qed


lemma sample_root: "path_isAbs (mg_CgroupRoot sample_manager)" "rooted_components (mg_CgroupRoot sample_manager) \<noteq> []"
  by code_simp+

theorem cgroupDirectory_iff_witness:
  "cgroupDirectory (Inr ''/'') sample_manager sample_unit (''/user.slice/'' @ sample_unit)
    = Inr (''/sys/fs/cgroup/user.slice/'' @ sample_unit)"
  unfolding cgroupDirectory_iff[OF sample_root] by code_simp

definition sample_files :: "string \<Rightarrow> file_read" where
  "sample_files name =
     (if name = ''/proc/self/cgroup'' then FileData (''0::/user.slice/'' @ sample_unit @ [CHR 0x0A])
      else if path_base name = ''memory.max'' then FileData (''268435456'' @ [CHR 0x0A])
      else if path_base name = ''memory.swap.max'' then FileData (''0'' @ [CHR 0x0A])
      else if path_base name = ''pids.max'' then FileData (''64'' @ [CHR 0x0A])
      else FileData (''100000 100000'' @ [CHR 0x0A]))"

lemma sample_in_scope:
  "\<exists>text cgroup directory. validUnitName sample_unit \<and> sample_files (mg_ProcCgroup sample_manager) = FileData text
      \<and> unifiedCgroupPath text = Inr cgroup \<and> path_base cgroup = sample_unit
      \<and> directory = slash # join_with [slash] (rooted_components (mg_CgroupRoot sample_manager) @ rooted_components cgroup)
      \<and> limit_within sample_files (path_join [directory, ''memory.max'']) (256 * 2 ^ 20)
      \<and> limit_within sample_files (path_join [directory, ''memory.swap.max'']) 0
      \<and> limit_within sample_files (path_join [directory, ''pids.max'']) 64
      \<and> cpu_within sample_files (path_join [directory, ''cpu.max''])"
proof -
  let ?dir = "slash # join_with [slash] (rooted_components (mg_CgroupRoot sample_manager)
    @ rooted_components (''/user.slice/'' @ sample_unit))"
  have parts: "validUnitName sample_unit"
    "sample_files (mg_ProcCgroup sample_manager) = FileData (''0::/user.slice/'' @ sample_unit @ [CHR 0x0A])"
    "unifiedCgroupPath (''0::/user.slice/'' @ sample_unit @ [CHR 0x0A]) = Inr (''/user.slice/'' @ sample_unit)"
    "path_base (''/user.slice/'' @ sample_unit) = sample_unit"
    "limit_error sample_files ?dir (''memory.max'', 256 * 2 ^ 20) = None"
    "limit_error sample_files ?dir (''memory.swap.max'', 0) = None"
    "limit_error sample_files ?dir (''pids.max'', 64) = None"
    "sample_files (path_join [?dir, ''cpu.max'']) = FileData (''100000 100000'' @ [CHR 0x0A])"
    "cpu_error (''100000 100000'' @ [CHR 0x0A]) = None"
    by code_simp+
  have "cpu_within sample_files (path_join [?dir, ''cpu.max''])"
    unfolding cpu_within_def parts(8) using parts(9)[unfolded cpu_error_None] by blast
  with parts(1-7) show ?thesis
    unfolding limit_error_None by blast
qed

lemma sample_verify: "Verify (Inr ''/'') sample_files sample_manager sample_unit = None"
  unfolding verify_iff[OF sample_root] by (rule sample_in_scope)

theorem Verify_iff_witness: "Verify (Inr ''/'') sample_files sample_manager sample_unit = None"
  unfolding Verify_iff[OF sample_root] by (rule sample_in_scope)

end
