(* ===== verification/GoRunes.thy ===== *)
theory GoRunes
  imports GoFields
begin

text \<open>
  Runes at the start of a text, their UTF-8 encoding, and \<open>strconv.Unquote\<close> of a quoted Go literal.
\<close>

section \<open>Runes\<close>

text \<open>
  The width of the rune at the start of a text, 0 when the bytes there are not one; decoding
  then yields U+FFFD for one byte.
\<close>

definition rune_width :: "string \<Rightarrow> nat" where
  "rune_width s =
     (if 1 \<le> length s \<and> utf8_valid (take 1 s) then 1
      else if 2 \<le> length s \<and> utf8_valid (take 2 s) then 2
      else if 3 \<le> length s \<and> utf8_valid (take 3 s) then 3
      else if 4 \<le> length s \<and> utf8_valid (take 4 s) then 4 else 0)"

abbreviation replacement_rune :: string where "replacement_rune \<equiv> [CHR 0xEF, CHR 0xBF, CHR 0xBD]"

lemma rune_width_le: "rune_width s \<le> length s"
  by (auto simp: rune_width_def)

definition encode_rune :: "nat \<Rightarrow> string" where
  "encode_rune v =
     (if v < 0x80 then [char_of v]
      else if v < 0x800 then [char_of (0xC0 + v div 64), char_of (0x80 + v mod 64)]
      else if v < 0x10000 then [char_of (0xE0 + v div 4096), char_of (0x80 + v div 64 mod 64), char_of (0x80 + v mod 64)]
      else [char_of (0xF0 + v div 262144), char_of (0x80 + v div 4096 mod 64), char_of (0x80 + v div 64 mod 64),
        char_of (0x80 + v mod 64)])"

definition valid_rune :: "nat \<Rightarrow> bool" where
  "valid_rune v \<longleftrightarrow> v < 0xD800 \<or> 0xE000 \<le> v \<and> v \<le> 0x10FFFF"

section \<open>Unquoting\<close>

definition hex_value :: "string \<Rightarrow> nat option" where
  "hex_value ds =
     fold (\<lambda>d acc. case (acc, fromHexChar d) of (Some v, Some x) \<Rightarrow> Some (16 * v + x) | _ \<Rightarrow> None) ds (Some 0)"

text \<open>\<open>strconv.UnquoteChar\<close> behind a backslash: the bytes to append, and the rest.\<close>

definition unquote_hex :: "nat \<Rightarrow> bool \<Rightarrow> string \<Rightarrow> (string \<times> string) option" where
  "unquote_hex n rune s =
     (if length s < n then None
      else case hex_value (take n s) of
        None \<Rightarrow> None
      | Some v \<Rightarrow>
          if \<not> rune then Some ([char_of v], drop n s)
          else if valid_rune v then Some (encode_rune v, drop n s) else None)"

definition octal_digit :: "char \<Rightarrow> bool" where "octal_digit c \<longleftrightarrow> in_rng 48 55 c"

definition unquote_escape :: "char \<Rightarrow> string \<Rightarrow> (string \<times> string) option" where
  "unquote_escape quote s =
     (case s of
        [] \<Rightarrow> None
      | c # rest \<Rightarrow>
          (case map_of [(CHR ''a'', 7), (CHR ''b'', 8), (CHR ''f'', 12), (CHR ''n'', 10), (CHR ''r'', 13),
              (CHR ''t'', 9), (CHR ''v'', 11), (CHR 0x5C, 0x5C)] c of
             Some v \<Rightarrow> Some ([char_of (v :: nat)], rest)
           | None \<Rightarrow>
               if c = CHR ''x'' then unquote_hex 2 False rest
               else if c = CHR ''u'' then unquote_hex 4 True rest
               else if c = CHR ''U'' then unquote_hex 8 True rest
               else if octal_digit c then
                 (case rest of
                    d # e # rest' \<Rightarrow>
                      (let v = 64 * (byte c - 48) + 8 * (byte d - 48) + (byte e - 48) in
                       if octal_digit d \<and> octal_digit e \<and> v \<le> 255 then Some ([char_of v], rest') else None)
                  | _ \<Rightarrow> None)
               else if c = quote \<and> (c = CHR 0x27 \<or> c = CHR 0x22) then Some ([c], rest)
               else None))"

lemma unquote_hex_shorter: "unquote_hex n rune s = Some (out, rest) \<Longrightarrow> length rest \<le> length s"
  by (auto simp: unquote_hex_def split: if_splits option.splits)

lemma unquote_escape_shorter:
  assumes "unquote_escape quote s = Some (out, rest)"
  shows "length rest < length s"
proof (cases s)
  case Nil
  with assms show ?thesis by (simp add: unquote_escape_def)
next
  case (Cons c cs)
  with assms show ?thesis
    unfolding unquote_escape_def
    by (auto split: if_splits option.splits list.splits simp: Let_def dest!: unquote_hex_shorter)
qed

text \<open>The characters up to the closing quote; a single-quoted literal holds at most one.\<close>

function unquote_chars :: "char \<Rightarrow> string \<Rightarrow> (string \<times> string) option" where
  "unquote_chars quote [] = Some ([], [])"
| "unquote_chars quote (c # cs) =
     (if c = quote then Some ([], c # cs)
      else if c = CHR 0x0A then None
      else let (out, rest) =
          (if byte c \<ge> 0x80 then
             (if rune_width (c # cs) = 0 then (Some replacement_rune, cs)
              else (Some (take (rune_width (c # cs)) (c # cs)), drop (rune_width (c # cs)) (c # cs)))
           else if c \<noteq> CHR 0x5C then (Some [c], cs)
           else case unquote_escape quote cs of None \<Rightarrow> (None, cs) | Some (out, rest) \<Rightarrow> (Some out, rest))
        in case out of
             None \<Rightarrow> None
           | Some bytes \<Rightarrow>
               if quote = CHR 0x27 then Some (bytes, rest)
               else map_option (\<lambda>(more, left). (bytes @ more, left)) (unquote_chars quote rest))"
  by pat_completeness auto

termination
  by (relation "measure (\<lambda>(_, s). length s)")
    (auto split: if_splits option.splits prod.splits dest!: unquote_escape_shorter simp: less_Suc_eq_le)

text \<open>
  \<open>strconv.Unquote\<close> of a text that starts with a single or double quote. Go's shortcut for
  literals without escapes gives what the general loop gives, except that the literal of no
  character in single quotes is empty.
\<close>

definition unquote :: "string \<Rightarrow> string option" where
  "unquote s =
     (case s of
        quote # c # cs \<Rightarrow>
          if quote = CHR 0x27 \<and> c = quote then (if cs = [] then Some [] else None)
          else (case unquote_chars quote (c # cs) of
            Some (out, [q]) \<Rightarrow> if q = quote then Some out else None
          | _ \<Rightarrow> None)
      | _ \<Rightarrow> None)"

end
