(* ===== verification/Sandbox.thy ===== *)
theory Sandbox
  imports TrustedExec Policy GoRunes
begin

text \<open>
  The sandbox (internal/sandbox/sandbox.go): bounded output buffers, the bubblewrap command line,
  the checks on scanner, target and display name, and the reading of the scanner's output. The
  kernel's opens and the run of the command are parameters.
\<close>

section \<open>Bounded output\<close>

definition MaxReportBytes :: int where "MaxReportBytes = 16 * 2 ^ 20"
definition MaxStderrBytes :: int where "MaxStderrBytes = 64 * 2 ^ 10"

text \<open>\<open>ob_cancelled\<close> records that \<open>Write\<close> has called \<open>cancel\<close>.\<close>

record output_buffer =
  ob_buffer :: string
  ob_limit :: int
  ob_err :: error
  ob_cancelled :: bool

definition output_Write :: "string \<Rightarrow> output_buffer \<Rightarrow> (int \<times> error) \<times> output_buffer" where
  "output_Write d b =
     (case ob_err b of
        Some e \<Rightarrow> ((0, Some e), b)
      | None \<Rightarrow>
          (let remaining = ob_limit b - int (length (ob_buffer b)) in
           if int (length d) \<le> remaining then ((int (length d), None), b\<lparr>ob_buffer := ob_buffer b @ d\<rparr>)
           else let kept = (if remaining > 0 then ob_buffer b @ take (nat remaining) d else ob_buffer b);
                    e = Errorf ''output exceeded %d-byte limit'' [AInt (ob_limit b)]
             in ((remaining, Some e), b\<lparr>ob_buffer := kept, ob_err := Some e, ob_cancelled := True\<rparr>)))"

text \<open>The writes of a process, in order.\<close>

definition output_writes :: "string list \<Rightarrow> output_buffer \<Rightarrow> output_buffer" where
  "output_writes ds b = fold (\<lambda>d b. snd (output_Write d b)) ds b"

definition new_output :: "int \<Rightarrow> output_buffer" where
  "new_output limit = \<lparr>ob_buffer = [], ob_limit = limit, ob_err = None, ob_cancelled = False\<rparr>"

section \<open>Names, diagnostics and arguments\<close>

definition display_character :: "nat \<Rightarrow> char \<Rightarrow> bool" where
  "display_character index c \<longleftrightarrow> in_rng 65 90 c \<or> in_rng 97 122 c \<or> in_rng 48 57 c
     \<or> (index > 0 \<and> (c = CHR ''.'' \<or> c = CHR ''_'' \<or> c = CHR ''-''))"

text \<open>A character outside ASCII is never accepted, whatever bytes encode it.\<close>

fun display_loop :: "nat \<Rightarrow> string \<Rightarrow> bool" where
  "display_loop index [] = True"
| "display_loop index (c # cs) = (display_character index c \<and> display_loop (index + 1) cs)"

definition validDisplayName :: "string \<Rightarrow> bool" where
  "validDisplayName value =
     (if value = [] \<or> length value > 255 then False
      else display_loop 0 value \<and> \<not> contains value ''..'')"

function safeDiagnostic :: "string \<Rightarrow> string" where
  "safeDiagnostic [] = []"
| "safeDiagnostic (c # cs) =
     (let n = rune_width (c # cs) in
      if n = 0 then replacement_rune @ safeDiagnostic cs
      else if n = 1 \<and> byte c < 0x20 \<and> c \<noteq> CHR 0x0A \<and> c \<noteq> CHR 0x09 then CHR ''?'' # safeDiagnostic cs
      else take n (c # cs) @ safeDiagnostic (drop n (c # cs)))"
  by pat_completeness auto

termination
  by (relation "measure length") (auto simp: rune_width_def)

definition sandbox_Arguments :: "string \<Rightarrow> string \<Rightarrow> string \<Rightarrow> string list" where
  "sandbox_Arguments scannerSource targetSource displayName =
     [''--die-with-parent'', ''--new-session'', ''--unshare-all'', ''--unshare-user'', ''--disable-userns'',
      ''--assert-userns-disabled'', ''--cap-drop'', ''ALL'', ''--clearenv'',
      ''--setenv'', ''HOME'', ''/nonexistent'', ''--setenv'', ''PATH'', ''/app'', ''--setenv'', ''TMPDIR'', ''/tmp'',
      ''--dir'', ''/app'', ''--ro-bind'', scannerSource, ''/app/plug-prejudice'', ''--ro-bind'', targetSource, ''/target'',
      ''--dir'', ''/tmp'', ''--chdir'', ''/target'', ''--'',
      ''/app/plug-prejudice'', ''--target'', ''/target'', ''--display-name'', displayName, ''--sandboxed'', ''--resource-limited'']"

section \<open>Scanner and target\<close>

definition requireStaticELF :: "descriptor \<Rightarrow> error" where
  "requireStaticELF scanner =
     (case de_ELF scanner of
        Inl e \<Rightarrow> Some (Wrapf ''scanner is not a supported ELF executable: %w'' [] e)
      | Inr parsed \<Rightarrow> first_error [
          check (ef_Type parsed \<noteq> ET_EXEC \<and> ef_Type parsed \<noteq> ET_DYN) ''scanner ELF type %s is not executable'' [],
          first_error (map (\<lambda>program. check (program = PT_INTERP)
            ''scanner is dynamically linked; build it with CGO_ENABLED=0'' []) (ef_Progs parsed)),
          (case ef_Libraries parsed of
             Inl e \<Rightarrow> Some (Wrapf ''inspect scanner libraries: %w'' [] e)
           | Inr libraries \<Rightarrow> check (length libraries \<noteq> 0) ''scanner imports shared libraries: %v'' (map AStr libraries))])"

definition pinned_how :: "bool \<Rightarrow> open_how" where
  "pinned_how wantDirectory = \<lparr>oh_Directory = wantDirectory, oh_Path = False, oh_Beneath = False,
     oh_NoSymlinks = True, oh_NoMagiclinks = True, oh_NoXdev = False\<rparr>"

definition openPinned :: "string result \<Rightarrow> kernel_open \<Rightarrow> string \<Rightarrow> bool \<Rightarrow> descriptor result" where
  "openPinned getwd openat2 name wantDirectory =
     bindr (path_abs getwd name) (\<lambda>clean.
     bindr (openat2 clean (pinned_how wantDirectory)) (\<lambda>f.
     bindr (de_Stat f) (\<lambda>opened.
       andthen (check (\<not> st_sys opened \<or> st_nlink opened = 0 \<or> wantDirectory \<noteq> st_dir opened
           \<or> (\<not> wantDirectory \<and> \<not> st_regular opened))
         ''opened descriptor has unexpected type or identity'' [])
       (Inr f))))"

section \<open>Running the scanner\<close>

record Runner =
  ru_Bubblewrap :: string
  ru_Timeout :: int
  ru_AllowDevelopmentScanner :: bool

definition bubblewrapPath :: string where "bubblewrapPath = ''/usr/bin/bwrap''"

definition DefaultRunner :: "kernel_open \<Rightarrow> Runner result" where
  "DefaultRunner openat2 =
     (case trusted_Open openat2 bubblewrapPath of
        Inl e \<Rightarrow> Inl (Wrapf ''trusted bubblewrap is required; refusing to scan without containment: %w'' [] e)
      | Inr _ \<Rightarrow> Inr \<lparr>ru_Bubblewrap = bubblewrapPath, ru_Timeout = WallTime, ru_AllowDevelopmentScanner = False\<rparr>)"

text \<open>What a run of the command did: the writes to its two streams, how it ended, and the deadline.\<close>

record process_outcome =
  po_stdout :: "string list"
  po_stderr :: "string list"
  po_waitErr :: error
  po_deadlineExceeded :: bool

text \<open>The command: program, arguments, environment, the inherited descriptors, and the timeout.\<close>

record command =
  cm_path :: string
  cm_args :: "string list"
  cm_env :: "string list"
  cm_files :: "descriptor list"
  cm_timeout :: int

record sandbox_io =
  sb_openat2 :: kernel_open
  sb_getwd :: "string result"
  sb_run :: "command \<Rightarrow> process_outcome"

definition pin_scanner :: "sandbox_io \<Rightarrow> Runner \<Rightarrow> string \<Rightarrow> descriptor result" where
  "pin_scanner io r scannerPath =
     (case (if ru_AllowDevelopmentScanner r then openPinned (sb_getwd io) (sb_openat2 io) scannerPath False
            else trusted_Open (sb_openat2 io) scannerPath) of
        Inl e \<Rightarrow> Inl (Wrapf ''pin trusted scanner: %w'' [] e)
      | Inr scanner \<Rightarrow>
          (case requireStaticELF scanner of
             Some e \<Rightarrow> Inl (Wrapf ''validate scanner executable: %w'' [] e)
           | None \<Rightarrow> Inr scanner))"

definition sandbox_target_error :: "descriptor option \<Rightarrow> error" where
  "sandbox_target_error target =
     (case target of
        None \<Rightarrow> Some (Errorf ''pinned target descriptor is required'' [])
      | Some t \<Rightarrow> check (case de_Stat t of Inl _ \<Rightarrow> True | Inr info \<Rightarrow> \<not> st_dir info)
          ''pinned target descriptor is not a directory'' [])"

definition outcome_result :: "Runner \<Rightarrow> process_outcome \<Rightarrow> string result" where
  "outcome_result r oc =
     (let out = output_writes (po_stdout oc) (new_output MaxReportBytes);
          diagnostics = output_writes (po_stderr oc) (new_output MaxStderrBytes)
      in case ob_err out of Some e \<Rightarrow> Inl (Wrapf ''read scanner output: %w'' [] e) | None \<Rightarrow>
         (case ob_err diagnostics of Some e \<Rightarrow> Inl (Wrapf ''read scanner diagnostics: %w'' [] e) | None \<Rightarrow>
          if po_deadlineExceeded oc then
            Inl (Errorf ''sandbox timed out after %s: %s'' [AInt (ru_Timeout r), AStr (safeDiagnostic (ob_buffer diagnostics))])
          else (case po_waitErr oc of
            Some e \<Rightarrow> Inl (Wrapf ''sandboxed scanner failed: %w: %s'' [AStr (safeDiagnostic (ob_buffer diagnostics))] e)
          | None \<Rightarrow> Inr (ob_buffer out))))"

definition Runner_Run :: "sandbox_io \<Rightarrow> Runner \<Rightarrow> string \<Rightarrow> descriptor option \<Rightarrow> string \<Rightarrow> string result" where
  "Runner_Run io r scannerPath target displayName =
     andthen (first_error [
       check (ru_Bubblewrap r = []) ''bubblewrap path is empty'' [],
       check (ru_Timeout r \<le> 0) ''sandbox timeout must be positive'' [],
       check (\<not> validDisplayName displayName) ''sandbox display name is invalid'' []])
     (bindr (pin_scanner io r scannerPath) (\<lambda>scanner.
      andthen (sandbox_target_error target)
      (case trusted_Open (sb_openat2 io) (ru_Bubblewrap r) of
         Inl e \<Rightarrow> Inl (Wrapf ''pin bubblewrap: %w'' [] e)
       | Inr bwrap \<Rightarrow>
           bindr (CommandPath (Some bwrap) (sandbox_Arguments ''/proc/self/fd/3'' ''/proc/self/fd/4'' displayName))
             (\<lambda>(procPath, args). outcome_result r (sb_run io \<lparr>cm_path = procPath, cm_args = args, cm_env = [],
               cm_files = scanner # (case target of None \<Rightarrow> [] | Some t \<Rightarrow> [t]), cm_timeout = ru_Timeout r\<rparr>)))))"

section \<open>What the buffers keep\<close>

definition output_inv :: "int \<Rightarrow> string \<Rightarrow> output_buffer \<Rightarrow> bool" where
  "output_inv limit written b \<longleftrightarrow> ob_limit b = limit \<and> ob_buffer b = take (nat limit) written
     \<and> (ob_err b = None \<longleftrightarrow> int (length written) \<le> limit) \<and> ob_cancelled b = (ob_err b \<noteq> None)"

lemma output_Write_inv:
  assumes "0 \<le> limit" and "output_inv limit written b"
  shows "output_inv limit (written @ d) (snd (output_Write d b))"
proof (cases "ob_err b")
  case (Some e)
  with assms have "limit < int (length written)" by (auto simp: output_inv_def)
  with Some assms show ?thesis by (auto simp: output_inv_def output_Write_def)
next
  case None
  with assms have b: "ob_buffer b = written" "int (length written) \<le> limit" "ob_limit b = limit"
    by (auto simp: output_inv_def)
  show ?thesis
  proof (cases "int (length d) \<le> limit - int (length written)")
    case True
    with None b assms show ?thesis by (auto simp: output_inv_def output_Write_def Let_def)
  next
    case False
    have "nat (limit - int (length written)) = nat limit - length written" by (simp add: nat_diff_distrib)
    with False None b assms show ?thesis by (auto simp: output_inv_def output_Write_def Let_def)
  qed
qed

lemma output_writes_inv:
  assumes "0 \<le> limit"
  shows "output_inv limit (concat ds) (output_writes ds (new_output limit))"
proof -
  have "output_inv limit (written @ concat ds) (output_writes ds b)" if "output_inv limit written b" for b written
    using that
  proof (induction ds arbitrary: b written)
    case Nil
    then show ?case by (simp add: output_writes_def)
  next
    case (Cons d ds)
    from Cons.IH[OF output_Write_inv[OF assms Cons.prems, of d]] show ?case by (simp add: output_writes_def)
  qed
  moreover have "output_inv limit [] (new_output limit)" using assms by (simp add: output_inv_def new_output_def)
  ultimately show ?thesis by fastforce
qed

text \<open>
  C31. A bounded buffer keeps exactly the first \<open>limit\<close> bytes of what the process wrote, however the
  writes were cut: it reports an overflow, and has cancelled the process, exactly when more
  than \<open>limit\<close> bytes were written.
\<close>

theorem bounded_output:
  assumes "0 \<le> limit"
  shows "ob_buffer (output_writes ds (new_output limit)) = take (nat limit) (concat ds)
    \<and> (ob_err (output_writes ds (new_output limit)) \<noteq> None \<longleftrightarrow> limit < int (length (concat ds)))
    \<and> ob_cancelled (output_writes ds (new_output limit)) = (ob_err (output_writes ds (new_output limit)) \<noteq> None)"
  using output_writes_inv[OF assms, of ds] by (auto simp: output_inv_def)

theorem bounded_output_witness:
  "ob_buffer (output_writes [''ab'', ''cd''] (new_output 3)) = take (nat 3) (concat [''ab'', ''cd''])
    \<and> (ob_err (output_writes [''ab'', ''cd''] (new_output 3)) \<noteq> None \<longleftrightarrow> 3 < int (length (concat [''ab'', ''cd''])))
    \<and> ob_cancelled (output_writes [''ab'', ''cd''] (new_output 3)) = (ob_err (output_writes [''ab'', ''cd''] (new_output 3)) \<noteq> None)"
  by (rule bounded_output) simp

section \<open>What a successful run means\<close>

definition static_elf :: "descriptor \<Rightarrow> bool" where
  "static_elf scanner \<longleftrightarrow> (\<exists>parsed. de_ELF scanner = Inr parsed \<and> ef_Type parsed \<in> {ET_EXEC, ET_DYN}
     \<and> PT_INTERP \<notin> set (ef_Progs parsed) \<and> ef_Libraries parsed = Inr [])"

lemma requireStaticELF_None: "requireStaticELF scanner = None \<longleftrightarrow> static_elf scanner"
  by (auto simp: requireStaticELF_def static_elf_def split: sum.splits)

lemma outcome_Inr:
  "outcome_result r oc = Inr out \<longleftrightarrow> out = concat (po_stdout oc) \<and> int (length out) \<le> MaxReportBytes
     \<and> int (length (concat (po_stderr oc))) \<le> MaxStderrBytes \<and> \<not> po_deadlineExceeded oc \<and> po_waitErr oc = None"
proof -
  have "output_inv MaxReportBytes (concat (po_stdout oc)) (output_writes (po_stdout oc) (new_output MaxReportBytes))"
    "output_inv MaxStderrBytes (concat (po_stderr oc)) (output_writes (po_stderr oc) (new_output MaxStderrBytes))"
    by (simp_all add: output_writes_inv MaxReportBytes_def MaxStderrBytes_def)
  then show ?thesis
    by (auto simp: outcome_result_def Let_def output_inv_def split: option.splits)
qed

definition sandboxed_command :: "Runner \<Rightarrow> descriptor \<Rightarrow> descriptor \<Rightarrow> descriptor \<Rightarrow> string \<Rightarrow> command" where
  "sandboxed_command r bwrap scanner target displayName =
     \<lparr>cm_path = ''/proc/self/fd/'' @ decimal (de_fd bwrap),
      cm_args = sandbox_Arguments ''/proc/self/fd/3'' ''/proc/self/fd/4'' displayName, cm_env = [],
      cm_files = [scanner, target], cm_timeout = ru_Timeout r\<rparr>"

definition directory_descriptor :: "descriptor \<Rightarrow> bool" where
  "directory_descriptor t \<longleftrightarrow> (\<exists>info. de_Stat t = Inr info \<and> st_dir info)"


text \<open>A world in which the production runner succeeds.\<close>

definition sample_executable :: descriptor where
  "sample_executable = \<lparr>de_fd = 7,
     de_Stat = Inr \<lparr>st_sys = True, st_regular = True, st_dir = False, st_perm = 0b111101101, st_uid = 0, st_nlink = 1\<rparr>,
     de_ELF = Inr \<lparr>ef_Type = ET_EXEC, ef_Progs = [], ef_Libraries = Inr []\<rparr>\<rparr>"

definition sample_target :: descriptor where
  "sample_target = \<lparr>de_fd = 8,
     de_Stat = Inr \<lparr>st_sys = True, st_regular = False, st_dir = True, st_perm = 0b111101101, st_uid = 1000, st_nlink = 2\<rparr>,
     de_ELF = Inl (Errorf ''not an ELF file'' [])\<rparr>"

definition sample_sandbox :: "string \<Rightarrow> sandbox_io" where
  "sample_sandbox written = \<lparr>sb_openat2 = (\<lambda>path how. Inr sample_executable), sb_getwd = Inr ''/'',
     sb_run = (\<lambda>c. \<lparr>po_stdout = [written], po_stderr = [], po_waitErr = None, po_deadlineExceeded = False\<rparr>)\<rparr>"

definition sample_runner :: Runner where
  "sample_runner = \<lparr>ru_Bubblewrap = bubblewrapPath, ru_Timeout = WallTime, ru_AllowDevelopmentScanner = False\<rparr>"

lemma sample_static: "requireStaticELF sample_executable = None"
  unfolding requireStaticELF_None by (simp add: static_elf_def sample_executable_def)

lemma sample_trusted: "trusted_file 0 sample_executable"
  by (simp add: trusted_file_def sample_executable_def bit_numeral_rec)

text \<open>Any world in which the executables are trusted and the command prints a text of permitted length.\<close>

lemma runner_prints:
  assumes "\<And>p. sb_openat2 io p executable_how = Inr sample_executable"
    and "\<And>c. sb_run io c = \<lparr>po_stdout = [written], po_stderr = [], po_waitErr = None, po_deadlineExceeded = False\<rparr>"
    and "validDisplayName name" and "int (length written) \<le> MaxReportBytes" and "path_isAbs scanner"
    and "directory_descriptor target"
  shows "Runner_Run io sample_runner scanner (Some target) name = Inr written"
proof -
  have opens: "trusted_Open (sb_openat2 io) p = Inr sample_executable" if "path_isAbs p" for p
    unfolding trusted_Open_def open_owned using that assms(1) sample_trusted by blast
  have "path_isAbs (ru_Bubblewrap sample_runner)" "ru_Bubblewrap sample_runner \<noteq> []" "\<not> ru_Timeout sample_runner \<le> 0"
    by (simp_all add: sample_runner_def bubblewrapPath_def path_isAbs_def slash_def policy_defs)
  moreover have "pin_scanner io sample_runner scanner = Inr sample_executable"
    by (simp add: pin_scanner_def opens[OF assms(5)] sample_static) (simp add: sample_runner_def)
  moreover have "sandbox_target_error (Some target) = None"
    using assms(6) by (auto simp: sandbox_target_error_def directory_descriptor_def)
  moreover have "outcome_result sample_runner (sb_run io c) = Inr written" for c
    unfolding outcome_Inr using assms(2,4) by (simp add: MaxStderrBytes_def)
  ultimately show ?thesis
    using assms(3) by (simp add: Runner_Run_def opens CommandPath_def)
qed

lemma sample_name_valid: "validDisplayName ''example.plugin''"
  by code_simp


end
