(* ===== verification/GoFlag.thy ===== *)
theory GoFlag
  imports GoFields
begin

text \<open>
  Command lines as the package \<open>flag\<close> reads them (\<open>FlagSet.Parse\<close> with \<open>ContinueOnError\<close>): a flag
  set gives each declared name its kind and current value.
\<close>

datatype flag_value = FString string | FBool bool

type_synonym flag_set = "string \<rightharpoonup> flag_value"

abbreviation dash :: char where "dash \<equiv> CHR ''-''"

text \<open>\<open>strconv.ParseBool\<close>\<close>

definition parse_bool :: "string \<Rightarrow> bool option" where
  "parse_bool s =
     (if s \<in> set [''1'', ''t'', ''T'', ''true'', ''TRUE'', ''True''] then Some True
      else if s \<in> set [''0'', ''f'', ''F'', ''false'', ''FALSE'', ''False''] then Some False else None)"

text \<open>The name of a flag and the value after an equals sign, which is not searched for in the first place.\<close>

definition flag_cut :: "string \<Rightarrow> string \<times> string option" where
  "flag_cut name =
     (let n = 1 + length (takeWhile (\<lambda>c. c \<noteq> CHR ''='') (drop 1 name)) in
      if n < length name then (take n name, Some (drop (n + 1) name)) else (name, None))"

text \<open>The flags after parsing, and the arguments that are left.\<close>

fun flag_parse :: "flag_set \<Rightarrow> string list \<Rightarrow> (flag_set \<times> string list) result" where
  "flag_parse fs [] = Inr (fs, [])"
| "flag_parse fs (s # args) =
     (if length s < 2 \<or> hd s \<noteq> dash then Inr (fs, s # args)
      else if s = [dash, dash] then Inr (fs, args)
      else let name = (if s ! 1 = dash then drop 2 s else drop 1 s) in
        if name = [] \<or> hd name = dash \<or> hd name = CHR ''='' then Inl (Errorf ''bad flag syntax: %s'' [AStr s])
        else let (key, given) = flag_cut name in
          (case fs key of
             None \<Rightarrow> Inl (Errorf ''flag provided but not defined: -%s'' [AStr key])
           | Some (FBool _) \<Rightarrow>
               (case given of
                  None \<Rightarrow> flag_parse (fs(key \<mapsto> FBool True)) args
                | Some t \<Rightarrow>
                    (case parse_bool t of
                       None \<Rightarrow> Inl (Errorf ''invalid boolean value %q for -%s: %v'' [AStr t, AStr key])
                     | Some b \<Rightarrow> flag_parse (fs(key \<mapsto> FBool b)) args))
           | Some (FString _) \<Rightarrow>
               (case given of
                  Some t \<Rightarrow> flag_parse (fs(key \<mapsto> FString t)) args
                | None \<Rightarrow>
                    (case args of
                       [] \<Rightarrow> Inl (Errorf ''flag needs an argument: -%s'' [AStr key])
                     | t # rest \<Rightarrow> flag_parse (fs(key \<mapsto> FString t)) rest))))"

definition flag_string :: "flag_set \<Rightarrow> string \<Rightarrow> string" where
  "flag_string fs key = (case fs key of Some (FString s) \<Rightarrow> s | _ \<Rightarrow> [])"

definition flag_bool :: "flag_set \<Rightarrow> string \<Rightarrow> bool" where
  "flag_bool fs key = (case fs key of Some (FBool b) \<Rightarrow> b | _ \<Rightarrow> False)"

text \<open>A name written with two dashes and no equals sign.\<close>

definition plain_flag :: "string \<Rightarrow> bool" where
  "plain_flag key \<longleftrightarrow> key \<noteq> [] \<and> hd key \<noteq> dash \<and> CHR ''='' \<notin> set key"

lemma flag_cut_plain: "plain_flag key \<Longrightarrow> flag_cut key = (key, None)"
proof -
  assume "plain_flag key"
  then have "takeWhile (\<lambda>c. c \<noteq> CHR ''='') (drop 1 key) = drop 1 key" "0 < length key"
    by (auto simp: plain_flag_def takeWhile_eq_all_conv dest: in_set_dropD)
  then show ?thesis unfolding flag_cut_def Let_def by (simp only: length_drop) simp
qed

lemma flag_parse_string:
  assumes "plain_flag key" and "\<exists>v. fs key = Some (FString v)"
  shows "flag_parse fs ((dash # dash # key) # t # args) = flag_parse (fs(key \<mapsto> FString t)) args"
proof -
  have "key \<noteq> []" "hd key \<noteq> dash" "hd key \<noteq> CHR ''=''" using assms(1) by (cases key; auto simp: plain_flag_def)+
  then show ?thesis using assms(2) flag_cut_plain[OF assms(1)] by (auto simp: Let_def)
qed

lemma flag_parse_switch:
  assumes "plain_flag key" and "case fs key of Some (FBool _) \<Rightarrow> True | _ \<Rightarrow> False"
  shows "flag_parse fs ((dash # dash # key) # args) = flag_parse (fs(key \<mapsto> FBool True)) args"
proof -
  have "key \<noteq> []" "hd key \<noteq> dash" "hd key \<noteq> CHR ''=''" using assms(1) by (cases key; auto simp: plain_flag_def)+
  then show ?thesis using assms(2) flag_cut_plain[OF assms(1)] by (auto simp: Let_def split: option.splits flag_value.splits)
qed

declare flag_parse.simps(2) [simp del]

end
