(* ===== verification/GoFiles.thy ===== *)
theory GoFiles
  imports Prelude
begin

text \<open>
  Reading a directory in batches, and programs that run against a changing world: a program takes
  a state and returns, or does not (\<^const>\<open>None\<close>), a result or an error, and the state after it.
\<close>

text \<open>How a call of \<open>ReadDir\<close> ended.\<close>

datatype read_end = ReadMore | ReadEOF | ReadFailed go_error

type_synonym ('a, 's) prog = "'s \<Rightarrow> ('a result \<times> 's) option"

definition returns :: "'a \<Rightarrow> ('a, 's) prog" where
  "returns x = (\<lambda>s. Some (Inr x, s))"

definition raises :: "go_error \<Rightarrow> ('a, 's) prog" where
  "raises e = (\<lambda>s. Some (Inl e, s))"

definition bindp :: "('a, 's) prog \<Rightarrow> ('a \<Rightarrow> ('b, 's) prog) \<Rightarrow> ('b, 's) prog" where
  "bindp m f = (\<lambda>s. case m s of
     None \<Rightarrow> None
   | Some (Inl e, t) \<Rightarrow> Some (Inl e, t)
   | Some (Inr x, t) \<Rightarrow> f x t)"

definition reads :: "('s \<Rightarrow> 'a) \<Rightarrow> ('a, 's) prog" where
  "reads f = (\<lambda>s. Some (Inr (f s), s))"

definition modifies :: "('s \<Rightarrow> 's) \<Rightarrow> (unit, 's) prog" where
  "modifies f = (\<lambda>s. Some (Inr (), f s))"

definition demand :: "bool \<Rightarrow> go_error \<Rightarrow> (unit, 's) prog" where
  "demand b e = (if b then returns () else raises e)"

fun each :: "('a \<Rightarrow> (unit, 's) prog) \<Rightarrow> 'a list \<Rightarrow> (unit, 's) prog" where
  "each f [] = returns ()"
| "each f (x # xs) = bindp (f x) (\<lambda>_. each f xs)"

text \<open>How a command ends: its exit code, what it wrote to standard output, and its messages.\<close>

record process_exit =
  ex_code :: int
  ex_stdout :: string
  ex_stderr :: "go_error list"

definition fails :: "int \<Rightarrow> go_error \<Rightarrow> process_exit" where
  "fails code e = \<lparr>ex_code = code, ex_stdout = [], ex_stderr = [e]\<rparr>"

section \<open>Programs that return\<close>

definition total :: "('a, 's) prog \<Rightarrow> bool" where
  "total m \<longleftrightarrow> (\<forall>s. m s \<noteq> None)"

named_theorems total_intros \<open>programs that return are closed under composition\<close>

lemma total_returns [total_intros]: "total (returns x)" by (simp add: total_def returns_def)
lemma total_raises [total_intros]: "total (raises e)" by (simp add: total_def raises_def)
lemma total_reads [total_intros]: "total (reads f)" by (simp add: total_def reads_def)
lemma total_modifies [total_intros]: "total (modifies f)" by (simp add: total_def modifies_def)
lemma total_demand [total_intros]: "total (demand b e)" by (simp add: total_def demand_def returns_def raises_def)

lemma total_bindp [total_intros]: "total m \<Longrightarrow> (\<And>x. total (f x)) \<Longrightarrow> total (bindp m f)"
  by (auto simp: total_def bindp_def split: option.splits sum.splits)

lemma total_if [total_intros]: "total m \<Longrightarrow> total n \<Longrightarrow> total (if b then m else n)"
  by simp

lemma total_sum [total_intros]: "(\<And>x. total (f x)) \<Longrightarrow> (\<And>y. total (g y)) \<Longrightarrow> total (case r of Inl x \<Rightarrow> f x | Inr y \<Rightarrow> g y)"
  by (simp split: sum.split)

lemma total_option [total_intros]: "total m \<Longrightarrow> (\<And>y. total (g y)) \<Longrightarrow> total (case r of None \<Rightarrow> m | Some y \<Rightarrow> g y)"
  by (simp split: option.split)

lemma total_prod [total_intros]: "(\<And>x y. total (f x y)) \<Longrightarrow> total (case p of (x, y) \<Rightarrow> f x y)"
  by (simp split: prod.split)

lemma total_each [total_intros]: "(\<And>x. total (f x)) \<Longrightarrow> total (each f xs)"
  by (induction xs) (simp_all add: total_intros)

section \<open>Triples\<close>

text \<open>Every run from a state with \<open>P\<close> that returns a result ends in a result and a state with \<open>Q\<close>.\<close>

definition triple :: "('s \<Rightarrow> bool) \<Rightarrow> ('a, 's) prog \<Rightarrow> ('a \<Rightarrow> 's \<Rightarrow> bool) \<Rightarrow> bool" where
  "triple P m Q \<longleftrightarrow> (\<forall>s x t. P s \<longrightarrow> m s = Some (Inr x, t) \<longrightarrow> Q x t)"

lemma triple_returns: "(\<And>s. P s \<Longrightarrow> Q x s) \<Longrightarrow> triple P (returns x) Q"
  by (simp add: triple_def returns_def)

lemma triple_raises [simp]: "triple P (raises e) Q"
  by (simp add: triple_def raises_def)

lemma triple_demand: "(\<And>s. P s \<Longrightarrow> b \<Longrightarrow> Q () s) \<Longrightarrow> triple P (demand b e) Q"
  by (simp add: triple_def demand_def returns_def raises_def)

lemma triple_modifies: "(\<And>s. P s \<Longrightarrow> Q () (f s)) \<Longrightarrow> triple P (modifies f) Q"
  by (simp add: triple_def modifies_def)

lemma triple_reads: "(\<And>s. P s \<Longrightarrow> Q (f s) s) \<Longrightarrow> triple P (reads f) Q"
  by (simp add: triple_def reads_def)

lemma triple_bindp: "triple P m R \<Longrightarrow> (\<And>x. triple (R x) (f x) Q) \<Longrightarrow> triple P (bindp m f) Q"
proof (unfold triple_def, intro allI impI)
  fix s x t
  assume m: "\<forall>s x t. P s \<longrightarrow> m s = Some (Inr x, t) \<longrightarrow> R x t"
    and f: "\<And>x. \<forall>s y t. R x s \<longrightarrow> f x s = Some (Inr y, t) \<longrightarrow> Q y t"
    and s: "P s" and run: "bindp m f s = Some (Inr x, t)"
  from run obtain y u where y: "m s = Some (Inr y, u)" "f y u = Some (Inr x, t)"
    by (auto simp: bindp_def split: option.splits sum.splits)
  with m f s show "Q x t" by blast
qed

lemma triple_conseq: "triple P m Q \<Longrightarrow> (\<And>s. P' s \<Longrightarrow> P s) \<Longrightarrow> (\<And>x t. Q x t \<Longrightarrow> Q' x t) \<Longrightarrow> triple P' m Q'"
  unfolding triple_def by blast

lemma triple_sum: "(\<And>x. triple P (f x) Q) \<Longrightarrow> (\<And>y. triple P (g y) Q) \<Longrightarrow> triple P (case r of Inl x \<Rightarrow> f x | Inr y \<Rightarrow> g y) Q"
  by (simp split: sum.split)

lemma triple_pure: "(b \<Longrightarrow> triple P m Q) \<Longrightarrow> triple (\<lambda>s. P s \<and> b) m Q"
  unfolding triple_def by blast

text \<open>A loop over a list, with an invariant that counts the elements taken.\<close>

lemma triple_each:
  assumes "\<And>x i. x \<in> set xs \<Longrightarrow> triple (J i) (f x) (\<lambda>_. J (Suc i))"
  shows "triple (J i) (each f xs) (\<lambda>_. J (i + length xs))"
  using assms
proof (induction xs arbitrary: i)
  case Nil
  then show ?case by (simp add: triple_returns)
next
  case (Cons x xs)
  have "triple (J i) (f x) (\<lambda>_. J (Suc i))" using Cons.prems by simp
  moreover have "triple (J (Suc i)) (each f xs) (\<lambda>_. J (i + length (x # xs)))"
    using Cons.IH[of "Suc i"] Cons.prems by simp
  ultimately show ?case unfolding each.simps by (rule triple_bindp)
qed

lemma triple_result: "triple P m Q \<Longrightarrow> P s \<Longrightarrow> m s = Some (Inr x, t) \<Longrightarrow> Q x t"
  by (simp add: triple_def)

text \<open>An invariant is what a program keeps.\<close>

definition keeps :: "('s \<Rightarrow> bool) \<Rightarrow> ('a, 's) prog \<Rightarrow> bool" where
  "keeps P m \<longleftrightarrow> triple P m (\<lambda>_. P)"

named_theorems keeps_intros \<open>programs that keep an invariant are closed under composition\<close>

lemma keeps_returns [keeps_intros]: "keeps P (returns x)"
  by (simp add: keeps_def triple_returns)

lemma keeps_raises [keeps_intros]: "keeps P (raises e)"
  by (simp add: keeps_def)

lemma keeps_reads [keeps_intros]: "keeps P (reads f)"
  by (simp add: keeps_def triple_reads)

lemma keeps_demand [keeps_intros]: "keeps P (demand b e)"
  by (simp add: keeps_def triple_demand)

lemma keeps_modifies: "(\<And>s. P s \<Longrightarrow> P (f s)) \<Longrightarrow> keeps P (modifies f)"
  by (simp add: keeps_def triple_modifies)

lemma keeps_bindp [keeps_intros]: "keeps P m \<Longrightarrow> (\<And>x. keeps P (f x)) \<Longrightarrow> keeps P (bindp m f)"
  unfolding keeps_def by (rule triple_bindp)

lemma keeps_if [keeps_intros]: "keeps P m \<Longrightarrow> keeps P n \<Longrightarrow> keeps P (if b then m else n)"
  by simp

lemma keeps_sum [keeps_intros]: "(\<And>x. keeps P (f x)) \<Longrightarrow> (\<And>y. keeps P (g y)) \<Longrightarrow> keeps P (case r of Inl x \<Rightarrow> f x | Inr y \<Rightarrow> g y)"
  by (simp split: sum.split)

lemma keeps_option [keeps_intros]: "keeps P m \<Longrightarrow> (\<And>y. keeps P (g y)) \<Longrightarrow> keeps P (case r of None \<Rightarrow> m | Some y \<Rightarrow> g y)"
  by (simp split: option.split)

lemma keeps_prod [keeps_intros]: "(\<And>x y. keeps P (f x y)) \<Longrightarrow> keeps P (case p of (x, y) \<Rightarrow> f x y)"
  by (simp split: prod.split)

lemma keeps_each [keeps_intros]: "(\<And>x. keeps P (f x)) \<Longrightarrow> keeps P (each f xs)"
  unfolding keeps_def using triple_each[of xs "\<lambda>_. P" f] by blast

end
