(* ===== verification/Broker.thy ===== *)
theory Broker
  imports JsonStructure ScopeGuarantees Sandbox GoFlag GoFiles
begin

text \<open>
  The broker (cmd/plug-prejudice-broker/main.go): it enters a resource scope by running itself
  again inside it, verifies its containment there, and then lists the installed plugins or
  publishes the report of one sandboxed review. What the operating system does is a parameter, as
  in the components it calls.
\<close>

section \<open>Plugin identifiers\<close>

definition maxInstalledPlugins :: nat where "maxInstalledPlugins = 1024"
definition pluginReadBatchEntries :: nat where "pluginReadBatchEntries = 128"

definition id_start :: "char \<Rightarrow> bool" where
  "id_start c \<longleftrightarrow> in_rng 65 90 c \<or> in_rng 97 122 c \<or> in_rng 48 57 c"

text \<open>\<open>^[A-Za-z0-9][A-Za-z0-9._-]*$\<close>\<close>

definition pluginIDPattern :: "string \<Rightarrow> bool" where
  "pluginIDPattern s \<longleftrightarrow>
     (case s of [] \<Rightarrow> False | c # cs \<Rightarrow> id_start c \<and> list_all (\<lambda>d. id_start d \<or> d \<in> set ''._-'') cs)"

definition validPluginID :: "string \<Rightarrow> bool" where
  "validPluginID ident \<longleftrightarrow> pluginIDPattern ident \<and> \<not> contains ident ''..''"

section \<open>The world\<close>

record dir_entry =
  en_Name :: string
  en_Symlink :: bool
  en_IsDir :: bool

text \<open>
  \<open>br_exitCode\<close> is what \<open>errors.As\<close> finds in an error of a run; \<open>br_write\<close> is how many bytes a write
  to standard output takes, and its error.
\<close>

record 'w broker_io =
  br_scope :: "'w scope_io"
  br_parseDuration :: "string \<Rightarrow> int result"
  br_getrlimit :: "nat \<Rightarrow> error"
  br_setrlimit :: "nat \<Rightarrow> error"
  br_rlimits :: "'w \<Rightarrow> rlimits"
  br_putRlimits :: "rlimits \<Rightarrow> 'w \<Rightarrow> 'w"
  br_openat2 :: "'w \<Rightarrow> descriptor \<Rightarrow> kernel_open"
  br_readDir :: "descriptor \<Rightarrow> nat \<Rightarrow> 'w \<Rightarrow> (dir_entry list \<times> read_end) \<times> 'w"
  br_sandboxRun :: "'w \<Rightarrow> command \<Rightarrow> process_outcome"
  br_write :: "string \<Rightarrow> 'w \<Rightarrow> nat \<times> error"
  br_exitCode :: "go_error \<Rightarrow> int option"
  br_nonce :: "string result"
  br_pid :: nat
  br_home :: "string result"
  br_executable :: "string result"
  br_json :: json_package
  br_digest :: digestFunction

section \<open>Opening directories\<close>

definition directory_how :: open_how where
  "directory_how = \<lparr>oh_Directory = True, oh_Path = False, oh_Beneath = False, oh_NoSymlinks = True,
     oh_NoMagiclinks = True, oh_NoXdev = False\<rparr>"

definition beneath_how :: open_how where
  "beneath_how = \<lparr>oh_Directory = True, oh_Path = False, oh_Beneath = True, oh_NoSymlinks = True,
     oh_NoMagiclinks = True, oh_NoXdev = True\<rparr>"

definition openDirectoryPath :: "string result \<Rightarrow> kernel_open \<Rightarrow> string \<Rightarrow> descriptor result" where
  "openDirectoryPath getwd openat2 name =
     bindr (path_abs getwd name) (\<lambda>absolute.
     bindr (openat2 absolute directory_how) (\<lambda>file.
       andthen (check (case de_Stat file of Inl _ \<Rightarrow> True | Inr info \<Rightarrow> \<not> st_dir info)
         ''opened path is not a directory'' [])
       (Inr file)))"

definition openInstalledTarget ::
  "string result \<Rightarrow> kernel_open \<Rightarrow> (descriptor \<Rightarrow> kernel_open) \<Rightarrow> string \<Rightarrow> string \<Rightarrow> descriptor result" where
  "openInstalledTarget getwd openat2 openAt root ident =
     andthen (check (\<not> validPluginID ident) ''invalid plugin ID'' [])
     (case openDirectoryPath getwd openat2 root of
        Inl e \<Rightarrow> Inl (Wrapf ''open plugins root: %w'' [] e)
      | Inr rootFile \<Rightarrow>
          (case openAt rootFile ident beneath_how of
             Inl e \<Rightarrow> Inl (Wrapf ''open selected plugin beneath root: %w'' [] e)
           | Inr target \<Rightarrow>
               (case de_Stat target of
                  Inl _ \<Rightarrow> Inl (Errorf ''selected plugin descriptor metadata is unavailable'' [])
                | Inr info \<Rightarrow>
                    andthen (check (\<not> st_sys info \<or> \<not> st_dir info \<or> st_nlink info = 0)
                      ''selected plugin descriptor is not a live directory'' [])
                    (Inr target))))"

section \<open>Listing\<close>

definition plugin_entry :: "dir_entry \<Rightarrow> string list \<Rightarrow> string list result" where
  "plugin_entry entry plugins =
     andthen (first_error [
       check (length plugins \<ge> maxInstalledPlugins) ''plugins root entry count exceeds %d'' [AInt (int maxInstalledPlugins)],
       check (\<not> validPluginID (en_Name entry) \<or> en_Symlink entry \<or> \<not> en_IsDir entry)
         ''plugins root contains an unacceptable entry'' []])
     (Inr (plugins @ [en_Name entry]))"

partial_function (option) plugin_loop ::
  "'w broker_io \<Rightarrow> descriptor \<Rightarrow> string list \<Rightarrow> 'w \<Rightarrow> (string list result \<times> 'w) option" where
  "plugin_loop io directory plugins w =
     (case br_readDir io directory pluginReadBatchEntries w of
        ((entries, readErr), w1) \<Rightarrow>
          (case loop plugin_entry entries plugins of
             Inl e \<Rightarrow> Some (Inl e, w1)
           | Inr plugins1 \<Rightarrow>
               (case readErr of
                  ReadEOF \<Rightarrow> Some (Inr plugins1, w1)
                | ReadFailed e \<Rightarrow> Some (Inl (Wrapf ''read plugins root: %w'' [] e), w1)
                | ReadMore \<Rightarrow> plugin_loop io directory plugins1 w1)))"

definition installedPluginIDs :: "'w broker_io \<Rightarrow> string \<Rightarrow> 'w \<Rightarrow> (string list result \<times> 'w) option" where
  "installedPluginIDs io root w =
     (case openDirectoryPath (io_getwd (br_scope io)) (io_openat2 (br_scope io) w) root of
        Inl e \<Rightarrow> Some (Inl (Wrapf ''open plugins root: %w'' [] e), w)
      | Inr directory \<Rightarrow>
          map_option (\<lambda>(r, w1). (bindr r (\<lambda>plugins. Inr (sort plugins)), w1)) (plugin_loop io directory [] w))"

text \<open>\<open>json.NewEncoder(os.Stdout).Encode\<close> of a \<open>pluginList\<close>, whose two members are its fields in order.\<close>

definition quoted :: "string \<Rightarrow> string" where "quoted s = json_string s"

definition encodePluginList :: "string \<Rightarrow> string list \<Rightarrow> string" where
  "encodePluginList schemaVersion plugins =
     ''{'' @ quoted ''schemaVersion'' @ '':'' @ quoted schemaVersion @ '','' @ quoted ''plugins'' @ '':[''
       @ join_with '','' (map quoted plugins) @ '']}'' @ [CHR 0x0A]"

section \<open>Containment first\<close>

record 'w containmentChecks =
  cc_verify :: "string \<Rightarrow> 'w \<Rightarrow> error \<times> 'w"
  cc_verifyRuntime :: "int option \<Rightarrow> string \<Rightarrow> 'w \<Rightarrow> error \<times> 'w"
  cc_applyLimits :: "'w \<Rightarrow> error \<times> 'w"

definition afterVerifiedContainment ::
  "string \<Rightarrow> 'w containmentChecks \<Rightarrow> ('w \<Rightarrow> (process_exit \<times> 'w) option) \<Rightarrow> 'w \<Rightarrow> (process_exit \<times> 'w) option" where
  "afterVerifiedContainment scope checks action w =
     (case cc_verify checks scope w of
        (Some e, w1) \<Rightarrow> Some (fails 1 (Wrapf ''verify resource scope: %v'' [] e), w1)
      | (None, w1) \<Rightarrow>
          (case cc_verifyRuntime checks None scope w1 of
             (Some e, w2) \<Rightarrow> Some (fails 1 (Wrapf ''verify resource scope lifetime: %v'' [] e), w2)
           | (None, w2) \<Rightarrow>
               (case cc_applyLimits checks w2 of
                  (Some e, w3) \<Rightarrow> Some (fails 1 (Wrapf ''apply process limits: %v'' [] e), w3)
                | (None, w3) \<Rightarrow> action w3)))"

definition expectedResourceLimits :: "ResourceLimits option \<Rightarrow> bool" where
  "expectedResourceLimits limits \<longleftrightarrow>
     (case limits of
        None \<Rightarrow> False
      | Some l \<Rightarrow> rl_MemoryMaxBytes l = MemoryMaxBytes \<and> rl_MemorySwapBytes l = MemorySwapBytes
          \<and> rl_TasksMax l = TasksMax \<and> rl_CPUQuotaPercent l = CPUQuotaPercent
          \<and> rl_WallTimeSeconds l = WallTime div Second)"

section \<open>The broker\<close>

text \<open>Standard output takes all bytes, or some of them and an error.\<close>

definition write_stdout :: "'w broker_io \<Rightarrow> string \<Rightarrow> string \<Rightarrow> 'w \<Rightarrow> process_exit" where
  "write_stdout io message d w =
     (case br_write io d w of
        (_, None) \<Rightarrow> \<lparr>ex_code = 0, ex_stdout = d, ex_stderr = []\<rparr>
      | (n, Some e) \<Rightarrow> \<lparr>ex_code = 1, ex_stdout = take n d, ex_stderr = [Wrapf message [] e]\<rparr>)"

definition list_action :: "'w broker_io \<Rightarrow> string \<Rightarrow> 'w \<Rightarrow> (process_exit \<times> 'w) option" where
  "list_action io pluginsRoot w =
     map_option (\<lambda>(r, w1).
       (case r of
          Inl e \<Rightarrow> (fails 1 (Wrapf ''list plugins: %v'' [] e), w1)
        | Inr plugins \<Rightarrow> (write_stdout io ''write plugin list: %v'' (encodePluginList ''1.0.0'' plugins) w1, w1)))
     (installedPluginIDs io pluginsRoot w)"

definition sandbox_of :: "'w broker_io \<Rightarrow> 'w \<Rightarrow> sandbox_io" where
  "sandbox_of io w = \<lparr>sb_openat2 = io_openat2 (br_scope io) w, sb_getwd = io_getwd (br_scope io),
     sb_run = br_sandboxRun io w\<rparr>"

definition review_action :: "'w broker_io \<Rightarrow> string \<Rightarrow> string \<Rightarrow> string \<Rightarrow> 'w \<Rightarrow> process_exit" where
  "review_action io pluginsRoot scanner pluginID w =
     (case openInstalledTarget (io_getwd (br_scope io)) (io_openat2 (br_scope io) w) (br_openat2 io w) pluginsRoot pluginID of
        Inl e \<Rightarrow> fails 1 (Wrapf ''resolve plugin: %v'' [] e)
      | Inr target \<Rightarrow>
     (case DefaultRunner (io_openat2 (br_scope io) w) of
        Inl e \<Rightarrow> fails 1 e
      | Inr runner \<Rightarrow>
     (case Runner_Run (sandbox_of io w) runner scanner (Some target) pluginID of
        Inl e \<Rightarrow> fails 1 (Wrapf ''review plugin: %v'' [] e)
      | Inr output \<Rightarrow>
     (case Decode (br_json io) (br_digest io) output of
        Inl e \<Rightarrow> fails 1 (Wrapf ''validate scanner report: %v'' [] e)
      | Inr decoded \<Rightarrow>
          if \<not> expectedResourceLimits (sm_ResourceLimits (rp_Scan decoded)) then
            fails 1 (Errorf ''validate scanner report: resource policy metadata does not match broker policy'' [])
          else write_stdout io ''write report: %v'' output w))))"

definition defaultPluginsRoot :: "string result \<Rightarrow> string" where
  "defaultPluginsRoot home =
     (case home of Inl _ \<Rightarrow> [] | Inr h \<Rightarrow> path_join [h, ''.config'', ''omarchy'', ''plugins''])"

text \<open>\<open>filepath.Dir\<close>: everything before the last slash, cleaned.\<close>

definition path_dir :: "string \<Rightarrow> string" where
  "path_dir s = path_clean (rev (dropWhile (\<lambda>c. c \<noteq> slash) (rev s)))"

definition siblingScanner :: "string result \<Rightarrow> string" where
  "siblingScanner executable =
     (case executable of Inl _ \<Rightarrow> ''plug-prejudice'' | Inr e \<Rightarrow> path_join [path_dir e, ''plug-prejudice''])"

definition broker_flags :: "'w broker_io \<Rightarrow> flag_set" where
  "broker_flags io = [''plugin'' \<mapsto> FString [], ''list'' \<mapsto> FBool False,
     ''plugins-root'' \<mapsto> FString (defaultPluginsRoot (br_home io)),
     ''scanner'' \<mapsto> FString (siblingScanner (br_executable io)), ''resource-scope'' \<mapsto> FString []]"

text \<open>The arguments with which the broker runs itself inside the scope.\<close>

definition scoped_arguments :: "flag_set \<Rightarrow> string \<Rightarrow> string list" where
  "scoped_arguments fs unit =
     (if flag_bool fs ''list'' then [''--list''] else [''--plugin'', flag_string fs ''plugin''])
     @ [''--plugins-root'', flag_string fs ''plugins-root'', ''--scanner'', flag_string fs ''scanner'',
        ''--resource-scope'', unit]"

definition usable :: "flag_set \<Rightarrow> string list \<Rightarrow> bool" where
  "usable fs rest \<longleftrightarrow> \<not> (length rest \<noteq> 0 \<or> flag_bool fs ''list'' = (flag_string fs ''plugin'' \<noteq> [])
     \<or> (\<not> flag_bool fs ''list'' \<and> \<not> validPluginID (flag_string fs ''plugin'')))"

definition enter_scope :: "'w broker_io \<Rightarrow> Manager \<Rightarrow> flag_set \<Rightarrow> 'w \<Rightarrow> (process_exit \<times> 'w) option" where
  "enter_scope io manager fs w =
     (case NewUnitName (br_nonce io) of
        Inl e \<Rightarrow> Some (fails 1 e, w)
      | Inr unit \<Rightarrow>
          map_option (\<lambda>(runErr, w1).
            (case runErr of
               None \<Rightarrow> (\<lparr>ex_code = 0, ex_stdout = [], ex_stderr = []\<rparr>, w1)
             | Some e \<Rightarrow>
                 (case br_exitCode io e of
                    Some code \<Rightarrow> (\<lparr>ex_code = code, ex_stdout = [], ex_stderr = []\<rparr>, w1)
                  | None \<Rightarrow> (fails 1 (Wrapf ''enter resource scope: %v'' [] e), w1))))
          (Manager_Run (br_scope io) manager None unit (''/proc/'' @ decimal (br_pid io) @ ''/exe'')
            (scoped_arguments fs unit) w))"

definition broker_checks :: "'w broker_io \<Rightarrow> Manager \<Rightarrow> 'w containmentChecks" where
  "broker_checks io manager = \<lparr>
     cc_verify = (\<lambda>scope w. (Verify (io_getwd (br_scope io)) (\<lambda>name. fst (io_readFile (br_scope io) name w)) manager scope, w)),
     cc_verifyRuntime = (\<lambda>ctx scope w. VerifyRuntime (br_parseDuration io) (br_scope io) manager ctx scope w),
     cc_applyLimits = (\<lambda>w. case ApplyProcessLimits (br_getrlimit io) (br_setrlimit io) (br_rlimits io w) of
        (e, t) \<Rightarrow> (e, br_putRlimits io t w))\<rparr>"

definition broker_run :: "'w broker_io \<Rightarrow> string list \<Rightarrow> 'w \<Rightarrow> (process_exit \<times> 'w) option" where
  "broker_run io args w =
     (case flag_parse (broker_flags io) args of
        Inl e \<Rightarrow> Some (fails 2 e, w)
      | Inr (fs, rest) \<Rightarrow>
          if \<not> usable fs rest then Some (fails 2 (Errorf ''usage: plug-prejudice-broker (--list | --plugin ID)'' []), w)
          else (case DefaultManager (io_openat2 (br_scope io) w) of
             Inl e \<Rightarrow> Some (fails 1 e, w)
           | Inr manager \<Rightarrow>
               if flag_string fs ''resource-scope'' = [] then enter_scope io manager fs w
               else afterVerifiedContainment (flag_string fs ''resource-scope'') (broker_checks io manager)
                 (\<lambda>w. if flag_bool fs ''list'' then list_action io (flag_string fs ''plugins-root'') w
                      else Some (review_action io (flag_string fs ''plugins-root'') (flag_string fs ''scanner'')
                        (flag_string fs ''plugin'') w, w)) w))"

end
