(* ===== verification/BrokerGuarantees.thy ===== *)
theory BrokerGuarantees
  imports Broker
begin

text \<open>
  What the broker guarantees: the names it accepts, the loop over the plugin directory, the
  request it hands to itself inside the scope, and what may reach standard output.
\<close>

section \<open>Names\<close>

lemma display_loop_tail: "0 < n \<Longrightarrow> display_loop n s = list_all (\<lambda>d. id_start d \<or> d \<in> set ''._-'') s"
  by (induction s arbitrary: n) (auto simp: display_character_def id_start_def)

lemma display_loop_pattern: "s \<noteq> [] \<Longrightarrow> display_loop 0 s = pluginIDPattern s"
  by (cases s) (auto simp: display_character_def id_start_def pluginIDPattern_def display_loop_tail)

lemma plugin_id_plain: "validPluginID v \<Longrightarrow> plain_component v \<and> slash \<notin> set v"
  unfolding validPluginID_def pluginIDPattern_def plain_component_def
  by (auto simp: slash_def id_start_def in_rng_def list_all_iff split: list.splits)

text \<open>
  The broker and the sandbox agree on names: the sandbox accepts as a display name exactly the
  plugin identifiers of at most 255 bytes, and every identifier is one plain path component, so that
  opening it beneath the plugin root cannot leave that directory by its name.
\<close>

theorem plugin_names:
  "validDisplayName v = (validPluginID v \<and> length v \<le> 255)
   \<and> (validPluginID v \<longrightarrow> plain_component v \<and> slash \<notin> set v)"
  using plugin_id_plain[of v] display_loop_pattern[of v]
  by (auto simp: validDisplayName_def validPluginID_def) (auto simp: pluginIDPattern_def)

theorem plugin_names_witness:
  "validDisplayName ''example.plugin'' \<and> plain_component ''example.plugin'' \<and> slash \<notin> set ''example.plugin''"
proof -
  have "validDisplayName ''example.plugin''" by (rule sample_name_valid)
  with plugin_names[of "''example.plugin''"] show ?thesis by blast
qed

section \<open>Listing\<close>

lemma plugin_entry_Inr:
  "plugin_entry e ps = Inr qs \<longleftrightarrow> qs = ps @ [en_Name e] \<and> length ps < maxInstalledPlugins
     \<and> validPluginID (en_Name e) \<and> \<not> en_Symlink e \<and> en_IsDir e"
  by (auto simp: plugin_entry_def)

definition plugins_ok :: "string list \<Rightarrow> bool" where
  "plugins_ok ps \<longleftrightarrow> list_all validPluginID ps \<and> length ps \<le> maxInstalledPlugins"

lemma plugins_ok_Nil: "plugins_ok []"
  by (simp add: plugins_ok_def)

lemma plugin_entries_Inr:
  assumes "loop plugin_entry es ps = Inr qs" and "plugins_ok ps"
  shows "qs = ps @ map en_Name es \<and> plugins_ok qs"
  using assms
proof (induction es arbitrary: ps)
  case (Cons e es)
  from Cons.prems(1) obtain rs where "plugin_entry e ps = Inr rs" "loop plugin_entry es rs = Inr qs"
    by (rule loop_ConsE)
  with Cons show ?case by (fastforce simp: plugin_entry_Inr plugins_ok_def)
qed auto

text \<open>\<open>ReadDir\<close> with a positive count returns at least one entry unless it reports the end or an error.\<close>

definition read_progress :: "'w broker_io \<Rightarrow> bool" where
  "read_progress io \<longleftrightarrow> (\<forall>d n w w1. 0 < n \<longrightarrow> br_readDir io d n w \<noteq> (([], ReadMore), w1))"

lemma plugin_loop_returns:
  assumes "read_progress io" and "plugins_ok ps"
  shows "\<exists>r w1. plugin_loop io d ps w = Some (r, w1) \<and> (\<forall>qs. r = Inr qs \<longrightarrow> plugins_ok qs)"
  using assms(2)
proof (induction "maxInstalledPlugins - length ps" arbitrary: ps w rule: less_induct)
  case less
  obtain es e w1 where read: "br_readDir io d pluginReadBatchEntries w = ((es, e), w1)"
    by (metis prod.exhaust)
  show ?case
  proof (cases "loop plugin_entry es ps")
    case (Inl x)
    with read show ?thesis by (subst plugin_loop.simps) simp
  next
    case (Inr qs)
    with plugin_entries_Inr[OF this less.prems] have qs: "qs = ps @ map en_Name es" "plugins_ok qs" by auto
    show ?thesis
    proof (cases e)
      case ReadMore
      with read assms(1) have "es \<noteq> []" by (auto simp: read_progress_def pluginReadBatchEntries_def)
      then have "length ps < length qs" using qs(1) by simp
      moreover have "length qs \<le> maxInstalledPlugins" using qs(2) by (simp add: plugins_ok_def)
      ultimately have "maxInstalledPlugins - length qs < maxInstalledPlugins - length ps" by simp
      from less.hyps[OF this qs(2)] read Inr ReadMore show ?thesis
        by (subst plugin_loop.simps) simp
    next
      case ReadEOF
      with read Inr qs show ?thesis by (subst plugin_loop.simps) simp
    next
      case (ReadFailed x)
      with read Inr show ?thesis by (subst plugin_loop.simps) simp
    qed
  qed
qed

lemma plugins_ok_sort: "plugins_ok (sort ps) = plugins_ok ps"
  by (simp add: plugins_ok_def list_all_iff)

lemma installed_ids:
  assumes "read_progress io"
  shows "\<exists>r w1. installedPluginIDs io root w = Some (r, w1)
    \<and> (\<forall>ps. r = Inr ps \<longrightarrow> sorted ps \<and> plugins_ok ps)"
proof (cases "openDirectoryPath (io_getwd (br_scope io)) (io_openat2 (br_scope io) w) root")
  case (Inl e)
  then show ?thesis by (simp add: installedPluginIDs_def)
next
  case (Inr d)
  obtain r w1 where "plugin_loop io d [] w = Some (r, w1)" "\<forall>qs. r = Inr qs \<longrightarrow> plugins_ok qs"
    using plugin_loop_returns[OF assms, of "[]" d w] plugins_ok_Nil by blast
  with Inr show ?thesis by (auto simp: installedPluginIDs_def bindr_Inr plugins_ok_sort)
qed

text \<open>
  C33. Listing the plugins always ends, in however many batches the directory is read and however it
  grows meanwhile: when every batch that is not the last holds an entry, the loop returns an error
  or a sorted list of at most 1024 valid identifiers.
\<close>

theorem installedPluginIDs_returns:
  assumes "read_progress io"
  shows "\<exists>r w1. installedPluginIDs io root w = Some (r, w1)
    \<and> (\<forall>ps. r = Inr ps \<longrightarrow> sorted ps \<and> list_all validPluginID ps \<and> length ps \<le> maxInstalledPlugins)"
  using installed_ids[OF assms] unfolding plugins_ok_def .

section \<open>The request inside the scope\<close>

text \<open>Parsing keeps the declared names and their kinds.\<close>

fun same_kind :: "flag_value \<Rightarrow> flag_value \<Rightarrow> bool" where
  "same_kind (FString _) (FString _) = True"
| "same_kind (FBool _) (FBool _) = True"
| "same_kind _ _ = False"

definition same_flags :: "flag_set \<Rightarrow> flag_set \<Rightarrow> bool" where
  "same_flags fs gs \<longleftrightarrow> (\<forall>k. rel_option same_kind (fs k) (gs k))"

lemma same_kind_refl: "same_kind v v"
  by (cases v) auto

lemma same_flags_update:
  "same_flags fs gs \<Longrightarrow> gs k = Some u \<Longrightarrow> same_kind u v \<Longrightarrow> same_flags fs (gs(k \<mapsto> v))"
  unfolding same_flags_def
proof (intro allI)
  fix x
  assume a: "\<forall>k. rel_option same_kind (fs k) (gs k)" "gs k = Some u" "same_kind u v"
  from a(1) have "rel_option same_kind (fs x) (gs x)" "rel_option same_kind (fs k) (gs k)" by blast+
  with a(2,3) show "rel_option same_kind (fs x) ((gs(k \<mapsto> v)) x)"
    by (cases "fs k"; cases u; cases v) (auto elim: same_kind.elims)
qed

lemma flag_parse_step:
  assumes "flag_parse gs (s # args) = Inr (hs, rest)"
  shows "hs = gs \<or> (\<exists>k u v left. gs k = Some u \<and> same_kind u v \<and> length left \<le> length args
    \<and> flag_parse (gs(k \<mapsto> v)) left = Inr (hs, rest))"
  using assms unfolding flag_parse.simps(2)[of gs s args] Let_def
  by (fastforce split: if_splits prod.splits option.splits flag_value.splits list.splits)

lemma flag_parse_kinds: "flag_parse gs args = Inr (hs, rest) \<Longrightarrow> same_flags fs gs \<Longrightarrow> same_flags fs hs"
proof (induction args arbitrary: gs rule: length_induct)
  case (1 args)
  show ?case
  proof (cases args)
    case Nil
    with 1(2,3) show ?thesis by simp
  next
    case (Cons s tail)
    from flag_parse_step[OF 1(2)[unfolded Cons]] consider "hs = gs"
      | k u v left where "gs k = Some u" "same_kind u v" "length left \<le> length tail"
          "flag_parse (gs(k \<mapsto> v)) left = Inr (hs, rest)" by blast
    then show ?thesis
    proof cases
      case 2
      with Cons have "length left < length args" by simp
      then show ?thesis using 1(1) 2(4) same_flags_update[OF 1(3) 2(1,2)] by blast
    qed (use 1(3) in simp)
  qed
qed


lemma same_flags_refl: "same_flags fs fs"
  by (simp add: same_flags_def option.rel_refl same_kind_refl)

text \<open>The shape of a parsed flag set of the broker.\<close>

lemma broker_flags_shape:
  assumes "same_flags (broker_flags io) fs"
  shows "fs = [''plugin'' \<mapsto> FString (flag_string fs ''plugin''), ''list'' \<mapsto> FBool (flag_bool fs ''list''),
    ''plugins-root'' \<mapsto> FString (flag_string fs ''plugins-root''), ''scanner'' \<mapsto> FString (flag_string fs ''scanner''),
    ''resource-scope'' \<mapsto> FString (flag_string fs ''resource-scope'')]" (is "fs = ?gs")
proof
  fix k
  have k: "rel_option same_kind (broker_flags io k) (fs k)" using assms by (simp add: same_flags_def)
  show "fs k = ?gs k"
    using k by (cases "fs k") (auto simp: broker_flags_def flag_string_def flag_bool_def elim!: same_kind.elims split: if_splits)
qed

lemma broker_flag_names: "list_all plain_flag [''plugin'', ''list'', ''plugins-root'', ''scanner'', ''resource-scope'']"
  by (simp add: plain_flag_def)

lemma scoped_arguments_parse:
  assumes "same_flags (broker_flags io) fs" and "usable fs rest"
  shows "flag_parse (broker_flags io) (scoped_arguments fs unit) = Inr (fs(''resource-scope'' \<mapsto> FString unit), [])"
proof -
  have p: "plain_flag ''plugin''" "plain_flag ''list''" "plain_flag ''plugins-root''" "plain_flag ''scanner''"
    "plain_flag ''resource-scope''" using broker_flag_names by simp_all
  note steps = flag_parse_string[OF p(1)] flag_parse_switch[OF p(2)] flag_parse_string[OF p(3)]
    flag_parse_string[OF p(4)] flag_parse_string[OF p(5)]
  have "flag_bool fs ''list'' \<Longrightarrow> flag_string fs ''plugin'' = []" "\<not> flag_bool fs ''list'' \<Longrightarrow> flag_string fs ''plugin'' \<noteq> []"
    using assms(2) by (auto simp: usable_def)
  moreover have "fs(''resource-scope'' \<mapsto> FString unit) = [''plugin'' \<mapsto> FString (flag_string fs ''plugin''),
    ''list'' \<mapsto> FBool (flag_bool fs ''list''), ''plugins-root'' \<mapsto> FString (flag_string fs ''plugins-root''),
    ''scanner'' \<mapsto> FString (flag_string fs ''scanner''), ''resource-scope'' \<mapsto> FString unit]"
    using arg_cong[OF broker_flags_shape[OF assms(1)], of "\<lambda>f. f(''resource-scope'' \<mapsto> FString unit)"]
    by (simp only: fun_upd_upd)
  ultimately show ?thesis
    by (cases "flag_bool fs ''list''") (auto simp: scoped_arguments_def steps broker_flags_def fun_upd_twist)
qed

text \<open>
  C32. The broker inside the scope gets exactly the request of the broker outside: for a command line
  that the broker accepts, the arguments it passes to its scoped copy parse back to the same flags
  with the scope's unit added, nothing is left over, and the copy accepts them too.
\<close>

theorem scoped_request_roundtrip:
  assumes "flag_parse (broker_flags io) args = Inr (fs, rest)" and "usable fs rest"
  shows "flag_parse (broker_flags io) (scoped_arguments fs unit) = Inr (fs(''resource-scope'' \<mapsto> FString unit), [])
    \<and> usable (fs(''resource-scope'' \<mapsto> FString unit)) []"
proof
  show "flag_parse (broker_flags io) (scoped_arguments fs unit) = Inr (fs(''resource-scope'' \<mapsto> FString unit), [])"
    by (rule scoped_arguments_parse[OF flag_parse_kinds[OF assms(1) same_flags_refl] assms(2)])
  show "usable (fs(''resource-scope'' \<mapsto> FString unit)) []"
    using assms(2) by (auto simp: usable_def flag_bool_def flag_string_def)
qed

section \<open>What reaches standard output\<close>

text \<open>The containment checks all passed, from the world \<open>w\<close> to the world \<open>w3\<close>.\<close>

definition contained :: "'w broker_io \<Rightarrow> Manager \<Rightarrow> string \<Rightarrow> 'w \<Rightarrow> 'w \<Rightarrow> bool" where
  "contained io manager scope w w3 \<longleftrightarrow>
     Verify (io_getwd (br_scope io)) (\<lambda>name. fst (io_readFile (br_scope io) name w)) manager scope = None
     \<and> (\<exists>w2 t. VerifyRuntime (br_parseDuration io) (br_scope io) manager None scope w = (None, w2)
         \<and> ApplyProcessLimits (br_getrlimit io) (br_setrlimit io) (br_rlimits io w2) = (None, t)
         \<and> w3 = br_putRlimits io t w2)"

lemma after_containment:
  assumes "afterVerifiedContainment scope (broker_checks io manager) action w = Some (x, w1)" and "ex_stdout x \<noteq> []"
  shows "\<exists>w3. contained io manager scope w w3 \<and> action w3 = Some (x, w1)"
  using assms unfolding afterVerifiedContainment_def broker_checks_def contained_def
  by (auto simp: fails_def split: option.splits prod.splits)

text \<open>
  Bytes of a write: a prefix of what was to be written, and all of it when the broker exits with 0.
\<close>

definition written :: "process_exit \<Rightarrow> string \<Rightarrow> bool" where
  "written x d \<longleftrightarrow> prefix (ex_stdout x) d \<and> (ex_code x = 0 \<longrightarrow> ex_stdout x = d)"

lemma write_written: "written (write_stdout io message d w) d"
  by (auto simp: written_def write_stdout_def take_is_prefix split: prod.splits option.splits)

definition reviewed :: "'w broker_io \<Rightarrow> string \<Rightarrow> string \<Rightarrow> string \<Rightarrow> 'w \<Rightarrow> string \<Rightarrow> bool" where
  "reviewed io root scanner ident w output \<longleftrightarrow>
     (\<exists>target runner report.
        openInstalledTarget (io_getwd (br_scope io)) (io_openat2 (br_scope io) w) (br_openat2 io w) root ident = Inr target
        \<and> DefaultRunner (io_openat2 (br_scope io) w) = Inr runner \<and> \<not> ru_AllowDevelopmentScanner runner
        \<and> Runner_Run (sandbox_of io w) runner scanner (Some target) ident = Inr output
        \<and> Decode (br_json io) (br_digest io) output = Inr report \<and> Validate (br_digest io) report = None
        \<and> expectedResourceLimits (sm_ResourceLimits (rp_Scan report)))"

lemma decode_valid: "Decode js digest d = Inr r \<Longrightarrow> Validate digest r = None"
  by (auto simp: Decode_def split: sum.splits)

lemma default_runner_production: "DefaultRunner openat2 = Inr runner \<Longrightarrow> \<not> ru_AllowDevelopmentScanner runner"
  by (auto simp: DefaultRunner_def split: sum.splits)

lemma review_written:
  assumes "ex_stdout (review_action io root scanner ident w) \<noteq> []"
  shows "\<exists>output. reviewed io root scanner ident w output \<and> written (review_action io root scanner ident w) output"
  using assms write_written[of io "''write report: %v''" _ w]
  unfolding review_action_def reviewed_def
  by (auto simp: fails_def dest: decode_valid default_runner_production split: sum.splits if_splits)

lemma list_written:
  assumes "list_action io root w = Some (x, w1)" and "ex_stdout x \<noteq> []"
  shows "\<exists>plugins. installedPluginIDs io root w = Some (Inr plugins, w1) \<and> written x (encodePluginList ''1.0.0'' plugins)"
proof -
  from assms(1) obtain r w2 where r: "installedPluginIDs io root w = Some (r, w2)"
    and x: "(case r of Inl e \<Rightarrow> (fails 1 (Wrapf ''list plugins: %v'' [] e), w2)
      | Inr plugins \<Rightarrow> (write_stdout io ''write plugin list: %v'' (encodePluginList ''1.0.0'' plugins) w2, w2)) = (x, w1)"
    unfolding list_action_def by fastforce
  show ?thesis
  proof (cases r)
    case (Inl e)
    with x assms(2) show ?thesis by (auto simp: fails_def)
  next
    case (Inr plugins)
    with x r write_written show ?thesis by fastforce
  qed
qed

text \<open>
  C1. Nothing reaches standard output without containment and validation: whenever a run of the
  broker has written a byte, it ran inside a scope whose limits, lifetime and process limits were
  all verified first, and what it wrote is (a prefix, if the write failed, of) either the list of
  installed plugins or the output of the production sandbox for the selected plugin, which
  decodes to a report that the validator accepts and that records the broker's own policy.
\<close>

theorem broker_publishes_validated:
  assumes "broker_run io args w = Some (x, w1)" and "ex_stdout x \<noteq> []"
  shows "\<exists>fs manager w3. flag_parse (broker_flags io) args = Inr (fs, [])
    \<and> DefaultManager (io_openat2 (br_scope io) w) = Inr manager
    \<and> contained io manager (flag_string fs ''resource-scope'') w w3
    \<and> (if flag_bool fs ''list''
       then \<exists>plugins. installedPluginIDs io (flag_string fs ''plugins-root'') w3 = Some (Inr plugins, w1)
         \<and> written x (encodePluginList ''1.0.0'' plugins)
       else \<exists>output. reviewed io (flag_string fs ''plugins-root'') (flag_string fs ''scanner'') (flag_string fs ''plugin'') w3 output
         \<and> written x output)"
proof -
  from assms obtain fs rest manager where f: "flag_parse (broker_flags io) args = Inr (fs, rest)" "usable fs rest"
    "DefaultManager (io_openat2 (br_scope io) w) = Inr manager"
    and run: "(if flag_string fs ''resource-scope'' = [] then enter_scope io manager fs w
      else afterVerifiedContainment (flag_string fs ''resource-scope'') (broker_checks io manager)
        (\<lambda>w. if flag_bool fs ''list'' then list_action io (flag_string fs ''plugins-root'') w
             else Some (review_action io (flag_string fs ''plugins-root'') (flag_string fs ''scanner'')
               (flag_string fs ''plugin'') w, w)) w) = Some (x, w1)"
    unfolding broker_run_def by (force simp: fails_def split: sum.splits if_splits)
  have "enter_scope io manager fs w \<noteq> Some (x, w1)"
    using assms(2) by (auto simp: enter_scope_def fails_def split: sum.splits option.splits)
  with run have "afterVerifiedContainment (flag_string fs ''resource-scope'') (broker_checks io manager)
        (\<lambda>w. if flag_bool fs ''list'' then list_action io (flag_string fs ''plugins-root'') w
             else Some (review_action io (flag_string fs ''plugins-root'') (flag_string fs ''scanner'')
               (flag_string fs ''plugin'') w, w)) w = Some (x, w1)" by (metis (full_types))
  from after_containment[OF this assms(2)] obtain w3 where "contained io manager (flag_string fs ''resource-scope'') w w3"
    "(if flag_bool fs ''list'' then list_action io (flag_string fs ''plugins-root'') w3
      else Some (review_action io (flag_string fs ''plugins-root'') (flag_string fs ''scanner'') (flag_string fs ''plugin'') w3, w3))
      = Some (x, w1)" by blast
  moreover have "rest = []" using f(2) by (simp add: usable_def)
  ultimately show ?thesis
    using f(1,3) assms(2) list_written review_written by (cases "flag_bool fs ''list''") fastforce+
qed

section \<open>What the broker relies on\<close>

text \<open>
  The contract of the program in the sandbox: what it prints for a plugin decodes to a report that
  states the broker's policy. Then the broker shows it unchanged.
\<close>

locale report_source =
  fixes prints :: "string \<Rightarrow> string \<Rightarrow> bool" and js :: json_package and digest :: digestFunction
  assumes prints_accepted: "prints pluginID out \<Longrightarrow> validDisplayName pluginID
    \<Longrightarrow> \<exists>c. Decode js digest out = Inr c \<and> expectedResourceLimits (sm_ResourceLimits (rp_Scan c))"
begin

lemma review_shows:
  assumes "br_json io = js" "br_digest io = digest"
    and "openInstalledTarget (io_getwd (br_scope io)) (io_openat2 (br_scope io) w) (br_openat2 io w) root ident = Inr target"
    and "DefaultRunner (io_openat2 (br_scope io) w) = Inr runner"
    and run: "Runner_Run (sandbox_of io w) runner scanner (Some target) ident = Inr out"
    and "prints ident out" and "snd (br_write io out w) = None"
  shows "review_action io root scanner ident w = \<lparr>ex_code = 0, ex_stdout = out, ex_stderr = []\<rparr>"
proof -
  have "validDisplayName ident" using run by (auto simp: Runner_Run_def accept)
  then obtain c where "Decode js digest out = Inr c" "expectedResourceLimits (sm_ResourceLimits (rp_Scan c))"
    using prints_accepted assms(6) by blast
  moreover obtain n where "br_write io out w = (n, None)" using assms(7) by (cases "br_write io out w") auto
  ultimately show ?thesis using assms by (simp add: review_action_def write_stdout_def)
qed

end

section \<open>A run that publishes\<close>

text \<open>
  A world in which everything holds: trusted programs, a verified scope, one installed plugin
  whose review prints a valid report.
\<close>

definition sample_host :: "unit scope_io" where
  "sample_host = \<lparr>io_openat2 = (\<lambda>w path how. Inr (if oh_Directory how then sample_descriptor 1000 0b111000000 else sample_executable)),
     io_output = (\<lambda>ctx path args env w. (Inr ''35s'', w)),
     io_run = (\<lambda>ctx path args env w. (None, w)),
     io_readFile = (\<lambda>path w. (sample_files path, w)),
     io_select = (\<lambda>ctx w. (Some (Errorf ''deadline'' []), w)),
     io_now = (\<lambda>w. 0), io_euid = 1000, io_getwd = Inr ''/''\<rparr>"

definition sample_entry :: "string \<Rightarrow> dir_entry" where
  "sample_entry name = \<lparr>en_Name = name, en_Symlink = False, en_IsDir = True\<rparr>"

definition sample_broker :: "unit broker_io" where
  "sample_broker = \<lparr>br_scope = sample_host, br_parseDuration = (\<lambda>_. Inr ScopeRuntimeMax),
     br_getrlimit = (\<lambda>_. None), br_setrlimit = (\<lambda>_. None), br_rlimits = (\<lambda>w r. (1024, 4096)), br_putRlimits = (\<lambda>t w. w),
     br_openat2 = (\<lambda>w d path how. Inr (sample_descriptor 1000 0b111000000)),
     br_readDir = (\<lambda>d n w. (([sample_entry ''example.plugin''], ReadEOF), w)),
     br_sandboxRun = (\<lambda>w c. \<lparr>po_stdout = [sample_json_text], po_stderr = [], po_waitErr = None, po_deadlineExceeded = False\<rparr>),
     br_write = (\<lambda>d w. (length d, None)), br_exitCode = (\<lambda>e. None), br_nonce = Inr (replicate 12 CHR ''a''), br_pid = 1,
     br_home = Inr ''/home/user'', br_executable = Inr ''/usr/bin/broker'',
     br_json = sample_package, br_digest = sample_digest\<rparr>"

lemma incomplete_sample_limits: "expectedResourceLimits (sm_ResourceLimits (rp_Scan incomplete_sample))"
  by (simp add: incomplete_sample_scan expectedResourceLimits_def policy_limits_def policy_defs)

lemma sample_broker_decode: "Decode (br_json sample_broker) (br_digest sample_broker) sample_json_text = Inr incomplete_sample"
  using sample_package_structure sample_text_short incomplete_sample_accepted
  by (simp add: Decode_def sample_broker_def) (simp add: sample_package_def)

lemma sample_broker_verify:
  "Verify (io_getwd (br_scope sample_broker)) (\<lambda>name. fst (io_readFile (br_scope sample_broker) name w)) sample_manager sample_unit = None"
  using sample_verify by (simp add: sample_broker_def sample_host_def)

lemma sample_host_open: "path_isAbs p \<Longrightarrow> trusted_Open (io_openat2 sample_host w) p = Inr sample_executable"
  unfolding trusted_Open_def open_owned by (simp add: sample_host_def executable_how_def sample_trusted)

lemma sample_host_manager: "DefaultManager (io_openat2 (br_scope sample_broker) w) = Inr sample_manager"
  by (simp add: DefaultManager_def sample_broker_def sample_host_open sample_paths sample_manager_def)

lemma sample_broker_runtime:
  "VerifyRuntime (br_parseDuration sample_broker) (br_scope sample_broker) sample_manager None sample_unit w = (None, w)"
proof -
  have "\<exists>env. userManagerEnvironment (io_euid sample_host) (io_openat2 sample_host w) = Inr env"
    by (simp add: userManagerEnvironment_def Let_def sample_host_def runtime_how_def sample_descriptor_def)
  then have "systemctl sample_host sample_manager None arguments w = (Inr ''35s'', w)" for arguments
    by (auto simp: systemctl_def sample_host_open sample_paths CommandPath_def sample_manager_def) (simp_all add: sample_host_def)
  moreover have "verifyRuntimeMax (\<lambda>_. Inr ScopeRuntimeMax) ''35s'' = None" by code_simp
  ultimately show ?thesis by (simp add: VerifyRuntime_def sample_unit_valid sample_broker_def)
qed

lemma sample_broker_contained: "contained sample_broker sample_manager sample_unit w w"
proof -
  obtain t where "ApplyProcessLimits (br_getrlimit sample_broker) (br_setrlimit sample_broker) (br_rlimits sample_broker w) = (None, t)"
    by (simp add: ApplyProcessLimits_def sample_broker_def Let_def)
  with sample_broker_verify sample_broker_runtime show ?thesis
    by (auto simp: contained_def)
qed

lemma sample_broker_target:
  "openInstalledTarget (io_getwd (br_scope sample_broker)) (io_openat2 (br_scope sample_broker) w) (br_openat2 sample_broker w)
    ''/plugins'' ''example.plugin'' = Inr (sample_descriptor 1000 0b111000000)"
proof -
  have "validPluginID ''example.plugin''" by code_simp
  then show ?thesis
    by (simp add: openInstalledTarget_def openDirectoryPath_def path_abs_def path_isAbs_def slash_def sample_broker_def
        sample_host_def directory_how_def beneath_how_def) (simp add: sample_descriptor_def)
qed

lemma sample_default_runner: "DefaultRunner (io_openat2 (br_scope sample_broker) w) = Inr sample_runner"
  by (simp add: DefaultRunner_def sample_broker_def sample_host_open sample_runner_def bubblewrapPath_def path_isAbs_def slash_def)

lemma sample_runner_prints:
  "Runner_Run (sandbox_of sample_broker w) sample_runner ''/usr/bin/scan''
      (Some (sample_descriptor 1000 0b111000000)) ''example.plugin'' = Inr sample_json_text"
  by (rule runner_prints)
    (use sample_text_short in \<open>simp_all add: sandbox_of_def sample_broker_def sample_host_def executable_how_def sample_name_valid
      MaxReportBytes_def limits path_isAbs_def slash_def directory_descriptor_def sample_descriptor_def\<close>)

lemma sample_broker_reviews:
  "review_action sample_broker ''/plugins'' ''/usr/bin/scan'' ''example.plugin'' w
    = \<lparr>ex_code = 0, ex_stdout = sample_json_text, ex_stderr = []\<rparr>"
proof -
  have "br_write sample_broker d w = (length d, None)" for d by (simp add: sample_broker_def)
  then show ?thesis
    by (simp add: review_action_def sample_broker_target sample_default_runner sample_runner_prints sample_broker_decode
        incomplete_sample_limits write_stdout_def)
qed

definition sample_flags :: flag_set where
  "sample_flags = (broker_flags sample_broker)(''plugin'' \<mapsto> FString ''example.plugin'',
     ''plugins-root'' \<mapsto> FString ''/plugins'', ''scanner'' \<mapsto> FString ''/usr/bin/scan'')"

definition sample_args :: "string list" where
  "sample_args = [''--plugin'', ''example.plugin'', ''--plugins-root'', ''/plugins'', ''--scanner'', ''/usr/bin/scan'']"

lemma sample_args_parse:
  "flag_parse (broker_flags sample_broker) (sample_args @ rest) = flag_parse sample_flags rest"
  by (simp add: sample_args_def flag_parse_string plain_flag_def broker_flags_def sample_flags_def)

lemma sample_usable: "usable sample_flags []"
  by (simp add: usable_def sample_flags_def flag_bool_def flag_string_def broker_flags_def) code_simp

theorem scoped_request_roundtrip_witness:
  "flag_parse (broker_flags sample_broker) (scoped_arguments sample_flags sample_unit)
      = Inr (sample_flags(''resource-scope'' \<mapsto> FString sample_unit), [])
    \<and> usable (sample_flags(''resource-scope'' \<mapsto> FString sample_unit)) []"
  by (rule scoped_request_roundtrip[of _ sample_args]) (use sample_args_parse[of "[]"] sample_usable in simp_all)

lemma sample_read_progress: "read_progress sample_broker"
  by (simp add: read_progress_def sample_broker_def)

theorem installedPluginIDs_returns_witness:
  "\<exists>r w1. installedPluginIDs sample_broker ''/plugins'' () = Some (r, w1)
    \<and> (\<forall>ps. r = Inr ps \<longrightarrow> sorted ps \<and> list_all validPluginID ps \<and> length ps \<le> maxInstalledPlugins)"
  by (rule installedPluginIDs_returns) (rule sample_read_progress)

abbreviation scoped_sample :: "string list" where
  "scoped_sample \<equiv> sample_args @ [''--resource-scope'', sample_unit]"

lemma scoped_sample_parse:
  "flag_parse (broker_flags sample_broker) scoped_sample = Inr (sample_flags(''resource-scope'' \<mapsto> FString sample_unit), [])"
  unfolding sample_args_parse by (simp add: flag_parse_string plain_flag_def sample_flags_def broker_flags_def)

lemma sample_broker_run:
  "broker_run sample_broker scoped_sample () = Some (\<lparr>ex_code = 0, ex_stdout = sample_json_text, ex_stderr = []\<rparr>, ())"
proof -
  let ?fs = "sample_flags(''resource-scope'' \<mapsto> FString sample_unit)"
  have unit: "sample_unit \<noteq> []" by (simp add: sample_unit_def)
  have "usable ?fs []" using sample_usable by (auto simp: usable_def flag_bool_def flag_string_def)
  moreover have fs: "flag_string ?fs ''resource-scope'' = sample_unit" "\<not> flag_bool ?fs ''list''"
    "flag_string ?fs ''plugins-root'' = ''/plugins''" "flag_string ?fs ''scanner'' = ''/usr/bin/scan''"
    "flag_string ?fs ''plugin'' = ''example.plugin''"
    by (simp_all add: flag_string_def flag_bool_def sample_flags_def broker_flags_def)
  moreover have "afterVerifiedContainment sample_unit (broker_checks sample_broker sample_manager) action () = action ()" for action
    using sample_broker_contained[of "()"]
    by (auto simp: contained_def afterVerifiedContainment_def broker_checks_def)
  ultimately show ?thesis
    unfolding broker_run_def scoped_sample_parse
    by (simp only: sum.case prod.case sample_host_manager fs unit sample_broker_reviews if_False simp_thms)
qed

theorem broker_publishes_validated_witness:
  "\<exists>fs manager w3. flag_parse (broker_flags sample_broker) scoped_sample = Inr (fs, [])
    \<and> DefaultManager (io_openat2 (br_scope sample_broker) ()) = Inr manager
    \<and> contained sample_broker manager (flag_string fs ''resource-scope'') () w3
    \<and> (if flag_bool fs ''list''
       then \<exists>plugins. installedPluginIDs sample_broker (flag_string fs ''plugins-root'') w3 = Some (Inr plugins, ())
         \<and> written \<lparr>ex_code = 0, ex_stdout = sample_json_text, ex_stderr = []\<rparr> (encodePluginList ''1.0.0'' plugins)
       else \<exists>output. reviewed sample_broker (flag_string fs ''plugins-root'') (flag_string fs ''scanner'') (flag_string fs ''plugin'') w3 output
         \<and> written \<lparr>ex_code = 0, ex_stdout = sample_json_text, ex_stderr = []\<rparr> output)"
  by (rule broker_publishes_validated[OF sample_broker_run]) (simp add: sample_json_text_def document_def)

end
