(* ===== verification/Inventory.thy ===== *)
theory Inventory
  imports Digests GoFiles GoFields "HOL-Library.Word"
begin

unbundle bit_operations_syntax

text \<open>
  The inventory (internal/inventory/inventory.go): the bounded walk over a hostile directory tree, the
  reading of files, and the second pass that verifies that nothing changed. The tree may change
  at any time: every call takes the state \<open>'w\<close> of the world and returns the one after it. The test
  hook of the walker, which production passes as \<open>nil\<close>, is one more way for the world to change.
\<close>

section \<open>Limits, metadata and calls\<close>

record Limits =
  lm_MaxFiles :: int
  lm_MaxDepth :: int
  lm_MaxFileBytes :: int
  lm_MaxReadBytes :: int
  lm_MaxBinaryFileBytes :: int
  lm_MaxBinaryReadBytes :: int

definition DefaultLimits :: Limits where
  "DefaultLimits = \<lparr>lm_MaxFiles = 10000, lm_MaxDepth = 32, lm_MaxFileBytes = 2 * 2 ^ 20, lm_MaxReadBytes = 32 * 2 ^ 20,
     lm_MaxBinaryFileBytes = 64 * 2 ^ 20, lm_MaxBinaryReadBytes = 128 * 2 ^ 20\<rparr>"

record sys_stat =
  sy_Dev :: nat
  sy_Ino :: nat
  sy_Nlink :: nat
  sy_Mtim :: int
  sy_Ctim :: int

record file_info =
  fi_Mode :: "32 word"
  fi_Size :: int
  fi_Sys :: "sys_stat option"

text \<open>A program header of an ELF file: whether it names the interpreter, its size, and its bytes.\<close>

record elf_program =
  ep_Interp :: bool
  ep_Filesz :: int
  ep_Data :: "string result"

record elf_image =
  el_Class :: string
  el_Data :: string
  el_Machine :: string
  el_Type :: string
  el_Progs :: "elf_program list"
  el_Libraries :: "string slice result"
  el_Symbols :: nat

text \<open>
  The calls of the walker. \<open>fs_readHeader\<close> is \<open>io.ReadFull\<close> of four bytes, \<open>fs_readAll\<close> is
  \<open>io.ReadAll\<close> behind a \<open>LimitReader\<close>, \<open>fs_elf\<close> is \<open>elf.NewFile\<close> or the text of its error,
  \<open>fs_contentType\<close> is \<open>http.DetectContentType\<close> and \<open>fs_errorText\<close> the text of an error.
\<close>

record 'w fs_calls =
  fs_openTarget :: "string \<Rightarrow> 'w \<Rightarrow> nat result \<times> 'w"
  fs_lstat :: "nat \<Rightarrow> string \<Rightarrow> 'w \<Rightarrow> file_info result \<times> 'w"
  fs_readlink :: "nat \<Rightarrow> string \<Rightarrow> 'w \<Rightarrow> string result \<times> 'w"
  fs_openRoot :: "nat \<Rightarrow> string \<Rightarrow> 'w \<Rightarrow> nat result \<times> 'w"
  fs_open :: "nat \<Rightarrow> string \<Rightarrow> 'w \<Rightarrow> nat result \<times> 'w"
  fs_readDir :: "nat \<Rightarrow> int \<Rightarrow> 'w \<Rightarrow> (string list \<times> read_end) \<times> 'w"
  fs_stat :: "nat \<Rightarrow> 'w \<Rightarrow> file_info result \<times> 'w"
  fs_readHeader :: "nat \<Rightarrow> 'w \<Rightarrow> string result \<times> 'w"
  fs_rewind :: "nat \<Rightarrow> 'w \<Rightarrow> unit result \<times> 'w"
  fs_readAll :: "nat \<Rightarrow> int \<Rightarrow> 'w \<Rightarrow> string result \<times> 'w"
  fs_elf :: "string \<Rightarrow> string + elf_image"
  fs_contentType :: "string \<Rightarrow> string"
  fs_errorText :: "go_error \<Rightarrow> string"
  fs_digest :: digestFunction

section \<open>File modes\<close>

definition modeDir :: "32 word \<Rightarrow> bool" where "modeDir m \<longleftrightarrow> bit m 31"
definition modeSymlink :: "32 word \<Rightarrow> bool" where "modeSymlink m \<longleftrightarrow> bit m 27"
definition modeDevice :: "32 word \<Rightarrow> bool" where "modeDevice m \<longleftrightarrow> bit m 26"
definition modeNamedPipe :: "32 word \<Rightarrow> bool" where "modeNamedPipe m \<longleftrightarrow> bit m 25"
definition modeSocket :: "32 word \<Rightarrow> bool" where "modeSocket m \<longleftrightarrow> bit m 24"
definition modeCharDevice :: "32 word \<Rightarrow> bool" where "modeCharDevice m \<longleftrightarrow> bit m 21"

text \<open>The type bits of a mode: directory, symbolic link, device, pipe, socket, character device, irregular.\<close>

definition mode_type :: "32 word \<Rightarrow> 32 word" where "mode_type m = m AND 0x8F280000"

definition modeRegular :: "32 word \<Rightarrow> bool" where "modeRegular m \<longleftrightarrow> mode_type m = 0"

text \<open>\<open>FileMode.String\<close>\<close>

definition mode_string :: "32 word \<Rightarrow> string" where
  "mode_string m =
     (let flags = [c. (c, n) \<leftarrow> zip ''dalTLDpSugct?'' (rev [19..<32]), bit m n]
      in (if flags = [] then ''-'' else flags)
         @ map (\<lambda>(c, n). if bit m n then c else CHR ''-'') (zip ''rwxrwxrwx'' (rev [0..<9])))"

definition specialKind :: "32 word \<Rightarrow> string" where
  "specialKind m =
     (if modeNamedPipe m then ''fifo''
      else if modeSocket m then ''socket''
      else if modeDevice m \<and> modeCharDevice m then ''character-device''
      else if modeDevice m then ''block-device''
      else ''special'')"

text \<open>Metadata without a \<open>Stat_t\<close> is never the same file for \<open>os.SameFile\<close>.\<close>

definition sameFile :: "file_info \<Rightarrow> file_info \<Rightarrow> bool" where
  "sameFile a b =
     (if mode_type (fi_Mode a) \<noteq> mode_type (fi_Mode b) then False
      else case (fi_Sys a, fi_Sys b) of
        (Some sa, Some sb) \<Rightarrow> sy_Dev sa = sy_Dev sb \<and> sy_Ino sa = sy_Ino sb
      | _ \<Rightarrow> False)"

definition stableMetadata :: "file_info \<Rightarrow> file_info \<Rightarrow> bool" where
  "stableMetadata a b =
     (if \<not> sameFile a b \<or> fi_Mode a \<noteq> fi_Mode b \<or> fi_Size a \<noteq> fi_Size b then False
      else case (fi_Sys a, fi_Sys b) of
        (Some sa, Some sb) \<Rightarrow> sy_Nlink sa = sy_Nlink sb \<and> sy_Mtim sa = sy_Mtim sb \<and> sy_Ctim sa = sy_Ctim sb
      | _ \<Rightarrow> False)"

section \<open>The walker\<close>

record observation =
  ob_info :: file_info
  ob_children :: "string list"
  ob_linkTarget :: string
  ob_overflow :: bool
  ob_entryLimit :: int

text \<open>The walker and, in the fields of \<open>Result\<close>, what it has found.\<close>

record 'w walker =
  wk_world :: 'w
  wk_files :: "File list"
  wk_contents :: "(string \<times> string) list"
  wk_limitations :: "Limitation list"
  wk_errors :: "ScanError list"
  wk_readBytes :: int
  wk_binaryBytes :: int
  wk_seen :: "string \<rightharpoonup> observation"

definition ErrTargetChanged :: go_error where "ErrTargetChanged = Errorf ''target changed during scan'' []"

definition changed :: "string \<Rightarrow> go_error" where
  "changed message = Wrapf ''%w: %s'' [AStr message] ErrTargetChanged"

definition displayPath :: "string \<Rightarrow> string" where
  "displayPath relative = (if relative = ''.'' then [] else relative)"

definition walker_limit :: "string \<Rightarrow> string \<Rightarrow> string \<Rightarrow> (unit, 'w walker) prog" where
  "walker_limit code description filePath = modifies (\<lambda>w. w\<lparr>wk_limitations := wk_limitations w @
     [\<lparr>li_Code = code, li_Description = description, li_Path = filePath, li_Scope = []\<rparr>]\<rparr>)"

definition scanError :: "string \<Rightarrow> string \<Rightarrow> string \<Rightarrow> (unit, 'w walker) prog" where
  "scanError code message filePath = modifies (\<lambda>w. w\<lparr>wk_errors := wk_errors w @
     [\<lparr>se_Code = code, se_Message = message, se_Path = filePath\<rparr>]\<rparr>)"

definition append_file :: "File \<Rightarrow> (unit, 'w walker) prog" where
  "append_file file = modifies (\<lambda>w. w\<lparr>wk_files := wk_files w @ [file]\<rparr>)"

definition note_observation :: "string \<Rightarrow> observation \<Rightarrow> (unit, 'w walker) prog" where
  "note_observation path obs = modifies (\<lambda>w. w\<lparr>wk_seen := (wk_seen w)(path \<mapsto> obs)\<rparr>)"

definition fresh_observation :: "file_info \<Rightarrow> observation" where
  "fresh_observation info = \<lparr>ob_info = info, ob_children = [], ob_linkTarget = [], ob_overflow = False, ob_entryLimit = 0\<rparr>"

text \<open>A missing key of a Go map of structs is the zero value; every path the walker looks up was recorded.\<close>

definition update_observation :: "string \<Rightarrow> (observation \<Rightarrow> observation) \<Rightarrow> (unit, 'w walker) prog" where
  "update_observation path f = modifies (\<lambda>w. w\<lparr>wk_seen := (wk_seen w)(path := map_option f (wk_seen w path))\<rparr>)"

text \<open>A call of the world, whose error is a value.\<close>

definition attempt :: "('w \<Rightarrow> 'a \<times> 'w) \<Rightarrow> ('a, 'w walker) prog" where
  "attempt f = (\<lambda>w. case f (wk_world w) of (r, v) \<Rightarrow> Some (Inr r, w\<lparr>wk_world := v\<rparr>))"

definition unless_error :: "go_error \<Rightarrow> 'a result \<Rightarrow> ('a \<Rightarrow> ('b, 's) prog) \<Rightarrow> ('b, 's) prog" where
  "unless_error e r f = (case r of Inl _ \<Rightarrow> raises e | Inr x \<Rightarrow> f x)"

definition verifyPathStable :: "'w fs_calls \<Rightarrow> nat \<Rightarrow> string \<Rightarrow> file_info \<Rightarrow> string \<Rightarrow> (unit, 'w walker) prog" where
  "verifyPathStable io root name before filePath =
     bindp (attempt (fs_lstat io root name)) (\<lambda>r.
     unless_error (changed (''entry metadata changed during inspection: '' @ filePath)) r (\<lambda>after.
     demand (stableMetadata before after) (changed (''entry metadata changed during inspection: '' @ filePath))))"

definition verifyRegularStable :: "'w fs_calls \<Rightarrow> nat \<Rightarrow> file_info \<Rightarrow> string \<Rightarrow> (unit, 'w walker) prog" where
  "verifyRegularStable io file before filePath =
     bindp (attempt (fs_stat io file)) (\<lambda>r.
     unless_error (changed (''file metadata changed during inspection: '' @ filePath)) r (\<lambda>after.
     demand (stableMetadata before after) (changed (''file metadata changed during inspection: '' @ filePath))))"

section \<open>Reading directories\<close>

partial_function (option) read_batches ::
  "'w fs_calls \<Rightarrow> nat \<Rightarrow> int \<Rightarrow> string list \<Rightarrow> 'w \<Rightarrow> ((string list \<times> bool) result \<times> 'w) option" where
  "read_batches io directory limit entries w =
     (case fs_readDir io directory (min 128 (limit + 1 - int (length entries))) w of
        ((batch, readErr), w1) \<Rightarrow>
          if int (length (entries @ batch)) > limit then Some (Inr ([], True), w1)
          else (case readErr of
            ReadEOF \<Rightarrow> Some (Inr (entries @ batch, False), w1)
          | ReadFailed e \<Rightarrow> Some (Inl e, w1)
          | ReadMore \<Rightarrow> read_batches io directory limit (entries @ batch) w1))"

text \<open>The entries of a directory, or that there are more than the limit, or an error: a value.\<close>

definition readDirBounded :: "'w fs_calls \<Rightarrow> nat \<Rightarrow> int \<Rightarrow> ((string list \<times> bool) result, 'w walker) prog" where
  "readDirBounded io root limit =
     bindp (attempt (fs_open io root ''.'')) (\<lambda>r.
       case r of
         Inl e \<Rightarrow> returns (Inl e)
       | Inr directory \<Rightarrow>
           (\<lambda>w. case read_batches io directory (if limit < 0 then 0 else limit) [] (wk_world w) of
              None \<Rightarrow> None
            | Some (x, v) \<Rightarrow> Some (Inr x, w\<lparr>wk_world := v\<rparr>)))"

section \<open>Files\<close>

definition isGitDatabasePath :: "string \<Rightarrow> bool" where
  "isGitDatabasePath name \<longleftrightarrow> hasPrefix (path_clean name) ''.git/objects/'' \<or> hasPrefix (path_clean name) ''.git/logs/''"

definition isELF :: "string \<Rightarrow> bool" where
  "isELF d \<longleftrightarrow> length d \<ge> 4 \<and> take 4 d = CHR 0x7F # ''ELF''"

fun elfInterpreter :: "elf_program list \<Rightarrow> string" where
  "elfInterpreter [] = []"
| "elfInterpreter (program # rest) =
     (if \<not> ep_Interp program \<or> ep_Filesz program = 0 \<or> ep_Filesz program > 4096 then elfInterpreter rest
      else case ep_Data program of
        Inl _ \<Rightarrow> elfInterpreter rest
      | Inr d \<Rightarrow> rev (dropWhile (\<lambda>c. c = CHR 0x00) (rev d)))"

definition nonNilStrings :: "string slice \<Rightarrow> string slice" where
  "nonNilStrings v = (case v of None \<Rightarrow> Some [] | Some xs \<Rightarrow> Some xs)"

text \<open>The fields that \<open>recordELF\<close> does not set keep their zero values.\<close>

definition elf_binary :: "elf_image \<Rightarrow> Binary" where
  "elf_binary parsed =
     (let libraries = (case el_Libraries parsed of Inl _ \<Rightarrow> Some [] | Inr l \<Rightarrow> map_option sort l)
      in \<lparr>bn_Format = ''ELF'', bn_Class = el_Class parsed, bn_ByteOrder = el_Data parsed, bn_Machine = el_Machine parsed,
          bn_Type = el_Type parsed, bn_Interpreter = elfInterpreter (el_Progs parsed), bn_Libraries = nonNilStrings libraries,
          bn_ImportedSymbols = None, bn_ExtractedStrings = None, bn_EmbeddedURLs = None, bn_FileCapabilities = None,
          bn_CapabilityEffective = False, bn_SetUID = False, bn_SetGID = False, bn_HasSymbols = el_Symbols parsed > 0\<rparr>)"

definition recordELF :: "'w fs_calls \<Rightarrow> string \<Rightarrow> File \<Rightarrow> (File, 'w walker) prog" where
  "recordELF io d out =
     bindp (modifies (\<lambda>w. w\<lparr>wk_binaryBytes := add64 (wk_binaryBytes w) (int (length d))\<rparr>)) (\<lambda>_.
     let file = out\<lparr>fl_SHA256 := hexEncode (fs_digest io d), fl_ContentType := ''application/x-elf'', fl_Inspected := True\<rparr> in
     case fs_elf io d of
       Inl message \<Rightarrow>
         bindp (walker_limit ''elf-parse-error'' (''ELF header was recognized but metadata parsing failed: '' @ message) (fl_Path out))
           (\<lambda>_. returns file)
     | Inr parsed \<Rightarrow> returns (file\<lparr>fl_Binary := Some (elf_binary parsed)\<rparr>))"

definition inspectELF :: "'w fs_calls \<Rightarrow> Limits \<Rightarrow> nat \<Rightarrow> file_info \<Rightarrow> File \<Rightarrow> (File, 'w walker) prog" where
  "inspectELF io limits f expected out =
     (if fi_Size expected > lm_MaxBinaryFileBytes limits then
        bindp (walker_limit ''max-binary-file-bytes'' ''ELF file exceeds the individual binary inspection limit'' (fl_Path out))
          (\<lambda>_. returns out)
      else bindp (reads wk_binaryBytes) (\<lambda>binaryBytes.
        if add64 binaryBytes (fi_Size expected) > lm_MaxBinaryReadBytes limits then
          bindp (walker_limit ''max-binary-total-bytes'' ''total ELF inspection limit reached'' (fl_Path out)) (\<lambda>_. returns out)
        else bindp (attempt (fs_readAll io f (lm_MaxBinaryFileBytes limits + 1))) (\<lambda>r.
          case r of
            Inl e \<Rightarrow> bindp (scanError ''read-binary'' (fs_errorText io e) (fl_Path out))
              (\<lambda>_. bindp (verifyRegularStable io f expected (fl_Path out)) (\<lambda>_. returns out))
          | Inr d \<Rightarrow>
              if int (length d) \<noteq> fi_Size expected then
                bindp (scanError ''changed-during-scan'' ''ELF size changed while it was read'' (fl_Path out))
                  (\<lambda>_. raises (changed (''ELF size changed while it was read: '' @ fl_Path out)))
              else recordELF io d out)))"

text \<open>Reading a source file: the rest of \<open>inspectRegular\<close> once the header is no ELF header.\<close>

definition read_source :: "'w fs_calls \<Rightarrow> Limits \<Rightarrow> nat \<Rightarrow> file_info \<Rightarrow> file_info \<Rightarrow> File \<Rightarrow> (File, 'w walker) prog" where
  "read_source io limits f expected opened out =
     (let stable = (\<lambda>file. bindp (verifyRegularStable io f opened (fl_Path out)) (\<lambda>_. returns file)) in
      if fi_Size expected > lm_MaxFileBytes limits then
        bindp (walker_limit ''max-file-bytes'' ''non-ELF file exceeds the individual source inspection limit'' (fl_Path out)) (\<lambda>_. stable out)
      else bindp (reads wk_readBytes) (\<lambda>readBytes.
        if add64 readBytes (fi_Size expected) > lm_MaxReadBytes limits then
          bindp (walker_limit ''max-total-bytes'' ''total source-content inspection limit reached'' (fl_Path out)) (\<lambda>_. stable out)
        else bindp (attempt (fs_readAll io f (lm_MaxFileBytes limits + 1))) (\<lambda>r.
          case r of
            Inl e \<Rightarrow> bindp (scanError ''read-file'' (fs_errorText io e) (fl_Path out)) (\<lambda>_. stable out)
          | Inr d \<Rightarrow>
              if int (length d) > lm_MaxFileBytes limits then
                bindp (walker_limit ''changed-during-scan'' ''file grew beyond the inspection limit while being read'' (fl_Path out))
                  (\<lambda>_. raises (changed (''file grew while being read: '' @ fl_Path out)))
              else
                bindp (modifies (\<lambda>w. w\<lparr>wk_readBytes := add64 (wk_readBytes w) (int (length d)),
                    wk_contents := AList.update (fl_Path out) d (wk_contents w)\<rparr>))
                  (\<lambda>_. stable (out\<lparr>fl_SHA256 := hexEncode (fs_digest io d), fl_ContentType := fs_contentType io d, fl_Inspected := True\<rparr>)))))"

definition inspectRegular :: "'w fs_calls \<Rightarrow> Limits \<Rightarrow> nat \<Rightarrow> string \<Rightarrow> file_info \<Rightarrow> File \<Rightarrow> (File, 'w walker) prog" where
  "inspectRegular io limits root name expected out =
     bindp (attempt (fs_open io root name)) (\<lambda>r.
     unless_error (changed (''file could not be pinned after enumeration: '' @ fl_Path out)) r (\<lambda>f.
     bindp (attempt (fs_stat io f)) (\<lambda>r.
     unless_error (changed (''file identity or type changed while it was opened: '' @ fl_Path out)) r (\<lambda>opened.
     bindp (demand (sameFile expected opened \<and> modeRegular (fi_Mode opened))
       (changed (''file identity or type changed while it was opened: '' @ fl_Path out))) (\<lambda>_.
     bindp (attempt (fs_readHeader io f)) (\<lambda>header.
     bindp (attempt (fs_rewind io f)) (\<lambda>r.
     case r of
       Inl e \<Rightarrow> bindp (scanError ''seek-file'' (fs_errorText io e) (fl_Path out))
         (\<lambda>_. bindp (verifyRegularStable io f opened (fl_Path out)) (\<lambda>_. returns out))
     | Inr _ \<Rightarrow>
         if (case header of Inl _ \<Rightarrow> False | Inr d \<Rightarrow> isELF d) then
           bindp (inspectELF io limits f expected out) (\<lambda>file.
             bindp (verifyRegularStable io f opened (fl_Path out)) (\<lambda>_. returns file))
         else read_source io limits f expected opened out)))))))"

section \<open>The walk\<close>

definition child_path :: "string \<Rightarrow> string \<Rightarrow> string" where
  "child_path relative name = (if relative \<noteq> ''.'' then path_join [relative, name] else name)"

definition new_file :: "string \<Rightarrow> file_info \<Rightarrow> string \<Rightarrow> File" where
  "new_file path info kind = \<lparr>fl_Path = path, fl_Kind = kind, fl_Mode = mode_string (fi_Mode info), fl_Size = fi_Size info,
     fl_SHA256 = [], fl_ContentType = [], fl_LinkTarget = [], fl_Inspected = False, fl_SkipReason = [],
     fl_Analysis = [], fl_AnalysisReason = [], fl_Binary = None, fl_Archive = None\<rparr>"

definition visit_symlink :: "'w fs_calls \<Rightarrow> nat \<Rightarrow> string \<Rightarrow> string \<Rightarrow> file_info \<Rightarrow> (unit, 'w walker) prog" where
  "visit_symlink io root name childPath info =
     (let file = new_file childPath info ''symlink'' in
      bindp (attempt (fs_readlink io root name)) (\<lambda>r.
      bindp (case r of
          Inl e \<Rightarrow> bindp (scanError ''readlink'' (fs_errorText io e) childPath) (\<lambda>_. returns file)
        | Inr target \<Rightarrow> bindp (update_observation childPath (\<lambda>obs. obs\<lparr>ob_linkTarget := target\<rparr>))
            (\<lambda>_. returns (file\<lparr>fl_LinkTarget := target\<rparr>))) (\<lambda>file.
      bindp (verifyPathStable io root name info childPath) (\<lambda>_. append_file file))))"

text \<open>The walk of the subdirectory is an argument: the recursion of \<open>walk\<close> goes through it.\<close>

definition visit_directory ::
  "'w fs_calls \<Rightarrow> (nat \<Rightarrow> string \<Rightarrow> (unit, 'w walker) prog) \<Rightarrow> nat \<Rightarrow> string \<Rightarrow> string \<Rightarrow> file_info \<Rightarrow> (unit, 'w walker) prog" where
  "visit_directory io walk_child root name childPath info =
     bindp (append_file (new_file childPath info ''directory'')) (\<lambda>_.
     bindp (attempt (fs_openRoot io root name)) (\<lambda>r.
     unless_error (changed (''directory could not be pinned after enumeration: '' @ childPath)) r (\<lambda>child.
     bindp (attempt (fs_lstat io child ''.'')) (\<lambda>r.
     unless_error (changed (''directory identity changed while it was opened: '' @ childPath)) r (\<lambda>openedInfo.
     bindp (demand (sameFile info openedInfo) (changed (''directory identity changed while it was opened: '' @ childPath))) (\<lambda>_.
     bindp (walk_child child childPath) (\<lambda>_.
     bindp (attempt (fs_lstat io child ''.'')) (\<lambda>r.
     unless_error (changed (''directory metadata changed during traversal: '' @ childPath)) r (\<lambda>closedInfo.
     bindp (demand (stableMetadata openedInfo closedInfo) (changed (''directory metadata changed during traversal: '' @ childPath))) (\<lambda>_.
     update_observation childPath (\<lambda>obs. obs\<lparr>ob_info := closedInfo\<rparr>)))))))))))"

definition visit_regular :: "'w fs_calls \<Rightarrow> Limits \<Rightarrow> nat \<Rightarrow> string \<Rightarrow> string \<Rightarrow> file_info \<Rightarrow> (unit, 'w walker) prog" where
  "visit_regular io limits root name childPath info =
     (let file = new_file childPath info ''regular'' in
      bindp (if isGitDatabasePath childPath then
          bindp (verifyPathStable io root name info childPath) (\<lambda>_. returns (file\<lparr>fl_SkipReason := ''git-internal-database''\<rparr>))
        else inspectRegular io limits root name info file) append_file)"

definition visit_special :: "'w fs_calls \<Rightarrow> nat \<Rightarrow> string \<Rightarrow> string \<Rightarrow> file_info \<Rightarrow> (unit, 'w walker) prog" where
  "visit_special io root name childPath info =
     bindp (append_file (new_file childPath info (specialKind (fi_Mode info)))) (\<lambda>_.
     bindp (walker_limit ''special-file'' ''special file was inventoried but not opened'' childPath) (\<lambda>_.
     verifyPathStable io root name info childPath))"

definition visit_entry ::
  "'w fs_calls \<Rightarrow> Limits \<Rightarrow> (nat \<Rightarrow> string \<Rightarrow> (unit, 'w walker) prog) \<Rightarrow> nat \<Rightarrow> string \<Rightarrow> string \<Rightarrow> (unit, 'w walker) prog" where
  "visit_entry io limits walk_child root relative name =
     (let childPath = child_path relative name in
      bindp (attempt (fs_lstat io root name)) (\<lambda>r.
      unless_error (changed (''directory entry disappeared or changed before inspection: '' @ childPath)) r (\<lambda>info.
      bindp (note_observation childPath (fresh_observation info)) (\<lambda>_.
      if modeSymlink (fi_Mode info) then visit_symlink io root name childPath info
      else if modeDir (fi_Mode info) then visit_directory io walk_child root name childPath info
      else if modeRegular (fi_Mode info) then visit_regular io limits root name childPath info
      else visit_special io root name childPath info))))"

text \<open>
  \<open>walk\<close> at depth \<open>MaxDepth + 1 - n\<close>: with no level left the depth exceeds \<open>MaxDepth\<close>.
\<close>

primrec walk_tree :: "'w fs_calls \<Rightarrow> Limits \<Rightarrow> nat \<Rightarrow> nat \<Rightarrow> string \<Rightarrow> (unit, 'w walker) prog" where
  "walk_tree io limits 0 = (\<lambda>root relative. walker_limit ''max-depth'' ''directory depth limit reached'' (displayPath relative))"
| "walk_tree io limits (Suc n) = (\<lambda>root relative.
     bindp (reads (\<lambda>w. lm_MaxFiles limits - int (length (wk_files w)))) (\<lambda>remaining.
     bindp (readDirBounded io root remaining) (\<lambda>r.
     case r of
       Inl e \<Rightarrow> raises (Wrapf ''read directory %q: %w'' [AStr (displayPath relative)] e)
     | Inr (entries, exceeded) \<Rightarrow>
         bindp (update_observation relative (\<lambda>obs. obs\<lparr>ob_entryLimit := remaining, ob_overflow := exceeded\<rparr>)) (\<lambda>_.
         if exceeded then
           walker_limit ''max-files'' ''directory entry count exceeds the remaining file-count budget; this directory was not inventoried''
             (displayPath relative)
         else
           bindp (update_observation relative (\<lambda>obs. obs\<lparr>ob_children := sort entries\<rparr>)) (\<lambda>_.
           each (visit_entry io limits (walk_tree io limits n) root relative) (sort entries))))))"

section \<open>The final verification\<close>

definition verify_entry ::
  "'w fs_calls \<Rightarrow> (nat \<Rightarrow> string \<Rightarrow> (unit, 'w walker) prog) \<Rightarrow> nat \<Rightarrow> string \<Rightarrow> string \<times> string \<Rightarrow> (unit, 'w walker) prog" where
  "verify_entry io verify_child root relative = (\<lambda>(name, expectedName).
     bindp (demand (name = expectedName) (changed (''directory membership changed before final verification: '' @ displayPath relative))) (\<lambda>_.
     let childPath = child_path relative name in
     bindp (reads (\<lambda>w. wk_seen w childPath)) (\<lambda>seen.
     case seen of
       None \<Rightarrow> raises (changed (''final verification encountered an unobserved entry: '' @ childPath))
     | Some obs \<Rightarrow>
         bindp (attempt (fs_lstat io root name)) (\<lambda>r.
         unless_error (changed (''entry changed before final verification: '' @ childPath)) r (\<lambda>info.
         bindp (demand (stableMetadata (ob_info obs) info) (changed (''entry changed before final verification: '' @ childPath))) (\<lambda>_.
         if modeSymlink (fi_Mode info) then
           bindp (attempt (fs_readlink io root name)) (\<lambda>r.
           unless_error (changed (''symbolic-link target changed before final verification: '' @ childPath)) r (\<lambda>target.
           demand (target = ob_linkTarget obs) (changed (''symbolic-link target changed before final verification: '' @ childPath))))
         else if modeDir (fi_Mode info) then
           bindp (attempt (fs_openRoot io root name)) (\<lambda>r.
           unless_error (changed (''directory could not be reopened during final verification: '' @ childPath)) r (\<lambda>child.
           verify_child child childPath))
         else returns ()))))))"

primrec verify_tree :: "'w fs_calls \<Rightarrow> nat \<Rightarrow> nat \<Rightarrow> string \<Rightarrow> (unit, 'w walker) prog" where
  "verify_tree io 0 = (\<lambda>root relative. returns ())"
| "verify_tree io (Suc n) = (\<lambda>root relative.
     bindp (reads (\<lambda>w. wk_seen w relative)) (\<lambda>seen.
     case seen of
       None \<Rightarrow> raises (changed (''verification encountered an unobserved directory: '' @ displayPath relative))
     | Some obs \<Rightarrow>
         bindp (attempt (fs_lstat io root ''.'')) (\<lambda>r.
         unless_error (changed (''directory changed before final verification: '' @ displayPath relative)) r (\<lambda>currentInfo.
         bindp (demand (stableMetadata (ob_info obs) currentInfo) (changed (''directory changed before final verification: '' @ displayPath relative))) (\<lambda>_.
         bindp (readDirBounded io root (ob_entryLimit obs)) (\<lambda>r.
         unless_error (changed (''directory could not be enumerated during final verification: '' @ displayPath relative)) r (\<lambda>(entries, exceeded).
         if ob_overflow obs then
           demand exceeded (changed (''overflowing directory membership changed before final verification: '' @ displayPath relative))
         else
           bindp (demand (\<not> exceeded) (changed (''directory gained entries before final verification: '' @ displayPath relative))) (\<lambda>_.
           bindp (demand (length entries = length (ob_children obs))
             (changed (''directory membership changed before final verification: '' @ displayPath relative))) (\<lambda>_.
           each (verify_entry io (verify_tree io n) root relative) (zip (sort entries) (ob_children obs)))))))))))"

section \<open>The scan\<close>

definition limits_positive :: "Limits \<Rightarrow> bool" where
  "limits_positive limits \<longleftrightarrow> lm_MaxFiles limits > 0 \<and> lm_MaxDepth limits > 0 \<and> lm_MaxFileBytes limits > 0 \<and> lm_MaxReadBytes limits > 0
     \<and> lm_MaxBinaryFileBytes limits > 0 \<and> lm_MaxBinaryReadBytes limits > 0"

definition levels :: "Limits \<Rightarrow> nat" where
  "levels limits = nat (lm_MaxDepth limits + 1)"

record inventory_result =
  ir_Files :: "File list"
  ir_Contents :: "(string \<times> string) list"
  ir_Limitations :: "Limitation list"
  ir_Errors :: "ScanError list"
  ir_ReadBytes :: int
  ir_BinaryBytes :: int
  ir_RootDigest :: string

definition finish_scan :: "'w fs_calls \<Rightarrow> (inventory_result, 'w walker) prog" where
  "finish_scan io = bindp (reads (\<lambda>w. w)) (\<lambda>w.
     let files = sort_slice (\<lambda>x y. fl_Path x < fl_Path y) (wk_files w) in
     case InventoryRootDigest (fs_digest io) files of
       Inl e \<Rightarrow> raises (Wrapf ''compute target inventory root digest: %w'' [] e)
     | Inr rootDigest \<Rightarrow> returns \<lparr>ir_Files = files, ir_Contents = wk_contents w, ir_Limitations = wk_limitations w,
         ir_Errors = wk_errors w, ir_ReadBytes = wk_readBytes w, ir_BinaryBytes = wk_binaryBytes w, ir_RootDigest = rootDigest\<rparr>)"

definition scan_root :: "'w fs_calls \<Rightarrow> Limits \<Rightarrow> nat \<Rightarrow> (inventory_result, 'w walker) prog" where
  "scan_root io limits root =
     (let noDirectory = Errorf ''opened target root is not a directory'' [] in
      bindp (attempt (fs_lstat io root ''.'')) (\<lambda>r.
      unless_error noDirectory r (\<lambda>rootInfo.
      bindp (demand (modeDir (fi_Mode rootInfo)) noDirectory) (\<lambda>_.
      bindp (note_observation ''.'' (fresh_observation rootInfo)) (\<lambda>_.
      bindp (walk_tree io limits (levels limits) root ''.'') (\<lambda>_.
      bindp (attempt (fs_lstat io root ''.'')) (\<lambda>r.
      unless_error (changed ''target root metadata changed'') r (\<lambda>rootAfter.
      bindp (demand (stableMetadata rootInfo rootAfter) (changed ''target root metadata changed'')) (\<lambda>_.
      bindp (update_observation ''.'' (\<lambda>obs. obs\<lparr>ob_info := rootAfter\<rparr>)) (\<lambda>_.
      bindp (verify_tree io (levels limits) root ''.'') (\<lambda>_.
      finish_scan io)))))))))))"

definition new_walker :: "'w \<Rightarrow> 'w walker" where
  "new_walker w = \<lparr>wk_world = w, wk_files = [], wk_contents = [], wk_limitations = [], wk_errors = [], wk_readBytes = 0,
     wk_binaryBytes = 0, wk_seen = Map.empty\<rparr>"

definition Scan :: "'w fs_calls \<Rightarrow> string \<Rightarrow> Limits \<Rightarrow> 'w \<Rightarrow> (inventory_result result \<times> 'w walker) option" where
  "Scan io target limits w =
     (if \<not> limits_positive limits then Some (Inl (Errorf ''all inventory limits must be positive'' []), new_walker w)
      else bindp (attempt (fs_openTarget io target)) (\<lambda>r.
        case r of
          Inl e \<Rightarrow> raises (Wrapf ''open target root: %w'' [] e)
        | Inr root \<Rightarrow> scan_root io limits root) (new_walker w))"

end
