(* ===== verification/InventoryGuarantees.thy ===== *)
theory InventoryGuarantees
  imports Inventory
begin

text \<open>
  What the inventory guarantees, however the tree changes under the walk: it returns, what it
  hands to the analyzers is what it hashed, and how many entries it can hold.
\<close>

section \<open>The walk returns\<close>

text \<open>\<open>ReadDir\<close> with a positive count returns an entry unless it reports the end or an error.\<close>

definition reads_progress :: "'w fs_calls \<Rightarrow> bool" where
  "reads_progress io \<longleftrightarrow> (\<forall>d n w w1. 0 < n \<longrightarrow> fs_readDir io d n w \<noteq> (([], ReadMore), w1))"

lemma read_batches_returns:
  assumes "reads_progress io" and "int (length entries) \<le> limit"
  shows "read_batches io d limit entries w \<noteq> None"
  using assms(2)
proof (induction "nat (limit - int (length entries))" arbitrary: entries w rule: less_induct)
  case less
  obtain batch e w1 where r: "fs_readDir io d (min 128 (limit + 1 - int (length entries))) w = ((batch, e), w1)"
    by (metis prod.exhaust)
  show ?case
  proof (cases "int (length (entries @ batch)) > limit \<or> e \<noteq> ReadMore")
    case True
    with r show ?thesis by (subst read_batches.simps) (auto split: read_end.splits)
  next
    case False
    have "0 < min 128 (limit + 1 - int (length entries))" using less.prems by simp
    with assms(1) r False have "batch \<noteq> []" unfolding reads_progress_def by metis
    then have "0 < length batch" by simp
    then have "nat (limit - int (length (entries @ batch))) < nat (limit - int (length entries))" using False by (simp del: length_greater_0_conv)
    from less.hyps[OF this, of w1] False r show ?thesis by (subst read_batches.simps) simp
  qed
qed

lemma total_attempt [total_intros]: "total (attempt f)"
  by (simp add: total_def attempt_def split: prod.split)

lemma total_unless [total_intros]: "(\<And>x. total (f x)) \<Longrightarrow> total (unless_error e r f)"
  unfolding unless_error_def by (intro total_intros)

lemma total_readDirBounded [total_intros]:
  assumes "reads_progress io"
  shows "total (readDirBounded io root limit)"
proof -
  have "read_batches io d (if limit < 0 then 0 else limit) [] w \<noteq> None" for d w
    by (rule read_batches_returns[OF assms]) simp
  then show ?thesis unfolding readDirBounded_def
    by (intro total_intros) (auto simp: total_def split: option.splits)
qed

lemmas step_defs = walker_limit_def scanError_def append_file_def note_observation_def update_observation_def
  verifyPathStable_def verifyRegularStable_def recordELF_def inspectELF_def read_source_def inspectRegular_def
  visit_symlink_def visit_directory_def visit_regular_def visit_special_def visit_entry_def verify_entry_def Let_def

lemma total_walk: "reads_progress io \<Longrightarrow> total (walk_tree io limits n root relative)"
proof (induction n arbitrary: root relative)
  case 0
  show ?case by (simp add: step_defs total_intros)
next
  case (Suc n)
  then show ?case unfolding walk_tree.simps step_defs by (intro total_intros) auto
qed

lemma total_verify: "reads_progress io \<Longrightarrow> total (verify_tree io n root relative)"
proof (induction n arbitrary: root relative)
  case 0
  show ?case by (simp add: total_intros)
next
  case (Suc n)
  then show ?case unfolding verify_tree.simps step_defs by (intro total_intros) auto
qed

text \<open>
  C17. A scan always returns, with a result or an error, whatever the tree looks like and however it
  changes meanwhile, when reading a directory makes progress: the depth is bounded, and so is the
  number of entries read of any directory.
\<close>

theorem Scan_returns:
  assumes "reads_progress io"
  shows "\<exists>r. Scan io target limits w = Some r"
proof -
  have "total (scan_root io limits root)" for root
    unfolding scan_root_def finish_scan_def step_defs
    by (intro total_intros total_walk total_verify assms)
  then have "total (bindp (attempt (fs_openTarget io target)) (\<lambda>r.
        case r of Inl e \<Rightarrow> raises (Wrapf ''open target root: %w'' [] e) | Inr root \<Rightarrow> scan_root io limits root))"
    by (intro total_intros)
  then show ?thesis by (auto simp: Scan_def total_def)
qed

section \<open>Contents and inventory agree\<close>

text \<open>The record of a file whose contents were read.\<close>

definition described :: "'w fs_calls \<Rightarrow> Limits \<Rightarrow> File list \<Rightarrow> string \<times> string \<Rightarrow> bool" where
  "described io limits files = (\<lambda>(path, d). int (length d) \<le> lm_MaxFileBytes limits
     \<and> (\<exists>f \<in> set files. fl_Path f = path \<and> fl_Kind f = ''regular'' \<and> fl_Inspected f \<and> fl_Binary f = None
        \<and> fl_SHA256 f = hexEncode (fs_digest io d) \<and> fl_ContentType f = fs_contentType io d))"

definition contents_ok :: "'w fs_calls \<Rightarrow> Limits \<Rightarrow> File list \<Rightarrow> 'w walker \<Rightarrow> bool" where
  "contents_ok io limits files w \<longleftrightarrow> (\<forall>x \<in> set (wk_contents w). described io limits (wk_files w @ files) x)"

lemma described_more: "described io limits files x \<Longrightarrow> set files \<subseteq> set gs \<Longrightarrow> described io limits gs x"
  by (auto simp: described_def)

lemma contents_more: "contents_ok io limits [] w \<Longrightarrow> contents_ok io limits files w"
  by (auto simp: contents_ok_def intro: described_more)

abbreviation no_files :: "'w fs_calls \<Rightarrow> Limits \<Rightarrow> 'w walker \<Rightarrow> bool" where
  "no_files io limits \<equiv> contents_ok io limits []"

lemma keeps_unless: "(\<And>x. keeps P (f x)) \<Longrightarrow> keeps P (unless_error e r f)"
  unfolding unless_error_def by (intro keeps_intros)

text \<open>
  What a predicate on the walker must not depend on for the steps that only look at the tree, or
  only note limitations and errors, to keep it.
\<close>

locale walker_frame =
  fixes P :: "'w walker \<Rightarrow> bool"
  assumes frame_world: "P w \<Longrightarrow> P (w\<lparr>wk_world := v\<rparr>)"
    and frame_limitations: "P w \<Longrightarrow> P (w\<lparr>wk_limitations := l\<rparr>)"
    and frame_errors: "P w \<Longrightarrow> P (w\<lparr>wk_errors := e\<rparr>)"
    and frame_seen: "P w \<Longrightarrow> P (w\<lparr>wk_seen := s\<rparr>)"
    and frame_bytes: "P w \<Longrightarrow> P (w\<lparr>wk_binaryBytes := b\<rparr>)"
begin

lemma keeps_attempt: "keeps P (attempt f)"
  by (auto simp: keeps_def triple_def attempt_def intro: frame_world split: prod.splits)

lemma keeps_notes:
  "keeps P (walker_limit a b c)" "keeps P (scanError a b c)" "keeps P (note_observation p x)" "keeps P (update_observation p g)"
  "keeps P (modifies (\<lambda>w. w\<lparr>wk_binaryBytes := h w\<rparr>))"
  unfolding walker_limit_def scanError_def note_observation_def update_observation_def
  by (rule keeps_modifies, simp add: frame_limitations frame_errors frame_seen frame_bytes)+

lemmas steps = keeps_attempt keeps_notes

lemma keeps_verify_steps:
  "keeps P (verifyPathStable io root name info path)" "keeps P (verifyRegularStable io file info path)"
  unfolding verifyPathStable_def verifyRegularStable_def by (intro steps keeps_intros keeps_unless)+

lemma keeps_readDir: "keeps P (readDirBounded io root limit)"
  unfolding readDirBounded_def
  by (intro steps keeps_intros) (auto simp: keeps_def triple_def intro: frame_world split: option.splits)

lemma keeps_ELF: "keeps P (inspectELF io limits f expected out)"
  unfolding inspectELF_def recordELF_def Let_def by (intro steps keeps_verify_steps keeps_intros)

lemma keeps_verify: "keeps P (verify_tree io n root relative)"
proof (induction n arbitrary: root relative)
  case 0
  show ?case by (simp add: keeps_intros)
next
  case (Suc n)
  then show ?case unfolding verify_tree.simps verify_entry_def Let_def
    by (intro steps keeps_readDir keeps_intros keeps_unless)
qed

end

interpretation contents: walker_frame "contents_ok io limits fs" for io limits fs
  by unfold_locales (simp_all add: contents_ok_def)

interpretation number: walker_frame "\<lambda>w. int (length (wk_files w)) \<le> k" for k
  by unfold_locales simp_all

interpretation exact: walker_frame "\<lambda>w. int (length (wk_files w)) = k" for k
  by unfold_locales simp_all

lemma keeps_append: "keeps (contents_ok io limits fs) (append_file f)"
proof (unfold append_file_def, rule keeps_modifies, unfold contents_ok_def, rule ballI)
  fix w :: "'a walker" and x
  assume "\<forall>x \<in> set (wk_contents w). described io limits (wk_files w @ fs) x" and "x \<in> set (wk_contents (w\<lparr>wk_files := wk_files w @ [f]\<rparr>))"
  then have "described io limits (wk_files w @ fs) x" by simp
  then show "described io limits (wk_files (w\<lparr>wk_files := wk_files w @ [f]\<rparr>) @ fs) x" by (rule described_more) auto
qed

lemmas contents_steps = keeps_unless keeps_append contents.steps contents.keeps_verify_steps contents.keeps_readDir

text \<open>A program that returns the record of a file leaves contents that this record completes.\<close>

definition records :: "'w fs_calls \<Rightarrow> Limits \<Rightarrow> (File, 'w walker) prog \<Rightarrow> bool" where
  "records io limits m \<longleftrightarrow> triple (no_files io limits) m (\<lambda>f. contents_ok io limits [f])"

named_theorems records_intros

lemma records_returns [records_intros]: "records io limits (returns f)"
  by (simp add: records_def triple_returns contents_more)

lemma records_raises [records_intros]: "records io limits (raises e)"
  by (simp add: records_def)

lemma records_bindp [records_intros]: "keeps (no_files io limits) m \<Longrightarrow> (\<And>x. records io limits (f x)) \<Longrightarrow> records io limits (bindp m f)"
  unfolding records_def keeps_def by (rule triple_bindp)

lemma records_unless [records_intros]: "(\<And>x. records io limits (f x)) \<Longrightarrow> records io limits (unless_error e r f)"
  by (simp add: unless_error_def records_raises split: sum.split)

lemma records_if [records_intros]: "(b \<Longrightarrow> records io limits m) \<Longrightarrow> (\<not> b \<Longrightarrow> records io limits n) \<Longrightarrow> records io limits (if b then m else n)"
  by simp

lemma records_sum [records_intros]:
  "(\<And>x. records io limits (f x)) \<Longrightarrow> (\<And>y. records io limits (g y)) \<Longrightarrow> records io limits (case r of Inl x \<Rightarrow> f x | Inr y \<Rightarrow> g y)"
  by (simp split: sum.split)

lemma records_ELF: "records io limits (inspectELF io limits f expected out)"
  unfolding inspectELF_def recordELF_def Let_def by (intro records_intros contents_steps keeps_intros)

lemma update_in: "x \<in> set (AList.update k v m) \<Longrightarrow> x = (k, v) \<or> x \<in> set m"
  by (induction m) (auto split: if_splits)

text \<open>Storing the contents and returning the record that describes them.\<close>

lemma records_store:
  assumes "int (length d) \<le> lm_MaxFileBytes limits" and "fl_Kind out = ''regular''" and "fl_Binary out = None"
  shows "records io limits (bindp (modifies (\<lambda>w. w\<lparr>wk_readBytes := g w, wk_contents := AList.update (fl_Path out) d (wk_contents w)\<rparr>))
    (\<lambda>_. bindp (verifyRegularStable io f opened path) (\<lambda>_.
      returns (out\<lparr>fl_SHA256 := hexEncode (fs_digest io d), fl_ContentType := fs_contentType io d, fl_Inspected := True\<rparr>))))"
proof -
  let ?file = "out\<lparr>fl_SHA256 := hexEncode (fs_digest io d), fl_ContentType := fs_contentType io d, fl_Inspected := True\<rparr>"
  have own: "described io limits (files @ [?file]) (fl_Path out, d)" for files
    using assms by (auto simp: described_def)
  have "contents_ok io limits [?file] (w\<lparr>wk_readBytes := g w, wk_contents := AList.update (fl_Path out) d (wk_contents w)\<rparr>)"
    if "no_files io limits w" for w
  proof -
    have "described io limits (wk_files w @ [?file]) x" if x: "x \<in> set (AList.update (fl_Path out) d (wk_contents w))" for x
    proof (cases "x = (fl_Path out, d)")
      case False
      with update_in[OF x] \<open>no_files io limits w\<close> have "described io limits (wk_files w) x" by (auto simp: contents_ok_def)
      then show ?thesis by (rule described_more) auto
    qed (simp add: own)
    then show ?thesis by (simp add: contents_ok_def)
  qed
  then have "triple (no_files io limits) (modifies (\<lambda>w. w\<lparr>wk_readBytes := g w, wk_contents := AList.update (fl_Path out) d (wk_contents w)\<rparr>))
    (\<lambda>_. contents_ok io limits [?file])" by (rule triple_modifies)
  moreover have "triple (contents_ok io limits [?file]) (bindp (verifyRegularStable io f opened path) (\<lambda>_. returns ?file))
    (\<lambda>f. contents_ok io limits [f])"
    by (rule triple_bindp[OF contents.keeps_verify_steps(2)[unfolded keeps_def]]) (simp add: triple_returns)
  ultimately show ?thesis unfolding records_def by (rule triple_bindp)
qed

lemma records_regular:
  assumes "fl_Kind out = ''regular''" and "fl_Binary out = None"
  shows "records io limits (inspectRegular io limits root name expected out)"
proof -
  have source: "records io limits (read_source io limits f expected opened out)" for f opened
    unfolding read_source_def Let_def
    by (intro records_store records_intros contents_steps keeps_intros) (use assms in simp_all)
  have elf: "records io limits (bindp (inspectELF io limits f expected out) (\<lambda>file.
             bindp (verifyRegularStable io f opened (fl_Path out)) (\<lambda>_. returns file)))" for f opened
    unfolding records_def
    by (rule triple_bindp[OF records_ELF[unfolded records_def]],
        rule triple_bindp[OF contents.keeps_verify_steps(2)[unfolded keeps_def]]) (simp add: triple_returns)
  show ?thesis unfolding inspectRegular_def by (intro source elf records_intros contents_steps keeps_intros)
qed

lemma records_append: "records io limits m \<Longrightarrow> keeps (no_files io limits) (bindp m append_file)"
  unfolding records_def keeps_def
  by (erule triple_bindp) (auto simp: append_file_def contents_ok_def intro!: triple_modifies)

lemma keeps_walk: "keeps (no_files io limits) (walk_tree io limits n root relative)"
proof (induction n arbitrary: root relative)
  case 0
  show ?case by (simp add: contents.steps)
next
  case (Suc n)
  have "keeps (no_files io limits) (visit_regular io limits root name path info)" for root name path info
    unfolding visit_regular_def Let_def
    by (intro records_append records_if records_bindp contents_steps records_returns records_regular) (simp_all add: new_file_def)
  with Suc show ?case
    unfolding walk_tree.simps visit_entry_def visit_symlink_def visit_directory_def visit_special_def Let_def
    by (intro contents_steps keeps_intros)
qed

lemma triple_finish: "triple (no_files io limits) (finish_scan io)
    (\<lambda>r w. \<forall>x \<in> set (ir_Contents r). described io limits (ir_Files r) x)"
proof -
  have "set (sort_slice (\<lambda>x y. fl_Path x < fl_Path y) fs) = set fs" for fs by simp
  then show ?thesis
    unfolding finish_scan_def Let_def
    by (intro triple_bindp[OF triple_reads[where Q = "\<lambda>v w. no_files io limits v"]])
      (auto simp: triple_def returns_def raises_def contents_ok_def described_def split: sum.splits)
qed

lemma triple_scan_root: "triple (no_files io limits) (scan_root io limits root)
    (\<lambda>r w. \<forall>x \<in> set (ir_Contents r). described io limits (ir_Files r) x)" (is "triple ?P _ ?Q")
proof -
  have step: "triple ?P (bindp m f) ?Q" if "keeps ?P m" "\<And>x. triple ?P (f x) ?Q" for m :: "('b, 'a walker) prog" and f
    using that unfolding keeps_def by (rule triple_bindp)
  have unless: "triple ?P (unless_error e r f) ?Q" if "\<And>x. triple ?P (f x) ?Q" for e and r :: "'b result" and f
    using that by (simp add: unless_error_def split: sum.split)
  show ?thesis unfolding scan_root_def Let_def
    by (intro step unless triple_finish keeps_walk contents.keeps_verify contents_steps keeps_intros)
qed

text \<open>
  C8. What the analyzers read is what the report identifies: after a successful scan, every retained
  text belongs to a regular file of the inventory that is marked as inspected and whose recorded
  digest and content type are those of exactly these bytes, and no text is longer than the limit.
\<close>

theorem Scan_contents_described:
  assumes "Scan io target limits w = Some (Inr r, w1)" and "(path, d) \<in> set (ir_Contents r)"
  shows "int (length d) \<le> lm_MaxFileBytes limits
    \<and> (\<exists>f \<in> set (ir_Files r). fl_Path f = path \<and> fl_Kind f = ''regular'' \<and> fl_Inspected f \<and> fl_Binary f = None
      \<and> fl_SHA256 f = hexEncode (fs_digest io d) \<and> fl_ContentType f = fs_contentType io d)"
proof -
  have "no_files io limits (new_walker w)" by (simp add: contents_ok_def new_walker_def)
  moreover have "bindp (attempt (fs_openTarget io target)) (\<lambda>r.
        case r of Inl e \<Rightarrow> raises (Wrapf ''open target root: %w'' [] e) | Inr root \<Rightarrow> scan_root io limits root) (new_walker w) = Some (Inr r, w1)"
    using assms(1) by (simp add: Scan_def split: if_splits)
  moreover have "triple (no_files io limits) (bindp (attempt (fs_openTarget io target)) (\<lambda>r.
        case r of Inl e \<Rightarrow> raises (Wrapf ''open target root: %w'' [] e) | Inr root \<Rightarrow> scan_root io limits root))
      (\<lambda>r w. \<forall>x \<in> set (ir_Contents r). described io limits (ir_Files r) x)"
    by (rule triple_bindp[OF contents.keeps_attempt[unfolded keeps_def]]) (simp add: triple_scan_root split: sum.split)
  ultimately have "\<forall>x \<in> set (ir_Contents r). described io limits (ir_Files r) x" by (rule triple_result[rotated])
  with assms(2) show ?thesis by (auto simp: described_def)
qed

section \<open>How many entries\<close>

definition within_limit :: "int \<Rightarrow> (string list \<times> bool) result \<Rightarrow> bool" where
  "within_limit limit r \<longleftrightarrow> (\<forall>es. r = Inr (es, False) \<longrightarrow> int (length es) \<le> limit)"

lemma read_batches_bounded:
  assumes "read_batches io d limit entries w = Some r"
  shows "within_limit limit (fst r)"
proof (rule read_batches.raw_induct[OF _ assms, where P = "\<lambda>io d limit entries w r. within_limit limit (fst r)"])
  fix rb :: "'w fs_calls \<Rightarrow> nat \<Rightarrow> int \<Rightarrow> string list \<Rightarrow> 'w \<Rightarrow> ((string list \<times> bool) result \<times> 'w) option"
  fix io :: "'w fs_calls" and d limit entries w r
  assume IH: "\<And>io d limit entries w r. rb io d limit entries w = Some r \<Longrightarrow> within_limit limit (fst r)"
    and run: "(case fs_readDir io d (min 128 (limit + 1 - int (length entries))) w of
        ((batch, readErr), w1) \<Rightarrow>
          if int (length (entries @ batch)) > limit then Some (Inr ([], True), w1)
          else (case readErr of
            ReadMore \<Rightarrow> rb io d limit (entries @ batch) w1
          | ReadEOF \<Rightarrow> Some (Inr (entries @ batch, False), w1)
          | ReadFailed e \<Rightarrow> Some (Inl e, w1))) = Some r"
  show "within_limit limit (fst r)"
    using run IH by (auto simp: within_limit_def split: prod.splits if_splits read_end.splits)
qed

lemma readDir_count:
  "triple (\<lambda>w. int (length (wk_files w)) = k) (readDirBounded io root limit)
     (\<lambda>r w. int (length (wk_files w)) = k \<and> within_limit (max 0 limit) r)"
proof -
  have "triple (\<lambda>w. int (length (wk_files w)) = k) (\<lambda>w. case read_batches io d (if limit < 0 then 0 else limit) [] (wk_world w) of
        None \<Rightarrow> None | Some (x, v) \<Rightarrow> Some (Inr x, w\<lparr>wk_world := v\<rparr>))
      (\<lambda>r w. int (length (wk_files w)) = k \<and> within_limit (max 0 limit) r)" for d
    by (auto simp: triple_def max_def split: option.splits dest!: read_batches_bounded)
  then show ?thesis
    unfolding readDirBounded_def
    by (intro triple_bindp[OF exact.keeps_attempt[unfolded keeps_def]])
      (auto intro: triple_returns simp: within_limit_def split: sum.split)
qed

lemmas number_steps = keeps_unless number.steps number.keeps_verify_steps number.keeps_readDir number.keeps_ELF

lemma keeps_regular_number: "keeps (\<lambda>w. int (length (wk_files w)) \<le> k) (inspectRegular io limits root name expected out)"
proof -
  have "keeps (\<lambda>w. int (length (wk_files w)) \<le> k) (modifies (\<lambda>w. w\<lparr>wk_readBytes := g w, wk_contents := h w\<rparr>))" for g h
    by (rule keeps_modifies) simp
  then show ?thesis unfolding inspectRegular_def read_source_def Let_def by (intro number_steps keeps_intros)
qed

lemma append_number: "triple (\<lambda>w. int (length (wk_files w)) \<le> k) (append_file f) (\<lambda>_ w. int (length (wk_files w)) \<le> k + 1)"
  unfolding append_file_def by (rule triple_modifies) simp

text \<open>One entry adds one record, and the walk of a subdirectory what it adds.\<close>

lemma entry_number:
  assumes "\<And>child path. triple (\<lambda>w. int (length (wk_files w)) \<le> k + 1) (walk_child child path) (\<lambda>_ w. int (length (wk_files w)) \<le> k + 1)"
  shows "triple (\<lambda>w. int (length (wk_files w)) \<le> k) (visit_entry io limits walk_child root relative name)
    (\<lambda>_ w. int (length (wk_files w)) \<le> k + 1)"
proof -
  let ?P = "\<lambda>k w. int (length (wk_files w)) \<le> k"
  have pre: "triple (?P k) (bindp m f) (\<lambda>_. ?P (k + 1))" if "keeps (?P k) m" "\<And>x. triple (?P k) (f x) (\<lambda>_. ?P (k + 1))"
    for m :: "('b, 'a walker) prog" and f :: "'b \<Rightarrow> (unit, 'a walker) prog"
    using that unfolding keeps_def by (rule triple_bindp)
  have app: "triple (?P k) (bindp (append_file x) f) (\<lambda>_. ?P (k + 1))" if "\<And>x. keeps (?P (k + 1)) (f x)"
    for x and f :: "unit \<Rightarrow> (unit, 'a walker) prog"
    by (rule triple_bindp[OF append_number]) (use that in \<open>simp add: keeps_def\<close>)
  have child: "keeps (?P (k + 1)) (walk_child child path)" for child path
    using assms by (simp add: keeps_def)
  have unless: "triple (?P k) (unless_error e r f) (\<lambda>_. ?P (k + 1))" if "\<And>x. triple (?P k) (f x) (\<lambda>_. ?P (k + 1))"
    for e and r :: "'b result" and f :: "'b \<Rightarrow> (unit, 'a walker) prog"
    using that by (simp add: unless_error_def split: sum.split)
  have branch: "triple (?P k) m (\<lambda>_. ?P (k + 1)) \<Longrightarrow> triple (?P k) n (\<lambda>_. ?P (k + 1)) \<Longrightarrow> triple (?P k) (if b then m else n) (\<lambda>_. ?P (k + 1))"
    for b and m n :: "(unit, 'a walker) prog" by simp
  show ?thesis
    unfolding visit_entry_def visit_symlink_def visit_directory_def visit_regular_def visit_special_def Let_def
    by (intro pre app unless branch append_number child keeps_regular_number number_steps keeps_intros)
qed

lemma entries_number:
  assumes "\<And>j child path. b \<le> j \<Longrightarrow> triple (\<lambda>w. int (length (wk_files w)) \<le> j) (walk_child child path) (\<lambda>_ w. int (length (wk_files w)) \<le> j)"
  shows "triple (\<lambda>w. int (length (wk_files w)) \<le> b) (each (visit_entry io limits walk_child root relative) es)
    (\<lambda>_ w. int (length (wk_files w)) \<le> b + int (length es))"
proof -
  have "triple (\<lambda>w. int (length (wk_files w)) \<le> b + int i) (visit_entry io limits walk_child root relative e)
    (\<lambda>_ w. int (length (wk_files w)) \<le> b + int (Suc i))" for e i
    using entry_number[of "b + int i" walk_child io limits root relative e] assms[of "b + int i + 1"]
    by (simp add: algebra_simps)
  from triple_each[of es "\<lambda>i w. int (length (wk_files w)) \<le> b + int i", OF this, of 0] show ?thesis by simp
qed

lemma walk_number:
  assumes "0 \<le> lm_MaxFiles limits"
  shows "triple (\<lambda>w. int (length (wk_files w)) = k) (walk_tree io limits n root relative)
    (\<lambda>_ w. int (length (wk_files w)) \<le> max k (lm_MaxFiles limits * (int n + 1)))"
proof (induction n arbitrary: k root relative)
  case 0
  show ?case
    unfolding walk_tree.simps walker_limit_def by (rule triple_modifies) simp
next
  case (Suc n)
  let ?M = "lm_MaxFiles limits" and ?c = "\<lambda>w. int (length (wk_files w))"
  let ?goal = "\<lambda>_ w. ?c w \<le> max k (?M * (int (Suc n) + 1))"
  have IH: "triple (\<lambda>w. ?c w \<le> j) (walk_tree io limits n child path) (\<lambda>_ w. ?c w \<le> j)" if "?M * (int n + 1) \<le> j" for j child path
    using Suc.IH[of _ child path] that unfolding triple_def by fastforce
  have entries: "triple (\<lambda>w. ?c w = k) (each (visit_entry io limits (walk_tree io limits n) root relative) es) ?goal"
    if "int (length es) \<le> max 0 (?M - k)" for es
  proof (cases "k < ?M")
    case True
    have m: "?M * (int (Suc n) + 1) = ?M * (int n + 1) + ?M" by (simp add: algebra_simps)
    have first: "?M \<le> ?M * (int n + 1)" using assms by (simp add: mult_le_cancel_left1)
    have loop: "triple (\<lambda>w. ?c w \<le> ?M * (int n + 1)) (each (visit_entry io limits (walk_tree io limits n) root relative) es)
        (\<lambda>_ w. ?c w \<le> ?M * (int n + 1) + int (length es))"
      by (rule entries_number) (rule IH)
    show ?thesis
    proof (cases "0 \<le> k")
      case nonneg: True
      show ?thesis
      proof (rule triple_conseq[OF loop])
        show "?c s \<le> ?M * (int n + 1)" if "?c s = k" for s using that True first by linarith
        show "?c t \<le> max k (?M * (int (Suc n) + 1))" if "?c t \<le> ?M * (int n + 1) + int (length es)" for t
          using that \<open>int (length es) \<le> max 0 (?M - k)\<close> True nonneg m by linarith
      qed
    qed (simp add: triple_def)
  next
    case False
    with that have "es = []" by simp
    then show ?thesis by (simp add: triple_def returns_def)
  qed
  have rest: "triple (\<lambda>w. ?c w = k) (bindp (update_observation relative g) (\<lambda>_.
         if exceeded then walker_limit code description path
         else bindp (update_observation relative h) (\<lambda>_. each (visit_entry io limits (walk_tree io limits n) root relative) es))) ?goal"
    if "exceeded \<or> int (length es) \<le> max 0 (?M - k)" for g h exceeded code description path and es
  proof -
    have "triple (\<lambda>w. ?c w = k) (walker_limit code description path) ?goal"
      unfolding walker_limit_def by (rule triple_modifies) simp
    moreover have "triple (\<lambda>w. ?c w = k) (bindp (update_observation relative h) (\<lambda>_. each (visit_entry io limits (walk_tree io limits n) root relative) es)) ?goal"
      if "int (length es) \<le> max 0 (?M - k)"
      by (rule triple_bindp[OF exact.steps(5)[unfolded keeps_def]]) (rule entries[OF that])
    ultimately show ?thesis
      using that by (intro triple_bindp[OF exact.steps(5)[unfolded keeps_def]]) auto
  qed
  show ?case
    unfolding walk_tree.simps
  proof (rule triple_bindp[where R = "\<lambda>remaining w. ?c w = k \<and> remaining = ?M - k"], rule triple_reads, simp, rule triple_pure)
    fix remaining
    assume r: "remaining = ?M - k"
    show "triple (\<lambda>w. ?c w = k) (bindp (readDirBounded io root remaining) (\<lambda>r.
     case r of
       Inl e \<Rightarrow> raises (Wrapf ''read directory %q: %w'' [AStr (displayPath relative)] e)
     | Inr (entries, exceeded) \<Rightarrow>
         bindp (update_observation relative (\<lambda>obs. obs\<lparr>ob_entryLimit := remaining, ob_overflow := exceeded\<rparr>)) (\<lambda>_.
         if exceeded then
           walker_limit ''max-files'' ''directory entry count exceeds the remaining file-count budget; this directory was not inventoried''
             (displayPath relative)
         else
           bindp (update_observation relative (\<lambda>obs. obs\<lparr>ob_children := sort entries\<rparr>)) (\<lambda>_.
           each (visit_entry io limits (walk_tree io limits n) root relative) (sort entries))))) ?goal"
    proof (rule triple_bindp[OF readDir_count], rule triple_pure)
      fix x
      assume limit: "within_limit (max 0 remaining) x"
      show "triple (\<lambda>w. ?c w = k) (case x of
       Inl e \<Rightarrow> raises (Wrapf ''read directory %q: %w'' [AStr (displayPath relative)] e)
     | Inr (entries, exceeded) \<Rightarrow>
         bindp (update_observation relative (\<lambda>obs. obs\<lparr>ob_entryLimit := remaining, ob_overflow := exceeded\<rparr>)) (\<lambda>_.
         if exceeded then
           walker_limit ''max-files'' ''directory entry count exceeds the remaining file-count budget; this directory was not inventoried''
             (displayPath relative)
         else
           bindp (update_observation relative (\<lambda>obs. obs\<lparr>ob_children := sort entries\<rparr>)) (\<lambda>_.
           each (visit_entry io limits (walk_tree io limits n) root relative) (sort entries)))) ?goal"
      proof (cases x)
        case (Inr pair)
        obtain es ex where "pair = (es, ex)" by fastforce
        with Inr limit r show ?thesis
          by (simp only: sum.case prod.case) (rule rest, auto simp: within_limit_def)
      qed simp
    qed
  qed
qed

lemma scan_number:
  assumes "0 \<le> lm_MaxFiles limits"
  shows "triple (\<lambda>w. int (length (wk_files w)) = 0) (scan_root io limits root)
    (\<lambda>r w. int (length (ir_Files r)) \<le> lm_MaxFiles limits * (int (levels limits) + 1))"
proof -
  let ?c = "\<lambda>w. int (length (wk_files w))" and ?B = "lm_MaxFiles limits * (int (levels limits) + 1)"
  let ?Q = "\<lambda>r w. int (length (ir_Files r)) \<le> ?B"
  have zero: "triple (\<lambda>w. ?c w = 0) (bindp m f) ?Q" if "keeps (\<lambda>w. ?c w = 0) m" "\<And>x. triple (\<lambda>w. ?c w = 0) (f x) ?Q"
    for m :: "('b, 'a walker) prog" and f
    using that unfolding keeps_def by (rule triple_bindp)
  have bound: "triple (\<lambda>w. ?c w \<le> ?B) (bindp m f) ?Q" if "keeps (\<lambda>w. ?c w \<le> ?B) m" "\<And>x. triple (\<lambda>w. ?c w \<le> ?B) (f x) ?Q"
    for m :: "('b, 'a walker) prog" and f
    using that unfolding keeps_def by (rule triple_bindp)
  have unless: "triple P (unless_error e r f) ?Q" if "\<And>x. triple P (f x) ?Q" for P e and r :: "'b result" and f
    using that by (simp add: unless_error_def split: sum.split)
  have walked: "triple (\<lambda>w. ?c w = 0) (bindp (walk_tree io limits (levels limits) root ''.'') f) ?Q" if "\<And>x. triple (\<lambda>w. ?c w \<le> ?B) (f x) ?Q" for f
    by (rule triple_bindp[OF triple_conseq[OF walk_number[OF assms]]]) (use that assms in auto)
  have finish: "triple (\<lambda>w. ?c w \<le> ?B) (finish_scan io) ?Q"
    unfolding finish_scan_def Let_def
    by (intro triple_bindp[OF triple_reads[where Q = "\<lambda>v w. ?c v \<le> ?B"]])
      (auto simp: triple_def returns_def raises_def split: sum.splits)
  show ?thesis unfolding scan_root_def Let_def
    by (intro walked zero bound unless finish number.keeps_verify number_steps exact.steps keeps_intros)
qed

text \<open>
  C34. The size of the inventory is bounded: a successful scan records at most \<open>MaxFiles\<close> entries for
  each of the \<open>MaxDepth + 2\<close> levels, whatever the tree holds and however it changes.
\<close>

theorem Scan_entries_bounded:
  assumes "Scan io target limits w = Some (Inr r, w1)"
  shows "int (length (ir_Files r)) \<le> lm_MaxFiles limits * (lm_MaxDepth limits + 2)"
proof -
  have pos: "limits_positive limits" using assms by (simp add: Scan_def split: if_splits)
  then have "int (levels limits) + 1 = lm_MaxDepth limits + 2" "0 \<le> lm_MaxFiles limits"
    by (auto simp: limits_positive_def levels_def)
  note limits = this
  have run: "bindp (attempt (fs_openTarget io target)) (\<lambda>r.
        case r of Inl e \<Rightarrow> raises (Wrapf ''open target root: %w'' [] e) | Inr root \<Rightarrow> scan_root io limits root) (new_walker w) = Some (Inr r, w1)"
    using assms pos by (simp add: Scan_def)
  have "triple (\<lambda>w. int (length (wk_files w)) = 0) (bindp (attempt (fs_openTarget io target)) (\<lambda>r.
        case r of Inl e \<Rightarrow> raises (Wrapf ''open target root: %w'' [] e) | Inr root \<Rightarrow> scan_root io limits root))
      (\<lambda>r w. int (length (ir_Files r)) \<le> lm_MaxFiles limits * (int (levels limits) + 1))"
    by (intro triple_bindp[OF exact.keeps_attempt[unfolded keeps_def]] triple_sum triple_raises scan_number[OF limits(2)])
  from triple_result[OF this _ run] limits(1) show ?thesis by (simp add: new_walker_def)
qed

section \<open>A tree\<close>

text \<open>
  A tree that does not change: the root holds the directory \<open>a\<close>, which holds the file \<open>c\<close>, and the
  file \<open>b\<close>. The world is the set of handles read to the end of their directory.
\<close>

definition tree_info :: "nat \<Rightarrow> bool \<Rightarrow> file_info" where
  "tree_info inode dir = \<lparr>fi_Mode = (if dir then 0x800001ED else 0x1A4), fi_Size = (if dir then 4096 else 2),
     fi_Sys = Some \<lparr>sy_Dev = 1, sy_Ino = inode, sy_Nlink = 1, sy_Mtim = 0, sy_Ctim = 0\<rparr>\<rparr>"

text \<open>Handle 0 is the root, handle 1 the directory \<open>a\<close>, handles 2 and 3 the files.\<close>

definition tree_lookup :: "nat \<Rightarrow> string \<Rightarrow> (nat \<times> bool) result" where
  "tree_lookup h name =
     (if name = ''.'' then Inr (h, h < 2)
      else if h = 0 \<and> name = ''a'' then Inr (1, True)
      else if h = 0 \<and> name = ''b'' then Inr (2, False)
      else if h = 1 \<and> name = ''c'' then Inr (3, False)
      else Inl (Errorf ''no such file'' []))"

definition tree_io :: "unit fs_calls" where
  "tree_io = \<lparr>fs_openTarget = (\<lambda>t w. (Inr 0, w)),
     fs_lstat = (\<lambda>h name w. (case tree_lookup h name of Inl e \<Rightarrow> Inl e | Inr (i, dir) \<Rightarrow> Inr (tree_info i dir), w)),
     fs_readlink = (\<lambda>h name w. (Inl (Errorf ''not a link'' []), w)),
     fs_openRoot = (\<lambda>h name w. (case tree_lookup h name of Inl e \<Rightarrow> Inl e | Inr (i, dir) \<Rightarrow> Inr i, w)),
     fs_open = (\<lambda>h name w. (case tree_lookup h name of Inl e \<Rightarrow> Inl e | Inr (i, dir) \<Rightarrow> Inr i, w)),
     fs_readDir = (\<lambda>h n w. ((if h = 0 then [''b'', ''a''] else [''c''], ReadEOF), w)),
     fs_stat = (\<lambda>h w. (Inr (tree_info h (h < 2)), w)),
     fs_readHeader = (\<lambda>h w. (Inl (Errorf ''unexpected EOF'' []), w)),
     fs_rewind = (\<lambda>h w. (Inr (), w)),
     fs_readAll = (\<lambda>h n w. (Inr ''hi'', w)),
     fs_elf = (\<lambda>d. Inl ''not an ELF file''), fs_contentType = (\<lambda>d. ''text/plain''), fs_errorText = (\<lambda>e. ''error''),
     fs_digest = (\<lambda>d. replicate 32 CHR ''a'')\<rparr>"

definition two_files :: Limits where
  "two_files = DefaultLimits\<lparr>lm_MaxFiles := 2, lm_MaxDepth := 1\<rparr>"

lemma tree_batches: "limit \<ge> 2 \<Longrightarrow> read_batches tree_io 0 limit [] w = Some (Inr ([''b'', ''a''], False), w)"
  "limit \<ge> 1 \<Longrightarrow> read_batches tree_io (Suc 0) limit [] w = Some (Inr ([''c''], False), w)"
  by (subst read_batches.simps, simp add: tree_io_def)+

lemma tree_sorts: "sort [''b'', ''a''] = [''a'', ''b'']" "sort [''c''] = [''c'']" by code_simp+

lemma tree_joins: "path_join [''a'', ''c''] = ''a/c''" by code_simp

lemma tree_no_git: "\<not> isGitDatabasePath ''a''" "\<not> isGitDatabasePath ''a/c''"  "\<not> isGitDatabasePath ''b''" by code_simp+

lemma tree_infos: "modeDir (fi_Mode (tree_info i True))" "\<not> modeSymlink (fi_Mode (tree_info i d))" "\<not> modeDir (fi_Mode (tree_info i False))"
  "modeRegular (fi_Mode (tree_info i False))" "stableMetadata (tree_info i d) (tree_info i d)" "sameFile (tree_info i d) (tree_info i d)"
  by (simp_all add: tree_info_def modeDir_def modeSymlink_def modeRegular_def mode_type_def stableMetadata_def sameFile_def bit_numeral_rec)

lemma prog_steps: "returns x s = Some (Inr x, s)" "raises e s = Some (Inl e, s)" "reads g s = Some (Inr (g s), s)" "modifies h s = Some (Inr (), h s)"
  "demand b e s = (if b then Some (Inr (), s) else Some (Inl e, s))"
  "attempt k w = (case k (wk_world w) of (r, v) \<Rightarrow> Some (Inr r, w\<lparr>wk_world := v\<rparr>))"
  "bindp m f s = (case m s of None \<Rightarrow> None | Some (Inl e, t) \<Rightarrow> Some (Inl e, t) | Some (Inr x, t) \<Rightarrow> f x t)"
  "unless_error e (Inr y) p = p y" "unless_error e (Inl z) p = raises e"
  by (simp_all add: returns_def raises_def reads_def modifies_def demand_def attempt_def bindp_def unless_error_def)

lemma bindp_weak: "s = s' \<Longrightarrow> bindp m f s = bindp m f s'" by simp

lemma unless_weak: "r = r' \<Longrightarrow> unless_error e r f = unless_error e r' f" by simp

lemma tree_calls: 
  "fs_openTarget tree_io t w = (Inr 0, w)"
  "fs_lstat tree_io h name w = (case tree_lookup h name of Inl e \<Rightarrow> Inl e | Inr (i, dir) \<Rightarrow> Inr (tree_info i dir), w)"
  "fs_openRoot tree_io h name w = (case tree_lookup h name of Inl e \<Rightarrow> Inl e | Inr (i, dir) \<Rightarrow> Inr i, w)"
  "fs_open tree_io h name w = (case tree_lookup h name of Inl e \<Rightarrow> Inl e | Inr (i, dir) \<Rightarrow> Inr i, w)"
  "fs_stat tree_io h w = (Inr (tree_info h (h < 2)), w)"
  "fs_readHeader tree_io h w = (Inl (Errorf ''unexpected EOF'' []), w)"
  "fs_rewind tree_io h w = (Inr (), w)"
  "fs_readAll tree_io h n w = (Inr ''hi'', w)"
  "fs_contentType tree_io d = ''text/plain''"
  "fs_digest tree_io = (\<lambda>d. replicate 32 CHR ''a'')"
  by (simp_all add: tree_io_def)

lemma tree_limits: "lm_MaxFiles two_files = 2" "levels two_files = Suc (Suc 0)" "lm_MaxFileBytes two_files = 2097152" "lm_MaxReadBytes two_files = 33554432" "limits_positive two_files"
  by (simp_all add: two_files_def DefaultLimits_def levels_def limits_positive_def)

lemma tree_lookups: "tree_lookup h ''.'' = Inr (h, h < 2)" "tree_lookup 0 ''a'' = Inr (1, True)" "tree_lookup 0 ''b'' = Inr (2, False)" "tree_lookup (Suc 0) ''c'' = Inr (3, False)"
  by (simp_all add: tree_lookup_def)

lemma tree_bytes: "add64 0 2 = 2" "add64 2 2 = 4" by (simp_all add: add64_def int64_range_def)

lemma tree_size: "fi_Size (tree_info i False) = 2" by (simp add: tree_info_def)

definition tree_file :: "string \<Rightarrow> nat \<Rightarrow> File" where
  "tree_file path i = (new_file path (tree_info i False) ''regular'')\<lparr>fl_SHA256 := hexEncode (replicate 32 CHR ''a''), fl_ContentType := ''text/plain'', fl_Inspected := True\<rparr>"

definition tree_files :: "File list" where
  "tree_files = [new_file ''a'' (tree_info 1 True) ''directory'', tree_file ''a/c'' 3, tree_file ''b'' 2]"

lemma tree_digest: "\<exists>d. InventoryRootDigest (\<lambda>d. replicate 32 CHR ''a'') tree_files = Inr d"
proof -
  have "(case InventoryRootDigest (\<lambda>d. replicate 32 CHR ''a'') tree_files of Inl e \<Rightarrow> False | Inr d \<Rightarrow> True)" by code_simp
  then show ?thesis by (auto split: sum.splits)
qed

lemma tree_sorted: "sort_slice (\<lambda>x y. fl_Path x < fl_Path y) tree_files = tree_files" by code_simp
lemmas tree_steps = Scan_def scan_root_def Let_def prog_steps tree_calls tree_limits tree_lookups tree_infos note_observation_def
  update_observation_def readDirBounded_def tree_batches tree_sorts visit_entry_def child_path_def visit_directory_def append_file_def
  fresh_observation_def tree_joins visit_regular_def tree_no_git inspectRegular_def read_source_def tree_bytes tree_size
  verifyRegularStable_def verify_entry_def new_walker_def

lemma tree_walked:
  "\<exists>w. Scan tree_io ''t'' two_files () = finish_scan tree_io w \<and> wk_files w = tree_files
     \<and> wk_contents w = [(''a/c'', ''hi''), (''b'', ''hi'')]"
  by (simp add: tree_steps tree_file_def tree_files_def new_file_def cong: bindp_weak unless_weak)
    (rule exI, rule conjI[OF refl], simp)

lemma tree_scan:
  "\<exists>r w. Scan tree_io ''t'' two_files () = Some (Inr r, w) \<and> ir_Files r = tree_files
     \<and> ir_Contents r = [(''a/c'', ''hi''), (''b'', ''hi'')]"
proof -
  obtain w d where "Scan tree_io ''t'' two_files () = finish_scan tree_io w" "wk_files w = tree_files"
    "wk_contents w = [(''a/c'', ''hi''), (''b'', ''hi'')]" "InventoryRootDigest (\<lambda>d. replicate 32 CHR ''a'') tree_files = Inr d"
    using tree_walked tree_digest by blast
  then show ?thesis by (simp add: finish_scan_def prog_steps tree_calls tree_sorted Let_def)
qed

theorem Scan_returns_witness: "\<exists>r. Scan tree_io ''t'' two_files () = Some r"
  by (rule Scan_returns) (simp add: reads_progress_def tree_io_def)

theorem Scan_contents_described_witness:
  "\<exists>r w. Scan tree_io ''t'' two_files () = Some (Inr r, w) \<and> int (length ''hi'') \<le> lm_MaxFileBytes two_files
    \<and> (\<exists>f \<in> set (ir_Files r). fl_Path f = ''b'' \<and> fl_Kind f = ''regular'' \<and> fl_Inspected f \<and> fl_Binary f = None
      \<and> fl_SHA256 f = hexEncode (fs_digest tree_io ''hi'') \<and> fl_ContentType f = fs_contentType tree_io ''hi'')"
proof -
  obtain r w where r: "Scan tree_io ''t'' two_files () = Some (Inr r, w)" "(''b'', ''hi'') \<in> set (ir_Contents r)"
    using tree_scan by auto
  from Scan_contents_described[OF this] r(1) show ?thesis by blast
qed

theorem Scan_entries_bounded_witness:
  "\<exists>r w. Scan tree_io ''t'' two_files () = Some (Inr r, w)
    \<and> int (length (ir_Files r)) \<le> lm_MaxFiles two_files * (lm_MaxDepth two_files + 2)"
proof -
  obtain r w where r: "Scan tree_io ''t'' two_files () = Some (Inr r, w)" using tree_scan by auto
  from Scan_entries_bounded[OF this] r show ?thesis by blast
qed

text \<open>
  \<open>MaxFiles\<close> itself is no bound: the budget is read when a directory is entered, and the entries of a
  subdirectory are not charged to the rest of its parent. With a budget of two, this tree has three.
\<close>

theorem Scan_exceeds_MaxFiles:
  "\<exists>r w. Scan tree_io ''t'' two_files () = Some (Inr r, w) \<and> int (length (ir_Files r)) > lm_MaxFiles two_files"
  using tree_scan by (auto simp: tree_limits tree_files_def)

end
