(* ===== verification/Analyze.thy ===== *)
theory Analyze
  imports Report GoFields
begin

text \<open>
  What the analyzers of internal/analyze share (shell.go, provenance.go, coverage.go, scope.go): the
  result they fill in, provenance, identifiers made of paths, excerpts, the recognition of file
  kinds by name and first line, and the classification of a call.
\<close>

section \<open>Texts\<close>

text \<open>
  \<open>strings.ToLower\<close> where its result is kept: on ASCII text it is computed bytewise; the Unicode
  case tables are a parameter.
\<close>

definition lower_text :: "(string \<Rightarrow> string) \<Rightarrow> string \<Rightarrow> string" where
  "lower_text lower s = (if list_all (\<lambda>c. byte c < 0x80) s then map lower_byte s else lower s)"

text \<open>\<open>strings.EqualFold\<close> with a text whose letters have no further case variants.\<close>

definition equal_fold :: "string \<Rightarrow> string \<Rightarrow> bool" where
  "equal_fold s t \<longleftrightarrow> map lower_byte s = map lower_byte t"

abbreviation newline :: char where "newline \<equiv> CHR 0x0A"

definition first_line :: "string \<Rightarrow> string" where
  "first_line d = takeWhile (\<lambda>c. c \<noteq> newline) d"

abbreviation dynamic_text :: string where "dynamic_text \<equiv> ''<dynamic>''"

abbreviation ellipsis :: string where "ellipsis \<equiv> [CHR 0xE2, CHR 0x80, CHR 0xA6]"

definition trim_dashes :: "string \<Rightarrow> string" where
  "trim_dashes s = rev (dropWhile (\<lambda>c. c = CHR ''-'') (rev (dropWhile (\<lambda>c. c = CHR ''-'') s)))"

definition replace_separator :: "char \<Rightarrow> char" where
  "replace_separator c = (if c \<in> set ''/._ '' then CHR ''-'' else c)"

definition stablePathID :: "(string \<Rightarrow> string) \<Rightarrow> string \<Rightarrow> string" where
  "stablePathID lower name = trim_dashes (map replace_separator (lower_text lower name))"

definition sourceLine :: "string \<Rightarrow> int \<Rightarrow> string" where
  "sourceLine d line =
     (let lines = split_on newline d in
      if line < 1 \<or> line > int (length lines) then []
      else let text = lines ! nat (line - 1) in
        if length text > 500 then take 500 text @ ellipsis else text)"

section \<open>The result\<close>

record AnalysisResult =
  as_Manifest :: "Manifest option"
  as_Operations :: "Operation list"
  as_Resources :: "Resource list"
  as_Findings :: "Finding list"
  as_Unknowns :: "Unknown list"
  as_Limitations :: "Limitation list"

definition empty_result :: AnalysisResult where
  "empty_result = \<lparr>as_Manifest = None, as_Operations = [], as_Resources = [], as_Findings = [],
     as_Unknowns = [], as_Limitations = []\<rparr>"

definition add_operation :: "Operation \<Rightarrow> AnalysisResult \<Rightarrow> AnalysisResult" where
  "add_operation x a = a\<lparr>as_Operations := as_Operations a @ [x]\<rparr>"

definition add_finding :: "Finding \<Rightarrow> AnalysisResult \<Rightarrow> AnalysisResult" where
  "add_finding x a = a\<lparr>as_Findings := as_Findings a @ [x]\<rparr>"

definition add_limitation :: "Limitation \<Rightarrow> AnalysisResult \<Rightarrow> AnalysisResult" where
  "add_limitation x a = a\<lparr>as_Limitations := as_Limitations a @ [x]\<rparr>"

lemmas add_defs = add_operation_def add_finding_def add_limitation_def

section \<open>Provenance\<close>

definition deterministicAnalyzer :: string where "deterministicAnalyzer = ''plug-prejudice/deterministic''"
definition DevelopmentAnalyzerVersion :: string where "DevelopmentAnalyzerVersion = ''development''"

definition sourceProvenance :: "string \<Rightarrow> Provenance" where
  "sourceProvenance ruleID = \<lparr>pv_RuleID = ruleID, pv_Analyzer = deterministicAnalyzer,
     pv_AnalyzerVersion = DevelopmentAnalyzerVersion, pv_EvidenceSource = EvidenceSourceTargetSource\<rparr>"

definition inventoryProvenance :: "string \<Rightarrow> Provenance" where
  "inventoryProvenance ruleID = (sourceProvenance ruleID)\<lparr>pv_EvidenceSource := EvidenceSourceInventoryMetadata\<rparr>"

section \<open>Kinds of files\<close>

definition isInertGitMetadata :: "string \<Rightarrow> bool" where
  "isInertGitMetadata name \<longleftrightarrow> hasPrefix name ''.git/objects/'' \<or> hasPrefix name ''.git/logs/''
     \<or> (hasPrefix name ''.git/hooks/'' \<and> hasSuffix name ''.sample'')"

definition isShell :: "string \<Rightarrow> string \<Rightarrow> bool" where
  "isShell name d =
     (let ext = toLower (path_ext name) in
      if ext = ''.sh'' \<or> ext = ''.bash'' \<or> ext = ''.zsh'' then True
      else let line = toLower (first_line d)
        in hasPrefix line ''#!'' \<and> (contains line ''sh'' \<or> contains line ''bash'' \<or> contains line ''zsh''))"

definition isQML :: "string \<Rightarrow> bool" where
  "isQML name \<longleftrightarrow> equal_fold (path_ext name) ''.qml''"

definition language_extensions :: "(string \<times> string list) list" where
  "language_extensions =
     [(''python'', [''.py'', ''.pyw'']), (''javascript'', [''.js'', ''.mjs'', ''.cjs'', ''.jsx'']),
      (''typescript'', [''.ts'', ''.mts'', ''.cts'', ''.tsx'']), (''go'', [''.go'']), (''ruby'', [''.rb'']),
      (''perl'', [''.pl'', ''.pm'']), (''lua'', [''.lua'']), (''php'', [''.php''])]"

definition unsupportedLanguage :: "string \<Rightarrow> string \<Rightarrow> string" where
  "unsupportedLanguage name d =
     (case find (\<lambda>(language, exts). toLower (path_ext name) \<in> set exts) language_extensions of
        Some (language, _) \<Rightarrow> language
      | None \<Rightarrow>
          (let firstLine = first_line d in
           if \<not> hasPrefix firstLine ''#!'' then []
           else case find (\<lambda>candidate. contains (toLower firstLine) candidate)
               [''python'', ''node'', ''ruby'', ''perl'', ''lua'', ''php''] of
             None \<Rightarrow> []
           | Some candidate \<Rightarrow> if candidate = ''node'' then ''javascript'' else candidate))"

definition toolingPath :: "string \<Rightarrow> bool" where
  "toolingPath name =
     (let clean = ''/'' @ toLower (path_clean name) @ ''/'' in
      if list_ex (contains clean) [''/.github/'', ''/test/'', ''/tests/'', ''/testdata/'', ''/docs/'', ''/examples/''] then True
      else let base = toLower (path_base name)
        in list_ex (contains base) [''build'', ''release'', ''package'', ''validate'', ''lint'', ''test'', ''check''])"

section \<open>Commands\<close>

definition isDownloader :: "string \<Rightarrow> bool" where
  "isDownloader command \<longleftrightarrow> path_base command = ''curl'' \<or> path_base command = ''wget''"

definition isInterpreter :: "string \<Rightarrow> bool" where
  "isInterpreter command \<longleftrightarrow> path_base command \<in> set [''sh'', ''bash'', ''zsh'', ''python'', ''python3'', ''node'']"

definition privilege_finding :: "Operation \<Rightarrow> Finding" where
  "privilege_finding op = \<lparr>fd_ID = ''finding-privilege-'' @ op_ID op, fd_Reference = [], fd_Claim = ClaimFact,
     fd_Severity = SeverityHigh, fd_Confidence = op_Confidence op, fd_Category = ''privilege-escalation'', fd_Scope = [],
     fd_Title = ''Invokes a privilege-elevation command'',
     fd_Explanation = ''This operation requests execution with another user's authority. Whether elevation succeeds and what authorization is required cannot be established by static analysis alone.'',
     fd_Evidence = Some [op_Evidence op], fd_Related = Some [op_ID op], fd_Provenance = sourceProvenance ''shell-ast/v1''\<rparr>"

definition eval_finding :: "Operation \<Rightarrow> Finding" where
  "eval_finding op = \<lparr>fd_ID = ''finding-dynamic-eval-'' @ op_ID op, fd_Reference = [], fd_Claim = ClaimFact,
     fd_Severity = SeverityMedium, fd_Confidence = op_Confidence op, fd_Category = ''dynamic-execution'', fd_Scope = [],
     fd_Title = ''Evaluates text as shell code'',
     fd_Explanation = ''The shell reparses text as commands at runtime. Static analysis may not be able to determine the resulting operations, especially when the evaluated value is dynamic.'',
     fd_Evidence = Some [op_Evidence op], fd_Related = Some [op_ID op], fd_Provenance = sourceProvenance ''shell-ast/v1''\<rparr>"

definition classifyCall :: "Operation \<Rightarrow> AnalysisResult \<Rightarrow> AnalysisResult" where
  "classifyCall op a =
     (let command = path_base (op_Command op) in
      if command \<in> set [''sudo'', ''pkexec'', ''su'', ''doas''] then add_finding (privilege_finding op) a
      else if command = ''eval'' then add_finding (eval_finding op) a else a)"

end
