(* ===== verification/Shell.thy ===== *)
theory Shell
  imports Analyze
begin

text \<open>
  The shell analyzer (internal/analyze/shell.go, and the pipeline test of qml.go). The shell parser is
  a third-party package and a parameter; its syntax tree is a datatype with the nodes the
  analyzer asks for and the rest as plain inner nodes.
\<close>

section \<open>Syntax trees\<close>

datatype nested_part = NestedLit string | NestedOther

datatype word_part = PartLit string | PartSglQuoted string | PartDblQuoted "nested_part list" | PartOther

type_synonym shell_word = "word_part list"

text \<open>
  \<open>no_pointer\<close> identifies the node, \<open>no_line\<close> and \<open>no_end\<close> are the lines of its first and last
  byte, and \<open>no_print\<close> is the text the package's printer gives for it.
\<close>

record node_info =
  no_pointer :: nat
  no_line :: int
  no_end :: int
  no_print :: string

text \<open>The children of a node in the order in which \<open>syntax.Walk\<close> visits them.\<close>

datatype shell_node =
    CallExpr node_info "shell_word list" "shell_node list"
  | BinaryCmd node_info bool shell_node shell_node
  | InnerNode "shell_node list"

text \<open>\<open>BinaryCmd\<close> has a flag that says whether its operator is \<open>|\<close> or \<open>|&\<close>.\<close>

fun walk :: "(shell_node \<Rightarrow> 's \<Rightarrow> bool \<times> 's) \<Rightarrow> shell_node \<Rightarrow> 's \<Rightarrow> 's"
and walk_all :: "(shell_node \<Rightarrow> 's \<Rightarrow> bool \<times> 's) \<Rightarrow> shell_node list \<Rightarrow> 's \<Rightarrow> 's" where
  "walk f (CallExpr i ws ns) s = (let (go, t) = f (CallExpr i ws ns) s in if go then walk_all f ns t else t)"
| "walk f (BinaryCmd i p x y) s = (let (go, t) = f (BinaryCmd i p x y) s in if go then walk f y (walk f x t) else t)"
| "walk f (InnerNode ns) s = (let (go, t) = f (InnerNode ns) s in if go then walk_all f ns t else t)"
| "walk_all f [] s = s"
| "walk_all f (n # ns) s = walk_all f ns (walk f n s)"

section \<open>Words\<close>

fun nested_value :: "nested_part \<Rightarrow> string \<times> bool" where
  "nested_value (NestedLit s) = (s, False)"
| "nested_value NestedOther = (dynamic_text, True)"

fun part_value :: "word_part \<Rightarrow> string \<times> bool" where
  "part_value (PartLit s) = (s, False)"
| "part_value (PartSglQuoted s) = (s, False)"
| "part_value (PartDblQuoted ns) = (concat (map (fst \<circ> nested_value) ns), list_ex (snd \<circ> nested_value) ns)"
| "part_value PartOther = (dynamic_text, True)"

definition staticWord :: "shell_word \<Rightarrow> string \<times> bool" where
  "staticWord w = (concat (map (fst \<circ> part_value) w), list_ex (snd \<circ> part_value) w)"

section \<open>Operations\<close>

definition call_operation :: "(string \<Rightarrow> string) \<Rightarrow> string \<Rightarrow> string \<Rightarrow> nat \<Rightarrow> node_info \<Rightarrow> shell_word \<Rightarrow> shell_word list \<Rightarrow> Operation" where
  "call_operation lower name d known i w ws =
     (let (command, commandDynamic) = staticWord w;
          op = \<lparr>op_ID = ''op-'' @ stablePathID lower name @ ''-'' @ decimal (nat (no_line i)) @ ''-'' @ decimal (known + 1),
            op_Reference = [], op_Category = ''process-execution'', op_Scope = [], op_Command = command,
            op_Arguments = Some (map (fst \<circ> staticWord) ws), op_Dynamic = commandDynamic \<or> list_ex (snd \<circ> staticWord) ws,
            op_Confidence = ConfidenceHigh,
            op_Evidence = \<lparr>ev_InputID = [], ev_Path = name, ev_LineStart = no_line i, ev_LineEnd = no_end i,
              ev_Operation = no_print i, ev_Excerpt = sourceLine d (no_line i)\<rparr>,
            op_Provenance = sourceProvenance ''shell-operation-extraction/v1''\<rparr>
      in if command = [] then op\<lparr>op_Command := dynamic_text, op_Confidence := ConfidenceMedium\<rparr> else op)"

text \<open>The state of the first walk: the result, and the operation of each call.\<close>

definition visit_call ::
  "(string \<Rightarrow> string) \<Rightarrow> string \<Rightarrow> string \<Rightarrow> shell_node \<Rightarrow> AnalysisResult \<times> (nat \<rightharpoonup> Operation)
     \<Rightarrow> bool \<times> AnalysisResult \<times> (nat \<rightharpoonup> Operation)" where
  "visit_call lower name d n = (\<lambda>(a, m).
     (case n of
        CallExpr i (w # ws) ns \<Rightarrow>
          (let op = call_operation lower name d (length (as_Operations a)) i w ws
           in (True, classifyCall op (add_operation op a), m(no_pointer i \<mapsto> op)))
      | _ \<Rightarrow> (True, a, m)))"

definition firstOperation :: "(nat \<rightharpoonup> Operation) \<Rightarrow> shell_node \<Rightarrow> Operation option" where
  "firstOperation m statement = walk (\<lambda>n found.
     (case found of
        Some op \<Rightarrow> (False, found)
      | None \<Rightarrow>
          (case n of
             CallExpr i ws ns \<Rightarrow> (case m (no_pointer i) of Some op \<Rightarrow> (False, Some op) | None \<Rightarrow> (True, None))
           | _ \<Rightarrow> (True, None)))) statement None"

definition download_finding :: "(string \<Rightarrow> string) \<Rightarrow> string \<Rightarrow> string \<Rightarrow> node_info \<Rightarrow> Operation \<Rightarrow> Operation \<Rightarrow> Finding" where
  "download_finding lower name d i left right =
     \<lparr>fd_ID = ''finding-download-execute-'' @ stablePathID lower name @ ''-'' @ decimal (nat (no_line i)), fd_Reference = [],
      fd_Claim = ClaimFact, fd_Severity = SeverityHigh, fd_Confidence = ConfidenceHigh,
      fd_Category = ''download-and-execute'', fd_Scope = [],
      fd_Title = ''Downloads content and sends it directly to an interpreter'',
      fd_Explanation = ''Network-provided content is passed to a command interpreter without an inspectable file or integrity check between retrieval and execution. The remote response can therefore become code running with the plugin user's authority.'',
      fd_Evidence = Some [\<lparr>ev_InputID = [], ev_Path = name, ev_LineStart = no_line i, ev_LineEnd = no_end i,
        ev_Operation = no_print i, ev_Excerpt = sourceLine d (no_line i)\<rparr>],
      fd_Related = Some [op_ID left, op_ID right], fd_Provenance = sourceProvenance ''shell-ast/v1''\<rparr>"

definition visit_pipe ::
  "(string \<Rightarrow> string) \<Rightarrow> string \<Rightarrow> string \<Rightarrow> (nat \<rightharpoonup> Operation) \<Rightarrow> shell_node \<Rightarrow> AnalysisResult \<Rightarrow> bool \<times> AnalysisResult" where
  "visit_pipe lower name d m n a =
     (case n of
        BinaryCmd i True x y \<Rightarrow>
          (case (firstOperation m x, firstOperation m y) of
             (Some left, Some right) \<Rightarrow>
               if \<not> isDownloader (op_Command left) \<or> \<not> isInterpreter (op_Command right) then (True, a)
               else (True, add_finding (download_finding lower name d i left right) a)
           | _ \<Rightarrow> (True, a))
      | _ \<Rightarrow> (True, a))"

definition no_location :: "string \<Rightarrow> string \<Rightarrow> string \<Rightarrow> Limitation" where
  "no_location code description path = \<lparr>li_Code = code, li_Description = description, li_Path = path, li_Scope = []\<rparr>"

text \<open>The parser: from the data and the file name to the tree, or the text of its error.\<close>

type_synonym shell_parser = "string \<Rightarrow> string \<Rightarrow> string + shell_node"

definition analyzeShell :: "shell_parser \<Rightarrow> (string \<Rightarrow> string) \<Rightarrow> string \<Rightarrow> string \<Rightarrow> AnalysisResult \<Rightarrow> AnalysisResult" where
  "analyzeShell parse lower name d a =
     (case parse d name of
        Inl message \<Rightarrow> add_limitation (no_location ''shell-parse-error'' message name) a
      | Inr file \<Rightarrow>
          (let (b, operationByCall) = walk (visit_call lower name d) file (a, Map.empty)
           in walk (visit_pipe lower name d operationByCall) file b))"

section \<open>Inline programs\<close>

text \<open>The state is the command found so far; the walk returns at the first call with a word.\<close>

definition firstCallCommand :: "shell_node \<Rightarrow> string" where
  "firstCallCommand statement = walk (\<lambda>n command.
     if command \<noteq> [] then (False, command)
     else (case n of
        CallExpr i (w # ws) ns \<Rightarrow> (let (value, dynamic) = staticWord w in (False, if \<not> dynamic then value else command))
      | _ \<Rightarrow> (True, command))) statement []"

definition containsDownloadExecutePipeline :: "shell_parser \<Rightarrow> string \<Rightarrow> bool" where
  "containsDownloadExecutePipeline parse program =
     (case parse program ''inline'' of
        Inl _ \<Rightarrow> False
      | Inr file \<Rightarrow> walk (\<lambda>n found.
          (case n of
             BinaryCmd i True x y \<Rightarrow>
               if isDownloader (firstCallCommand x) \<and> isInterpreter (firstCallCommand y) then (False, True) else (True, found)
           | _ \<Rightarrow> (True, found))) file False)"

end
