(* ===== verification/Qml.thy ===== *)
theory Qml
  imports Shell GoRunes
begin

text \<open>
  The lexical analyzer of QML sources (internal/analyze/qml.go). Positions are byte offsets into the
  data, as in the source; the loops are recursive functions on the offset. Indexing or slicing out
  of range panics in Go: the one place where the source can reach that returns an error value.
\<close>

section \<open>Bytes\<close>

text \<open>\<open>unicode.IsSpace\<close>, \<open>IsLetter\<close> and \<open>IsDigit\<close> of a rune below 256, which is what \<open>rune(data[i])\<close> is.\<close>

definition latin_space :: "char \<Rightarrow> bool" where
  "latin_space c \<longleftrightarrow> in_rng 9 13 c \<or> byte c = 32 \<or> byte c = 0x85 \<or> byte c = 0xA0"

definition latin_letter :: "char \<Rightarrow> bool" where
  "latin_letter c \<longleftrightarrow> in_rng 65 90 c \<or> in_rng 97 122 c \<or> byte c \<in> {0xAA, 0xB5, 0xBA}
     \<or> in_rng 0xC0 0xD6 c \<or> in_rng 0xD8 0xF6 c \<or> in_rng 0xF8 0xFF c"

definition isIdentifierStart :: "char \<Rightarrow> bool" where
  "isIdentifierStart c \<longleftrightarrow> c = CHR ''_'' \<or> latin_letter c"

definition isIdentifierPart :: "char \<Rightarrow> bool" where
  "isIdentifierPart c \<longleftrightarrow> isIdentifierStart c \<or> is_digit c"

abbreviation double_quote :: char where "double_quote \<equiv> CHR 0x22"
abbreviation single_quote :: char where "single_quote \<equiv> CHR 0x27"
abbreviation back_slash :: char where "back_slash \<equiv> CHR 0x5C"

definition is_quote :: "char \<Rightarrow> bool" where
  "is_quote c \<longleftrightarrow> c = double_quote \<or> c = single_quote"

definition at :: "string \<Rightarrow> nat \<Rightarrow> char \<Rightarrow> bool" where
  "at d i c \<longleftrightarrow> i < length d \<and> d ! i = c"

definition opens_line_comment :: "string \<Rightarrow> nat \<Rightarrow> bool" where
  "opens_line_comment d i \<longleftrightarrow> at d i slash \<and> at d (i + 1) slash"

definition opens_block_comment :: "string \<Rightarrow> nat \<Rightarrow> bool" where
  "opens_block_comment d i \<longleftrightarrow> at d i slash \<and> at d (i + 1) (CHR ''*'')"

section \<open>Scanning\<close>

function lineEnd :: "string \<Rightarrow> nat \<Rightarrow> nat \<Rightarrow> nat" where
  "lineEnd d index limit =
     (if index < limit then
        (if at d index newline \<or> at d index (CHR '';'') then index else lineEnd d (index + 1) limit)
      else limit)"
  by pat_completeness auto

termination by (relation "measure (\<lambda>(_, index, limit). limit - index)") auto

text \<open>The inner loop of both scans over a block comment: to its end mark, or to the last byte.\<close>

function comment_end :: "string \<Rightarrow> nat \<Rightarrow> nat" where
  "comment_end d index =
     (if index + 1 < length d \<and> \<not> (at d index (CHR ''*'') \<and> at d (index + 1) slash)
      then comment_end d (index + 1) else index)"
  by pat_completeness auto

termination by (relation "measure (\<lambda>(d, index). length d - index)") auto

declare lineEnd.simps [simp del] comment_end.simps [simp del]

lemma lineEnd_ge: "index \<le> limit \<Longrightarrow> index \<le> lineEnd d index limit"
proof (induction d index limit rule: lineEnd.induct)
  case (1 d index limit)
  then show ?case by (subst lineEnd.simps) (auto dest: Suc_leD)
qed

lemma lineEnd_le: "lineEnd d index limit \<le> limit"
proof (induction d index limit rule: lineEnd.induct)
  case (1 d index limit)
  then show ?case by (subst lineEnd.simps) auto
qed

lemma comment_end_ge: "index \<le> comment_end d index"
proof (induction d index rule: comment_end.induct)
  case (1 d index)
  then show ?case by (subst comment_end.simps) (auto dest: Suc_leD)
qed

lemma comment_end_le: "index \<le> length d \<Longrightarrow> comment_end d index \<le> length d"
proof (induction d index rule: comment_end.induct)
  case (1 d index)
  then show ?case by (subst comment_end.simps) auto
qed

text \<open>A line comment ends behind its two slashes.\<close>

lemma lineEnd_comment: "opens_line_comment d i \<Longrightarrow> i + 2 \<le> lineEnd d i (length d)"
proof -
  assume c: "opens_line_comment d i"
  then have i: "i + 1 < length d" "at d i slash" "at d (i + 1) slash" by (auto simp: opens_line_comment_def at_def)
  then have "lineEnd d i (length d) = lineEnd d (i + 2) (length d)"
    by (subst lineEnd.simps, subst lineEnd.simps) (auto simp: at_def slash_def)
  then show ?thesis using i lineEnd_ge[of "i + 2" "length d" d] by simp
qed

function skipQMLSpaceAndComments :: "string \<Rightarrow> nat \<Rightarrow> nat" where
  "skipQMLSpaceAndComments d index =
     (if index < length d then
        (if latin_space (d ! index) then skipQMLSpaceAndComments d (index + 1)
         else if opens_line_comment d index then skipQMLSpaceAndComments d (lineEnd d index (length d))
         else if opens_block_comment d index then
           (let i = comment_end d (index + 2)
            in skipQMLSpaceAndComments d (if i + 1 < length d then i + 2 else i))
         else index)
      else index)"
  by pat_completeness auto

termination
proof (relation "measure (\<lambda>(d, index). length d - index)", goal_cases)
  case (3 d index)
  then show ?case using lineEnd_comment[of d index] by simp
next
  case (4 d index i)
  then show ?case using comment_end_ge[of "index + 2" d] by auto
qed auto

declare skipQMLSpaceAndComments.simps [simp del]

function string_end :: "string \<Rightarrow> char \<Rightarrow> nat \<Rightarrow> nat" where
  "string_end d quote index =
     (if index < length d then
        (if d ! index = back_slash then string_end d quote (index + 2)
         else if d ! index = quote then index + 1 else string_end d quote (index + 1))
      else length d)"
  by pat_completeness auto

termination by (relation "measure (\<lambda>(d, _, index). length d - index)") auto

declare string_end.simps [simp del]

definition skipQMLString :: "string \<Rightarrow> nat \<Rightarrow> nat" where
  "skipQMLString d start = string_end d (d ! start) (start + 1)"

lemma skip_ge: "index \<le> skipQMLSpaceAndComments d index"
proof (induction d index rule: skipQMLSpaceAndComments.induct)
  case (1 d index)
  note simps = skipQMLSpaceAndComments.simps[of d index] Let_def
  consider "\<not> index < length d" | "index < length d" "latin_space (d ! index)"
    | "index < length d" "\<not> latin_space (d ! index)" "opens_line_comment d index"
    | "index < length d" "\<not> latin_space (d ! index)" "\<not> opens_line_comment d index" "opens_block_comment d index"
    | "index < length d" "\<not> latin_space (d ! index)" "\<not> opens_line_comment d index" "\<not> opens_block_comment d index"
    by blast
  then show ?case
  proof cases
    case 2
    then show ?thesis using 1(1) by (simp add: simps)
  next
    case 3
    then show ?thesis using 1(2) lineEnd_comment[of d index] by (simp add: simps)
  next
    case 4
    define i where "i = comment_end d (index + 2)"
    have "index \<le> (if i + 1 < length d then i + 2 else i)" using comment_end_ge[of "index + 2" d] by (auto simp: i_def)
    also have "\<dots> \<le> skipQMLSpaceAndComments d (if i + 1 < length d then i + 2 else i)" by (rule 1(3)[OF 4 i_def])
    finally show ?thesis using 4 unfolding simps i_def[symmetric] by simp
  qed (simp_all add: simps)
qed

lemma string_end_bounds: "min index (length d) \<le> string_end d quote index \<and> string_end d quote index \<le> length d"
proof (induction d quote index rule: string_end.induct)
  case (1 d quote index)
  then show ?case by (subst (1 2) string_end.simps) auto
qed

lemma skipQMLString_bounds: "start < length d \<Longrightarrow> start < skipQMLString d start \<and> skipQMLString d start \<le> length d"
  using string_end_bounds[of "start + 1" d "d ! start"] by (auto simp: skipQMLString_def)

section \<open>Tokens\<close>

definition identifier_at :: "string \<Rightarrow> nat \<Rightarrow> string" where
  "identifier_at d index = takeWhile isIdentifierPart (drop index d)"

function token_loop :: "string \<Rightarrow> nat \<Rightarrow> (nat \<times> string) option" where
  "token_loop d index =
     (if index < length d then
        (if is_quote (d ! index) then token_loop d (skipQMLSpaceAndComments d (skipQMLString d index))
         else if isIdentifierStart (d ! index) then
           (let token = d ! index # identifier_at d (index + 1) in Some (index + length token, token))
         else token_loop d (skipQMLSpaceAndComments d (index + 1)))
      else None)"
  by pat_completeness auto

termination
proof (relation "measure (\<lambda>(d, index). length d - index)", goal_cases)
  case (2 d index)
  then show ?case using skipQMLString_bounds[of index d] skip_ge[of "skipQMLString d index" d] by auto
next
  case (3 d index)
  then show ?case using skip_ge[of "index + 1" d] by auto
qed auto

declare token_loop.simps [simp del]

text \<open>The offset behind the token and the token, or \<^const>\<open>None\<close> when no token is left.\<close>

definition nextQMLToken :: "string \<Rightarrow> nat \<Rightarrow> (nat \<times> string) option" where
  "nextQMLToken d start = token_loop d (skipQMLSpaceAndComments d start)"

lemma token_loop_bounds: "token_loop d index = Some (next, token) \<Longrightarrow> index < next \<and> next \<le> length d"
proof (induction d index rule: token_loop.induct)
  case (1 d index)
  have len: "length (identifier_at d (index + 1)) \<le> length d - (index + 1)"
    by (metis identifier_at_def length_drop length_takeWhile_le)
  consider "index < length d" "is_quote (d ! index)" "token_loop d (skipQMLSpaceAndComments d (skipQMLString d index)) = Some (next, token)"
    | "index < length d" "next = index + 1 + length (identifier_at d (index + 1))"
    | "index < length d" "\<not> is_quote (d ! index)" "\<not> isIdentifierStart (d ! index)"
        "token_loop d (skipQMLSpaceAndComments d (index + 1)) = Some (next, token)"
    using 1(3) unfolding token_loop.simps[of d index] by (auto simp: Let_def split: if_splits)
  then show ?case
  proof cases
    case 1
    then show ?thesis
      using "1.IH"(1) skipQMLString_bounds[of index d] skip_ge[of "skipQMLString d index" d] by simp
  next
    case 2
    then show ?thesis using len by simp
  next
    case 3
    then show ?thesis using "1.IH"(2) skip_ge[of "index + 1" d] by simp
  qed
qed

lemma nextQMLToken_bounds: "nextQMLToken d start = Some (next, token) \<Longrightarrow> start < next \<and> next \<le> length d"
  using token_loop_bounds[of d "skipQMLSpaceAndComments d start" "next" token] skip_ge[of start d]
  by (auto simp: nextQMLToken_def)

section \<open>Delimiters\<close>

function match_loop :: "string \<Rightarrow> char \<Rightarrow> char \<Rightarrow> nat \<Rightarrow> int \<Rightarrow> nat option" where
  "match_loop d opener closer index depth =
     (if index < length d then
        (if is_quote (d ! index) then match_loop d opener closer (skipQMLString d index) depth
         else if opens_line_comment d index then match_loop d opener closer (lineEnd d index (length d)) depth
         else if opens_block_comment d index then match_loop d opener closer (comment_end d (index + 2) + 2) depth
         else if d ! index = opener then match_loop d opener closer (index + 1) (depth + 1)
         else if d ! index = closer then
           (if depth - 1 = 0 then Some index else match_loop d opener closer (index + 1) (depth - 1))
         else match_loop d opener closer (index + 1) depth)
      else None)"
  by pat_completeness auto

termination
proof (relation "measure (\<lambda>(d, _, _, index, _). length d - index)", goal_cases)
  case (2 d opener closer index depth)
  then show ?case using skipQMLString_bounds[of index d] by auto
next
  case (3 d opener closer index depth)
  then show ?case using lineEnd_comment[of d index] by auto
next
  case (4 d opener closer index depth)
  then show ?case using comment_end_ge[of "index + 2" d] by auto
qed auto

declare match_loop.simps [simp del]

definition matchQMLDelimiter :: "string \<Rightarrow> nat \<Rightarrow> char \<Rightarrow> char \<Rightarrow> nat option" where
  "matchQMLDelimiter d start opener closer = match_loop d opener closer start 0"

lemma match_loop_step:
  assumes "match_loop d opener closer index depth = Some stop"
  shows "index < length d \<and> (stop = index \<and> d ! index = closer
    \<or> (\<exists>later deeper. index < later \<and> match_loop d opener closer later deeper = Some stop))"
proof -
  from assms have i: "index < length d" by (subst (asm) match_loop.simps) (simp split: if_splits)
  note bounds = skipQMLString_bounds[OF i] lineEnd_comment[of d index] comment_end_ge[of "index + 2" d]
  from assms i show ?thesis
    unfolding match_loop.simps[of d opener closer index depth]
    using bounds by (auto split: if_splits intro: exI[of _ "skipQMLString d index"] exI[of _ "lineEnd d index (length d)"]
        exI[of _ "comment_end d (Suc (Suc index)) + 2"] exI[of _ "Suc index"] simp: less_Suc_eq_le)
qed

lemma match_loop_bounds:
  "match_loop d opener closer index depth = Some stop \<Longrightarrow> index \<le> stop \<and> stop < length d \<and> d ! stop = closer"
proof (induction "length d - index" arbitrary: index depth rule: less_induct)
  case less
  from match_loop_step[OF less.prems] consider "index < length d" "stop = index" "d ! index = closer"
    | later deeper where "index < length d" "index < later" "match_loop d opener closer later deeper = Some stop"
    by blast
  then show ?case
  proof cases
    case 2
    then have "length d - later < length d - index" by simp
    from less.hyps[OF this 2(3)] 2(2) show ?thesis by simp
  qed simp
qed

section \<open>Blocks and expressions\<close>

record qmlBlock =
  qb_start :: nat
  qb_end :: nat

record qmlExpression =
  qe_start :: nat
  qe_end :: nat
  qe_text :: string

lemma block_progress:
  assumes "nextQMLToken d index = Some (next, token)" and "matchQMLDelimiter d (skipQMLSpaceAndComments d next) c e = Some stop"
  shows "index < stop + 1 \<and> stop < length d"
  using nextQMLToken_bounds[OF assms(1)] skip_ge[of "next" d]
    match_loop_bounds[of d c e "skipQMLSpaceAndComments d next" 0 stop] assms(2)
  by (auto simp: matchQMLDelimiter_def)

function process_blocks :: "string \<Rightarrow> nat \<Rightarrow> qmlBlock list" where
  "process_blocks d index =
     (if index < length d then
        (case nextQMLToken d index of
           None \<Rightarrow> []
         | Some (next, token) \<Rightarrow>
             if token \<noteq> ''Process'' then process_blocks d next
             else let brace = skipQMLSpaceAndComments d next in
               if \<not> at d brace (CHR ''{'') then process_blocks d next
               else (case matchQMLDelimiter d brace (CHR ''{'') (CHR ''}'') of
                 None \<Rightarrow> process_blocks d next
               | Some stop \<Rightarrow> \<lparr>qb_start = brace + 1, qb_end = stop\<rparr> # process_blocks d (stop + 1)))
      else [])"
  by pat_completeness auto

termination
proof (relation "measure (\<lambda>(d, index). length d - index)", goal_cases)
  case (5 d index pair "next" token brace stop)
  then show ?case using block_progress[of d index "next" token "CHR ''{''" "CHR ''}''" stop] by auto
qed (auto dest!: nextQMLToken_bounds)

declare process_blocks.simps [simp del]

definition qmlProcessBlocks :: "string \<Rightarrow> qmlBlock list" where
  "qmlProcessBlocks d = process_blocks d 0"

text \<open>Where the expression that starts at \<open>start\<close> ends.\<close>

definition expression_end :: "string \<Rightarrow> nat \<Rightarrow> nat \<Rightarrow> nat" where
  "expression_end d start limit =
     (if d ! start = CHR ''['' then
        (case matchQMLDelimiter (take limit d) start (CHR ''['') (CHR '']'') of
           None \<Rightarrow> lineEnd d start limit
         | Some matchedEnd \<Rightarrow> matchedEnd + 1)
      else lineEnd d start limit)"

lemma expression_end_ge: "start < limit \<Longrightarrow> start \<le> expression_end d start limit"
  using match_loop_bounds[of "take limit d" _ _ start 0] lineEnd_ge[of start limit d]
  by (fastforce simp: expression_end_def matchQMLDelimiter_def split: option.splits)

function command_expressions :: "string \<Rightarrow> nat \<Rightarrow> nat \<Rightarrow> qmlExpression list" where
  "command_expressions d limit index =
     (if index < limit then
        (case nextQMLToken (take limit d) index of
           None \<Rightarrow> []
         | Some (next, token) \<Rightarrow>
             if token \<noteq> ''command'' then command_expressions d limit next
             else let colon = skipQMLSpaceAndComments d next in
               if limit \<le> colon \<or> \<not> at d colon (CHR '':'') then command_expressions d limit next
               else let start = skipQMLSpaceAndComments d (colon + 1) in
                 if limit \<le> start then command_expressions d limit next
                 else let stop = expression_end d start limit in
                   \<lparr>qe_start = start, qe_end = stop, qe_text = take (stop - start) (drop start d)\<rparr>
                     # command_expressions d limit stop)
      else [])"
  by pat_completeness auto

termination
proof (relation "measure (\<lambda>(d, limit, index). limit - index)", goal_cases)
  case (5 d limit index pair "next" token colon start stop)
  have "index < next" using nextQMLToken_bounds[of "take limit d" index "next" token] 5(2,3) by simp
  also have "next \<le> colon" using skip_ge[of "next" d] 5(5) by simp
  also have "colon < start" using skip_ge[of "colon + 1" d] 5(7) by simp
  also have "start \<le> stop" using expression_end_ge[of start limit d] 5(8,9) by simp
  finally show ?case using 5(1) by simp
qed (auto dest!: nextQMLToken_bounds)

declare command_expressions.simps [simp del]

definition qmlCommandExpressions :: "string \<Rightarrow> qmlBlock \<Rightarrow> qmlExpression list" where
  "qmlCommandExpressions d block = command_expressions d (qb_end block) (qb_start block)"

section \<open>Command arrays\<close>

definition skipSimpleSpace :: "string \<Rightarrow> nat \<Rightarrow> nat" where
  "skipSimpleSpace value start = start + length (takeWhile latin_space (drop start value))"

text \<open>The offset behind the closing quote. After a final backslash it is behind the end of the text.\<close>

function quoted_end :: "string \<Rightarrow> char \<Rightarrow> nat \<Rightarrow> nat" where
  "quoted_end body quote index =
     (if index < length body then
        (if body ! index = back_slash then quoted_end body quote (index + 2)
         else if body ! index = quote then index + 1 else quoted_end body quote (index + 1))
      else index)"
  by pat_completeness auto

termination by (relation "measure (\<lambda>(body, _, index). length body - index)") auto

declare quoted_end.simps [simp del]

lemma quoted_end_ge: "index \<le> quoted_end body quote index"
proof (induction body quote index rule: quoted_end.induct)
  case (1 body quote index)
  then show ?case by (subst quoted_end.simps) (auto dest: Suc_leD)
qed

text \<open>The value of a quoted element, and whether it could not be read.\<close>

definition element_value :: "char \<Rightarrow> string \<Rightarrow> string \<times> bool" where
  "element_value quote raw =
     (case unquote raw of
        Some value \<Rightarrow> (value, False)
      | None \<Rightarrow>
          if quote = single_quote \<and> length raw \<ge> 2 then (take (length raw - 2) (drop 1 raw), False)
          else (dynamic_text, True))"

definition panic :: "string \<Rightarrow> 'a result" where
  "panic message = Inl (Errorf (''panic: runtime error: '' @ message) [])"

lemma skipSimpleSpace_ge: "start \<le> skipSimpleSpace value start"
  by (simp add: skipSimpleSpace_def)

lemma element_skipped: "index < length body \<Longrightarrow> body ! index \<noteq> c \<Longrightarrow> 0 < length (takeWhile (\<lambda>d. d \<noteq> c) (drop index body))"
  by (simp add: Cons_nth_drop_Suc[symmetric])

function array_loop :: "string \<Rightarrow> nat \<Rightarrow> string list \<Rightarrow> bool \<Rightarrow> (string list \<times> bool) result" where
  "array_loop body index0 values dynamic =
     (let index = skipSimpleSpace body index0 in
      if index < length body then
        (if body ! index = CHR '','' then array_loop body (index + 1) values dynamic
         else if \<not> is_quote (body ! index) then
           array_loop body (index + length (takeWhile (\<lambda>c. c \<noteq> CHR '','') (drop index body))) (values @ [dynamic_text]) True
         else let stop = quoted_end body (body ! index) (index + 1) in
           if length body < stop then panic ''slice bounds out of range''
           else let (value, unreadable) = element_value (body ! index) (take (stop - index) (drop index body))
             in array_loop body stop (values @ [value]) (dynamic \<or> unreadable))
      else Inr (values, dynamic))"
  by pat_completeness auto

termination
proof (relation "measure (\<lambda>(body, index, _, _). length body - index)", goal_cases)
  case (2 body index0 xs dyn index)
  then show ?case using skipSimpleSpace_ge[of index0 body] by simp
next
  case (3 body index0 xs dyn index)
  then show ?case using skipSimpleSpace_ge[of index0 body] element_skipped[of index body "CHR '',''"]
    by (simp del: length_greater_0_conv)
next
  case (4 body index0 xs dyn index stop pair x unreadable)
  then show ?case using skipSimpleSpace_ge[of index0 body] quoted_end_ge[of "index + 1" body "body ! index"] by simp
qed auto

declare array_loop.simps [simp del]

definition qmlCommandArray :: "string \<Rightarrow> (string \<times> string slice \<times> bool) result" where
  "qmlCommandArray expression =
     (let trimmed = trimSpace expression in
      if \<not> hasPrefix trimmed ''['' \<or> \<not> hasSuffix trimmed '']'' then Inr ([], None, True)
      else bindr (array_loop (take (length trimmed - 2) (drop 1 trimmed)) 0 [] False) (\<lambda>(values, dynamic).
        case values of
          [] \<Rightarrow> Inr ([], Some [], dynamic)
        | command # arguments \<Rightarrow> Inr (command, Some arguments, dynamic)))"

section \<open>The analyzer\<close>

definition lineAt :: "string \<Rightarrow> nat \<Rightarrow> int" where
  "lineAt d offset =
     (let clipped = (if offset > length d then length d else offset)
      in 1 + int (length (filter (\<lambda>c. c = newline) (take clipped d))))"

lemma property_progress:
  assumes "nextQMLToken d index = Some (next, token)" and "nextQMLToken d (skipQMLSpaceAndComments d next + 1) = Some (after, property)"
  shows "index < after \<and> after \<le> length d"
  using nextQMLToken_bounds[OF assms(1)] nextQMLToken_bounds[OF assms(2)] skip_ge[of "next" d] by simp

function imperative_assignment :: "string \<Rightarrow> nat \<Rightarrow> bool" where
  "imperative_assignment d index =
     (if index < length d then
        (case nextQMLToken d index of
           None \<Rightarrow> False
         | Some (next, _) \<Rightarrow>
             let dot = skipQMLSpaceAndComments d next in
             if \<not> at d dot (CHR ''.'') then imperative_assignment d next
             else (case nextQMLToken d (dot + 1) of
               None \<Rightarrow> False
             | Some (after, property) \<Rightarrow>
                 if property \<noteq> ''command'' then imperative_assignment d after
                 else let equals = skipQMLSpaceAndComments d after in
                   if at d equals (CHR ''='') \<and> \<not> at d (equals + 1) (CHR ''='') then True
                   else imperative_assignment d after))
      else False)"
  by pat_completeness auto

termination
  by (relation "measure (\<lambda>(d, index). length d - index)")
    (auto dest: nextQMLToken_bounds property_progress intro!: diff_less_mono2)

declare imperative_assignment.simps [simp del]

definition hasImperativeQMLCommandAssignment :: "string \<Rightarrow> bool" where
  "hasImperativeQMLCommandAssignment d = imperative_assignment d 0"

definition shell_finding :: "Operation \<Rightarrow> string \<Rightarrow> string \<Rightarrow> string \<Rightarrow> string \<Rightarrow> Finding" where
  "shell_finding op severity category title explanation =
     \<lparr>fd_ID = ''finding-qml-shell-'' @ op_ID op, fd_Reference = [], fd_Claim = ClaimFact, fd_Severity = severity,
      fd_Confidence = op_Confidence op, fd_Category = category, fd_Scope = [], fd_Title = title, fd_Explanation = explanation,
      fd_Evidence = Some [op_Evidence op], fd_Related = Some [op_ID op],
      fd_Provenance = sourceProvenance ''qml-lexical-shell-ast/v1''\<rparr>"

definition classifyQMLShell :: "shell_parser \<Rightarrow> Operation \<Rightarrow> AnalysisResult \<Rightarrow> AnalysisResult" where
  "classifyQMLShell parse op a =
     (case elems (op_Arguments op) of
        flag # program # _ \<Rightarrow>
          if \<not> isInterpreter (path_base (op_Command op)) \<or> flag \<noteq> ''-c'' then a
          else if containsDownloadExecutePipeline parse program then
            add_finding (shell_finding op SeverityHigh ''download-and-execute''
              ''Downloads content and sends it directly to an interpreter''
              ''The inline shell program contains a parsed pipeline from a network downloader to a command interpreter, allowing the remote response to become code running with the plugin user's authority.'') a
          else
            add_finding (shell_finding op SeverityMedium ''shell-execution''
              ''Starts a command interpreter with an inline program''
              ''The plugin asks a command interpreter to parse a string at runtime. The nested program requires separate review and may contain expansions that static QML extraction cannot resolve.'') a
      | _ \<Rightarrow> a)"

definition expression_operation ::
  "(string \<Rightarrow> string) \<Rightarrow> string \<Rightarrow> string \<Rightarrow> nat \<Rightarrow> qmlExpression \<Rightarrow> string \<times> string slice \<times> bool \<Rightarrow> Operation" where
  "expression_operation lower name d known e = (\<lambda>(command, arguments, dynamic).
     (let line = lineAt d (qe_start e);
          op = \<lparr>op_ID = ''op-'' @ stablePathID lower name @ ''-'' @ decimal (nat line) @ ''-'' @ decimal (known + 1),
            op_Reference = [], op_Category = ''process-execution'', op_Scope = [], op_Command = command,
            op_Arguments = arguments, op_Dynamic = dynamic, op_Confidence = ConfidenceHigh,
            op_Evidence = \<lparr>ev_InputID = [], ev_Path = name, ev_LineStart = line, ev_LineEnd = lineAt d (qe_end e),
              ev_Operation = trimSpace (qe_text e), ev_Excerpt = sourceLine d line\<rparr>,
            op_Provenance = sourceProvenance ''qml-operation-extraction/v1''\<rparr>
      in if command = [] then op\<lparr>op_Command := dynamic_text, op_Dynamic := True, op_Confidence := ConfidenceMedium\<rparr> else op))"

definition analyze_expression ::
  "shell_parser \<Rightarrow> (string \<Rightarrow> string) \<Rightarrow> string \<Rightarrow> string \<Rightarrow> qmlExpression \<Rightarrow> AnalysisResult \<Rightarrow> AnalysisResult result" where
  "analyze_expression parse lower name d e a =
     bindr (qmlCommandArray (qe_text e)) (\<lambda>parsed.
       let op = expression_operation lower name d (length (as_Operations a)) e parsed
       in Inr (classifyQMLShell parse op (classifyCall op (add_operation op a))))"

definition analyzeQML ::
  "shell_parser \<Rightarrow> (string \<Rightarrow> string) \<Rightarrow> string \<Rightarrow> string \<Rightarrow> AnalysisResult \<Rightarrow> AnalysisResult result" where
  "analyzeQML parse lower name d a =
     bindr (loop (analyze_expression parse lower name d)
       (concat (map (qmlCommandExpressions d) (qmlProcessBlocks d))) a) (\<lambda>b.
     if hasImperativeQMLCommandAssignment d then
       Inr (add_limitation (no_location ''qml-imperative-command-analysis-unavailable''
         ''QML assigns a Process command imperatively. The bounded lexical analyzer does not resolve JavaScript assignments, so the resulting executable and arguments remain unknown.''
         name) b)
     else Inr b)"

end
