(* ===== verification/QmlGuarantees.thy ===== *)
theory QmlGuarantees
  imports Qml "HOL-Library.Code_Target_Nat"
begin

text \<open>
  What the QML analyzer guarantees: the ranges it cuts out of the data are in range and nested, a
  command array whose last element is closed is read without a panic, and arrays of plain
  strings are read back exactly. Two texts show what it does not guarantee.
\<close>

section \<open>Ranges\<close>

lemma block_first:
  assumes "at d brace (CHR ''{'')" and "matchQMLDelimiter d brace (CHR ''{'') (CHR ''}'') = Some stop"
  shows "brace + 1 \<le> stop \<and> stop < length d \<and> d ! stop = CHR ''}''"
proof -
  have m: "brace \<le> stop \<and> stop < length d \<and> d ! stop = CHR ''}''"
    using match_loop_bounds[of d _ _ brace 0 stop] assms(2) by (simp add: matchQMLDelimiter_def)
  moreover have "stop \<noteq> brace" using assms(1) m by (auto simp: at_def)
  ultimately show ?thesis by simp
qed

definition block_ok :: "string \<Rightarrow> nat \<Rightarrow> qmlBlock \<Rightarrow> bool" where
  "block_ok d index b \<longleftrightarrow> index < qb_start b \<and> qb_start b \<le> qb_end b \<and> qb_end b < length d
     \<and> d ! (qb_start b - 1) = CHR ''{'' \<and> d ! qb_end b = CHR ''}''"

lemma process_blocks_step:
  assumes "b \<in> set (process_blocks d index)"
  shows "index < length d \<and> (block_ok d index b \<or> (\<exists>later. index < later \<and> b \<in> set (process_blocks d later)))"
proof -
  have none: "process_blocks d index = []" if "\<not> index < length d \<or> nextQMLToken d index = None"
    using that by (subst process_blocks.simps) auto
  have i: "index < length d" and "nextQMLToken d index \<noteq> None" using none assms by fastforce+
  then obtain "next" token where t: "nextQMLToken d index = Some (next, token)" by auto
  have n: "index < next" using nextQMLToken_bounds[OF t] by simp
  show ?thesis
  proof (cases "b \<in> set (process_blocks d next)")
    case False
    with assms i t obtain stop where s: "at d (skipQMLSpaceAndComments d next) (CHR ''{'')"
      "matchQMLDelimiter d (skipQMLSpaceAndComments d next) (CHR ''{'') (CHR ''}'') = Some stop"
      "b = \<lparr>qb_start = skipQMLSpaceAndComments d next + 1, qb_end = stop\<rparr> \<or> b \<in> set (process_blocks d (stop + 1))"
      unfolding process_blocks.simps[of d index] by (auto simp: Let_def split: option.splits if_splits)
    have "index < skipQMLSpaceAndComments d next" using n skip_ge[of "next" d] by simp
    with block_first[OF s(1,2)] s(1,3) i show ?thesis by (auto simp: block_ok_def at_def)
  qed (use i n in blast)
qed

lemma process_blocks_ok: "b \<in> set (process_blocks d index) \<Longrightarrow> block_ok d index b"
proof (induction "length d - index" arbitrary: index rule: less_induct)
  case less
  from process_blocks_step[OF less.prems] consider "block_ok d index b"
    | later where "index < length d" "index < later" "b \<in> set (process_blocks d later)" by blast
  then show ?case
  proof cases
    case 2
    then have "length d - later < length d - index" by simp
    from less.hyps[OF this 2(3)] 2(2) show ?thesis by (simp add: block_ok_def)
  qed
qed

definition expression_ok :: "string \<Rightarrow> nat \<Rightarrow> nat \<Rightarrow> qmlExpression \<Rightarrow> bool" where
  "expression_ok d limit index e \<longleftrightarrow> index < qe_start e \<and> qe_start e \<le> qe_end e \<and> qe_end e \<le> limit
     \<and> qe_text e = take (qe_end e - qe_start e) (drop (qe_start e) d)"

lemma expression_end_le: "start < limit \<Longrightarrow> expression_end d start limit \<le> limit"
  using match_loop_bounds[of "take limit d" _ _ start 0] lineEnd_le[of d start limit]
  by (fastforce simp: expression_end_def matchQMLDelimiter_def split: option.splits)

lemma command_expressions_step:
  assumes "e \<in> set (command_expressions d limit index)"
  shows "index < limit \<and> (expression_ok d limit index e \<or> (\<exists>later. index < later \<and> e \<in> set (command_expressions d limit later)))"
proof -
  have none: "command_expressions d limit index = []" if "\<not> index < limit \<or> nextQMLToken (take limit d) index = None"
    using that by (subst command_expressions.simps) auto
  have i: "index < limit" and "nextQMLToken (take limit d) index \<noteq> None" using none assms by fastforce+
  then obtain "next" token where t: "nextQMLToken (take limit d) index = Some (next, token)" by auto
  have n: "index < next" using nextQMLToken_bounds[OF t] by simp
  show ?thesis
  proof (cases "e \<in> set (command_expressions d limit next)")
    case False
    define start where "start = skipQMLSpaceAndComments d (skipQMLSpaceAndComments d next + 1)"
    define stop where "stop = expression_end d start limit"
    from assms i t False have s: "start < limit"
      "e = \<lparr>qe_start = start, qe_end = stop, qe_text = take (stop - start) (drop start d)\<rparr> \<or> e \<in> set (command_expressions d limit stop)"
      unfolding command_expressions.simps[of d limit index] start_def stop_def
      by (auto simp: Let_def split: if_splits)
    have "index < start" using n skip_ge[of "next" d] skip_ge[of "skipQMLSpaceAndComments d next + 1" d] by (simp add: start_def)
    with s expression_end_ge[OF s(1), of d] expression_end_le[OF s(1), of d] i show ?thesis
      unfolding stop_def[symmetric] by (auto simp: expression_ok_def)
  qed (use i n in blast)
qed

lemma command_expressions_ok: "e \<in> set (command_expressions d limit index) \<Longrightarrow> expression_ok d limit index e"
proof (induction "limit - index" arbitrary: index rule: less_induct)
  case less
  from command_expressions_step[OF less.prems] consider "expression_ok d limit index e"
    | later where "index < limit" "index < later" "e \<in> set (command_expressions d limit later)" by blast
  then show ?case
  proof cases
    case 2
    then have "limit - later < limit - index" by simp
    from less.hyps[OF this 2(3)] 2(2) show ?thesis by (simp add: expression_ok_def)
  qed
qed


section \<open>Command arrays\<close>

lemma quoted_end_le:
  assumes "body \<noteq> []" and "last body \<noteq> back_slash" and "index \<le> length body"
  shows "quoted_end body quote index \<le> length body"
  using assms(3)
proof (induction "length body - index" arbitrary: index rule: less_induct)
  case less
  show ?case
  proof (cases "index < length body")
    case True
    have "index + 2 \<le> length body" if "body ! index = back_slash"
    proof (rule ccontr)
      assume "\<not> index + 2 \<le> length body"
      with True have "index = length body - 1" by simp
      with that assms(1,2) show False by (simp add: last_conv_nth)
    qed
    then show ?thesis
      using True less.hyps[of "index + 2"] less.hyps[of "index + 1"] by (subst quoted_end.simps) auto
  qed (use less.prems in \<open>simp add: quoted_end.simps\<close>)
qed

lemma array_loop_returns:
  assumes "body \<noteq> [] \<Longrightarrow> last body \<noteq> back_slash"
  shows "\<exists>r. array_loop body index vs dyn = Inr r"
proof (induction "length body - index" arbitrary: index vs dyn rule: less_induct)
  case less
  define i where "i = skipSimpleSpace body index"
  have ge: "index \<le> i" by (simp add: i_def skipSimpleSpace_ge)
  show ?case
  proof (cases "i < length body")
    case True
    then have body: "body \<noteq> []" by auto
    define stop where "stop = quoted_end body (body ! i) (Suc i)"
    have stop: "stop \<le> length body" "i < stop"
      using quoted_end_le[OF body assms[OF body], of "i + 1" "body ! i"] quoted_end_ge[of "i + 1" body "body ! i"] True
      by (auto simp: stop_def)
    have skipped: "0 < length (takeWhile (\<lambda>c. c \<noteq> CHR '','') (drop i body))" if "body ! i \<noteq> CHR '',''"
      using element_skipped[OF True that] .
    have IH: "\<exists>r. array_loop body j vs dyn = Inr r" if "i < j" for j vs dyn
      using less.hyps[of j vs dyn] that ge True by simp
    show ?thesis
      using True stop IH skipped
      by (subst array_loop.simps)
        (auto simp: Let_def i_def[symmetric] stop_def[symmetric] split: prod.splits simp del: length_greater_0_conv)
  next
    case False
    then show ?thesis by (subst array_loop.simps) (simp add: Let_def i_def[symmetric])
  qed
qed

text \<open>
  Reading a command array panics only on one kind of text: whenever the byte before the closing
  bracket is no backslash, the array is read and a command, its arguments and a flag are returned.
\<close>

theorem qmlCommandArray_returns:
  assumes "\<not> hasSuffix (trimSpace expression) [back_slash, CHR '']'']"
  shows "\<exists>r. qmlCommandArray expression = Inr r"
proof -
  define t where "t = trimSpace expression"
  define body where "body = take (length t - 2) (drop (Suc 0) t)"
  show ?thesis
  proof (cases "hasPrefix t ''['' \<and> hasSuffix t '']''")
    case True
    have "last body \<noteq> back_slash" if "body \<noteq> []"
    proof
      assume l: "last body = back_slash"
      from True obtain u where u: "t = u @ '']''" by (auto simp: hasSuffix_def suffix_def)
      have "u \<noteq> []" using that u by (auto simp: body_def)
      moreover have "body = drop 1 u" using u by (cases u) (auto simp: body_def)
      ultimately have "last u = back_slash" using l that by (cases u) auto
      then have "t = butlast u @ [back_slash, CHR '']'']" using u \<open>u \<noteq> []\<close> by (metis append_assoc append_butlast_last_id append_Cons append_Nil)
      with assms show False by (auto simp: t_def[symmetric] hasSuffix_def suffix_def)
    qed
    from array_loop_returns[OF this, of 0 "[]" False] show ?thesis
      by (auto simp: qmlCommandArray_def t_def[symmetric] body_def[symmetric] Let_def True split: list.split)
  qed (auto simp: qmlCommandArray_def t_def[symmetric] Let_def)
qed

section \<open>Literal commands\<close>

text \<open>An element as it is written, and an array of elements separated by commas.\<close>

definition plain_word :: "string \<Rightarrow> bool" where
  "plain_word w \<longleftrightarrow> list_all (\<lambda>c. byte c < 0x80 \<and> c \<noteq> double_quote \<and> c \<noteq> back_slash \<and> c \<noteq> newline) w"

definition array_element :: "string \<Rightarrow> string" where
  "array_element w = double_quote # w @ [double_quote]"

fun array_body :: "string list \<Rightarrow> string" where
  "array_body [] = []"
| "array_body [w] = array_element w"
| "array_body (w # ws) = array_element w @ '', '' @ array_body ws"

definition literal_array :: "string list \<Rightarrow> string" where
  "literal_array ws = ''['' @ array_body ws @ '']''"

lemma unquote_chars_plain:
  "plain_word w \<Longrightarrow> unquote_chars double_quote (w @ [double_quote]) = Some (w, [double_quote])"
  by (induction w) (simp_all add: plain_word_def)

lemma unquote_plain: "plain_word w \<Longrightarrow> unquote (array_element w) = Some w"
  using unquote_chars_plain[of w] by (cases w) (auto simp: unquote_def array_element_def)

lemma quoted_end_plain:
  "plain_word w \<Longrightarrow> quoted_end (before @ w @ double_quote # rest) double_quote (length before) = length before + length w + 1"
proof (induction w arbitrary: before)
  case Nil
  then show ?case by (simp add: quoted_end.simps)
next
  case (Cons c w)
  have "quoted_end (before @ (c # w) @ double_quote # rest) double_quote (length before)
      = quoted_end (before @ (c # w) @ double_quote # rest) double_quote (length before + 1)"
    using Cons.prems by (subst quoted_end.simps) (simp add: plain_word_def)
  also have "\<dots> = length before + length (c # w) + 1"
    using Cons.IH[of "before @ [c]"] Cons.prems by (simp add: plain_word_def)
  finally show ?case .
qed

lemma array_no_space [simp]: "\<not> latin_space double_quote" "\<not> latin_space (CHR '','')" "latin_space (CHR '' '')"
  by (simp_all add: latin_space_def in_rng_def)

lemma space_stops: "\<not> latin_space c \<Longrightarrow> skipSimpleSpace (before @ c # rest) (length before) = length before"
  by (simp add: skipSimpleSpace_def)

lemma array_loop_quoted:
  assumes "skipSimpleSpace body start = i" "i < length body" "body ! i = double_quote"
    "quoted_end body double_quote (Suc i) = stop" "stop \<le> length body" "unquote (take (stop - i) (drop i body)) = Some v"
  shows "array_loop body start vs dyn = array_loop body stop (vs @ [v]) dyn"
  using assms by (subst array_loop.simps) (simp add: Let_def is_quote_def element_value_def)

lemma array_loop_element:
  assumes "plain_word w"
  shows "array_loop (before @ array_element w @ rest) (length before) vs dyn
    = array_loop (before @ array_element w @ rest) (length before + length w + 2) (vs @ [w]) dyn"
proof (rule array_loop_quoted)
  show "skipSimpleSpace (before @ array_element w @ rest) (length before) = length before"
    using space_stops[of double_quote before] by (simp add: array_element_def)
  show "quoted_end (before @ array_element w @ rest) double_quote (Suc (length before)) = length before + length w + 2"
    using quoted_end_plain[OF assms, of "before @ [double_quote]" rest] by (simp add: array_element_def)
  have "take (length before + length w + 2 - length before) (drop (length before) (before @ array_element w @ rest)) = array_element w"
    by (simp add: array_element_def)
  then show "unquote (take (length before + length w + 2 - length before) (drop (length before) (before @ array_element w @ rest))) = Some w"
    using unquote_plain[OF assms] by simp
qed (simp_all add: array_element_def)

lemma array_loop_comma:
  "array_loop (before @ '', '' @ double_quote # rest) (length before) vs dyn
     = array_loop (before @ '', '' @ double_quote # rest) (length before + 2) vs dyn"
proof -
  let ?b = "before @ '', '' @ double_quote # rest"
  have "array_loop ?b (length before) vs dyn = array_loop ?b (length before + 1) vs dyn"
    using space_stops[of "CHR '',''" before "CHR '' '' # double_quote # rest"] by (subst array_loop.simps) (simp add: Let_def)
  also have "\<dots> = array_loop ?b (length before + 2) vs dyn"
  proof -
    have "skipSimpleSpace ?b (length before + 1) = skipSimpleSpace ?b (length before + 2)"
      by (simp add: skipSimpleSpace_def)
    then show ?thesis by (subst (1 2) array_loop.simps) simp
  qed
  finally show ?thesis .
qed

lemma array_loop_body:
  "list_all plain_word ws \<Longrightarrow>
     array_loop (before @ array_body ws) (length before) vs dyn = Inr (vs @ ws, dyn)"
proof (induction ws arbitrary: before vs rule: array_body.induct)
  case 1
  then show ?case by (subst array_loop.simps) (simp add: skipSimpleSpace_def)
next
  case (2 w)
  then show ?case using array_loop_element[of w before "[]" vs dyn]
    by simp (subst array_loop.simps, simp add: skipSimpleSpace_def array_element_def)
next
  case (3 w v ws)
  obtain rest where body: "array_body (v # ws) = double_quote # rest"
    by (cases ws) (simp_all add: array_element_def)
  have "array_loop (before @ array_body (w # v # ws)) (length before) vs dyn
      = array_loop ((before @ array_element w) @ '', '' @ double_quote # rest) (length (before @ array_element w)) (vs @ [w]) dyn"
    using array_loop_element[of w before "'', '' @ array_body (v # ws)" vs dyn] 3(2) body
    by (simp add: array_element_def)
  also have "\<dots> = array_loop ((before @ array_element w @ '', '') @ array_body (v # ws)) (length (before @ array_element w @ '', '')) (vs @ [w]) dyn"
    using array_loop_comma[of "before @ array_element w" rest "vs @ [w]" dyn] body by simp
  also have "\<dots> = Inr (vs @ w # v # ws, dyn)"
    using 3(1)[of "before @ array_element w @ '', ''" "vs @ [w]"] 3(2) by simp
  finally show ?case .
qed

lemma no_leading:
  assumes "\<not> list_ex (\<lambda>p. hd p = c \<or> p = []) patterns"
  shows "strip_leading patterns (c # cs) = c # cs"
proof -
  have "\<not> prefix p (c # cs)" if "p \<in> set patterns" for p
    using assms that by (cases p) (auto simp: list_ex_iff)
  then have "leading patterns (c # cs) = 0" by (auto simp: leading_def find_Some_iff split: option.split)
  then show ?thesis by (simp add: strip_leading.simps)
qed

lemma trim_array: "trimSpace (CHR ''['' # body @ '']'') = CHR ''['' # body @ '']''"
proof -
  have a: "strip_leading space_runes (CHR ''['' # x) = CHR ''['' # x" for x
    by (rule no_leading) (simp add: space_runes_def)
  have b: "strip_leading (map rev space_runes) (CHR '']'' # x) = CHR '']'' # x" for x
    by (rule no_leading) (simp add: space_runes_def)
  show ?thesis unfolding trimSpace_def a by (simp add: b)
qed

text \<open>
  C36. Literal commands are recorded exactly: a command array written as plain double-quoted strings is
  read back as its first string, the other strings in order, and no dynamic part.
\<close>

theorem qmlCommandArray_roundtrip:
  assumes "list_all plain_word (command # arguments)"
  shows "qmlCommandArray (literal_array (command # arguments)) = Inr (command, Some arguments, False)"
  using array_loop_body[OF assms, of "[]" "[]" False]
  by (simp add: qmlCommandArray_def literal_array_def trim_array hasPrefix_def hasSuffix_def suffix_def)

section \<open>A sample, and two texts the analyzer misreads\<close>

definition sample_qml :: string where
  "sample_qml = ''Item { Process { command: '' @ literal_array [''curl'', ''-s''] @ '' } }''"

theorem qmlCommandArray_roundtrip_witness:
  "qmlCommandArray (literal_array [''curl'', ''-s'']) = Inr (''curl'', Some [''-s''], False)"
  by (rule qmlCommandArray_roundtrip) (simp add: plain_word_def)

theorem qmlCommandArray_returns_witness: "\<exists>r. qmlCommandArray ''[foo, 1]'' = Inr r"
  by (rule qmlCommandArray_returns) code_simp

abbreviation sample_block :: qmlBlock where
  "sample_block \<equiv> \<lparr>qb_start = 16, qb_end = 41\<rparr>"

abbreviation sample_expression :: qmlExpression where
  "sample_expression \<equiv> \<lparr>qe_start = 26, qe_end = 40, qe_text = literal_array [''curl'', ''-s'']\<rparr>"


text \<open>
  A command array whose element ends in a backslash right before the closing bracket makes the analyzer
  slice past the end of the array: the text below, a syntax error in QML, stops the scanner.
\<close>

definition panic_qml :: string where
  "panic_qml = ''Process { command: ['' @ [double_quote, back_slash, CHR '']'', newline, double_quote, CHR ''}'']"

theorem qml_panics: "analyzeQML parse lower name panic_qml a = panic ''slice bounds out of range''"
proof -
  have "concat (map (qmlCommandExpressions panic_qml) (qmlProcessBlocks panic_qml))
      = [\<lparr>qe_start = 19, qe_end = 23, qe_text = [CHR ''['', double_quote, back_slash, CHR '']'']\<rparr>]"
    by code_simp
  moreover have "qmlCommandArray [CHR ''['', double_quote, back_slash, CHR '']''] = panic ''slice bounds out of range''"
    by code_simp
  ultimately show ?thesis by (simp add: analyzeQML_def analyze_expression_def panic_def)
qed

text \<open>
  The scan for the end of a line comment stops at a semicolon. What follows it in the same comment is
  read as source, and there the opening of a block comment hides everything behind it: a plugin that
  starts a process is reported to start none.
\<close>

definition hidden_qml :: string where
  "hidden_qml = ''// x; /*'' @ [newline] @ ''Process { command: '' @ literal_array [''curl'', ''-s''] @ '' }''"

theorem qml_comment_hides: "analyzeQML parse lower name hidden_qml a = Inr a"
proof -
  have "qmlProcessBlocks hidden_qml = []" "\<not> hasImperativeQMLCommandAssignment hidden_qml" by code_simp+
  then show ?thesis by (simp add: analyzeQML_def)
qed

end
