(* ===== verification/ShellGuarantees.thy ===== *)
theory ShellGuarantees
  imports Shell
begin

text \<open>
  What the shell analyzer guarantees: one operation per call of the syntax tree, in the order of the
  source, the findings of those calls, and a finding for every pipeline from a downloader to an
  interpreter.
\<close>

section \<open>The calls of a tree\<close>

fun call_nodes :: "shell_node \<Rightarrow> (node_info \<times> shell_word list) list"
and all_call_nodes :: "shell_node list \<Rightarrow> (node_info \<times> shell_word list) list" where
  "call_nodes (CallExpr i ws ns) = (i, ws) # all_call_nodes ns"
| "call_nodes (BinaryCmd i p x y) = call_nodes x @ call_nodes y"
| "call_nodes (InnerNode ns) = all_call_nodes ns"
| "all_call_nodes [] = []"
| "all_call_nodes (n # ns) = call_nodes n @ all_call_nodes ns"

text \<open>The calls with a word; the others are assignments.\<close>

definition calls :: "(node_info \<times> shell_word list) list \<Rightarrow> (node_info \<times> shell_word list) list" where
  "calls nodes = filter (\<lambda>(i, ws). ws \<noteq> []) nodes"

definition operations_of :: "(string \<Rightarrow> string) \<Rightarrow> string \<Rightarrow> string \<Rightarrow> nat \<Rightarrow> (node_info \<times> shell_word list) list \<Rightarrow> Operation list" where
  "operations_of lower name d known cs =
     map (\<lambda>(k, i, ws). call_operation lower name d k i (hd ws) (tl ws)) (enumerate known cs)"

definition call_findings :: "Operation \<Rightarrow> Finding list" where
  "call_findings op = as_Findings (classifyCall op empty_result)"

fun pipes :: "shell_node \<Rightarrow> (node_info \<times> shell_node \<times> shell_node) list"
and all_pipes :: "shell_node list \<Rightarrow> (node_info \<times> shell_node \<times> shell_node) list" where
  "pipes (CallExpr i ws ns) = all_pipes ns"
| "pipes (BinaryCmd i p x y) = (if p then [(i, x, y)] else []) @ pipes x @ pipes y"
| "pipes (InnerNode ns) = all_pipes ns"
| "all_pipes [] = []"
| "all_pipes (n # ns) = pipes n @ all_pipes ns"

lemma calls_simps [simp]: "calls [] = []" "calls (xs @ ys) = calls xs @ calls ys"
  "calls ((i, ws) # xs) = (if ws = [] then calls xs else (i, ws) # calls xs)"
  by (simp_all add: calls_def)

lemma operations_of_simps [simp]:
  "operations_of lower name d k [] = []"
  "operations_of lower name d k ((i, ws) # cs) = call_operation lower name d k i (hd ws) (tl ws) # operations_of lower name d (Suc k) cs"
  "operations_of lower name d k (xs @ ys) = operations_of lower name d k xs @ operations_of lower name d (k + length xs) ys"
  by (simp_all add: operations_of_def enumerate_append_eq)

lemma length_operations_of [simp]: "length (operations_of lower name d k cs) = length cs"
  by (simp add: operations_of_def)

section \<open>The first walk\<close>

lemma classifyCall_findings: "classifyCall op a = a\<lparr>as_Findings := as_Findings a @ call_findings op\<rparr>"
  by (simp add: classifyCall_def call_findings_def Let_def add_finding_def empty_result_def)

text \<open>The state after the operations of some calls.\<close>

definition after_calls ::
  "(string \<Rightarrow> string) \<Rightarrow> string \<Rightarrow> string \<Rightarrow> (node_info \<times> shell_word list) list \<Rightarrow> AnalysisResult \<times> (nat \<rightharpoonup> Operation)
     \<Rightarrow> AnalysisResult \<times> (nat \<rightharpoonup> Operation)" where
  "after_calls lower name d cs = (\<lambda>(a, m).
     let ops = operations_of lower name d (length (as_Operations a)) cs in
     (a\<lparr>as_Operations := as_Operations a @ ops, as_Findings := as_Findings a @ concat (map call_findings ops)\<rparr>,
      m ++ map_of (rev (zip (map (no_pointer \<circ> fst) cs) ops))))"

lemma after_calls_append:
  "after_calls lower name d (xs @ ys) s = after_calls lower name d ys (after_calls lower name d xs s)"
  by (cases s) (simp add: after_calls_def Let_def)

lemma visit_call_state:
  "visit_call lower name d (CallExpr i ws ns) s = (True, after_calls lower name d (calls [(i, ws)]) s)"
  "visit_call lower name d (BinaryCmd j p x y) s = (True, s)"
  "visit_call lower name d (InnerNode ns) s = (True, s)"
  by (cases s; cases ws;
      simp add: visit_call_def after_calls_def Let_def classifyCall_findings add_operation_def map_add_def fun_eq_iff)+

lemma walk_calls:
  "walk (visit_call lower name d) n s = after_calls lower name d (calls (call_nodes n)) s"
  "walk_all (visit_call lower name d) ns s = after_calls lower name d (calls (all_call_nodes ns)) s"
proof (induction n and ns arbitrary: s and s rule: call_nodes_all_call_nodes.induct)
  case (1 i ws ns)
  have "calls (call_nodes (CallExpr i ws ns)) = calls [(i, ws)] @ calls (all_call_nodes ns)" by simp
  then show ?case by (simp only: walk.simps visit_call_state Let_def prod.case if_True 1 after_calls_append)
next
  case (4)
  show ?case by (cases s) (simp add: after_calls_def)
qed (simp_all add: visit_call_state after_calls_append)

section \<open>The second walk\<close>

definition pipe_findings ::
  "(string \<Rightarrow> string) \<Rightarrow> string \<Rightarrow> string \<Rightarrow> (nat \<rightharpoonup> Operation) \<Rightarrow> node_info \<times> shell_node \<times> shell_node \<Rightarrow> Finding list" where
  "pipe_findings lower name d m = (\<lambda>(i, x, y).
     case (firstOperation m x, firstOperation m y) of
       (Some left, Some right) \<Rightarrow>
         if isDownloader (op_Command left) \<and> isInterpreter (op_Command right) then [download_finding lower name d i left right] else []
     | _ \<Rightarrow> [])"

lemma visit_pipe_state:
  "visit_pipe lower name d m (CallExpr i ws ns) a = (True, a)"
  "visit_pipe lower name d m (BinaryCmd i p x y) a
     = (True, a\<lparr>as_Findings := as_Findings a @ (if p then pipe_findings lower name d m (i, x, y) else [])\<rparr>)"
  "visit_pipe lower name d m (InnerNode ns) a = (True, a)"
  by (auto simp: visit_pipe_def pipe_findings_def add_finding_def split: option.split)

lemma walk_pipes:
  "walk (visit_pipe lower name d m) n a
     = a\<lparr>as_Findings := as_Findings a @ concat (map (pipe_findings lower name d m) (pipes n))\<rparr>"
  "walk_all (visit_pipe lower name d m) ns a
     = a\<lparr>as_Findings := as_Findings a @ concat (map (pipe_findings lower name d m) (all_pipes ns))\<rparr>"
  by (induction n and ns arbitrary: a and a rule: pipes_all_pipes.induct) (simp_all add: visit_pipe_state)

text \<open>The operation recorded for each node.\<close>

definition operation_map :: "(string \<Rightarrow> string) \<Rightarrow> string \<Rightarrow> string \<Rightarrow> nat \<Rightarrow> shell_node \<Rightarrow> nat \<rightharpoonup> Operation" where
  "operation_map lower name d known n =
     (let cs = calls (call_nodes n)
      in map_of (rev (zip (map (no_pointer \<circ> fst) cs) (operations_of lower name d known cs))))"

lemma analyzeShell_state:
  assumes "parse d name = Inr tree"
  shows "analyzeShell parse lower name d a =
    (let k = length (as_Operations a); ops = operations_of lower name d k (calls (call_nodes tree)) in
     a\<lparr>as_Operations := as_Operations a @ ops,
       as_Findings := as_Findings a @ concat (map call_findings ops)
         @ concat (map (pipe_findings lower name d (operation_map lower name d k tree)) (pipes tree))\<rparr>)"
  using assms by (simp add: analyzeShell_def walk_calls after_calls_def Let_def walk_pipes operation_map_def)


section \<open>Pipelines\<close>

definition first_some :: "'a option list \<Rightarrow> 'a option" where
  "first_some xs = (case filter (\<lambda>x. x \<noteq> None) xs of [] \<Rightarrow> None | x # _ \<Rightarrow> x)"

lemma first_some_append: "first_some (xs @ ys) = (case first_some xs of None \<Rightarrow> first_some ys | Some x \<Rightarrow> Some x)"
proof (cases "filter (\<lambda>x. x \<noteq> None) xs")
  case (Cons x xs')
  then have "x \<in> set (filter (\<lambda>x. x \<noteq> None) xs)" by simp
  then have "x \<noteq> None" by simp
  with Cons show ?thesis by (auto simp: first_some_def)
qed (simp add: first_some_def)

abbreviation pointers :: "(node_info \<times> shell_word list) list \<Rightarrow> nat list" where
  "pointers nodes \<equiv> map (no_pointer \<circ> fst) nodes"

definition seek :: "(nat \<rightharpoonup> Operation) \<Rightarrow> shell_node \<Rightarrow> Operation option \<Rightarrow> bool \<times> Operation option" where
  "seek m n found =
     (case found of
        Some op \<Rightarrow> (False, found)
      | None \<Rightarrow>
          (case n of
             CallExpr i ws ns \<Rightarrow> (case m (no_pointer i) of Some op \<Rightarrow> (False, Some op) | None \<Rightarrow> (True, None))
           | _ \<Rightarrow> (True, None)))"

lemma walk_seek:
  "walk (seek m) n found = (case found of Some op \<Rightarrow> Some op | None \<Rightarrow> first_some (map m (pointers (call_nodes n))))"
  "walk_all (seek m) ns found = (case found of Some op \<Rightarrow> Some op | None \<Rightarrow> first_some (map m (pointers (all_call_nodes ns))))"
proof (induction n and ns arbitrary: found and found rule: call_nodes_all_call_nodes.induct)
  case (1 i ws ns)
  then show ?case by (cases found; cases "m (no_pointer i)") (simp_all add: seek_def first_some_def)
next
  case (2 i p x y)
  then show ?case by (cases found) (simp_all add: seek_def first_some_append split: option.split)
next
  case (3 ns)
  then show ?case by (cases found) (simp_all add: seek_def)
next
  case 4
  then show ?case by (cases found) (simp_all add: first_some_def)
next
  case (5 n ns)
  then show ?case by (cases found) (simp_all add: first_some_append split: option.split)
qed

lemma firstOperation_first: "firstOperation m n = first_some (map m (pointers (call_nodes n)))"
  using walk_seek(1)[of m n None] by (simp add: firstOperation_def seek_def[abs_def])

lemma pipe_nodes:
  "(i, x, y) \<in> set (pipes n) \<Longrightarrow> set (call_nodes x) \<subseteq> set (call_nodes n) \<and> set (call_nodes y) \<subseteq> set (call_nodes n)"
  "(i, x, y) \<in> set (all_pipes ns) \<Longrightarrow> set (call_nodes x) \<subseteq> set (all_call_nodes ns) \<and> set (call_nodes y) \<subseteq> set (all_call_nodes ns)"
  by (induction n and ns rule: pipes_all_pipes.induct) (auto split: if_splits)

lemma zip_keys: "length xs = length ys \<Longrightarrow> map fst (zip xs ys) = xs"
  by simp

text \<open>When the identifiers of the nodes are distinct, each call finds its operation.\<close>

lemma operation_map_call:
  assumes "distinct (pointers (call_nodes tree))" and "(i, ws) \<in> set (calls (call_nodes tree))"
  shows "\<exists>k. operation_map lower name d known tree (no_pointer i) = Some (call_operation lower name d k i (hd ws) (tl ws))"
proof -
  let ?cs = "calls (call_nodes tree)"
  let ?ops = "operations_of lower name d known ?cs"
  from assms(2) obtain j where j: "j < length ?cs" "?cs ! j = (i, ws)" by (auto simp: in_set_conv_nth)
  have op: "?ops ! j = call_operation lower name d (known + j) i (hd ws) (tl ws)"
    using j by (simp add: operations_of_def nth_enumerate_eq)
  have "zip (pointers ?cs) ?ops ! j = (no_pointer i, ?ops ! j)" using j by simp
  then have "(no_pointer i, ?ops ! j) \<in> set (rev (zip (pointers ?cs) ?ops))"
    using j(1) by (metis length_map length_operations_of length_zip min.idem nth_mem set_rev)
  moreover have "distinct (pointers ?cs)"
    using assms(1) by (simp add: calls_def distinct_map_filter)
  then have "distinct (map fst (rev (zip (pointers ?cs) ?ops)))" by (simp add: rev_map[symmetric])
  ultimately show ?thesis using op by (auto simp: operation_map_def Let_def map_of_is_SomeI)
qed

lemma operation_map_assignment:
  assumes "distinct (pointers (call_nodes tree))" and "(i, []) \<in> set (call_nodes tree)"
  shows "operation_map lower name d known tree (no_pointer i) = None"
proof -
  have "no_pointer i \<notin> set (pointers (calls (call_nodes tree)))"
  proof
    assume "no_pointer i \<in> set (pointers (calls (call_nodes tree)))"
    then obtain j ws where "(j, ws) \<in> set (call_nodes tree)" "ws \<noteq> []" "no_pointer j = no_pointer i"
      by (auto simp: calls_def)
    with assms show False by (auto simp: distinct_map inj_on_def) (metis fst_conv prod.inject)
  qed
  then show ?thesis by (auto simp: operation_map_def Let_def map_of_eq_None_iff dest: set_zip_leftD)
qed

lemma first_call:
  assumes "distinct (pointers (call_nodes tree))"
  shows "set nodes \<subseteq> set (call_nodes tree) \<Longrightarrow> calls nodes = (i, ws) # rest \<Longrightarrow>
    \<exists>k. first_some (map (operation_map lower name d known tree) (pointers nodes)) = Some (call_operation lower name d k i (hd ws) (tl ws))"
proof (induction nodes)
  case (Cons node nodes)
  obtain j vs where node: "node = (j, vs)" by (cases node)
  show ?case
  proof (cases "vs = []")
    case True
    with Cons node operation_map_assignment[OF assms, of j] show ?thesis by (simp add: first_some_def)
  next
    case False
    with Cons.prems node have "(i, ws) \<in> set (calls (call_nodes tree))" "j = i" by (auto simp: calls_def)
    with operation_map_call[OF assms this(1), of lower name d known] node show ?thesis by (auto simp: first_some_def)
  qed
qed simp

definition first_command :: "shell_node \<Rightarrow> string" where
  "first_command n = (case calls (call_nodes n) of [] \<Rightarrow> [] | (i, ws) # _ \<Rightarrow> fst (staticWord (hd ws)))"

lemma first_command_operation:
  assumes "distinct (pointers (call_nodes tree))" and "set (call_nodes n) \<subseteq> set (call_nodes tree)" and "first_command n \<noteq> []"
  shows "\<exists>op. firstOperation (operation_map lower name d known tree) n = Some op \<and> op_Command op = first_command n"
proof -
  from assms(3) obtain i ws rest where c: "calls (call_nodes n) = (i, ws) # rest" and w: "first_command n = fst (staticWord (hd ws))"
    by (auto simp: first_command_def split: list.splits)
  have command: "op_Command (call_operation lower name d k i (hd ws) (tl ws)) = first_command n" for k
    using assms(3) w by (auto simp: call_operation_def Let_def split: prod.split)
  from first_call[OF assms(1,2) c, of lower name d known] command show ?thesis
    unfolding firstOperation_first by metis
qed

lemma no_command: "\<not> isDownloader []" "\<not> isInterpreter []"
  by code_simp+

text \<open>
  C11. No downloaded program runs unnoticed: for every pipeline of a parsed script, at any depth, whose
  left side first calls a downloader and whose right side first calls an interpreter, the result
  has a finding of high severity with the path and the lines of that pipeline as its evidence.
\<close>

theorem analyzeShell_download_found:
  assumes "parse d name = Inr tree" and "distinct (pointers (call_nodes tree))" and "(i, x, y) \<in> set (pipes tree)"
    and "isDownloader (first_command x)" and "isInterpreter (first_command y)"
  shows "\<exists>f e. f \<in> set (as_Findings (analyzeShell parse lower name d a)) \<and> fd_Category f = ''download-and-execute''
    \<and> fd_Severity f = SeverityHigh \<and> fd_Evidence f = Some [e] \<and> ev_Path e = name \<and> ev_LineStart e = no_line i \<and> ev_LineEnd e = no_end i"
proof -
  let ?m = "operation_map lower name d (length (as_Operations a)) tree"
  note sub = pipe_nodes(1)[OF assms(3)]
  have ne: "first_command x \<noteq> []" "first_command y \<noteq> []" using assms(4,5) no_command by metis+
  obtain l r where l: "firstOperation ?m x = Some l" "op_Command l = first_command x"
    and r: "firstOperation ?m y = Some r" "op_Command r = first_command y"
    using first_command_operation[OF assms(2) _ ne(1)] first_command_operation[OF assms(2) _ ne(2)] sub by meson
  then have "download_finding lower name d i l r \<in> set (pipe_findings lower name d ?m (i, x, y))"
    using assms(4,5) by (simp add: pipe_findings_def)
  with assms(3) have "download_finding lower name d i l r \<in> set (as_Findings (analyzeShell parse lower name d a))"
    unfolding analyzeShell_state[of parse d name tree lower a, OF assms(1)] Let_def by auto
  then show ?thesis
    by (intro exI[of _ "download_finding lower name d i l r"]) (auto simp: download_finding_def)
qed

section \<open>A script\<close>

definition sample_node :: "nat \<Rightarrow> node_info" where
  "sample_node pointer = \<lparr>no_pointer = pointer, no_line = 2, no_end = 2, no_print = ''curl u | sh''\<rparr>"

definition sample_script :: shell_node where
  "sample_script = InnerNode [CallExpr (sample_node 0) [] [],
     BinaryCmd (sample_node 1) True (InnerNode [CallExpr (sample_node 2) [[PartLit ''curl''], [PartOther]] []])
       (CallExpr (sample_node 3) [[PartLit ''sh'']] [])]"


theorem analyzeShell_download_found_witness:
  "\<exists>f e. f \<in> set (as_Findings (analyzeShell (\<lambda>_ _. Inr sample_script) (\<lambda>s. s) ''a.sh'' ''curl u | sh'' empty_result))
    \<and> fd_Category f = ''download-and-execute'' \<and> fd_Severity f = SeverityHigh
    \<and> fd_Evidence f = Some [e] \<and> ev_Path e = ''a.sh'' \<and> ev_LineStart e = no_line (sample_node 1) \<and> ev_LineEnd e = no_end (sample_node 1)"
proof (rule analyzeShell_download_found)
  show "(sample_node 1, InnerNode [CallExpr (sample_node 2) [[PartLit ''curl''], [PartOther]] []],
      CallExpr (sample_node 3) [[PartLit ''sh'']] []) \<in> set (pipes sample_script)"
    by (simp add: sample_script_def)
  show "distinct (pointers (call_nodes sample_script))" by (simp add: sample_script_def sample_node_def)
qed (simp, code_simp, code_simp)

end
