(* ===== verification/Capabilities.thy ===== *)
theory Capabilities
  imports Analyze
begin

text \<open>
  Resources and findings derived from operations (internal/analyze/capabilities.go). What
  \<open>url.Parse\<close> makes of a text is a parameter: its scheme and host name, or \<^const>\<open>None\<close> on an error.
\<close>

record url_env =
  ur_parse :: "string \<Rightarrow> (string \<times> string) option"
  ur_lower :: "string \<Rightarrow> string"

section \<open>Recognition\<close>

definition networkCommand :: "string \<Rightarrow> bool" where
  "networkCommand command \<longleftrightarrow> oneOf command
     [''curl'', ''wget'', ''git'', ''ssh'', ''scp'', ''sftp'', ''rsync'', ''nc'', ''ncat'', ''socat'']"

definition literalDomain :: "url_env \<Rightarrow> string \<Rightarrow> string" where
  "literalDomain u v =
     (case ur_parse u v of
        None \<Rightarrow> []
      | Some (scheme, host) \<Rightarrow>
          if (scheme \<noteq> ''http'' \<and> scheme \<noteq> ''https'') \<or> host = [] then [] else lower_text (ur_lower u) host)"

definition pathOperand :: "url_env \<Rightarrow> string \<Rightarrow> bool" where
  "pathOperand u argument =
     (if argument = [] \<or> hasPrefix argument ''-'' \<or> literalDomain u argument \<noteq> [] then False
      else argument = ''/'' \<or> hasPrefix argument ''/'' \<or> hasPrefix argument ''~'' \<or> hasPrefix argument ''.''
        \<or> contains argument ''/'' \<or> contains argument dynamic_text)"

definition pathOperands :: "url_env \<Rightarrow> string list \<Rightarrow> string list" where
  "pathOperands u arguments = filter (pathOperand u) arguments"

definition sensitivePath :: "string \<Rightarrow> bool" where
  "sensitivePath v \<longleftrightarrow> list_ex (contains (toLower v))
     [''.ssh'', ''.gnupg'', ''.aws/credentials'', ''.config/gcloud'', ''keyring'', ''credentials'', ''id_rsa'', ''id_ed25519'',
      ''mozilla'', ''chromium'', ''google-chrome'']"

definition persistencePath :: "string \<Rightarrow> bool" where
  "persistencePath v \<longleftrightarrow> list_ex (contains (toLower v))
     [''.bashrc'', ''.zshrc'', ''.profile'', ''/autostart/'', ''/systemd/user/'', ''/cron.'', ''/crontab'']"

definition recursiveRemoval :: "string list \<Rightarrow> bool" where
  "recursiveRemoval arguments \<longleftrightarrow> list_ex (\<lambda>argument. argument = ''-r'' \<or> argument = ''-R'' \<or> argument = ''--recursive''
     \<or> (hasPrefix argument ''-'' \<and> contains (toLower argument) ''r'')) arguments"

definition containsArgument :: "string list \<Rightarrow> string \<Rightarrow> bool" where
  "containsArgument arguments wanted \<longleftrightarrow> list_ex (\<lambda>argument. argument = wanted) arguments"

section \<open>Resources and findings\<close>

text \<open>The result so far, and the resources already added, as keys.\<close>

type_synonym derivation = "AnalysisResult \<times> string set"

abbreviation nul :: string where "nul \<equiv> [CHR 0x00]"

definition resource_key :: "Operation \<Rightarrow> string \<Rightarrow> string \<Rightarrow> string \<Rightarrow> string" where
  "resource_key op kind access v = op_ID op @ nul @ kind @ nul @ access @ nul @ v"

definition new_resource :: "url_env \<Rightarrow> Operation \<Rightarrow> string \<Rightarrow> string \<Rightarrow> string \<Rightarrow> bool \<Rightarrow> bool \<Rightarrow> Resource" where
  "new_resource u op kind access v sensitive dynamic =
     \<lparr>rc_ID = ''resource-'' @ op_ID op @ ''-'' @ stablePathID (ur_lower u) (kind @ ''-'' @ access @ ''-'' @ v), rc_Reference = [],
      rc_Kind = kind, rc_Access = access, rc_Value = v, rc_Sensitive = sensitive, rc_Dynamic = dynamic, rc_Scope = [],
      rc_Confidence = op_Confidence op, rc_Evidence = op_Evidence op, rc_RelatedOperationID = op_ID op,
      rc_Provenance = sourceProvenance ''command-capability/v1''\<rparr>"

definition addResource ::
  "url_env \<Rightarrow> Operation \<Rightarrow> string \<Rightarrow> string \<Rightarrow> string \<Rightarrow> bool \<Rightarrow> bool \<Rightarrow> derivation \<Rightarrow> bool \<times> derivation" where
  "addResource u op kind access v sensitive dynamic = (\<lambda>(a, seen).
     (if resource_key op kind access v \<in> seen then (False, a, seen)
      else (True, a\<lparr>as_Resources := as_Resources a @ [new_resource u op kind access v sensitive dynamic]\<rparr>,
        insert (resource_key op kind access v) seen)))"

definition capability_finding :: "string \<Rightarrow> string \<Rightarrow> string \<Rightarrow> string \<Rightarrow> string \<Rightarrow> Operation \<Rightarrow> Finding" where
  "capability_finding ident severity category title explanation op =
     \<lparr>fd_ID = ident, fd_Reference = [], fd_Claim = ClaimFact, fd_Severity = severity, fd_Confidence = op_Confidence op,
      fd_Category = category, fd_Scope = [], fd_Title = title, fd_Explanation = explanation,
      fd_Evidence = Some [op_Evidence op], fd_Related = Some [op_ID op],
      fd_Provenance = sourceProvenance ''command-capability/v1''\<rparr>"

definition addPersistence :: "url_env \<Rightarrow> Operation \<Rightarrow> string \<Rightarrow> derivation \<Rightarrow> derivation" where
  "addPersistence u op mechanism s =
     (let (a, seen) = snd (addResource u op ''persistence'' ''modify'' mechanism False (op_Dynamic op) s)
      in (add_finding (capability_finding (''finding-persistence-'' @ op_ID op @ ''-'' @ stablePathID (ur_lower u) mechanism)
            SeverityMedium ''persistence'' ''Configures a persistence mechanism''
            (''The operation modifies '' @ mechanism @ '', which can cause code or services to run again after the immediate plugin interaction or in future sessions.'') op) a,
          seen))"

definition addPathResource :: "url_env \<Rightarrow> Operation \<Rightarrow> string \<Rightarrow> string \<Rightarrow> derivation \<Rightarrow> derivation" where
  "addPathResource u op access v s =
     (let sensitive = sensitivePath v;
          (added, a, seen) = addResource u op ''filesystem-path'' access v sensitive (contains v dynamic_text) s;
          b = (if sensitive \<and> added then
                 add_finding (capability_finding (''finding-sensitive-path-'' @ op_ID op @ ''-'' @ stablePathID (ur_lower u) v)
                   SeverityHigh ''credential-access'' ''Accesses a credential-related path''
                   (''The operation attempts to '' @ access @ '' '' @ v @ '', a path commonly associated with credentials, authentication material, or browser identity data. Static analysis does not establish whether the path exists or whether access succeeds.'') op) a
               else a)
      in if access \<noteq> ''read'' \<and> persistencePath v then addPersistence u op v (b, seen) else (b, seen))"

definition operand_severity :: "string \<Rightarrow> string \<Rightarrow> string" where
  "operand_severity operand severity =
     (if operand = ''/'' then SeverityCritical
      else if sensitivePath operand \<or> persistencePath operand \<or> operand = ''/etc'' \<or> operand = ''/home'' \<or> hasPrefix operand ''/home/''
        then (if severity \<noteq> SeverityCritical then SeverityHigh else severity)
      else severity)"

definition destructive_severity :: "Operation \<Rightarrow> string list \<Rightarrow> string" where
  "destructive_severity op operands =
     fold operand_severity operands
       (if recursiveRemoval (elems (op_Arguments op)) \<or> op_Dynamic op then SeverityMedium else SeverityLow)"

definition addDestructiveFinding :: "Operation \<Rightarrow> string list \<Rightarrow> derivation \<Rightarrow> derivation" where
  "addDestructiveFinding op operands = (\<lambda>(a, seen).
     (add_finding (capability_finding (''finding-delete-'' @ op_ID op) (destructive_severity op operands)
        ''destructive-operation'' ''Deletes filesystem content''
        (''The command deletes '' @ join_with '', '' operands @ ''. Severity reflects the visible targets, recursive flags, and whether arguments are dynamic; static analysis cannot prove the paths present at runtime.'') op) a,
      seen))"

section \<open>Derivation\<close>

definition network_resources :: "url_env \<Rightarrow> Operation \<Rightarrow> derivation \<Rightarrow> derivation" where
  "network_resources u op s =
     (let domains = filter (\<lambda>d. d \<noteq> []) (map (literalDomain u) (elems (op_Arguments op)));
          t = fold (\<lambda>d s. snd (addResource u op ''network-domain'' ''connect'' d False False s)) domains s
      in if domains = [] \<and> op_Dynamic op then snd (addResource u op ''network-domain'' ''connect'' dynamic_text False True t) else t)"

definition command_resources :: "url_env \<Rightarrow> Operation \<Rightarrow> string \<Rightarrow> derivation \<Rightarrow> derivation" where
  "command_resources u op command s =
     (let arguments = elems (op_Arguments op); operands = pathOperands u arguments;
          each = (\<lambda>access xs s. fold (addPathResource u op access) xs s)
      in if command \<in> set [''cat'', ''head'', ''tail'', ''readlink''] then each ''read'' operands s
         else if command \<in> set [''touch'', ''mkdir'', ''tee'', ''truncate'', ''chmod'', ''chown''] then each ''write'' operands s
         else if command \<in> set [''rm'', ''unlink'', ''rmdir''] then
           (let t = each ''delete'' operands s in if length operands > 0 then addDestructiveFinding op operands t else t)
         else if command \<in> set [''cp'', ''install''] then
           (if length operands > 1 then addPathResource u op ''write'' (last operands) (each ''read'' (butlast operands) s) else s)
         else if command = ''mv'' then
           (if length operands > 1 then addPathResource u op ''write'' (last operands) (addPathResource u op ''delete'' (hd operands) s)
            else s)
         else if command = ''systemctl'' then
           (if containsArgument arguments ''enable'' \<or> containsArgument arguments ''reenable''
            then addPersistence u op ''systemd service enablement'' s else s)
         else if command = ''crontab'' then addPersistence u op ''cron configuration'' s
         else s)"

definition derive_operation :: "url_env \<Rightarrow> Operation \<Rightarrow> derivation \<Rightarrow> derivation" where
  "derive_operation u op s =
     (let command = path_base (op_Command op)
      in command_resources u op command (if networkCommand command then network_resources u op s else s))"

definition deriveCapabilities :: "url_env \<Rightarrow> AnalysisResult \<Rightarrow> AnalysisResult" where
  "deriveCapabilities u a =
     (let b = fst (fold (derive_operation u) (as_Operations a) (a, {}))
      in b\<lparr>as_Resources := sort_slice (\<lambda>x y. rc_ID x < rc_ID y) (as_Resources b)\<rparr>)"

end
