(* ===== verification/CapabilityGuarantees.thy ===== *)
theory CapabilityGuarantees
  imports Capabilities
begin

text \<open>
  What the derivation of capabilities guarantees: the accesses reported for a command are exactly those
  its words show, and a deletion has the severity of its gravest target.
\<close>

section \<open>Accesses\<close>

text \<open>
  The accesses an operation shows, as kind, access and value: a reference definition without the
  bookkeeping of the derivation.
\<close>

definition path_access :: "string \<Rightarrow> string \<Rightarrow> (string \<times> string \<times> string) list" where
  "path_access access v = (''filesystem-path'', access, v)
     # (if access \<noteq> ''read'' \<and> persistencePath v then [(''persistence'', ''modify'', v)] else [])"

definition network_accesses :: "url_env \<Rightarrow> Operation \<Rightarrow> (string \<times> string \<times> string) list" where
  "network_accesses u op =
     (let domains = filter (\<lambda>d. d \<noteq> []) (map (literalDomain u) (elems (op_Arguments op)))
      in map (\<lambda>d. (''network-domain'', ''connect'', d)) (if domains = [] \<and> op_Dynamic op then [dynamic_text] else domains))"

definition command_accesses :: "url_env \<Rightarrow> Operation \<Rightarrow> string \<Rightarrow> (string \<times> string \<times> string) list" where
  "command_accesses u op command =
     (let operands = filter (pathOperand u) (elems (op_Arguments op));
          all = (\<lambda>access xs. concat (map (path_access access) xs)) in
      if command \<in> {''cat'', ''head'', ''tail'', ''readlink''} then all ''read'' operands
      else if command \<in> {''touch'', ''mkdir'', ''tee'', ''truncate'', ''chmod'', ''chown''} then all ''write'' operands
      else if command \<in> {''rm'', ''unlink'', ''rmdir''} then all ''delete'' operands
      else if command \<in> {''cp'', ''install''} \<and> length operands > 1 then
        all ''read'' (butlast operands) @ path_access ''write'' (last operands)
      else if command = ''mv'' \<and> length operands > 1 then
        path_access ''delete'' (hd operands) @ path_access ''write'' (last operands)
      else if command = ''systemctl'' \<and> {''enable'', ''reenable''} \<inter> set (elems (op_Arguments op)) \<noteq> {} then
        [(''persistence'', ''modify'', ''systemd service enablement'')]
      else if command = ''crontab'' then [(''persistence'', ''modify'', ''cron configuration'')]
      else [])"

definition accesses :: "url_env \<Rightarrow> Operation \<Rightarrow> (string \<times> string \<times> string) list" where
  "accesses u op =
     (let command = path_base (op_Command op)
      in (if networkCommand command then network_accesses u op else []) @ command_accesses u op command)"

section \<open>The bookkeeping\<close>

definition resource_access :: "Resource \<Rightarrow> string \<times> string \<times> string \<times> string" where
  "resource_access r = (rc_RelatedOperationID r, rc_Kind r, rc_Access r, rc_Value r)"

definition access_key :: "string \<times> string \<times> string \<times> string \<Rightarrow> string" where
  "access_key = (\<lambda>(ident, kind, access, v). ident @ nul @ kind @ nul @ access @ nul @ v)"

definition clean_access :: "string \<times> string \<times> string \<times> string \<Rightarrow> bool" where
  "clean_access = (\<lambda>(ident, kind, access, v). CHR 0x00 \<notin> set ident \<and> CHR 0x00 \<notin> set kind \<and> CHR 0x00 \<notin> set access)"

lemma split_at_nul:
  assumes "xs @ nul @ ys = xs' @ nul @ ys'" "CHR 0x00 \<notin> set xs" "CHR 0x00 \<notin> set xs'"
  shows "xs = xs' \<and> ys = ys'"
  using assms
proof (induction xs arbitrary: xs')
  case Nil
  then show ?case by (cases xs') auto
next
  case (Cons c xs)
  then show ?case by (cases xs') auto
qed

lemma access_key_inj:
  assumes "access_key p = access_key q" "clean_access p" "clean_access q"
  shows "p = q"
proof -
  obtain i k a v where p: "p = (i, k, a, v)" by (metis prod_cases4)
  obtain i' k' a' v' where q: "q = (i', k', a', v')" by (metis prod_cases4)
  have clean: "CHR 0x00 \<notin> set i" "CHR 0x00 \<notin> set i'" "CHR 0x00 \<notin> set k" "CHR 0x00 \<notin> set k'" "CHR 0x00 \<notin> set a" "CHR 0x00 \<notin> set a'"
    using assms(2,3) by (simp_all add: p q clean_access_def)
  have "i @ nul @ (k @ nul @ a @ nul @ v) = i' @ nul @ (k' @ nul @ a' @ nul @ v')"
    using assms(1) by (simp add: p q access_key_def)
  note i = split_at_nul[OF this clean(1,2)]
  then have "k @ nul @ (a @ nul @ v) = k' @ nul @ (a' @ nul @ v')" by (rule conjunct2)
  note k = split_at_nul[OF this clean(3,4)]
  then have "a @ nul @ v = a' @ nul @ v'" by (rule conjunct2)
  from split_at_nul[OF this clean(5,6)] i k show ?thesis by (simp add: p q)
qed

text \<open>
  The set of keys holds exactly the keys of the accesses derived so far. \<open>derived base s\<close> are those
  accesses, after the resources that were there before.
\<close>

definition derivation_ok :: "Resource list \<Rightarrow> derivation \<Rightarrow> bool" where
  "derivation_ok base = (\<lambda>(a, seen). \<exists>new. as_Resources a = base @ new
     \<and> seen = access_key ` resource_access ` set new \<and> (\<forall>r \<in> set new. clean_access (resource_access r)))"

definition shown :: "derivation \<Rightarrow> (string \<times> string \<times> string \<times> string) set" where
  "shown = (\<lambda>(a, seen). resource_access ` set (as_Resources a))"

text \<open>A step that adds the given accesses of one operation, and keeps the bookkeeping.\<close>

definition adds :: "Resource list \<Rightarrow> Operation \<Rightarrow> (string \<times> string \<times> string) list \<Rightarrow> (derivation \<Rightarrow> derivation) \<Rightarrow> bool" where
  "adds base op xs f \<longleftrightarrow> (\<forall>s. derivation_ok base s \<longrightarrow>
     derivation_ok base (f s) \<and> shown (f s) = shown s \<union> (\<lambda>x. (op_ID op, x)) ` set xs)"

lemma addsI:
  "(\<And>s. derivation_ok base s \<Longrightarrow> derivation_ok base (f s)) \<Longrightarrow>
   (\<And>s. derivation_ok base s \<Longrightarrow> shown (f s) = shown s \<union> (\<lambda>x. (op_ID op, x)) ` set xs) \<Longrightarrow> adds base op xs f"
  unfolding adds_def by blast

lemma addsD:
  assumes "adds base op xs f" "derivation_ok base s"
  shows "derivation_ok base (f s)" "shown (f s) = shown s \<union> (\<lambda>x. (op_ID op, x)) ` set xs"
  using assms unfolding adds_def by blast+

lemma adds_none: "adds base op [] (\<lambda>s. s)"
  by (rule addsI) simp_all

lemma adds_comp: "adds base op xs f \<Longrightarrow> adds base op ys g \<Longrightarrow> adds base op (xs @ ys) (\<lambda>s. g (f s))"
  by (simp add: adds_def image_Un Un_assoc del: split_paired_All)

lemma adds_fold: "(\<And>x. x \<in> set xs \<Longrightarrow> adds base op (h x) (f x)) \<Longrightarrow> adds base op (concat (map h xs)) (fold f xs)"
proof (induction xs)
  case (Cons x xs)
  then have "adds base op (h x) (f x)" "adds base op (concat (map h xs)) (fold f xs)" by simp_all
  from adds_comp[OF this] show ?case by (simp add: comp_def)
qed (simp add: adds_def)

lemma finding_kept [simp]:
  "derivation_ok base (add_finding f a, seen) = derivation_ok base (a, seen)" "shown (add_finding f a, seen) = shown (a, seen)"
  by (simp_all add: derivation_ok_def shown_def add_finding_def)

lemma resource_access_new: "resource_access (new_resource u op kind access v sensitive dynamic) = (op_ID op, kind, access, v)"
  by (simp add: resource_access_def new_resource_def)

lemma adds_resource:
  assumes "CHR 0x00 \<notin> set (op_ID op)" "CHR 0x00 \<notin> set kind" "CHR 0x00 \<notin> set access"
  shows "adds base op [(kind, access, v)] (\<lambda>s. snd (addResource u op kind access v sensitive dynamic s))"
  unfolding adds_def
proof (intro allI impI)
  fix s
  assume ok: "derivation_ok base s"
  obtain a seen where s: "s = (a, seen)" by fastforce
  from ok s obtain new where new: "as_Resources a = base @ new" "seen = access_key ` resource_access ` set new"
    "\<forall>r \<in> set new. clean_access (resource_access r)" by (auto simp: derivation_ok_def)
  have clean: "clean_access (op_ID op, kind, access, v)" using assms by (simp add: clean_access_def)
  have key: "resource_key op kind access v = access_key (op_ID op, kind, access, v)"
    by (simp add: resource_key_def access_key_def)
  show "derivation_ok base (snd (addResource u op kind access v sensitive dynamic s))
      \<and> shown (snd (addResource u op kind access v sensitive dynamic s)) = shown s \<union> (\<lambda>x. (op_ID op, x)) ` set [(kind, access, v)]"
  proof (cases "resource_key op kind access v \<in> seen")
    case True
    then obtain r where r: "r \<in> set new" "access_key (op_ID op, kind, access, v) = access_key (resource_access r)"
      using new(2) by (auto simp: key)
    then have "(op_ID op, kind, access, v) = resource_access r" using access_key_inj clean new(3) by blast
    with r(1) have "(op_ID op, kind, access, v) \<in> shown s" using new(1) by (auto simp: shown_def s)
    with True ok show ?thesis by (auto simp: addResource_def s)
  next
    case False
    let ?r = "new_resource u op kind access v sensitive dynamic"
    have "derivation_ok base (a\<lparr>as_Resources := as_Resources a @ [?r]\<rparr>, insert (resource_key op kind access v) seen)"
      unfolding derivation_ok_def prod.case
      by (rule exI[of _ "new @ [?r]"]) (use new clean in \<open>auto simp: resource_access_new key\<close>)
    with False show ?thesis by (auto simp: addResource_def s shown_def resource_access_new)
  qed
qed

lemma adds_with_finding:
  assumes "adds base op xs h" "\<And>s. \<exists>f. g s = (add_finding f (fst (h s)), snd (h s))"
  shows "adds base op xs g"
proof -
  have "derivation_ok base (g s) = derivation_ok base (h s) \<and> shown (g s) = shown (h s)" for s
    using assms(2)[of s] by (metis finding_kept prod.collapse)
  with addsD[OF assms(1)] show ?thesis by (intro addsI) simp_all
qed

lemma adds_persistence:
  assumes "CHR 0x00 \<notin> set (op_ID op)"
  shows "adds base op [(''persistence'', ''modify'', mechanism)] (addPersistence u op mechanism)"
  by (rule adds_with_finding[OF adds_resource[OF assms, of _ _ base mechanism u False "op_Dynamic op"]])
    (auto simp: addPersistence_def split_def Let_def)

lemma adds_path:
  assumes "CHR 0x00 \<notin> set (op_ID op)" "CHR 0x00 \<notin> set access"
  shows "adds base op (path_access access v) (addPathResource u op access v)"
  unfolding adds_def
proof (intro allI impI)
  fix s
  assume ok: "derivation_ok base s"
  obtain added a seen where r: "addResource u op ''filesystem-path'' access v (sensitivePath v) (contains v dynamic_text) s = (added, a, seen)"
    by (metis prod_cases3)
  obtain f where b: "addPathResource u op access v s =
      (let b = (if sensitivePath v \<and> added then add_finding f a else a)
       in if access \<noteq> ''read'' \<and> persistencePath v then addPersistence u op v (b, seen) else (b, seen))"
    by (simp add: addPathResource_def r Let_def)
  have first: "derivation_ok base (a, seen)" "shown (a, seen) = insert (op_ID op, ''filesystem-path'', access, v) (shown s)"
    using addsD[OF adds_resource[OF assms(1) _ assms(2), of "''filesystem-path''" base v u "sensitivePath v" "contains v dynamic_text"] ok] r
    by simp_all
  show "derivation_ok base (addPathResource u op access v s)
      \<and> shown (addPathResource u op access v s) = shown s \<union> (\<lambda>x. (op_ID op, x)) ` set (path_access access v)"
    using first addsD[OF adds_persistence[OF assms(1), of base v u], of "(if sensitivePath v \<and> added then add_finding f a else a, seen)"]
    unfolding b Let_def path_access_def by (simp add: insert_commute split: if_splits)
qed

lemma adds_paths:
  assumes "CHR 0x00 \<notin> set (op_ID op)" "CHR 0x00 \<notin> set access"
  shows "adds base op (concat (map (path_access access) xs)) (fold (addPathResource u op access) xs)"
  by (rule adds_fold) (rule adds_path[OF assms])

lemma adds_network:
  assumes "CHR 0x00 \<notin> set (op_ID op)"
  shows "adds base op (network_accesses u op) (network_resources u op)"
proof -
  let ?domains = "filter (\<lambda>d. d \<noteq> []) (map (literalDomain u) (elems (op_Arguments op)))"
  have each: "adds base op (concat (map (\<lambda>d. [(''network-domain'', ''connect'', d)]) ?domains))
      (fold (\<lambda>d s. snd (addResource u op ''network-domain'' ''connect'' d False False s)) ?domains)"
    by (rule adds_fold) (rule adds_resource[OF assms]; simp)
  have one: "adds base op [(''network-domain'', ''connect'', dynamic_text)]
      (\<lambda>s. snd (addResource u op ''network-domain'' ''connect'' dynamic_text False True s))"
    by (rule adds_resource[OF assms]) simp_all
  show ?thesis
    using each one by (cases "?domains = [] \<and> op_Dynamic op") (auto simp: network_accesses_def network_resources_def[abs_def] Let_def cong: if_cong)
qed

lemma adds_destructive: "adds base op [] (addDestructiveFinding op operands)"
  by (rule adds_with_finding[OF adds_none]) (auto simp: addDestructiveFinding_def split_def)

lemma adds_command:
  assumes "CHR 0x00 \<notin> set (op_ID op)"
  shows "adds base op (command_accesses u op command) (command_resources u op command)"
proof -
  have clean: "CHR 0x00 \<notin> set ''read''" "CHR 0x00 \<notin> set ''write''" "CHR 0x00 \<notin> set ''delete''" by simp_all
  note paths = adds_paths[OF assms clean(1)] adds_paths[OF assms clean(2)] adds_paths[OF assms clean(3)]
  note path = adds_path[OF assms clean(1)] adds_path[OF assms clean(2)] adds_path[OF assms clean(3)]
  have removed: "adds base op (concat (map (path_access ''delete'') xs))
      (\<lambda>s. addDestructiveFinding op xs (fold (addPathResource u op ''delete'') xs s))" for xs
    using adds_comp[OF paths(3) adds_destructive] by simp
  have copied: "adds base op (concat (map (path_access ''read'') xs) @ path_access ''write'' x)
      (\<lambda>s. addPathResource u op ''write'' x (fold (addPathResource u op ''read'') xs s))" for x xs
    by (rule adds_comp[OF paths(1) path(2)])
  have moved: "adds base op (path_access ''delete'' x @ path_access ''write'' y)
      (\<lambda>s. addPathResource u op ''write'' y (addPathResource u op ''delete'' x s))" for x y
    by (rule adds_comp[OF path(3) path(2)])
  define operands where "operands = filter (pathOperand u) (elems (op_Arguments op))"
  note defs = command_accesses_def command_resources_def[abs_def] Let_def pathOperands_def operands_def[symmetric] containsArgument_def list_ex_iff
  consider "command \<in> {''cat'', ''head'', ''tail'', ''readlink''}" | "command \<in> {''touch'', ''mkdir'', ''tee'', ''truncate'', ''chmod'', ''chown''}"
    | "command \<in> {''rm'', ''unlink'', ''rmdir''}" | "command \<in> {''cp'', ''install''}" | "command = ''mv''"
    | "command = ''systemctl''" | "command = ''crontab''"
    | "command \<notin> {''cat'', ''head'', ''tail'', ''readlink'', ''touch'', ''mkdir'', ''tee'', ''truncate'', ''chmod'', ''chown'',
        ''rm'', ''unlink'', ''rmdir'', ''cp'', ''install'', ''mv'', ''systemctl'', ''crontab''}" by auto
  then show ?thesis
  proof cases
    case 1 then show ?thesis using paths(1) unfolding defs by auto
  next
    case 2 then show ?thesis using paths(2) unfolding defs by auto
  next
    case 3 then show ?thesis using removed[of operands] adds_none unfolding defs by (cases "operands = []") auto
  next
    case 4
    have "command_accesses u op c
        = (if length operands > 1 then concat (map (path_access ''read'') (butlast operands)) @ path_access ''write'' (last operands) else [])"
      "command_resources u op c = (\<lambda>s. if length operands > 1
        then addPathResource u op ''write'' (last operands) (fold (addPathResource u op ''read'') (butlast operands) s) else s)"
      if "c = ''cp'' \<or> c = ''install''" for c
      unfolding defs using that by (elim disjE; simp)+
    from this[of command] 4 copied adds_none show ?thesis by simp
  next
    case 5
    have "command_accesses u op ''mv''
        = (if length operands > 1 then path_access ''delete'' (hd operands) @ path_access ''write'' (last operands) else [])"
      "command_resources u op ''mv'' = (\<lambda>s. if length operands > 1
        then addPathResource u op ''write'' (last operands) (addPathResource u op ''delete'' (hd operands) s) else s)"
      unfolding defs by simp_all
    with 5 moved adds_none show ?thesis by simp
  next
    case 6 then show ?thesis using adds_persistence[OF assms] adds_none unfolding defs by auto
  next
    case 7 then show ?thesis using adds_persistence[OF assms] unfolding defs by auto
  next
    case 8 then show ?thesis using adds_none unfolding defs by auto
  qed
qed

lemma adds_operation:
  assumes "CHR 0x00 \<notin> set (op_ID op)"
  shows "adds base op (accesses u op) (derive_operation u op)"
proof -
  have "adds base op (if b then network_accesses u op else []) (\<lambda>s. if b then network_resources u op s else s)" for b
    using adds_network[OF assms] adds_none by (cases b) auto
  from adds_comp[OF this adds_command[OF assms]] show ?thesis
    unfolding accesses_def derive_operation_def[abs_def] Let_def by simp
qed

lemma derived:
  assumes "derivation_ok base s" and "\<forall>op \<in> set ops. CHR 0x00 \<notin> set (op_ID op)"
  shows "shown (fold (derive_operation u) ops s) = shown s \<union> (\<Union>op \<in> set ops. (\<lambda>x. (op_ID op, x)) ` set (accesses u op))"
  using assms
proof (induction ops arbitrary: s)
  case (Cons op ops)
  note step = addsD[OF adds_operation Cons.prems(1), of op u]
  with Cons show ?case by (auto simp del: split_paired_All)
qed simp


section \<open>Deletions\<close>

definition grave_target :: "string \<Rightarrow> bool" where
  "grave_target operand \<longleftrightarrow> sensitivePath operand \<or> persistencePath operand \<or> operand = ''/etc'' \<or> operand = ''/home'' \<or> hasPrefix operand ''/home/''"

lemma fold_severity:
  "severity \<in> {SeverityLow, SeverityMedium, SeverityHigh, SeverityCritical} \<Longrightarrow> fold operand_severity operands severity =
     (if ''/'' \<in> set operands \<or> severity = SeverityCritical then SeverityCritical
      else if list_ex grave_target operands then SeverityHigh else severity)"
proof (induction operands arbitrary: severity)
  case (Cons operand operands)
  have "operand_severity operand severity \<in> {SeverityLow, SeverityMedium, SeverityHigh, SeverityCritical}"
    using Cons.prems by (auto simp: operand_severity_def)
  note IH = Cons.IH[OF this]
  have "operand_severity operand severity = (if operand = ''/'' then SeverityCritical
      else if grave_target operand then (if severity \<noteq> SeverityCritical then SeverityHigh else severity) else severity)"
    by (simp add: operand_severity_def grave_target_def)
  note step = this
  show ?case unfolding fold_Cons comp_def IH by (auto simp: step)
qed auto

text \<open>
  The severity of a deletion is that of its gravest target, whatever the order of the targets:
  critical exactly when the root of the filesystem is among them, high when otherwise a
  credential, startup, home or system path is, medium when otherwise the removal is recursive
  or has dynamic parts, and low in the remaining case; and the finding of the deletion
  carries it.
\<close>

theorem deletion_severity:
  "destructive_severity op operands =
     (if ''/'' \<in> set operands then SeverityCritical
      else if list_ex grave_target operands then SeverityHigh
      else if recursiveRemoval (elems (op_Arguments op)) \<or> op_Dynamic op then SeverityMedium
      else SeverityLow)
   \<and> (as_Findings (fst (addDestructiveFinding op operands (a, seen))) = as_Findings a
        @ [capability_finding (''finding-delete-'' @ op_ID op) (destructive_severity op operands) ''destructive-operation''
            ''Deletes filesystem content'' (''The command deletes '' @ join_with '', '' operands @ ''. Severity reflects the visible targets, recursive flags, and whether arguments are dynamic; static analysis cannot prove the paths present at runtime.'') op])"
  unfolding destructive_severity_def
  by (subst fold_severity)
    (auto simp: addDestructiveFinding_def add_finding_def destructive_severity_def)

section \<open>Samples, and commands the derivation misreads\<close>

definition sample_url :: url_env where
  "sample_url = \<lparr>ur_parse = (\<lambda>s. if s = ''https://example.org/x'' then Some (''https'', ''example.org'') else Some ([], [])), ur_lower = (\<lambda>s. s)\<rparr>"

definition sample_call :: "string list \<Rightarrow> Operation" where
  "sample_call words = \<lparr>op_ID = ''op-a-sh-1-1'', op_Reference = [], op_Category = ''process-execution'', op_Scope = [],
     op_Command = hd words, op_Arguments = Some (tl words), op_Dynamic = False, op_Confidence = ConfidenceHigh,
     op_Evidence = \<lparr>ev_InputID = [], ev_Path = ''a.sh'', ev_LineStart = 1, ev_LineEnd = 1, ev_Operation = [], ev_Excerpt = []\<rparr>,
     op_Provenance = sourceProvenance ''shell-operation-extraction/v1''\<rparr>"

definition sample_result :: "string list \<Rightarrow> AnalysisResult" where
  "sample_result words = empty_result\<lparr>as_Operations := [sample_call words]\<rparr>"


text \<open>\<open>mv\<close> with several sources: only the first of them is reported as deleted.\<close>

theorem mv_reports_first_source:
  "map rc_Value (filter (\<lambda>r. rc_Access r = ''delete'') (as_Resources (deriveCapabilities sample_url (sample_result [''mv'', ''./a'', ''./b'', ''./c'']))))
     = [''./a'']"
  by code_simp

text \<open>A long option with the letter r counts as recursive: a plain removal gets medium severity.\<close>

theorem force_is_recursive:
  "map fd_Severity (as_Findings (deriveCapabilities sample_url (sample_result [''rm'', ''--force'', ''./a'']))) = [SeverityMedium]"
  by code_simp

text \<open>
  The identifier of a resource replaces separators by dashes: two paths of one command can
  get one identifier, which the validator refuses for the whole report.
\<close>

theorem resource_identifiers_collide:
  "map rc_ID (as_Resources (deriveCapabilities sample_url (sample_result [''cat'', ''./a_b'', ''./a.b''])))
     = replicate 2 ''resource-op-a-sh-1-1-filesystem-path-read---a-b''"
  by code_simp

end
