(* ===== verification/ScopeAnnotation.thy ===== *)
theory ScopeAnnotation
  imports Analyze
begin

text \<open>
  Scopes (internal/analyze/scope.go): which files of the target the runtime can reach, and the scope of
  every operation, resource, finding, unknown and limitation. The map of file contents is an
  association list; Go iterates over it in no particular order, and the theorems below show that
  the order does not matter.
\<close>

type_synonym contents = "(string \<times> string) list"

section \<open>References\<close>

definition isGitMetadataPath :: "string \<Rightarrow> bool" where
  "isGitMetadataPath name \<longleftrightarrow> path_clean name = ''.git'' \<or> hasPrefix (path_clean name) ''.git/''"

definition references_path :: "string \<Rightarrow> string \<Rightarrow> string \<Rightarrow> bool" where
  "references_path text source clean \<longleftrightarrow> \<not> (clean = source \<or> toolingPath clean)
     \<and> (contains text clean \<or> contains text (path_base clean))"

definition markTextReferences :: "string \<Rightarrow> string \<Rightarrow> string list \<Rightarrow> string list \<Rightarrow> string list" where
  "markTextReferences text source candidates references =
     fold (\<lambda>clean refs. if references_path text source clean then List.insert clean refs else refs) candidates references"

definition candidate_paths :: "contents \<Rightarrow> File list \<Rightarrow> string list" where
  "candidate_paths contents files =
     fold (\<lambda>clean cs. if \<not> isGitMetadataPath clean then List.insert clean cs else cs)
       (map (path_clean \<circ> fst) contents @ map (path_clean \<circ> fl_Path) (filter (\<lambda>f. fl_Kind f = ''regular'') files)) []"

definition entry_references :: "Manifest option \<Rightarrow> string list" where
  "entry_references manifest =
     (case manifest of
        None \<Rightarrow> []
      | Some m \<Rightarrow> fold (\<lambda>entry refs. List.insert (path_clean (snd entry)) refs) (elems (mf_EntryPoints m)) [])"

definition qml_references :: "contents \<Rightarrow> string list \<Rightarrow> string list \<Rightarrow> string list" where
  "qml_references contents candidates references =
     fold (\<lambda>(name, d) refs.
       if isQML name \<and> \<not> toolingPath name
       then markTextReferences d name candidates (List.insert (path_clean name) refs) else refs) contents references"

text \<open>One pass over the references: mark what the contents of each of them mention.\<close>

definition reference_pass :: "contents \<Rightarrow> string list \<Rightarrow> string list \<Rightarrow> string list" where
  "reference_pass contents candidates references =
     fold (\<lambda>referenced refs.
       case map_of contents referenced of
         None \<Rightarrow> refs
       | Some d \<Rightarrow> markTextReferences d referenced candidates refs) references references"

lemma set_mark: "set (markTextReferences text source candidates references)
    = set references \<union> {c \<in> set candidates. references_path text source c}"
  by (induction candidates arbitrary: references) (auto simp: markTextReferences_def)

lemma set_fold_mark:
  "set (fold (\<lambda>referenced refs. case map_of contents referenced of None \<Rightarrow> refs
       | Some d \<Rightarrow> markTextReferences d referenced candidates refs) sources references)
   = set references \<union> {c \<in> set candidates. \<exists>s \<in> set sources. \<exists>d. map_of contents s = Some d \<and> references_path d s c}"
  by (induction sources arbitrary: references) (auto simp: set_mark split: option.splits)

lemma set_reference_pass:
  "set (reference_pass contents candidates references) = set references
     \<union> {c \<in> set candidates. \<exists>s \<in> set references. \<exists>d. map_of contents s = Some d \<and> references_path d s c}"
  unfolding reference_pass_def by (rule set_fold_mark)

text \<open>Marking only what is marked already changes nothing, not even the list.\<close>

lemma mark_same:
  "{c \<in> set candidates. references_path text source c} \<subseteq> set references
     \<Longrightarrow> markTextReferences text source candidates references = references"
  unfolding markTextReferences_def subset_iff by (induction candidates) auto

text \<open>New references are added in front.\<close>

lemma mark_suffix: "suffix references (markTextReferences text source candidates references)"
  unfolding markTextReferences_def
  by (induction candidates arbitrary: references) (auto simp: List.insert_def intro: suffix_order.trans suffix_ConsI)

lemma pass_suffix: "suffix references (reference_pass contents candidates references)"
proof -
  have "suffix refs (fold (\<lambda>referenced refs. case map_of contents referenced of None \<Rightarrow> refs
       | Some d \<Rightarrow> markTextReferences d referenced candidates refs) sources refs)" for refs sources
    by (induction sources arbitrary: refs) (auto intro: suffix_order.trans mark_suffix split: option.splits)
  then show ?thesis by (simp add: reference_pass_def)
qed

lemma fold_mark_same:
  "{c \<in> set candidates. \<exists>s \<in> set sources. \<exists>d. map_of contents s = Some d \<and> references_path d s c} \<subseteq> set references
   \<Longrightarrow> fold (\<lambda>referenced refs. case map_of contents referenced of None \<Rightarrow> refs
       | Some d \<Rightarrow> markTextReferences d referenced candidates refs) sources references = references"
proof (induction sources)
  case (Cons x xs)
  have "(case map_of contents x of None \<Rightarrow> references | Some d \<Rightarrow> markTextReferences d x candidates references) = references"
    using Cons.prems by (auto intro!: mark_same split: option.splits)
  moreover have "{c \<in> set candidates. \<exists>s \<in> set xs. \<exists>d. map_of contents s = Some d \<and> references_path d s c} \<subseteq> set references"
    using Cons.prems by auto
  ultimately show ?case using Cons.IH by simp
qed simp

lemma pass_grows:
  assumes "length (reference_pass contents candidates references) \<noteq> length references"
  shows "set references \<subset> set (reference_pass contents candidates references)"
proof -
  have "set (reference_pass contents candidates references) = set references
    \<Longrightarrow> reference_pass contents candidates references = references"
    unfolding set_reference_pass unfolding reference_pass_def by (rule fold_mark_same) blast
  with assms have "set (reference_pass contents candidates references) \<noteq> set references" by metis
  moreover have "set references \<subseteq> set (reference_pass contents candidates references)" unfolding set_reference_pass by blast
  ultimately show ?thesis by blast
qed

function reference_loop :: "contents \<Rightarrow> string list \<Rightarrow> string list \<Rightarrow> string list" where
  "reference_loop contents candidates references =
     (let refs = reference_pass contents candidates references
      in if length refs \<noteq> length references then reference_loop contents candidates refs else refs)"
  by pat_completeness auto

termination
proof (relation "measure (\<lambda>(contents, candidates, references). card (set candidates - set references))", goal_cases)
  case (2 contents candidates references refs)
  then have g: "set references \<subset> set refs" using pass_grows by blast
  moreover have "set refs - set references \<subseteq> set candidates" unfolding 2(1) set_reference_pass by blast
  ultimately have "set candidates - set refs \<subset> set candidates - set references" by blast
  then show ?case by (simp add: psubset_card_mono)
qed simp

declare reference_loop.simps [simp del]

definition seed_references :: "contents \<Rightarrow> File list \<Rightarrow> Manifest option \<Rightarrow> string list" where
  "seed_references contents files manifest =
     qml_references contents (candidate_paths contents files) (entry_references manifest)"

definition runtimeReferencedPaths :: "contents \<Rightarrow> File list \<Rightarrow> Manifest option \<Rightarrow> string list" where
  "runtimeReferencedPaths contents files manifest =
     reference_loop contents (candidate_paths contents files) (seed_references contents files manifest)"

section \<open>The references are a least fixed point\<close>

inductive_set reachable :: "contents \<Rightarrow> string set \<Rightarrow> string set \<Rightarrow> string set"
  for contents candidates seeds where
  seed: "s \<in> seeds \<Longrightarrow> s \<in> reachable contents candidates seeds"
| mention: "s \<in> reachable contents candidates seeds \<Longrightarrow> map_of contents s = Some d \<Longrightarrow> c \<in> candidates
    \<Longrightarrow> references_path d s c \<Longrightarrow> c \<in> reachable contents candidates seeds"

lemma reachable_trans:
  assumes "seeds \<subseteq> reachable contents candidates base"
  shows "reachable contents candidates seeds \<subseteq> reachable contents candidates base"
proof
  fix x assume "x \<in> reachable contents candidates seeds"
  then show "x \<in> reachable contents candidates base"
    by induction (use assms in \<open>auto intro: reachable.mention\<close>)
qed

lemma reachable_closed:
  assumes "{c \<in> candidates. \<exists>s \<in> refs. \<exists>d. map_of contents s = Some d \<and> references_path d s c} \<subseteq> refs"
  shows "reachable contents candidates refs = refs"
proof
  show "reachable contents candidates refs \<subseteq> refs"
  proof
    fix x assume "x \<in> reachable contents candidates refs"
    then show "x \<in> refs" by induction (use assms in auto)
  qed
qed (auto intro: reachable.seed)

lemma set_reference_loop: "set (reference_loop contents candidates references) = reachable contents (set candidates) (set references)"
proof (induction contents candidates references rule: reference_loop.induct)
  case (1 contents candidates references)
  define refs where "refs = reference_pass contents candidates references"
  have sub: "set references \<subseteq> set refs" "set refs \<subseteq> reachable contents (set candidates) (set references)"
    unfolding refs_def set_reference_pass by (auto intro: reachable.intros)
  have same: "reachable contents (set candidates) (set refs) = reachable contents (set candidates) (set references)"
    using reachable_trans[OF sub(2)] reachable_trans[of "set references" contents "set candidates" "set refs"] sub(1)
    by (auto intro: reachable.seed)
  show ?case
  proof (cases "length refs = length references")
    case True
    then have "refs = references" using pass_suffix[of references contents candidates] unfolding refs_def[symmetric]
      by (auto simp: suffix_def)
    then have "{c \<in> set candidates. \<exists>s \<in> set references. \<exists>d. map_of contents s = Some d \<and> references_path d s c} \<subseteq> set references"
      using set_reference_pass[of contents candidates references] unfolding refs_def[symmetric] by blast
    then have "reachable contents (set candidates) (set references) = set references" by (rule reachable_closed)
    then show ?thesis using \<open>refs = references\<close>
      by (simp add: reference_loop.simps[of contents candidates references] refs_def[symmetric] Let_def)
  next
    case False
    then show ?thesis using 1[OF refs_def] same by (simp add: reference_loop.simps[of contents candidates references] refs_def[symmetric] Let_def)
  qed
qed


section \<open>Scopes\<close>

definition scopeForPath :: "string \<Rightarrow> string list \<Rightarrow> string" where
  "scopeForPath name runtimeReferences =
     (let clean = path_clean name in
      if toolingPath clean then ScopeTooling
      else if clean \<in> set runtimeReferences then ScopeRuntime else ScopeUnknown)"

text \<open>The scope selected so far is empty until one is found; \<^const>\<open>None\<close> is the early return.\<close>

fun related_loop :: "(string \<rightharpoonup> string) \<Rightarrow> string list \<Rightarrow> string \<Rightarrow> string" where
  "related_loop scopes [] selected = (if selected = [] then ScopeUnknown else selected)"
| "related_loop scopes (ident # ids) selected =
     (case scopes ident of
        None \<Rightarrow> ScopeUnknown
      | Some scope \<Rightarrow>
          if selected = [] then related_loop scopes ids scope
          else if selected \<noteq> scope then ScopeUnknown
          else related_loop scopes ids selected)"

definition relatedScope :: "string list \<Rightarrow> (string \<rightharpoonup> string) \<Rightarrow> string" where
  "relatedScope ids scopes = related_loop scopes ids []"

text \<open>The scopes of operations by identifier; a later operation of the same identifier wins.\<close>

definition operation_scopes :: "Operation list \<Rightarrow> (string \<rightharpoonup> string)" where
  "operation_scopes ops = fold (\<lambda>op m. m(op_ID op \<mapsto> op_Scope op)) ops Map.empty"

definition linked_scope :: "string list \<Rightarrow> (string \<rightharpoonup> string) \<Rightarrow> string list \<Rightarrow> Evidence list \<Rightarrow> string" where
  "linked_scope runtimeReferences scopes related evidence =
     (if length related > 0 then relatedScope related scopes
      else case evidence of
        [] \<Rightarrow> ScopeUnknown
      | e # _ \<Rightarrow> scopeForPath (ev_Path e) runtimeReferences)"

definition annotateScopes :: "contents \<Rightarrow> File list \<Rightarrow> AnalysisResult \<Rightarrow> AnalysisResult" where
  "annotateScopes contents files a =
     (let runtimeReferences = runtimeReferencedPaths contents files (as_Manifest a);
          operations = map (\<lambda>op. op\<lparr>op_Scope := scopeForPath (ev_Path (op_Evidence op)) runtimeReferences\<rparr>) (as_Operations a);
          scopes = operation_scopes operations
      in a\<lparr>as_Operations := operations,
         as_Resources := map (\<lambda>r. r\<lparr>rc_Scope := (case scopes (rc_RelatedOperationID r) of Some scope \<Rightarrow> scope | None \<Rightarrow> ScopeUnknown)\<rparr>)
           (as_Resources a),
         as_Findings := map (\<lambda>f. f\<lparr>fd_Scope := linked_scope runtimeReferences scopes (elems (fd_Related f)) (elems (fd_Evidence f))\<rparr>)
           (as_Findings a),
         as_Unknowns := map (\<lambda>u. u\<lparr>uk_Scope := linked_scope runtimeReferences scopes (elems (uk_AffectedOperations u)) (elems (uk_Evidence u))\<rparr>)
           (as_Unknowns a),
         as_Limitations := map (\<lambda>l. if li_Scope l = [] \<and> li_Path l \<noteq> [] then l\<lparr>li_Scope := scopeForPath (li_Path l) runtimeReferences\<rparr> else l)
           (as_Limitations a)\<rparr>)"

text \<open>What a scope means: all related operations are known and have the same one.\<close>

lemma related_loop_selected:
  "selected \<noteq> [] \<Longrightarrow> related_loop scopes ids selected
     = (if \<forall>i \<in> set ids. scopes i = Some selected then selected else ScopeUnknown)"
  by (induction ids) (auto split: option.splits)

lemma relatedScope_common:
  assumes "\<And>i s. scopes i = Some s \<Longrightarrow> s \<noteq> []" and "ids \<noteq> []"
  shows "relatedScope ids scopes = (if \<exists>s. \<forall>i \<in> set ids. scopes i = Some s then the (scopes (hd ids)) else ScopeUnknown)"
proof (cases ids)
  case (Cons i rest)
  show ?thesis
  proof (cases "scopes i")
    case None
    with Cons show ?thesis by (simp add: relatedScope_def)
  next
    case (Some s)
    with assms(1) have "s \<noteq> []" by blast
    with Some Cons show ?thesis by (auto simp: relatedScope_def related_loop_selected)
  qed
qed (use assms(2) in simp)

end
