(* ===== verification/Coverage.thy ===== *)
theory Coverage
  imports Qml Capabilities ScopeAnnotation Review
begin

text \<open>
  The manifest analyzer (internal/analyze/manifest.go), native binaries (binary.go), coverage
  dispositions (coverage.go), and the composition of all analyzers (\<open>Sources\<close> in shell.go).
\<close>

section \<open>What the analyzers call\<close>

record manifestDocument =
  md_SchemaVersion :: int
  md_ID :: string
  md_Name :: string
  md_Version :: string
  md_Description :: string
  md_Kinds :: "string slice"
  md_EntryPoints :: "(string \<times> string) list option"

text \<open>
  Parameters: the shell parser, \<open>json.Unmarshal\<close> into a manifest (or the text of its error), the
  verb \<open>%q\<close> of \<open>fmt\<close>, and what the capabilities need.
\<close>

record analysis_env =
  an_shell :: shell_parser
  an_unmarshal :: "string \<Rightarrow> string + manifestDocument"
  an_quote :: "string \<Rightarrow> string"
  an_url :: url_env

abbreviation an_lower :: "analysis_env \<Rightarrow> string \<Rightarrow> string" where
  "an_lower env \<equiv> ur_lower (an_url env)"

section \<open>The manifest\<close>

text \<open>\<open>^[A-Za-z0-9][A-Za-z0-9._-]*$\<close>\<close>

definition manifestIDPattern :: "string \<Rightarrow> bool" where
  "manifestIDPattern s \<longleftrightarrow>
     (let alnum = (\<lambda>c. in_rng 65 90 c \<or> in_rng 97 122 c \<or> in_rng 48 57 c)
      in case s of [] \<Rightarrow> False | c # cs \<Rightarrow> alnum c \<and> list_all (\<lambda>d. alnum d \<or> d \<in> set ''._-'') cs)"

definition safeEntryPoint :: "string \<Rightarrow> bool" where
  "safeEntryPoint v \<longleftrightarrow> v \<noteq> [] \<and> \<not> hasPrefix v ''/'' \<and> \<not> contains v ''..'' \<and> path_clean v = v"

definition required_entries :: "(string \<times> string) list" where
  "required_entries = [(''bar'', ''bar''), (''bar-widget'', ''barWidget''), (''menu'', ''menu''), (''overlay'', ''overlay''),
     (''panel'', ''panel''), (''service'', ''service'')]"

definition kind_problems :: "(string \<Rightarrow> string) \<Rightarrow> manifestDocument \<Rightarrow> contents \<Rightarrow> string \<Rightarrow> string list" where
  "kind_problems quote document contents kind =
     (case map_of required_entries kind of
        None \<Rightarrow> []
      | Some entryKey \<Rightarrow>
          (case map_of (elems (md_EntryPoints document)) entryKey of
             None \<Rightarrow> [''kind '' @ quote kind @ '' requires entryPoints.'' @ entryKey @ ''.'']
           | Some entry \<Rightarrow>
               if \<not> safeEntryPoint entry then [''entry point '' @ quote entry @ '' must be a safe relative path without '' @ [CHR 0x27] @ ''..'' @ [CHR 0x27] @ ''.'']
               else if \<not> has_key contents (path_clean entry) then
                 [''declared entry point '' @ quote entry @ '' is absent or was not inspectable.'']
               else []))"

definition validateManifest :: "(string \<Rightarrow> string) \<Rightarrow> manifestDocument \<Rightarrow> contents \<Rightarrow> string list" where
  "validateManifest quote document contents =
     sort ((if md_SchemaVersion document \<noteq> 1 then [''schemaVersion must be the JSON number 1.''] else [])
       @ (if \<not> manifestIDPattern (md_ID document) \<or> contains (md_ID document) ''..'' \<or> hasPrefix (md_ID document) ''omarchy.''
          then [''id is empty, malformed, contains '' @ [CHR 0x27] @ ''..'' @ [CHR 0x27] @ '', or uses the reserved omarchy.* namespace.''] else [])
       @ (if md_Name document = [] \<or> md_Version document = []
          then [''name and version are required non-empty manifest fields.''] else [])
       @ (if length (elems (md_Kinds document)) = 0 then [''kinds must be a non-empty array.''] else [])
       @ concat (map (kind_problems quote document contents) (elems (md_Kinds document))))"

definition manifestFinding :: "string \<Rightarrow> string \<Rightarrow> string \<Rightarrow> string \<Rightarrow> Finding" where
  "manifestFinding severity rule title explanation =
     \<lparr>fd_ID = ''finding-'' @ rule, fd_Reference = [], fd_Claim = ClaimFact, fd_Severity = severity,
      fd_Confidence = ConfidenceHigh, fd_Category = ''manifest'', fd_Scope = [], fd_Title = title, fd_Explanation = explanation,
      fd_Evidence = Some [\<lparr>ev_InputID = [], ev_Path = ''manifest.json'', ev_LineStart = 0, ev_LineEnd = 0, ev_Operation = [], ev_Excerpt = []\<rparr>],
      fd_Related = None, fd_Provenance = sourceProvenance ''manifest/v1''\<rparr>"

definition contract_findings :: "string list \<Rightarrow> Finding list" where
  "contract_findings problems = map (\<lambda>(index, problem).
     manifestFinding SeverityMedium (''manifest-contract-'' @ decimal (index + 1))
       ''Manifest does not satisfy the Omarchy plugin contract'' problem) (zip [0..<length problems] problems)"

definition nonNil :: "'a list option \<Rightarrow> 'a list option" where
  "nonNil v = Some (elems v)"

definition analyzeManifest :: "analysis_env \<Rightarrow> contents \<Rightarrow> AnalysisResult \<Rightarrow> AnalysisResult" where
  "analyzeManifest env contents a =
     (case map_of contents ''manifest.json'' of
        None \<Rightarrow> add_limitation \<lparr>li_Code = ''missing-manifest'',
          li_Description = ''Current Omarchy Shell plugins require manifest.json at the repository root. Its absence cannot be anchored as file evidence, so it is retained as an explicit target-level limitation.'',
          li_Path = [], li_Scope = ScopeRuntime\<rparr> a
      | Some d \<Rightarrow>
          (case an_unmarshal env d of
             Inl message \<Rightarrow>
               add_finding (manifestFinding SeverityMedium ''invalid-manifest-json'' ''Plugin manifest is not valid JSON''
                 ''The declared plugin identity, kinds, and entry points cannot be established because manifest.json could not be parsed.'')
                 (add_limitation (no_location ''manifest-parse-error'' message ''manifest.json'') a)
           | Inr document \<Rightarrow>
               fold add_finding (contract_findings (validateManifest (an_quote env) document contents))
                 (a\<lparr>as_Manifest := Some \<lparr>mf_ID = md_ID document, mf_Name = md_Name document, mf_Version = md_Version document,
                    mf_Description = md_Description document, mf_Kinds = nonNil (md_Kinds document),
                    mf_EntryPoints = nonNil (md_EntryPoints document)\<rparr>\<rparr>)))"

section \<open>Coverage\<close>

definition upper_first :: "string \<Rightarrow> string" where
  "upper_first s = (case s of [] \<Rightarrow> [] | c # cs \<Rightarrow> (if in_rng 97 122 c then char_of (byte c - 32) else c) # cs)"

definition coverageDescription :: "string \<Rightarrow> string" where
  "coverageDescription language =
     upper_first language @ '' source was inventoried but has not received syntax-tree semantic analysis. Calls, dependencies, and data flow may be missing.''"

definition addLanguageCoverageLimitations :: "contents \<Rightarrow> AnalysisResult \<Rightarrow> AnalysisResult" where
  "addLanguageCoverageLimitations contents a =
     (let references = runtimeReferencedPaths contents [] (as_Manifest a)
      in fold (\<lambda>name b.
           if toolingPath name \<or> isInertGitMetadata name then b
           else let language = unsupportedLanguage name (the (map_of contents name)) in
             if language = [] then b
             else add_limitation \<lparr>li_Code = language @ ''-semantic-analysis-unavailable'',
               li_Description = coverageDescription language, li_Path = name, li_Scope = scopeForPath name references\<rparr> b)
         (sort (map fst contents)) a)"

text \<open>A file that was not read has no contents: a missing key of a Go map of slices is \<open>nil\<close>.\<close>

definition content_of :: "contents \<Rightarrow> string \<Rightarrow> string" where
  "content_of contents path = (case map_of contents path of None \<Rightarrow> [] | Some d \<Rightarrow> d)"

definition coverageRelevant :: "File \<Rightarrow> string \<Rightarrow> bool" where
  "coverageRelevant file d =
     (if fl_Path file = ''manifest.json'' \<or> fl_Binary file \<noteq> None \<or> fl_ContentType file = ''application/x-elf'' \<or> isQML (fl_Path file)
      then True
      else isShell (fl_Path file) d \<or> unsupportedLanguage (fl_Path file) d \<noteq> [])"

definition disposition :: "contents \<Rightarrow> string set \<Rightarrow> string set \<Rightarrow> File \<Rightarrow> string \<times> string" where
  "disposition contents limited failed file =
     (let d = content_of contents (fl_Path file) in
      if fl_Kind file \<noteq> ''regular'' \<or> \<not> coverageRelevant file d then
        (AnalysisNotApplicable, ''not a retained artifact class with semantic behavior analysis'')
      else if fl_Path file \<in> failed \<or> \<not> fl_Inspected file then (AnalysisUnanalyzed, ''content was not retained for analysis'')
      else if unsupportedLanguage (fl_Path file) d \<noteq> [] then
        (AnalysisUnanalyzed, ''the retained source language has no semantic analyzer in this stack'')
      else if fl_Binary file \<noteq> None \<or> fl_Path file \<in> limited then
        (AnalysisPartial, ''retained metadata or an explicit limitation leaves behavior unresolved'')
      else (AnalysisAnalyzed, []))"

definition count_analysis :: "File \<Rightarrow> int \<times> int \<times> int \<times> int \<Rightarrow> int \<times> int \<times> int \<times> int" where
  "count_analysis file = (\<lambda>(analyzed, partial, unanalyzed, excluded).
     (if fl_Analysis file = AnalysisAnalyzed then (analyzed + 1, partial, unanalyzed, excluded)
      else if fl_Analysis file = AnalysisPartial then (analyzed, partial + 1, unanalyzed, excluded)
      else if fl_Analysis file = AnalysisUnanalyzed then (analyzed, partial, unanalyzed + 1, excluded)
      else if fl_Analysis file = AnalysisNotApplicable then (analyzed, partial, unanalyzed, excluded + 1)
      else (analyzed, partial, unanalyzed, excluded)))"

definition coverageFromFiles :: "File list \<Rightarrow> CoverageSummary" where
  "coverageFromFiles files =
     (case fold count_analysis files (0, 0, 0, 0) of
        (analyzed, partial, unanalyzed, excluded) \<Rightarrow> NewCoverageSummary analyzed partial unanalyzed [excluded])"

definition AssignCoverageDispositions ::
  "File list \<Rightarrow> contents \<Rightarrow> Limitation list \<Rightarrow> ScanError list \<Rightarrow> File list \<times> CoverageSummary" where
  "AssignCoverageDispositions files contents limitations scanErrors =
     (let limited = set (filter (\<lambda>p. p \<noteq> []) (map li_Path limitations));
          failed = set (filter (\<lambda>p. p \<noteq> []) (map se_Path scanErrors));
          assigned = map (\<lambda>file. case disposition contents limited failed file of
            (analysis, reason) \<Rightarrow> file\<lparr>fl_Analysis := analysis, fl_AnalysisReason := reason\<rparr>) files
      in (assigned, coverageFromFiles assigned))"

section \<open>Native binaries\<close>

definition native_unknown_of :: "(string \<Rightarrow> string) \<Rightarrow> File \<Rightarrow> Binary \<Rightarrow> Unknown" where
  "native_unknown_of lower file binary =
     \<lparr>uk_ID = ''unknown-native-binary-'' @ stablePathID lower (fl_Path file), uk_Reference = [], uk_Category = ''native-binary'',
      uk_Reason = UnknownNativeBehavior, uk_Scope = ScopeUnknown, uk_Confidence = ConfidenceHigh,
      uk_Title = ''Bundled native executable behavior is not established'',
      uk_Description = ''This '' @ bn_Class binary @ '' '' @ bn_Machine binary @ '' ELF file is identified and hashed, but headers and imported libraries cannot establish what it will do when run. Manual source-to-binary provenance or deeper independent analysis is required.'',
      uk_Evidence = Some [\<lparr>ev_InputID = [], ev_Path = fl_Path file, ev_LineStart = 0, ev_LineEnd = 0,
        ev_Operation = ''sha256:'' @ fl_SHA256 file, ev_Excerpt = []\<rparr>],
      uk_Origins = Some [], uk_AffectedOperations = Some [], uk_SuppressedRules = Some [],
      uk_Provenance = sourceProvenance ''elf-metadata/v1''\<rparr>"

definition add_native :: "(string \<Rightarrow> string) \<Rightarrow> File \<Rightarrow> AnalysisResult \<Rightarrow> AnalysisResult" where
  "add_native lower file a =
     (case fl_Binary file of
        None \<Rightarrow> a
      | Some binary \<Rightarrow>
          add_limitation (no_location ''native-binary-behavior''
            ''ELF metadata was inspected, but executable behavior and source provenance remain unknown.'' (fl_Path file))
            (a\<lparr>as_Unknowns := as_Unknowns a @ [native_unknown_of lower file binary]\<rparr>))"

definition analyze_Inventory :: "(string \<Rightarrow> string) \<Rightarrow> File list \<Rightarrow> contents \<Rightarrow> AnalysisResult \<Rightarrow> AnalysisResult" where
  "analyze_Inventory lower files contents a =
     annotateScopes contents files (fold (add_native lower) (sort_slice (\<lambda>x y. fl_Path x < fl_Path y) files) a)"

section \<open>All sources\<close>

definition analyze_source :: "analysis_env \<Rightarrow> contents \<Rightarrow> string \<Rightarrow> AnalysisResult \<Rightarrow> AnalysisResult result" where
  "analyze_source env contents name a =
     (let d = the (map_of contents name) in
      if isInertGitMetadata name then Inr a
      else if isShell name d then Inr (analyzeShell (an_shell env) (an_lower env) name d a)
      else if isQML name then analyzeQML (an_shell env) (an_lower env) name d a
      else Inr a)"

text \<open>Identifiers of the source lines and what is found in them, or the panic of the QML analyzer.\<close>

definition Sources :: "analysis_env \<Rightarrow> contents \<Rightarrow> AnalysisResult result" where
  "Sources env contents =
     bindr (loop (analyze_source env contents) (sort (map fst contents)) (analyzeManifest env contents empty_result)) (\<lambda>a.
       Inr (addLanguageCoverageLimitations contents (annotateScopes contents [] (deriveCapabilities (an_url env) a))))"

end
