(* ===== verification/Scanner.thy ===== *)
theory Scanner
  imports Coverage Inventory Encode Policy GoFlag
begin

text \<open>
  The scanner (cmd/plug-prejudice/main.go): it scans the target, analyzes what it read, assembles the
  report, and writes its canonical encoding to standard output.
\<close>

definition version :: string where "version = DevelopmentAnalyzerVersion"
definition policyVersion :: string where "policyVersion = ''deterministic-v1''"

text \<open>
  The parameters of the components, the times of start and completion, the marshaller, and the
  writer: from the bytes offered to its error and the bytes it took.
\<close>

record 'w scanner_io =
  sc_fs :: "'w fs_calls"
  sc_env :: analysis_env
  sc_started :: time
  sc_completed :: time
  sc_marshal :: "Report \<Rightarrow> string result"
  sc_write :: "string \<Rightarrow> error \<times> string"

definition scanner_flags :: flag_set where
  "scanner_flags = [''target'' \<mapsto> FString [], ''display-name'' \<mapsto> FString [], ''sandboxed'' \<mapsto> FBool False,
     ''resource-limited'' \<mapsto> FBool False]"

definition scanResourceLimits :: "bool \<Rightarrow> ResourceLimits option" where
  "scanResourceLimits established =
     (if \<not> established then None
      else Some \<lparr>rl_MemoryMaxBytes = MemoryMaxBytes, rl_MemorySwapBytes = MemorySwapBytes, rl_TasksMax = TasksMax,
        rl_CPUQuotaPercent = CPUQuotaPercent, rl_WallTimeSeconds = WallTime div Second\<rparr>)"

definition targetDisplayName :: "string \<Rightarrow> string \<Rightarrow> string" where
  "targetDisplayName target supplied = (if supplied \<noteq> [] then supplied else path_base (path_clean target))"

definition scan_status :: "Unknown list \<Rightarrow> ScanError list \<Rightarrow> Limitation list \<Rightarrow> CoverageSummary \<Rightarrow> string" where
  "scan_status unknowns errors limitations coverage =
     (if length unknowns > 0 \<or> length errors > 0 \<or> length limitations > 0 \<or> cv_ExcludedUnits coverage > 0
        \<or> (cv_Level coverage \<noteq> ''complete'' \<and> cv_Level coverage \<noteq> ''not-applicable'')
      then StatusIncomplete else StatusComplete)"

definition target_input :: "string \<Rightarrow> EvidenceInput" where
  "target_input rootDigest = \<lparr>ei_ID = TargetEvidenceInputID, ei_Type = EvidenceInputTarget, ei_Label = ''scanned target'',
     ei_DocumentSHA256 = [], ei_SubjectRootDigest = rootDigest, ei_Format = TargetEvidenceInputFormat,
     ei_Version = TargetEvidenceInputVersion\<rparr>"

definition incomplete_limitation :: Limitation where
  "incomplete_limitation = \<lparr>li_Code = ''analysis-coverage-incomplete'',
     li_Description = ''At least one retained artifact was only partially analyzed or could not be analyzed.'',
     li_Path = [], li_Scope = ScopeUnknown\<rparr>"

definition assemble_report ::
  "'w scanner_io \<Rightarrow> flag_set \<Rightarrow> inventory_result \<Rightarrow> AnalysisResult \<Rightarrow> Report \<times> CoverageSummary" where
  "assemble_report io fs result analysis =
     (let limitations = ir_Limitations result @ as_Limitations analysis;
          (files, coverage) = AssignCoverageDispositions (ir_Files result) (ir_Contents result) limitations (ir_Errors result);
          status = scan_status (as_Unknowns analysis) (ir_Errors result) limitations coverage;
          r = \<lparr>rp_SchemaVersion = SchemaVersion, rp_Status = status,
            rp_Scan = \<lparr>sm_ScannerVersion = version, sm_PolicyVersion = policyVersion, sm_StartedAt = sc_started io,
              sm_CompletedAt = sc_completed io, sm_Sandboxed = flag_bool fs ''sandboxed'',
              sm_ResourceLimits = scanResourceLimits (flag_bool fs ''resource-limited'')\<rparr>,
            rp_Target = \<lparr>tg_DisplayName = targetDisplayName (flag_string fs ''target'') (flag_string fs ''display-name''),
              tg_RootDigest = ir_RootDigest result, tg_FileCount = int (length (ir_Files result)),
              tg_ReadBytes = ir_ReadBytes result, tg_BinaryBytes = ir_BinaryBytes result, tg_Manifest = as_Manifest analysis\<rparr>,
            rp_EvidenceInputs = Some [target_input (ir_RootDigest result)], rp_Review = None, rp_Inventory = Some files,
            rp_Operations = Some (as_Operations analysis), rp_Resources = Some (as_Resources analysis),
            rp_Findings = Some (as_Findings analysis), rp_Unknowns = Some (as_Unknowns analysis), rp_Relationships = Some [],
            rp_Limitations = Some limitations, rp_Errors = Some (ir_Errors result)\<rparr>
      in (if status = StatusIncomplete \<and> as_Unknowns analysis = [] \<and> limitations = [] \<and> ir_Errors result = []
          then r\<lparr>rp_Limitations := Some (limitations @ [incomplete_limitation])\<rparr> else r, coverage))"

text \<open>A panic of an analyzer ends the process with exit code 2 and nothing on standard output.\<close>

definition analyze_result :: "'w scanner_io \<Rightarrow> inventory_result \<Rightarrow> AnalysisResult result" where
  "analyze_result io result =
     bindr (Sources (sc_env io) (ir_Contents result)) (\<lambda>analysis.
       Inr (analyze_Inventory (an_lower (sc_env io)) (ir_Files result) (ir_Contents result) analysis))"

definition publish :: "'w scanner_io \<Rightarrow> Report \<Rightarrow> CoverageSummary \<Rightarrow> process_exit" where
  "publish io r coverage =
     (let digest = fs_digest (sc_fs io) in
      case buildEvidenceGraphWithDigest digest r of
        Inl e \<Rightarrow> fails 1 (Wrapf ''build evidence graph: %v'' [] e)
      | Inr built \<Rightarrow>
     (case BuildReviewSummary coverage built of
        Inl e \<Rightarrow> fails 1 (Wrapf ''build review summary: %v'' [] e)
      | Inr reviewed \<Rightarrow>
     (case WriteCanonical (sc_write io) (sc_marshal io) digest reviewed of
        (Some e, written) \<Rightarrow> \<lparr>ex_code = 1, ex_stdout = written, ex_stderr = [Wrapf ''encode report: %v'' [] e]\<rparr>
      | (None, written) \<Rightarrow> \<lparr>ex_code = 0, ex_stdout = written, ex_stderr = []\<rparr>)))"

definition scanner_run :: "'w scanner_io \<Rightarrow> string list \<Rightarrow> 'w \<Rightarrow> process_exit option" where
  "scanner_run io args w =
     (case flag_parse scanner_flags args of
        Inl e \<Rightarrow> Some (fails 2 e)
      | Inr (fs, rest) \<Rightarrow>
          if flag_string fs ''target'' = [] \<or> length rest \<noteq> 0 then
            Some (fails 2 (Errorf ''usage: plug-prejudice --target DIRECTORY [--sandboxed]'' []))
          else if flag_bool fs ''sandboxed'' \<noteq> flag_bool fs ''resource-limited'' then
            Some (fails 2 (Errorf ''sandbox and resource containment must be established together'' []))
          else map_option (\<lambda>(scanned, _).
            (case scanned of
               Inl e \<Rightarrow> fails 1 (Wrapf ''scan target: %v'' [] e)
             | Inr result \<Rightarrow>
                 (case analyze_result io result of
                    Inl e \<Rightarrow> fails 2 e
                  | Inr analysis \<Rightarrow>
                      (case assemble_report io fs result analysis of (r, coverage) \<Rightarrow> publish io r coverage))))
            (Scan (sc_fs io) (flag_string fs ''target'') DefaultLimits w))"

end
