(* ===== verification/ScannerGuarantees.thy ===== *)
theory ScannerGuarantees
  imports Scanner BrokerGuarantees InventoryGuarantees
begin

text \<open>
  What the scanner guarantees to the broker: a run that succeeds prints a report the broker accepts and
  passes on. A target with a native binary whose ELF header parses has no such run.
\<close>

section \<open>A successful run\<close>

abbreviation scanner_digest :: "'w scanner_io \<Rightarrow> digestFunction" where
  "scanner_digest io \<equiv> fs_digest (sc_fs io)"

lemma publish_exit_0:
  assumes "publish io r coverage = out" and "ex_code out = 0"
  shows "\<exists>built summed c encoded. buildEvidenceGraphWithDigest (scanner_digest io) r = Inr built
    \<and> BuildReviewSummary coverage built = Inr summed \<and> canonicalReport (scanner_digest io) summed = Inr c
    \<and> sc_marshal io c = Inr encoded \<and> length encoded \<le> MaxEncodedReportBytes \<and> sc_write io encoded = (None, ex_stdout out)"
proof -
  from assms obtain built summed where steps: "buildEvidenceGraphWithDigest (scanner_digest io) r = Inr built"
    "BuildReviewSummary coverage built = Inr summed"
    "WriteCanonical (sc_write io) (sc_marshal io) (scanner_digest io) summed = (None, ex_stdout out)"
    by (auto simp: publish_def fails_def Let_def split: sum.splits prod.splits option.splits)
  from steps(3) obtain encoded where "EncodeCanonical (sc_marshal io) (scanner_digest io) summed = Inr encoded"
    "sc_write io encoded = (None, ex_stdout out)"
    by (auto simp: WriteCanonical_def split: sum.splits)
  with steps(1,2) show ?thesis unfolding encode_iff by blast
qed

text \<open>The stages of a run that ends with exit code 0.\<close>

definition published :: "'w scanner_io \<Rightarrow> string list \<Rightarrow> 'w \<Rightarrow> process_exit \<Rightarrow> flag_set \<Rightarrow> inventory_result \<Rightarrow> AnalysisResult \<Rightarrow> Report \<Rightarrow> Report \<Rightarrow> Report \<Rightarrow> bool" where
  "published io args w out fs result analysis built summed c \<longleftrightarrow>
     flag_parse scanner_flags args = Inr (fs, [])
     \<and> (\<exists>w1. Scan (sc_fs io) (flag_string fs ''target'') DefaultLimits w = Some (Inr result, w1))
     \<and> analyze_result io result = Inr analysis
     \<and> buildEvidenceGraphWithDigest (scanner_digest io) (fst (assemble_report io fs result analysis)) = Inr built
     \<and> BuildReviewSummary (snd (assemble_report io fs result analysis)) built = Inr summed
     \<and> canonicalReport (scanner_digest io) summed = Inr c
     \<and> (\<exists>encoded. sc_marshal io c = Inr encoded \<and> length encoded \<le> MaxEncodedReportBytes \<and> sc_write io encoded = (None, ex_stdout out))"

lemma scanner_exit_0:
  assumes "scanner_run io args w = Some out" and "ex_code out = 0"
  obtains fs result analysis built summed c where "published io args w out fs result analysis built summed c"
proof -
  from assms obtain fs where f: "flag_parse scanner_flags args = Inr (fs, [])"
    and run: "map_option (\<lambda>(scanned, _).
            (case scanned of
               Inl e \<Rightarrow> fails 1 (Wrapf ''scan target: %v'' [] e)
             | Inr result \<Rightarrow>
                 (case analyze_result io result of
                    Inl e \<Rightarrow> fails 2 e
                  | Inr analysis \<Rightarrow>
                      (case assemble_report io fs result analysis of (r, coverage) \<Rightarrow> publish io r coverage))))
            (Scan (sc_fs io) (flag_string fs ''target'') DefaultLimits w) = Some out"
    by (auto simp: scanner_run_def fails_def split: sum.splits if_splits)
  from run obtain scanned w1 where s: "Scan (sc_fs io) (flag_string fs ''target'') DefaultLimits w = Some (scanned, w1)"
    and out: "(case scanned of Inl e \<Rightarrow> fails 1 (Wrapf ''scan target: %v'' [] e) | Inr result \<Rightarrow>
      (case analyze_result io result of Inl e \<Rightarrow> fails 2 e | Inr analysis \<Rightarrow>
        (case assemble_report io fs result analysis of (r, coverage) \<Rightarrow> publish io r coverage))) = out" by auto
  from out assms(2) obtain result where r: "scanned = Inr result" by (cases scanned) (auto simp: fails_def)
  from out assms(2) r obtain analysis where a: "analyze_result io result = Inr analysis"
    by (cases "analyze_result io result") (auto simp: fails_def)
  from out r a have p: "publish io (fst (assemble_report io fs result analysis)) (snd (assemble_report io fs result analysis)) = out"
    by (simp add: case_prod_beta)
  from publish_exit_0[OF p assms(2)] f s r a that show ?thesis unfolding published_def by blast
qed

lemma assembled_fields:
  "rp_Scan (fst (assemble_report io fs result analysis)) = \<lparr>sm_ScannerVersion = version, sm_PolicyVersion = policyVersion,
     sm_StartedAt = sc_started io, sm_CompletedAt = sc_completed io, sm_Sandboxed = flag_bool fs ''sandboxed'',
     sm_ResourceLimits = scanResourceLimits (flag_bool fs ''resource-limited'')\<rparr>"
  "tg_DisplayName (rp_Target (fst (assemble_report io fs result analysis)))
     = targetDisplayName (flag_string fs ''target'') (flag_string fs ''display-name'')"
  "tg_RootDigest (rp_Target (fst (assemble_report io fs result analysis))) = ir_RootDigest result"
  by (simp_all add: assemble_report_def Let_def split: prod.split)

lemma published_fields:
  assumes "published io args w out fs result analysis built summed c"
  shows "rp_Scan c = rp_Scan (fst (assemble_report io fs result analysis))"
    "tg_DisplayName (rp_Target c) = tg_DisplayName (rp_Target (fst (assemble_report io fs result analysis)))"
    "tg_RootDigest (rp_Target c) = tg_RootDigest (rp_Target (fst (assemble_report io fs result analysis)))"
proof -
  from assms have b: "buildEvidenceGraphWithDigest (scanner_digest io) (fst (assemble_report io fs result analysis)) = Inr built"
    and r: "BuildReviewSummary (snd (assemble_report io fs result analysis)) built = Inr summed"
    and c: "canonicalReport (scanner_digest io) summed = Inr c" by (simp_all add: published_def)
  from r have "rp_Scan summed = rp_Scan built" "rp_Target summed = rp_Target built"
    by (auto simp: BuildReviewSummary_def andthen_Inr)
  with graph_fields[OF b] c show "rp_Scan c = rp_Scan (fst (assemble_report io fs result analysis))"
    "tg_DisplayName (rp_Target c) = tg_DisplayName (rp_Target (fst (assemble_report io fs result analysis)))"
    "tg_RootDigest (rp_Target c) = tg_RootDigest (rp_Target (fst (assemble_report io fs result analysis)))"
    by (auto simp: canonicalReport_Inr canonical_form_def)
qed

section \<open>Scanner and broker\<close>

text \<open>The arguments of the scanner at the end of the command line of the sandbox.\<close>

definition scanner_arguments :: "string \<Rightarrow> string list" where
  "scanner_arguments displayName = drop 2 (dropWhile (\<lambda>s. s \<noteq> ''--'') (sandbox_Arguments [] [] displayName))"

lemma scanner_arguments_parse:
  "flag_parse scanner_flags (scanner_arguments displayName) = Inr (scanner_flags(''target'' \<mapsto> FString ''/target'',
     ''display-name'' \<mapsto> FString displayName, ''sandboxed'' \<mapsto> FBool True, ''resource-limited'' \<mapsto> FBool True), [])"
  by (simp add: scanner_arguments_def sandbox_Arguments_def flag_parse_string flag_parse_switch plain_flag_def scanner_flags_def)

lemma accepted_run:
  assumes run: "scanner_run io (scanner_arguments displayName) w = Some out" and exit: "ex_code out = 0"
    and name: "displayName \<noteq> []"
    and writer: "\<And>d taken. sc_write io d = (None, taken) \<Longrightarrow> taken = d"
    and json: "\<And>r c. canonicalReport (fs_digest (sc_fs io)) r = Inr c \<Longrightarrow> sc_marshal io c = Inr (ex_stdout out)
      \<Longrightarrow> json_roundtrip js c (ex_stdout out)"
  shows "\<exists>c result w1. Decode js (fs_digest (sc_fs io)) (ex_stdout out) = Inr c \<and> sm_Sandboxed (rp_Scan c)
    \<and> expectedResourceLimits (sm_ResourceLimits (rp_Scan c)) \<and> tg_DisplayName (rp_Target c) = displayName
    \<and> Scan (sc_fs io) ''/target'' DefaultLimits w = Some (Inr result, w1) \<and> tg_RootDigest (rp_Target c) = ir_RootDigest result"
proof -
  from run exit obtain fs result analysis built summed c where p: "published io (scanner_arguments displayName) w out fs result analysis built summed c"
    by (rule scanner_exit_0)
  note fields = published_fields[OF p]
  from p have flags: "flag_string fs ''target'' = ''/target''" "flag_string fs ''display-name'' = displayName"
    "flag_bool fs ''sandboxed''" "flag_bool fs ''resource-limited''"
    by (auto simp: published_def scanner_arguments_parse flag_string_def flag_bool_def)
  from p writer have c: "canonicalReport (scanner_digest io) summed = Inr c" "sc_marshal io c = Inr (ex_stdout out)"
    "length (ex_stdout out) \<le> MaxEncodedReportBytes" unfolding published_def by blast+
  have "Decode js (scanner_digest io) (ex_stdout out) = Inr c"
    using json[OF c(1,2)] canonical_accepted[OF c(1)] c(3) by (simp add: Decode_def json_roundtrip_def)
  moreover have "sm_Sandboxed (rp_Scan c)" "expectedResourceLimits (sm_ResourceLimits (rp_Scan c))" "tg_DisplayName (rp_Target c) = displayName"
    using name flags by (simp_all add: fields assembled_fields scanResourceLimits_def expectedResourceLimits_def targetDisplayName_def)
  moreover have "\<exists>w1. Scan (sc_fs io) ''/target'' DefaultLimits w = Some (Inr result, w1)" "tg_RootDigest (rp_Target c) = ir_RootDigest result"
    using p flags(1) by (simp_all add: fields assembled_fields published_def)
  ultimately show ?thesis by blast
qed


text \<open>
  The scanner prints \<open>out\<close> for a plugin: a run with the arguments of the sandbox that ends with exit
  code 0, on a standard output that takes everything unless it reports an error, of a report that
  the JSON package round-trips.
\<close>

definition scanner_prints :: "'w scanner_io \<Rightarrow> json_package \<Rightarrow> string \<Rightarrow> string \<Rightarrow> bool" where
  "scanner_prints io js displayName printed \<longleftrightarrow>
     (\<exists>w out. scanner_run io (scanner_arguments displayName) w = Some out \<and> ex_code out = 0 \<and> ex_stdout out = printed)
     \<and> (\<forall>d taken. sc_write io d = (None, taken) \<longrightarrow> taken = d)
     \<and> (\<forall>r c. canonicalReport (scanner_digest io) r = Inr c \<longrightarrow> sc_marshal io c = Inr printed \<longrightarrow> json_roundtrip js c printed)"

interpretation scanned: report_source "scanner_prints io js" js "scanner_digest io" for io :: "'w scanner_io" and js
proof (unfold_locales, goal_cases)
  case (1 pluginID printed)
  then have "pluginID \<noteq> []" by (auto simp: validDisplayName_def)
  with 1(1) show ?case unfolding scanner_prints_def using accepted_run by metis
qed


section \<open>Native binaries\<close>

lemma assembled_binaries:
  "map fl_Binary (elems (rp_Inventory (fst (assemble_report io fs result analysis)))) = map fl_Binary (ir_Files result)"
  by (simp add: assemble_report_def AssignCoverageDispositions_def Let_def case_prod_beta)

lemma published_inventory:
  assumes "published io args w out fs result analysis built summed c"
  shows "rp_Inventory summed = rp_Inventory (fst (assemble_report io fs result analysis))"
  using assms graph_fields(3) by (auto simp: published_def BuildReviewSummary_def andthen_Inr)

text \<open>
  C23. No report is published for a target with an ELF whose header parses: \<open>recordELF\<close> leaves four
  collections of the binary nil, and the validator refuses them.
\<close>

theorem scanner_refuses_elf:
  assumes "scanner_run io args w = Some out" "flag_parse scanner_flags args = Inr (fs, [])"
    and "Scan (sc_fs io) (flag_string fs ''target'') DefaultLimits w = Some (Inr result, w1)"
    and "f \<in> set (ir_Files result)" "fl_Binary f = Some (elf_binary parsed)"
  shows "ex_code out \<noteq> 0"
proof
  assume "ex_code out = 0"
  with assms(1) obtain fs' result' analysis built summed c where p: "published io args w out fs' result' analysis built summed c"
    by (rule scanner_exit_0)
  with assms(2,3) have "result' = result" by (auto simp: published_def)
  then have "map fl_Binary (elems (rp_Inventory summed)) = map fl_Binary (ir_Files result)"
    using published_inventory[OF p] assembled_binaries by metis
  moreover from assms(4,5) have "Some (elf_binary parsed) \<in> set (map fl_Binary (ir_Files result))" by force
  ultimately have "Some (elf_binary parsed) \<in> set (map fl_Binary (elems (rp_Inventory summed)))" by (simp only:)
  then obtain g where "g \<in> set (elems (rp_Inventory summed))" "fl_Binary g = Some (elf_binary parsed)" by auto
  moreover have "empty_strings (elf_binary parsed)" by (simp add: empty_strings_def elf_binary_def Let_def)
  ultimately have "loses_collection summed" by (auto simp: loses_collection_def list_ex_iff intro!: bexI[of _ g])
  from collections_lost[OF this, of "scanner_digest io"] p show False by (auto simp: published_def)
qed

section \<open>The empty directory\<close>

definition empty_fs :: "unit fs_calls" where
  "empty_fs = tree_io\<lparr>fs_readDir := (\<lambda>h n w. (([], ReadEOF), w)), fs_digest := sample_digest\<rparr>"

lemma empty_calls:
  "fs_openTarget empty_fs t w = (Inr 0, w)"
  "fs_lstat empty_fs h name w = (case tree_lookup h name of Inl e \<Rightarrow> Inl e | Inr (i, dir) \<Rightarrow> Inr (tree_info i dir), w)"
  "fs_openRoot empty_fs h name w = (case tree_lookup h name of Inl e \<Rightarrow> Inl e | Inr (i, dir) \<Rightarrow> Inr i, w)"
  "fs_open empty_fs h name w = (case tree_lookup h name of Inl e \<Rightarrow> Inl e | Inr (i, dir) \<Rightarrow> Inr i, w)"
  "fs_stat empty_fs h w = (Inr (tree_info h (h < 2)), w)"
  "fs_digest empty_fs = sample_digest"
  by (simp_all add: empty_fs_def tree_io_def)

lemma empty_batches: "limit \<ge> 0 \<Longrightarrow> read_batches empty_fs 0 limit [] w = Some (Inr ([], False), w)"
  by (subst read_batches.simps, simp add: empty_fs_def)

lemma empty_limits: "lm_MaxFiles DefaultLimits \<ge> 0" "levels DefaultLimits = Suc (nat (lm_MaxDepth DefaultLimits))" "limits_positive DefaultLimits"
  by (simp_all add: DefaultLimits_def levels_def limits_positive_def)

lemma empty_walked:
  "\<exists>w. Scan empty_fs ''/target'' DefaultLimits () = finish_scan empty_fs w \<and> wk_files w = []
     \<and> wk_contents w = [] \<and> wk_limitations w = [] \<and> wk_errors w = [] \<and> wk_readBytes w = 0 \<and> wk_binaryBytes w = 0"
  by (simp add: tree_steps empty_calls empty_limits empty_batches cong: bindp_weak unless_weak)
    (rule exI, rule conjI[OF refl], simp)

definition empty_inventory :: inventory_result where
  "empty_inventory = \<lparr>ir_Files = [], ir_Contents = [], ir_Limitations = [], ir_Errors = [], ir_ReadBytes = 0, ir_BinaryBytes = 0,
     ir_RootDigest = (case InventoryRootDigest sample_digest [] of Inl e \<Rightarrow> [] | Inr d \<Rightarrow> d)\<rparr>"

lemma empty_scan: "\<exists>w. Scan empty_fs ''/target'' DefaultLimits () = Some (Inr empty_inventory, w)"
proof -
  have d: "InventoryRootDigest sample_digest [] = Inr (case InventoryRootDigest sample_digest [] of Inl e \<Rightarrow> [] | Inr d \<Rightarrow> d)" by code_simp
  obtain w where w: "Scan empty_fs ''/target'' DefaultLimits () = finish_scan empty_fs w" "wk_files w = []" "wk_contents w = []"
    "wk_limitations w = []" "wk_errors w = []" "wk_readBytes w = 0" "wk_binaryBytes w = 0" using empty_walked by blast
  from d show ?thesis by (simp add: finish_scan_def prog_steps empty_calls Let_def w empty_inventory_def split: sum.splits)
qed

definition empty_env :: analysis_env where
  "empty_env = \<lparr>an_shell = (\<lambda>n d. Inl ''no shell''), an_unmarshal = (\<lambda>d. Inl ''no manifest''), an_quote = (\<lambda>s. s),
     an_url = \<lparr>ur_parse = (\<lambda>s. None), ur_lower = (\<lambda>s. s)\<rparr>\<rparr>"

definition empty_io :: "(Report \<Rightarrow> string result) \<Rightarrow> unit scanner_io" where
  "empty_io marshal = \<lparr>sc_fs = empty_fs, sc_env = empty_env, sc_started = 1, sc_completed = 2, sc_marshal = marshal,
     sc_write = (\<lambda>d. (None, d))\<rparr>"

text \<open>What the scanner publishes for the empty directory.\<close>

definition empty_report :: "Report result" where
  "empty_report =
     (let io = empty_io (\<lambda>c. Inr []); fs = scanner_flags(''target'' \<mapsto> FString ''/target'',
        ''display-name'' \<mapsto> FString ''example.plugin'', ''sandboxed'' \<mapsto> FBool True, ''resource-limited'' \<mapsto> FBool True) in
      bindr (analyze_result io empty_inventory) (\<lambda>analysis.
      case assemble_report io fs empty_inventory analysis of (r, coverage) \<Rightarrow>
      bindr (buildEvidenceGraphWithDigest sample_digest r) (\<lambda>built.
      bindr (BuildReviewSummary coverage built) (canonicalReport sample_digest))))"

lemma empty_report_published: "\<exists>c. empty_report = Inr c"
proof -
  have "case empty_report of Inl e \<Rightarrow> False | Inr c \<Rightarrow> True" by code_simp
  then show ?thesis by (auto split: sum.splits)
qed

definition empty_marshal :: "Report \<Rightarrow> string result" where
  "empty_marshal c = (if empty_report = Inr c then Inr sample_json_text else Inl (Errorf ''unsupported value'' []))"

definition empty_package :: json_package where
  "empty_package = sample_package\<lparr>js_decode := (\<lambda>_. empty_report)\<rparr>"

lemma empty_run:
  "scanner_run (empty_io empty_marshal) (scanner_arguments ''example.plugin'') () = Some \<lparr>ex_code = 0, ex_stdout = sample_json_text, ex_stderr = []\<rparr>"
proof -
  let ?fs = "scanner_flags(''target'' \<mapsto> FString ''/target'', ''display-name'' \<mapsto> FString ''example.plugin'',
    ''sandboxed'' \<mapsto> FBool True, ''resource-limited'' \<mapsto> FBool True)"
  let ?io = "empty_io empty_marshal"
  obtain c where c: "empty_report = Inr c" using empty_report_published by blast
  have same: "analyze_result (empty_io (\<lambda>c. Inr [])) = analyze_result ?io" "assemble_report (empty_io (\<lambda>c. Inr [])) = assemble_report ?io"
    by (simp_all add: fun_eq_iff analyze_result_def assemble_report_def empty_io_def)
  from c obtain analysis where a: "analyze_result ?io empty_inventory = Inr analysis"
    and rest: "(case assemble_report ?io ?fs empty_inventory analysis of (r, coverage) \<Rightarrow>
      bindr (buildEvidenceGraphWithDigest sample_digest r) (\<lambda>built. bindr (BuildReviewSummary coverage built) (canonicalReport sample_digest))) = Inr c"
    unfolding empty_report_def Let_def same bindr_Inr by blast
  obtain r coverage where r: "assemble_report ?io ?fs empty_inventory analysis = (r, coverage)" by (rule prod.exhaust)
  from rest r obtain built summed where stages: "buildEvidenceGraphWithDigest sample_digest r = Inr built"
    "BuildReviewSummary coverage built = Inr summed" "canonicalReport sample_digest summed = Inr c"
    by (auto simp: bindr_Inr)
  have "EncodeCanonical empty_marshal sample_digest summed = Inr sample_json_text"
    unfolding encode_iff using stages(3) c sample_text_short by (auto simp: empty_marshal_def)
  then have "publish ?io r coverage = \<lparr>ex_code = 0, ex_stdout = sample_json_text, ex_stderr = []\<rparr>"
    using stages(1,2) by (simp add: publish_def WriteCanonical_def empty_io_def empty_calls)
  moreover obtain w where "Scan (sc_fs ?io) ''/target'' DefaultLimits () = Some (Inr empty_inventory, w)"
    using empty_scan by (auto simp: empty_io_def)
  ultimately show ?thesis
    using a r by (simp add: scanner_run_def scanner_arguments_parse flag_string_def flag_bool_def)
qed

lemma empty_json:
  assumes "sc_marshal (empty_io empty_marshal) c = Inr sample_json_text"
  shows "json_roundtrip empty_package c sample_json_text"
  using assms sample_package_structure
  by (auto simp: json_roundtrip_def empty_package_def empty_io_def empty_marshal_def sample_package_def split: if_splits)

lemma empty_writer: "sc_write (empty_io empty_marshal) d = (None, taken) \<Longrightarrow> taken = d"
  by (simp add: empty_io_def)

lemma empty_prints: "scanner_prints (empty_io empty_marshal) empty_package ''example.plugin'' sample_json_text"
  unfolding scanner_prints_def using empty_run empty_json empty_writer by force


section \<open>A directory with one ELF\<close>

definition elf_bytes :: string where "elf_bytes = CHR 0x7F # ''ELF''"

definition elf_info :: "nat \<Rightarrow> bool \<Rightarrow> file_info" where
  "elf_info i dir = (tree_info i dir)\<lparr>fi_Size := (if dir then 4096 else 4)\<rparr>"

definition elf_header :: elf_image where
  "elf_header = \<lparr>el_Class = ''ELFCLASS64'', el_Data = ''ELFDATA2LSB'', el_Machine = ''EM_X86_64'', el_Type = ''ET_DYN'',
     el_Progs = [], el_Libraries = Inr None, el_Symbols = 0\<rparr>"

definition elf_fs :: "unit fs_calls" where
  "elf_fs = tree_io\<lparr>fs_lstat := (\<lambda>h name w. (case tree_lookup h name of Inl e \<Rightarrow> Inl e | Inr (i, dir) \<Rightarrow> Inr (elf_info i dir), w)),
     fs_stat := (\<lambda>h w. (Inr (elf_info h (h < 2)), w)), fs_readDir := (\<lambda>h n w. (([''b''], ReadEOF), w)),
     fs_readHeader := (\<lambda>h w. (Inr elf_bytes, w)), fs_readAll := (\<lambda>h n w. (Inr elf_bytes, w)), fs_elf := (\<lambda>d. Inr elf_header),
     fs_digest := sample_digest\<rparr>"

lemma elf_calls:
  "fs_openTarget elf_fs t w = (Inr 0, w)"
  "fs_lstat elf_fs h name w = (case tree_lookup h name of Inl e \<Rightarrow> Inl e | Inr (i, dir) \<Rightarrow> Inr (elf_info i dir), w)"
  "fs_openRoot elf_fs h name w = (case tree_lookup h name of Inl e \<Rightarrow> Inl e | Inr (i, dir) \<Rightarrow> Inr i, w)"
  "fs_open elf_fs h name w = (case tree_lookup h name of Inl e \<Rightarrow> Inl e | Inr (i, dir) \<Rightarrow> Inr i, w)"
  "fs_stat elf_fs h w = (Inr (elf_info h (h < 2)), w)"
  "fs_readHeader elf_fs h w = (Inr elf_bytes, w)" "fs_rewind elf_fs h w = (Inr (), w)" "fs_readAll elf_fs h n w = (Inr elf_bytes, w)"
  "fs_elf elf_fs d = Inr elf_header" "fs_digest elf_fs = sample_digest"
  by (simp_all add: elf_fs_def tree_io_def)

lemma elf_batches: "limit \<ge> 1 \<Longrightarrow> read_batches elf_fs 0 limit [] w = Some (Inr ([''b''], False), w)"
  by (subst read_batches.simps, simp add: elf_fs_def)

lemma elf_infos: "modeDir (fi_Mode (elf_info i True))" "\<not> modeSymlink (fi_Mode (elf_info i d))" "\<not> modeDir (fi_Mode (elf_info i False))"
  "modeRegular (fi_Mode (elf_info i False))" "stableMetadata (elf_info i d) (elf_info i d)" "sameFile (elf_info i d) (elf_info i d)"
  "fi_Size (elf_info i False) = 4"
  by (simp_all add: elf_info_def tree_info_def modeDir_def modeSymlink_def modeRegular_def mode_type_def stableMetadata_def sameFile_def bit_numeral_rec)

lemma elf_limits: "lm_MaxFiles DefaultLimits = 10000" "lm_MaxBinaryFileBytes DefaultLimits = 67108864" "lm_MaxBinaryReadBytes DefaultLimits = 134217728"
  "isELF elf_bytes" "length elf_bytes = 4" "add64 0 4 = 4" "sort [''b''] = [''b'']"
  by (simp_all add: DefaultLimits_def isELF_def elf_bytes_def add64_def int64_range_def)

definition elf_entry :: File where
  "elf_entry = (new_file ''b'' (elf_info 2 False) ''regular'')\<lparr>fl_SHA256 := hexEncode (sample_digest elf_bytes),
     fl_ContentType := ''application/x-elf'', fl_Inspected := True, fl_Binary := Some (elf_binary elf_header)\<rparr>"

lemma elf_walked: "\<exists>w. Scan elf_fs ''/target'' DefaultLimits () = finish_scan elf_fs w \<and> wk_files w = [elf_entry]"
  by (simp add: tree_steps elf_calls elf_batches elf_infos elf_limits empty_limits inspectELF_def recordELF_def cong: bindp_weak unless_weak)
    (rule exI, rule conjI[OF refl], simp add: elf_entry_def new_file_def elf_infos)

lemma elf_digest: "\<exists>d. InventoryRootDigest sample_digest [elf_entry] = Inr d"
proof -
  have "(case InventoryRootDigest sample_digest [elf_entry] of Inl e \<Rightarrow> False | Inr d \<Rightarrow> True)" by code_simp
  then show ?thesis by (auto split: sum.splits)
qed

lemma elf_scan: "\<exists>r w. Scan elf_fs ''/target'' DefaultLimits () = Some (Inr r, w) \<and> ir_Files r = [elf_entry]"
  using elf_walked elf_digest by (auto simp: finish_scan_def prog_steps elf_calls Let_def)

theorem scanner_refuses_elf_witness:
  "\<exists>out. scanner_run ((empty_io empty_marshal)\<lparr>sc_fs := elf_fs\<rparr>) (scanner_arguments ''example.plugin'') () = Some out \<and> ex_code out \<noteq> 0"
proof -
  let ?io = "(empty_io empty_marshal)\<lparr>sc_fs := elf_fs\<rparr>"
  obtain r w where r: "Scan (sc_fs ?io) ''/target'' DefaultLimits () = Some (Inr r, w)" "ir_Files r = [elf_entry]" using elf_scan by auto
  obtain fs where fs: "flag_parse scanner_flags (scanner_arguments ''example.plugin'') = Inr (fs, [])" "flag_string fs ''target'' = ''/target''"
    using scanner_arguments_parse by (auto simp: flag_string_def)
  have "scanner_run ?io (scanner_arguments ''example.plugin'') () \<noteq> None" using fs r(1) by (simp add: scanner_run_def)
  then obtain out where out: "scanner_run ?io (scanner_arguments ''example.plugin'') () = Some out" by blast
  have "ex_code out \<noteq> 0"
    by (rule scanner_refuses_elf[OF out fs(1), of r w elf_entry elf_header]) (use fs(2) r in \<open>simp_all add: elf_entry_def\<close>)
  with out show ?thesis by blast
qed

end
