(* ===== verification/Spec2Isabelle.thy ===== *)
theory Spec2Isabelle
  imports BrokerGuarantees InventoryGuarantees QmlGuarantees ShellGuarantees CapabilityGuarantees ScannerGuarantees
begin

text \<open>
  Plug and Prejudice reviews the plugins of a desktop shell before they are trusted. This
  development models its Go code and proves what a reader of a review relies on.

  \<^bold>\<open>The program.\<close> The broker (cmd/plug-prejudice-broker) gets the identifier of a plugin. It starts
  itself again in a transient systemd scope (internal/resource), verifies from inside that memory,
  swap, tasks, CPU and lifetime of the scope are bounded, lowers its own process limits, and runs
  the scanner in a bubblewrap sandbox (internal/sandbox) with executables that root owns
  (internal/trustedexec) under one compiled policy (internal/policy). The scanner
  (cmd/plug-prejudice) walks the plugin's directory (internal/inventory), analyzes shell and QML
  sources, the manifest and native binaries (internal/analyze), assembles a report, links its
  records to an evidence graph, derives the review summary, and prints the canonical encoding
  (internal/report). The broker decodes the output strictly, validates the report, compares the
  stated limits with its policy, and only then prints it.

  \<^bold>\<open>The report package.\<close>
  \<^item> \<open>Report\<close>: limits, enumerations and structs of report.go.
  \<^item> \<open>GoPath\<close>: \<open>path.Clean\<close> and \<open>validateRelativePath\<close> (validate.go): the accepted paths are the
    safe relative paths.
  \<^item> \<open>Digests\<close>: inventory_digest.go, semantic_subject.go, external_input.go: inventories with one root
    digest have the same observations unless the digest collides; comparison subjects are injective.
  \<^item> \<open>Review\<close>: review.go: coverage, impact, confidence, unknown behaviour; the validator accepts a
    summary exactly when rebuilding it changes nothing.
  \<^item> \<open>EvidenceGraph\<close>, \<open>GraphValidation\<close>: evidence_graph.go and the relationship checks of validate.go,
    each against a declarative specification, and that every constructed graph is accepted.
  \<^item> \<open>ReportStrings\<close>, \<open>InputValidation\<close>, \<open>InventoryValidation\<close>, \<open>NodeValidation\<close>, \<open>Validate\<close>: the stages
    of validate.go in the order of the code, every error a value; int64 arithmetic is written out
    and shown not to wrap around for accepted totals.
  \<^item> \<open>Guarantees\<close>: what acceptance means: a complete report leaves nothing open, evidence is anchored,
    the graph is exact, native binaries and external inputs are declared as unknown.
  \<^item> \<open>Encode\<close>: encode.go: independence of order, strictly sorted collections, the bounded buffer.
  \<^item> \<open>JsonStructure\<close>: json_structure.go and \<open>Decode\<close>: the structural check against a declarative
    conformance relation, and the round trip with the encoder.

  \<^bold>\<open>Containment.\<close>
  \<^item> \<open>Policy\<close>, \<open>TrustedExec\<close>: limits.go; trustedexec.go with the exact condition of trust.
  \<^item> \<open>ResourceScope\<close>, \<open>ScopeGuarantees\<close>: scope.go: unit names, command lines, verification of the
    limits, teardown and its polling loop, process limits. Success means that the scope is gone, and
    a run always returns when a deadline passes.
  \<^item> \<open>Sandbox\<close>: sandbox.go: output comes only from a trusted static scanner under the fixed command
    line, in time, within the output limits.
  \<^item> \<open>Broker\<close>, \<open>BrokerGuarantees\<close>: main.go of the broker: nothing reaches standard output without
    containment and validation; the request survives the restart; listing ends. The locale
    \<open>report_source\<close> states what the broker relies on of the program in the sandbox.

  \<^bold>\<open>The scanner.\<close>
  \<^item> \<open>Inventory\<close>, \<open>InventoryGuarantees\<close>: inventory.go as programs on a walker state and a world that
    may change at every call: the scan returns, what the analyzers read is what was hashed, and the
    number of entries is bounded. The locale \<open>walker_frame\<close> carries invariants through the calls.
  \<^item> \<open>Analyze\<close>, \<open>Shell\<close>, \<open>Qml\<close>, \<open>Capabilities\<close>, \<open>ScopeAnnotation\<close>, \<open>Coverage\<close>: the analyzers, file by
    file; \<open>ShellGuarantees\<close>, \<open>QmlGuarantees\<close>, \<open>CapabilityGuarantees\<close>: operations, pipelines, command
    arrays and resources are exactly those of the source text as far as the analyzers read it.
  \<^item> \<open>Scanner\<close>, \<open>ScannerGuarantees\<close>: main.go of the scanner: the broker accepts what a successful run
    prints, which interprets \<open>report_source\<close>; a target with a parseable ELF has no successful run.

  \<^bold>\<open>Shared theories.\<close> \<open>Prelude\<close> (errors, slices with nil, results, loops, int64), \<open>Ordering\<close>
  (\<open>sort.Slice\<close>, and the locales \<open>total_less\<close>, \<open>comparator\<close> and \<open>self_delimiting\<close>, interpreted for the
  comparators of encode.go and the framings of inventory_digest.go), \<open>GoText\<close>, \<open>GoFields\<close>, \<open>GoRunes\<close>,
  \<open>GoFlag\<close>, \<open>GoFiles\<close> (what the code uses of the standard library; a program logic for calls
  against a changing world). \<open>Samples\<close> and \<open>SampleReports\<close> hold concrete reports for the witnesses.

  \<^bold>\<open>How code is modelled.\<close> A struct is a record, a typed string constant its text, a slice an optional
  list so that nil and empty differ, an error a value with the format of the source, an early
  return the first error of a list, a loop with a body that can fail the function \<open>loop\<close>. Durations
  and times are integers of nanoseconds. A Go map that is iterated is an association list, and
  theorems about it do not depend on its order.

  \<^bold>\<open>Parameters.\<close> SHA-256 (a digest function, as in the \<open>WithDigest\<close> functions of the source);
  tokenizer, decoder and encoder of encoding/json; the kernel (openat2, fstat, directory and file
  reads, rlimits), systemd and the processes that run; clock and context; time.ParseDuration;
  url.Parse; the parser and printer of mvdan.cc/sh; debug/elf; http.DetectContentType; the verb %q;
  Unicode lower case beyond ASCII. Hypotheses on them are stated in the theorems: a JSON package that
  round-trips the report at hand, a directory read that makes progress, a context that ends.

  \<^bold>\<open>Bounds and termination.\<close> Loops are structural or have a termination proof. The walk recurses on
  \<open>levels\<close>, one more than \<open>MaxDepth\<close>, the depth at which the source stops itself. Loops that wait for
  the outside, reading a directory in batches and polling a cgroup, are partial functions, and
  \<open>Scan_returns\<close>, \<open>installedPluginIDs_returns\<close> and \<open>Run_returns\<close> show that they return.

  \<^bold>\<open>Not modelled.\<close> The functions \<open>main\<close>, which pass the result of \<open>run\<close> to \<open>os.Exit\<close>; \<open>Close\<close> and
  \<open>File\<close> of a pinned executable and deferred closes, which only release descriptors; the hook that
  the tests of the inventory set; the concurrency inside os/exec, of which the model keeps the
  outcome (writes in order, wait error, deadline); the panel (Panel.qml), scripts and tests.
\<close>

end
